(* ===== verification/Asapo_Prelude.thy ===== *)
theory Asapo_Prelude
  imports Main "HOL-Library.Word" "HOL-Library.Char_ord" "HOL-Library.List_Lexorder"
begin

unbundle bit_operations_syntax

text \<open>
  Shared vocabulary of the development: machine integer types, the fragments of the C and
  C++ standard libraries that the sources use (\<open>std::to_string\<close>, \<open>strncpy\<close> and C strings,
  \<open>std::string::find\<close>, \<open>std::replace\<close>, \<open>std::map\<close> as a sorted association list,
  \<open>std::rotate\<close>), and the generic lemmas on them.  Two rule collections are declared here:
  \<open>cpp_defs\<close> holds the definitional equations that component proofs unfold together, and
  \<open>inv_intros\<close> the preservation lemmas of component invariants.
\<close>

named_theorems cpp_defs \<open>definitions unfolded together in component proofs\<close>
named_theorems inv_intros \<open>preservation lemmas of component invariants\<close>

type_synonym u8 = "8 word"
type_synonym u16 = "16 word"
type_synonym u32 = "32 word"
type_synonym u64 = "64 word"

section \<open>Numbers as text\<close>

definition digit_char :: "nat \<Rightarrow> char" where
  "digit_char d = char_of (48 + d)"

fun nat_to_string :: "nat \<Rightarrow> string" where
  "nat_to_string n =
     (if n < 10 then [digit_char n] else nat_to_string (n div 10) @ [digit_char (n mod 10)])"

declare nat_to_string.simps [simp del]

text \<open>\<open>std::to_string\<close> on an unsigned 64-bit value.\<close>

definition to_string :: "u64 \<Rightarrow> string" where
  "to_string w = nat_to_string (unat w)"

text \<open>\<open>std::to_string\<close> on a signed value.\<close>

definition int_to_string :: "int \<Rightarrow> string" where
  "int_to_string i = (if i < 0 then CHR ''-'' # nat_to_string (nat (- i)) else nat_to_string (nat i))"

definition is_digit :: "char \<Rightarrow> bool" where
  "is_digit c \<longleftrightarrow> 48 \<le> (of_char c :: nat) \<and> (of_char c :: nat) \<le> 57"

text \<open>Decimal value of a digit string, the reading side of \<^const>\<open>nat_to_string\<close>.\<close>

definition digits_value :: "string \<Rightarrow> nat" where
  "digits_value s = foldl (\<lambda>acc c. acc * 10 + (of_char c - 48)) 0 s"

text \<open>\<open>atoi\<close>: leading white space, a sign, and the digits that follow.\<close>

definition is_space :: "char \<Rightarrow> bool" where
  "is_space c \<longleftrightarrow> c = CHR '' '' \<or> (9 \<le> (of_char c :: nat) \<and> (of_char c :: nat) \<le> 13)"

definition atoi :: "string \<Rightarrow> int" where
  "atoi s =
     (case dropWhile is_space s of
        [] \<Rightarrow> 0
      | c # r \<Rightarrow>
          (if c = CHR ''-'' then - int (digits_value (takeWhile is_digit r))
           else if c = CHR ''+'' then int (digits_value (takeWhile is_digit r))
           else int (digits_value (takeWhile is_digit (c # r)))))"

text \<open>
  \<open>std::stoi\<close>: the same, but text without digits and values outside of \<open>int\<close> are exceptions, which
  are \<open>None\<close> here.
\<close>

definition stoi :: "string \<Rightarrow> int option" where
  "stoi s =
     (let t = dropWhile is_space s;
          ds = takeWhile is_digit (case t of c # r \<Rightarrow> if c = CHR ''-'' \<or> c = CHR ''+'' then r else t | [] \<Rightarrow> []);
          v = atoi s in
      if ds = [] \<or> v < - (2 ^ 31) \<or> 2 ^ 31 \<le> v then None else Some v)"

lemma of_char_digit_char: "d < 10 \<Longrightarrow> (of_char (digit_char d) :: nat) = 48 + d"
  by (simp add: digit_char_def)

lemma is_digit_digit_char: "d < 10 \<Longrightarrow> is_digit (digit_char d)"
  by (simp add: is_digit_def of_char_digit_char)

lemma nat_to_string_digits: "c \<in> set (nat_to_string n) \<Longrightarrow> is_digit c"
proof (induction n rule: nat_to_string.induct)
  case (1 n)
  then show ?case
    by (cases "n < 10") (auto simp: nat_to_string.simps [of n] is_digit_digit_char)
qed

lemma nat_to_string_nonempty [simp]: "nat_to_string n \<noteq> []"
  by (subst nat_to_string.simps) simp

lemma digits_value_nat_to_string: "digits_value (nat_to_string n) = n"
proof (induction n rule: nat_to_string.induct)
  case (1 n)
  show ?case
  proof (cases "n < 10")
    case True
    then show ?thesis
      by (simp add: nat_to_string.simps [of n] digits_value_def of_char_digit_char)
  next
    case False
    have "digits_value (nat_to_string n) = digits_value (nat_to_string (n div 10)) * 10 + n mod 10"
      using False by (simp add: nat_to_string.simps [of n] digits_value_def of_char_digit_char)
    with 1 False show ?thesis by simp
  qed
qed

lemma nat_to_string_inject: "nat_to_string m = nat_to_string n \<longleftrightarrow> m = n"
  by (metis digits_value_nat_to_string)

lemma to_string_inject [simp]: "to_string a = to_string b \<longleftrightarrow> a = b"
  by (simp add: to_string_def nat_to_string_inject word_unat_eq_iff)

lemma to_string_nonempty [simp]: "to_string w \<noteq> []"
  by (simp add: to_string_def)

section \<open>C strings and fixed buffers\<close>

abbreviation NUL :: char where
  "NUL \<equiv> CHR 0x00"

text \<open>The characters before the first terminator, which is what C string functions see.\<close>

definition c_str :: "string \<Rightarrow> string" where
  "c_str s = takeWhile (\<lambda>c. c \<noteq> NUL) s"

text \<open>
  \<open>strncpy(buf, s, n)\<close> into a buffer of \<open>n\<close> characters: at most \<open>n\<close> characters are copied and
  the rest is filled with terminators; no terminator is written when the source is not shorter
  than the buffer.
\<close>

definition strncpy :: "nat \<Rightarrow> string \<Rightarrow> string" where
  "strncpy n s = take n (c_str s @ replicate n NUL)"

lemma length_strncpy [simp]: "length (strncpy n s) = n"
  by (simp add: strncpy_def)

lemma NUL_notin_c_str [simp]: "NUL \<notin> set (c_str s)"
  by (auto simp: c_str_def dest: set_takeWhileD)

lemma c_str_id: "NUL \<notin> set s \<Longrightarrow> c_str s = s"
  by (auto simp: c_str_def takeWhile_eq_all_conv)

lemma c_str_append: "NUL \<notin> set s \<Longrightarrow> c_str (s @ t) = s @ c_str t"
  by (induction s) (auto simp: c_str_def)

lemma c_str_append_NUL: "NUL \<notin> set s \<Longrightarrow> c_str (s @ NUL # t) = s"
  by (simp add: c_str_append c_str_def [of "NUL # t"])

lemma c_str_append_terminated: "NUL \<in> set s \<Longrightarrow> c_str (s @ t) = c_str s"
  by (induction s) (auto simp: c_str_def)

lemma strncpy_short:
  assumes "NUL \<notin> set s" and "length s < n"
  shows "strncpy n s = s @ replicate (n - length s) NUL"
  using assms by (simp add: strncpy_def c_str_id)

lemma strncpy_full:
  assumes "NUL \<notin> set s" and "length s = n"
  shows "strncpy n s = s"
  using assms by (simp add: strncpy_def c_str_id)

lemma c_str_strncpy_short:
  assumes "NUL \<notin> set s" and "length s < n"
  shows "c_str (strncpy n s @ t) = s"
proof -
  obtain k where "n - length s = Suc k"
    using assms(2) by (metis Suc_diff_Suc)
  then show ?thesis
    using assms by (simp add: strncpy_short c_str_append_NUL)
qed

section \<open>Searching and replacing in strings\<close>

text \<open>\<open>std::string::find(c)\<close>: the first position of a character, \<open>None\<close> for \<open>npos\<close>.\<close>

fun str_find :: "char \<Rightarrow> string \<Rightarrow> nat option" where
  "str_find c [] = None"
| "str_find c (x # xs) = (if x = c then Some 0 else map_option Suc (str_find c xs))"

text \<open>\<open>std::string::find(pat) != npos\<close>.\<close>

fun is_prefix :: "string \<Rightarrow> string \<Rightarrow> bool" where
  "is_prefix [] s = True"
| "is_prefix (p # ps) [] = False"
| "is_prefix (p # ps) (x # xs) = (p = x \<and> is_prefix ps xs)"

fun contains_str :: "string \<Rightarrow> string \<Rightarrow> bool" where
  "contains_str pat [] = (pat = [])"
| "contains_str pat (x # xs) = (is_prefix pat (x # xs) \<or> contains_str pat xs)"

text \<open>\<open>std::replace\<close> of one character by another.\<close>

definition replace_char :: "char \<Rightarrow> char \<Rightarrow> string \<Rightarrow> string" where
  "replace_char a b s = map (\<lambda>c. if c = a then b else c) s"

text \<open>\<open>s.substr(0, s.find(c))\<close>: with \<open>npos\<close> as the length this is the whole string.\<close>

definition before_char :: "char \<Rightarrow> string \<Rightarrow> string" where
  "before_char c s = takeWhile (\<lambda>x. x \<noteq> c) s"

lemma str_find_None_iff: "str_find c s = None \<longleftrightarrow> c \<notin> set s"
  by (induction s) auto

lemma str_find_Some_take: "str_find c s = Some n \<Longrightarrow> take n s = before_char c s"
  by (induction s arbitrary: n) (auto simp: before_char_def split: if_splits)

lemma str_find_Some_split:
  "str_find c s = Some n \<Longrightarrow> s = take n s @ c # drop (Suc n) s \<and> c \<notin> set (take n s)"
  by (induction s arbitrary: n) (auto split: if_splits)

lemma is_prefix_iff: "is_prefix p s \<longleftrightarrow> (\<exists>t. s = p @ t)"
  by (induction p s rule: is_prefix.induct) auto

lemma contains_str_iff: "contains_str p s \<longleftrightarrow> (\<exists>a b. s = a @ p @ b)"
proof (induction s)
  case Nil
  then show ?case by auto
next
  case (Cons x xs)
  show ?case
  proof
    assume "contains_str p (x # xs)"
    then consider "is_prefix p (x # xs)" | "contains_str p xs" by auto
    then show "\<exists>a b. x # xs = a @ p @ b"
    proof cases
      case 1
      then show ?thesis by (metis append_Nil is_prefix_iff)
    next
      case 2
      then show ?thesis using Cons by (metis append_Cons)
    qed
  next
    assume "\<exists>a b. x # xs = a @ p @ b"
    then obtain a b where ab: "x # xs = a @ p @ b" by blast
    show "contains_str p (x # xs)"
    proof (cases a)
      case Nil
      then have "is_prefix p (x # xs)" using ab by (auto simp: is_prefix_iff)
      then show ?thesis by simp
    next
      case (Cons y ys)
      then show ?thesis using ab Cons.IH by (cases "p = []") auto
    qed
  qed
qed

lemma replace_char_notin: "a \<noteq> b \<Longrightarrow> a \<notin> set (replace_char a b s)"
  by (auto simp: replace_char_def split: if_splits)

section \<open>\<open>std::map\<close> as a sorted association list\<close>

fun map_put :: "'k::linorder \<Rightarrow> 'v \<Rightarrow> ('k \<times> 'v) list \<Rightarrow> ('k \<times> 'v) list" where
  "map_put k v [] = [(k, v)]"
| "map_put k v ((k', v') # m) =
     (if k < k' then (k, v) # (k', v') # m
      else if k = k' then (k, v) # m
      else (k', v') # map_put k v m)"

definition map_wf :: "('k::linorder \<times> 'v) list \<Rightarrow> bool" where
  "map_wf m \<longleftrightarrow> sorted (map fst m) \<and> distinct (map fst m)"

lemma map_of_map_put [simp]: "map_of (map_put k v m) = (map_of m)(k \<mapsto> v)"
  by (induction k v m rule: map_put.induct) (auto simp: fun_eq_iff)

lemma fst_set_map_put [simp]: "fst ` set (map_put k v m) = insert k (fst ` set m)"
  by (induction k v m rule: map_put.induct) auto

lemma map_wf_map_put [inv_intros]: "map_wf m \<Longrightarrow> map_wf (map_put k v m)"
proof (induction k v m rule: map_put.induct)
  case (1 k v)
  then show ?case by (simp add: map_wf_def)
next
  case (2 k v k' v' m)
  from "2.prems" have wf: "map_wf m" and le: "\<forall>x \<in> fst ` set m. k' < x"
    by (auto simp: map_wf_def less_le)
  show ?case
  proof (cases "k < k' \<or> k = k'")
    case True
    then show ?thesis using "2.prems" le by (auto simp: map_wf_def)
  next
    case False
    then have "k' < k" by auto
    moreover have "map_wf (map_put k v m)" using False "2.IH" wf by auto
    ultimately show ?thesis
      using False le by (auto simp: map_wf_def image_iff less_le)
  qed
qed

section \<open>Lists\<close>

text \<open>\<open>std::rotate\<close> by a shift from the beginning.\<close>

definition rotate_left :: "nat \<Rightarrow> 'a list \<Rightarrow> 'a list" where
  "rotate_left n xs = drop n xs @ take n xs"

lemma set_rotate_left [simp]: "set (rotate_left n xs) = set xs"
  by (metis rotate_left_def set_append append_take_drop_id sup_commute)

lemma length_rotate_left [simp]: "length (rotate_left n xs) = length xs"
  by (simp add: rotate_left_def)

lemma unat_add_no_wrap:
  "unat a + unat b < 2 ^ 64 \<Longrightarrow> unat (a + b :: u64) = unat a + unat b"
  by (simp add: unat_word_ariths)

lemma unat_sub_no_wrap:
  "unat b \<le> unat a \<Longrightarrow> unat (a - b :: u64) = unat a - unat b"
  by (simp add: unat_sub word_le_nat_alt)

lemma unat_of_nat64: "n < 2 ^ 64 \<Longrightarrow> unat (of_nat n :: u64) = n"
  by (simp add: unat_of_nat)

section \<open>Time\<close>

text \<open>Points in time are nanoseconds; \<open>duration_cast\<close> to milliseconds truncates toward zero.\<close>

definition millis_between :: "int \<Rightarrow> int \<Rightarrow> int" where
  "millis_between t now = sgn (now - t) * (\<bar>now - t\<bar> div 1000000)"

lemma millis_between_bounds:
  assumes "t + lo * 1000000 \<le> now" and "now < t + hi * 1000000" and "0 \<le> lo"
  shows "lo \<le> millis_between t now \<and> millis_between t now < hi"
proof -
  have "millis_between t now = (now - t) div 1000000" using assms by (simp add: millis_between_def sgn_if)
  then show ?thesis using assms by linarith
qed

end
