(* ===== verification/Asapo_Errors.thy ===== *)
theory Asapo_Errors
  imports Asapo_Prelude
begin

text \<open>
  Errors: the class \<open>ServiceError\<close> and its templates (\<open>common/error.h\<close>, \<open>common/error.tpp\<close>),
  the JSON escaping they use (\<open>common/utils.h\<close>) and the error enumerations of the services.

  \<open>Error\<close> is a \<open>unique_ptr\<close>, so it is an option here, \<open>None\<close> being \<open>nullptr\<close>.  A template is
  compared with an error through a downcast of the error to the template's own service type
  followed by a comparison of the stored enumerator.  Enumerators are the integers the
  compiler gives them, so the comparison looks at that integer only; the service that made the
  error does not take part in it.
\<close>

datatype service =
    General_S | IO_S | DB_S | Http_S | Receiver_S | DataServer_S | Producer_S | Consumer_S
  | RdsResponse_S | Fabric_S

datatype custom_data =
    PartialErrorData u64 u64
  | ConsumerErrorData u64 u64 string
  | OriginalData string

datatype error =
  ServiceError (err_service: service) (error_type: nat) (error_name: string)
    (error_message: string) (details: "(string \<times> string) list")
    (cause_err: "error option") (custom_data: "custom_data option")

record error_template =
  t_service :: service
  t_type :: nat
  t_name :: string

section \<open>The operations of an error\<close>

fun AddDetails :: "string \<Rightarrow> string \<Rightarrow> error \<Rightarrow> error" where
  "AddDetails k v (ServiceError sv ty nm msg ds ca cd) = ServiceError sv ty nm msg (map_put k v ds) ca cd"

definition AddDetails_u64 :: "string \<Rightarrow> u64 \<Rightarrow> error \<Rightarrow> error" where
  "AddDetails_u64 k v e = AddDetails k (to_string v) e"

fun SetCause :: "error option \<Rightarrow> error \<Rightarrow> error" where
  "SetCause c (ServiceError sv ty nm msg ds ca cd) = ServiceError sv ty nm msg ds c cd"

fun SetCustomData :: "custom_data option \<Rightarrow> error \<Rightarrow> error" where
  "SetCustomData d (ServiceError sv ty nm msg ds ca cd) = ServiceError sv ty nm msg ds ca d"

definition Generate :: "error_template \<Rightarrow> string \<Rightarrow> error" where
  "Generate t msg = ServiceError (t_service t) (t_type t) (t_name t) msg [] None None"

definition GenerateWithCause :: "error_template \<Rightarrow> string \<Rightarrow> error option \<Rightarrow> error" where
  "GenerateWithCause t msg c = SetCause c (Generate t msg)"

text \<open>\<open>template == err\<close> and \<open>template != err\<close>: both are false on \<open>nullptr\<close>.\<close>

definition err_is :: "error option \<Rightarrow> error_template \<Rightarrow> bool" where
  "err_is e t = (case e of None \<Rightarrow> False | Some x \<Rightarrow> t_type t = error_type x)"

definition err_is_not :: "error option \<Rightarrow> error_template \<Rightarrow> bool" where
  "err_is_not e t = (case e of None \<Rightarrow> False | Some x \<Rightarrow> t_type t \<noteq> error_type x)"

section \<open>Texts of an error\<close>

definition QUOTE :: char where "QUOTE = CHR 0x22"
definition BACKSLASH :: char where "BACKSLASH = CHR 0x5C"

definition hex_digit :: "nat \<Rightarrow> char" where
  "hex_digit d = (if d < 10 then char_of (48 + d) else char_of (87 + d))"

text \<open>One character of \<open>EscapeJson\<close>; \<open>char\<close> is signed, so bytes from 128 on are negative and
  are copied by the default branch.\<close>

definition escape_json_char :: "char \<Rightarrow> string" where
  "escape_json_char c =
     (if c = QUOTE then [BACKSLASH, QUOTE]
      else if c = BACKSLASH then [BACKSLASH, BACKSLASH]
      else if c = CHR 0x08 then [BACKSLASH, CHR ''b'']
      else if c = CHR 0x0C then [BACKSLASH, CHR ''f'']
      else if c = CHR 0x0A then [BACKSLASH, CHR ''n'']
      else if c = CHR 0x0D then [BACKSLASH, CHR ''r'']
      else if c = CHR 0x09 then [BACKSLASH, CHR ''t'']
      else if (of_char c :: nat) \<le> 31
        then [BACKSLASH, CHR ''u'', CHR ''0'', CHR ''0'',
              hex_digit (of_char c div 16), hex_digit (of_char c mod 16)]
      else [c])"

definition EscapeJson :: "string \<Rightarrow> string" where
  "EscapeJson s = concat (map escape_json_char s)"

definition WrapInQuotes :: "string \<Rightarrow> string" where
  "WrapInQuotes s = QUOTE # s @ [QUOTE]"

fun join_with :: "string \<Rightarrow> string list \<Rightarrow> string" where
  "join_with sep [] = []"
| "join_with sep [x] = x"
| "join_with sep (x # y # zs) = x @ sep @ join_with sep (y # zs)"

definition explain_details :: "(string \<times> string) list \<Rightarrow> string" where
  "explain_details ds = join_with '', '' (map (\<lambda>(k, v). k @ '':'' @ v) ds)"

primrec Explain :: "error \<Rightarrow> string" where
  "Explain (ServiceError sv ty nm msg ds ca cd) =
     ''error: '' @ nm
     @ (if msg \<noteq> [] then '', message: '' @ msg else [])
     @ (if ds \<noteq> [] then '', details: '' @ explain_details ds else [])
     @ (case map_option Explain ca of None \<Rightarrow> [] | Some t \<Rightarrow> '', caused by: '' @ t)"

text \<open>\<open>ExplainPretty\<close> indents by a \<open>uint8_t\<close>, which wraps in a chain of 128 causes.\<close>

primrec ExplainPretty :: "error \<Rightarrow> u8 \<Rightarrow> string" where
  "ExplainPretty (ServiceError sv ty nm msg ds ca cd) =
     (\<lambda>shift. (let base_shift = replicate (unat shift) (CHR '' '');
                  nl = CHR 0x0A # base_shift @ ''  '' in
       base_shift @ ''error: '' @ nm
       @ (if msg \<noteq> [] then nl @ ''message: '' @ msg else [])
       @ (if ds \<noteq> [] then nl @ ''details: '' @ explain_details ds else [])
       @ (case map_option ExplainPretty ca of None \<Rightarrow> []
          | Some f \<Rightarrow> nl @ ''caused by: '' @ nl @ f (shift + 2))))"

primrec ExplainInJSON :: "error \<Rightarrow> string" where
  "ExplainInJSON (ServiceError sv ty nm msg ds ca cd) =
     WrapInQuotes ''error'' @ '':'' @ WrapInQuotes nm
     @ (if msg \<noteq> [] then '','' @ WrapInQuotes ''message'' @ '':'' @ WrapInQuotes (EscapeJson msg) else [])
     @ (if ds \<noteq> [] then '','' @ WrapInQuotes ''details'' @ '':{''
          @ join_with '', '' (map (\<lambda>(k, v). WrapInQuotes k @ '':'' @ WrapInQuotes (EscapeJson v)) ds) @ ''}''
        else [])
     @ (case map_option ExplainInJSON ca of None \<Rightarrow> []
        | Some t \<Rightarrow> '','' @ WrapInQuotes ''cause'' @ '':{'' @ t @ ''}'')"

section \<open>The enumerations and templates of the services\<close>

datatype GeneralErrorType = kMemoryAllocationError | kEndOfFile | kSimpleError

primrec GeneralErrorTemplates :: "GeneralErrorType \<Rightarrow> error_template" where
  "GeneralErrorTemplates kMemoryAllocationError = \<lparr>t_service = General_S, t_type = 0, t_name = ''memory allocation''\<rparr>"
| "GeneralErrorTemplates kEndOfFile = \<lparr>t_service = General_S, t_type = 1, t_name = ''end of file''\<rparr>"
| "GeneralErrorTemplates kSimpleError = \<lparr>t_service = General_S, t_type = 2, t_name = ''unnamed error''\<rparr>"

datatype IOErrorType =
    IO_kUnknownIOError | IO_kBadFileNumber | IO_kResourceTemporarilyUnavailable | IO_kFileNotFound
  | IO_kReadError | IO_kPermissionDenied | IO_kUnsupportedAddressFamily | IO_kInvalidAddressFormat
  | IO_kAddressAlreadyInUse | IO_kConnectionRefused | IO_kConnectionResetByPeer | IO_kTimeout
  | IO_kFileAlreadyExists | IO_kNoSpaceLeft | IO_kSocketOperationOnNonSocket
  | IO_kInvalidMemoryAddress | IO_kUnableToResolveHostname | IO_kSocketOperationUnknownAtLevel
  | IO_kSocketOperationValueOutOfBound | IO_kAddressNotValid | IO_kBrokenPipe | IO_kNotConnected

primrec IOErrorTemplates :: "IOErrorType \<Rightarrow> error_template" where
  "IOErrorTemplates IO_kUnknownIOError = \<lparr>t_service = IO_S, t_type = 0, t_name = ''unknown error''\<rparr>"
| "IOErrorTemplates IO_kBadFileNumber = \<lparr>t_service = IO_S, t_type = 1, t_name = ''bad file number''\<rparr>"
| "IOErrorTemplates IO_kResourceTemporarilyUnavailable =
     \<lparr>t_service = IO_S, t_type = 2, t_name = ''resource temporarily unavailable''\<rparr>"
| "IOErrorTemplates IO_kFileNotFound = \<lparr>t_service = IO_S, t_type = 3, t_name = ''no such file or directory''\<rparr>"
| "IOErrorTemplates IO_kReadError = \<lparr>t_service = IO_S, t_type = 4, t_name = ''read error''\<rparr>"
| "IOErrorTemplates IO_kPermissionDenied = \<lparr>t_service = IO_S, t_type = 5, t_name = ''permission denied''\<rparr>"
| "IOErrorTemplates IO_kUnsupportedAddressFamily =
     \<lparr>t_service = IO_S, t_type = 6, t_name = ''unsupported address family''\<rparr>"
| "IOErrorTemplates IO_kInvalidAddressFormat = \<lparr>t_service = IO_S, t_type = 7, t_name = ''invalid address format''\<rparr>"
| "IOErrorTemplates IO_kAddressAlreadyInUse = \<lparr>t_service = IO_S, t_type = 8, t_name = ''address already in use''\<rparr>"
| "IOErrorTemplates IO_kConnectionRefused = \<lparr>t_service = IO_S, t_type = 9, t_name = ''connection refused''\<rparr>"
| "IOErrorTemplates IO_kConnectionResetByPeer =
     \<lparr>t_service = IO_S, t_type = 10, t_name = ''kConnectionResetByPeer''\<rparr>"
| "IOErrorTemplates IO_kTimeout = \<lparr>t_service = IO_S, t_type = 11, t_name = ''timeout''\<rparr>"
| "IOErrorTemplates IO_kFileAlreadyExists = \<lparr>t_service = IO_S, t_type = 12, t_name = ''kFileAlreadyExists''\<rparr>"
| "IOErrorTemplates IO_kNoSpaceLeft = \<lparr>t_service = IO_S, t_type = 13, t_name = ''kNoSpaceLeft''\<rparr>"
| "IOErrorTemplates IO_kSocketOperationOnNonSocket =
     \<lparr>t_service = IO_S, t_type = 14, t_name = ''kSocketOperationOnNonSocket''\<rparr>"
| "IOErrorTemplates IO_kInvalidMemoryAddress =
     \<lparr>t_service = IO_S, t_type = 15, t_name = ''kInvalidMemoryAddress''\<rparr>"
| "IOErrorTemplates IO_kUnableToResolveHostname =
     \<lparr>t_service = IO_S, t_type = 16, t_name = ''kUnableToResolveHostname''\<rparr>"
| "IOErrorTemplates IO_kSocketOperationUnknownAtLevel =
     \<lparr>t_service = IO_S, t_type = 17, t_name = ''kSocketOperationUnknownAtLevel''\<rparr>"
| "IOErrorTemplates IO_kSocketOperationValueOutOfBound =
     \<lparr>t_service = IO_S, t_type = 18, t_name = ''kSocketOperationValueOutOfBound''\<rparr>"
| "IOErrorTemplates IO_kAddressNotValid = \<lparr>t_service = IO_S, t_type = 19, t_name = ''address not valid''\<rparr>"
| "IOErrorTemplates IO_kBrokenPipe = \<lparr>t_service = IO_S, t_type = 20, t_name = ''broken pipe/connection''\<rparr>"
| "IOErrorTemplates IO_kNotConnected = \<lparr>t_service = IO_S, t_type = 21, t_name = ''not connected''\<rparr>"

datatype DBErrorType =
    DB_kJsonParseError | DB_kUnknownError | DB_kConnectionError | DB_kNotConnected | DB_kInsertError
  | DB_kDuplicateID | DB_kAlreadyConnected | DB_kBadAddress | DB_kMemoryError | DB_kNoRecord
  | DB_kWrongInput

primrec DBErrorTemplates :: "DBErrorType \<Rightarrow> error_template" where
  "DBErrorTemplates DB_kJsonParseError = \<lparr>t_service = DB_S, t_type = 0, t_name = ''JSON parse error''\<rparr>"
| "DBErrorTemplates DB_kUnknownError = \<lparr>t_service = DB_S, t_type = 1, t_name = ''Unknown Error''\<rparr>"
| "DBErrorTemplates DB_kConnectionError = \<lparr>t_service = DB_S, t_type = 2, t_name = ''Connection error''\<rparr>"
| "DBErrorTemplates DB_kNotConnected = \<lparr>t_service = DB_S, t_type = 3, t_name = ''Not connected''\<rparr>"
| "DBErrorTemplates DB_kInsertError = \<lparr>t_service = DB_S, t_type = 4, t_name = ''Insert error''\<rparr>"
| "DBErrorTemplates DB_kDuplicateID = \<lparr>t_service = DB_S, t_type = 5, t_name = ''Duplicate ID''\<rparr>"
| "DBErrorTemplates DB_kAlreadyConnected = \<lparr>t_service = DB_S, t_type = 6, t_name = ''Not connected''\<rparr>"
| "DBErrorTemplates DB_kBadAddress = \<lparr>t_service = DB_S, t_type = 7, t_name = ''Bad address''\<rparr>"
| "DBErrorTemplates DB_kMemoryError = \<lparr>t_service = DB_S, t_type = 8, t_name = ''Memory error''\<rparr>"
| "DBErrorTemplates DB_kNoRecord = \<lparr>t_service = DB_S, t_type = 9, t_name = ''No record''\<rparr>"
| "DBErrorTemplates DB_kWrongInput = \<lparr>t_service = DB_S, t_type = 10, t_name = ''Wrong input''\<rparr>"

datatype HttpErrorType = Http_kTransferError | Http_kConnectionError

primrec HttpErrorTemplates :: "HttpErrorType \<Rightarrow> error_template" where
  "HttpErrorTemplates Http_kTransferError = \<lparr>t_service = Http_S, t_type = 0, t_name = ''possible transfer error''\<rparr>"
| "HttpErrorTemplates Http_kConnectionError = \<lparr>t_service = Http_S, t_type = 1, t_name = ''connection error''\<rparr>"

datatype ReceiverErrorType =
    R_kInvalidOpCode | R_kBadRequest | R_kAuthorizationFailure | R_kInternalServerError
  | R_kReAuthorizationFailure | R_kWarningDuplicatedRequest | R_kUnsupportedClient
  | R_kProcessingError

primrec ReceiverErrorTemplates :: "ReceiverErrorType \<Rightarrow> error_template" where
  "ReceiverErrorTemplates R_kInvalidOpCode = \<lparr>t_service = Receiver_S, t_type = 0, t_name = ''Invalid Opcode''\<rparr>"
| "ReceiverErrorTemplates R_kBadRequest = \<lparr>t_service = Receiver_S, t_type = 1, t_name = ''Bad request''\<rparr>"
| "ReceiverErrorTemplates R_kAuthorizationFailure =
     \<lparr>t_service = Receiver_S, t_type = 2, t_name = ''authorization failure''\<rparr>"
| "ReceiverErrorTemplates R_kInternalServerError = \<lparr>t_service = Receiver_S, t_type = 3, t_name = ''server error''\<rparr>"
| "ReceiverErrorTemplates R_kReAuthorizationFailure =
     \<lparr>t_service = Receiver_S, t_type = 4, t_name = ''reauthorization for auto beamtime failed''\<rparr>"
| "ReceiverErrorTemplates R_kWarningDuplicatedRequest =
     \<lparr>t_service = Receiver_S, t_type = 5, t_name = ''Duplicated request, possible due to retry''\<rparr>"
| "ReceiverErrorTemplates R_kUnsupportedClient =
     \<lparr>t_service = Receiver_S, t_type = 6, t_name = ''client version not supported''\<rparr>"
| "ReceiverErrorTemplates R_kProcessingError = \<lparr>t_service = Receiver_S, t_type = 7, t_name = ''processing error''\<rparr>"

datatype ReceiverDataServerErrorType = DS_kMemoryPool | DS_kWrongRequest | DS_kServerError

primrec ReceiverDataServerErrorTemplates :: "ReceiverDataServerErrorType \<Rightarrow> error_template" where
  "ReceiverDataServerErrorTemplates DS_kMemoryPool = \<lparr>t_service = DataServer_S, t_type = 0, t_name = ''memory error''\<rparr>"
| "ReceiverDataServerErrorTemplates DS_kWrongRequest = \<lparr>t_service = DataServer_S, t_type = 1, t_name = ''wrong request''\<rparr>"
| "ReceiverDataServerErrorTemplates DS_kServerError = \<lparr>t_service = DataServer_S, t_type = 2, t_name = ''server error''\<rparr>"

datatype ProducerErrorType =
    P_kInternalServerError | P_kRequestPoolIsFull | P_kLocalIOError | P_kWrongInput | P_kServerWarning
  | P_kReAuthorizationNeeded | P_kUnsupportedClient | P_kTimeout

primrec ProducerErrorTemplates :: "ProducerErrorType \<Rightarrow> error_template" where
  "ProducerErrorTemplates P_kInternalServerError =
     \<lparr>t_service = Producer_S, t_type = 0, t_name = ''Internal server error''\<rparr>"
| "ProducerErrorTemplates P_kRequestPoolIsFull =
     \<lparr>t_service = Producer_S, t_type = 1, t_name = ''Cannot add request to poll - hit pool size limit''\<rparr>"
| "ProducerErrorTemplates P_kLocalIOError = \<lparr>t_service = Producer_S, t_type = 2, t_name = ''local i/o error''\<rparr>"
| "ProducerErrorTemplates P_kWrongInput = \<lparr>t_service = Producer_S, t_type = 3, t_name = ''wrong input''\<rparr>"
| "ProducerErrorTemplates P_kServerWarning = \<lparr>t_service = Producer_S, t_type = 4, t_name = ''server warning''\<rparr>"
| "ProducerErrorTemplates P_kReAuthorizationNeeded =
     \<lparr>t_service = Producer_S, t_type = 5, t_name = ''reauthorization needed''\<rparr>"
| "ProducerErrorTemplates P_kUnsupportedClient =
     \<lparr>t_service = Producer_S, t_type = 6, t_name = ''cannot connect to asapo''\<rparr>"
| "ProducerErrorTemplates P_kTimeout = \<lparr>t_service = Producer_S, t_type = 7, t_name = ''Timeout''\<rparr>"

datatype ConsumerErrorType =
    C_kNoData | C_kEndOfStream | C_kStreamFinished | C_kUnavailableService | C_kInterruptedTransaction
  | C_kLocalIOError | C_kWrongInput | C_kPartialData | C_kUnsupportedClient

primrec ConsumerErrorTemplates :: "ConsumerErrorType \<Rightarrow> error_template" where
  "ConsumerErrorTemplates C_kNoData = \<lparr>t_service = Consumer_S, t_type = 0, t_name = ''no data''\<rparr>"
| "ConsumerErrorTemplates C_kEndOfStream = \<lparr>t_service = Consumer_S, t_type = 1, t_name = ''no data - end of stream''\<rparr>"
| "ConsumerErrorTemplates C_kStreamFinished = \<lparr>t_service = Consumer_S, t_type = 2, t_name = ''stream finished''\<rparr>"
| "ConsumerErrorTemplates C_kUnavailableService =
     \<lparr>t_service = Consumer_S, t_type = 3, t_name = ''service unavailable''\<rparr>"
| "ConsumerErrorTemplates C_kInterruptedTransaction = \<lparr>t_service = Consumer_S, t_type = 4, t_name = ''server error''\<rparr>"
| "ConsumerErrorTemplates C_kLocalIOError = \<lparr>t_service = Consumer_S, t_type = 5, t_name = ''local i/o error''\<rparr>"
| "ConsumerErrorTemplates C_kWrongInput = \<lparr>t_service = Consumer_S, t_type = 6, t_name = ''wrong input''\<rparr>"
| "ConsumerErrorTemplates C_kPartialData = \<lparr>t_service = Consumer_S, t_type = 7, t_name = ''partial data''\<rparr>"
| "ConsumerErrorTemplates C_kUnsupportedClient =
     \<lparr>t_service = Consumer_S, t_type = 8, t_name = ''unsupported client version''\<rparr>"

text \<open>Short names for the errors without a message, as the sources write \<open>k...Generate()\<close>.\<close>

abbreviation io_err :: "IOErrorType \<Rightarrow> string \<Rightarrow> error" where
  "io_err t m \<equiv> Generate (IOErrorTemplates t) m"
abbreviation gen_err :: "GeneralErrorType \<Rightarrow> string \<Rightarrow> error" where
  "gen_err t m \<equiv> Generate (GeneralErrorTemplates t) m"
abbreviation db_err :: "DBErrorType \<Rightarrow> string \<Rightarrow> error" where
  "db_err t m \<equiv> Generate (DBErrorTemplates t) m"
abbreviation rcv_err :: "ReceiverErrorType \<Rightarrow> string \<Rightarrow> error" where
  "rcv_err t m \<equiv> Generate (ReceiverErrorTemplates t) m"
abbreviation ds_err :: "ReceiverDataServerErrorType \<Rightarrow> string \<Rightarrow> error" where
  "ds_err t m \<equiv> Generate (ReceiverDataServerErrorTemplates t) m"
abbreviation prd_err :: "ProducerErrorType \<Rightarrow> string \<Rightarrow> error" where
  "prd_err t m \<equiv> Generate (ProducerErrorTemplates t) m"
abbreviation cns_err :: "ConsumerErrorType \<Rightarrow> string \<Rightarrow> error" where
  "cns_err t m \<equiv> Generate (ConsumerErrorTemplates t) m"

section \<open>Lemmas\<close>

lemma error_type_simps [simp]:
  "error_type (Generate t m) = t_type t"
  "error_type (GenerateWithCause t m c) = t_type t"
  "error_type (AddDetails k v e) = error_type e"
  "error_type (AddDetails_u64 k n e) = error_type e"
  "error_type (SetCause c e) = error_type e"
  "error_type (SetCustomData d e) = error_type e"
  by (cases e; simp add: Generate_def GenerateWithCause_def AddDetails_u64_def)+

lemma err_service_simps [simp]:
  "err_service (Generate t m) = t_service t"
  "err_service (GenerateWithCause t m c) = t_service t"
  "err_service (AddDetails k v e) = err_service e"
  "err_service (AddDetails_u64 k n e) = err_service e"
  "err_service (SetCause c e) = err_service e"
  "err_service (SetCustomData d e) = err_service e"
  by (cases e; simp add: Generate_def GenerateWithCause_def AddDetails_u64_def)+

lemma custom_data_simps [simp]:
  "custom_data (Generate t m) = None"
  "custom_data (GenerateWithCause t m c) = None"
  "custom_data (AddDetails k v e) = custom_data e"
  "custom_data (SetCause c e) = custom_data e"
  "custom_data (SetCustomData d e) = d"
  by (cases e; simp add: Generate_def GenerateWithCause_def)+

lemma cause_err_simps [simp]:
  "cause_err (Generate t m) = None"
  "cause_err (GenerateWithCause t m c) = c"
  "cause_err (AddDetails k v e) = cause_err e"
  "cause_err (SetCause c e) = c"
  by (cases e; simp add: Generate_def GenerateWithCause_def)+

lemma err_is_simps [simp]:
  "\<not> err_is None t"
  "err_is (Some e) t \<longleftrightarrow> t_type t = error_type e"
  "\<not> err_is_not None t"
  "err_is_not (Some e) t \<longleftrightarrow> t_type t \<noteq> error_type e"
  by (simp_all add: err_is_def err_is_not_def)

text \<open>
  The constructors in the order of their numbers.  The enumerators of one service are distinct,
  so a comparison within a service is exact.
\<close>

definition io_order :: "IOErrorType list" where
  "io_order = [IO_kUnknownIOError, IO_kBadFileNumber, IO_kResourceTemporarilyUnavailable,
     IO_kFileNotFound, IO_kReadError, IO_kPermissionDenied, IO_kUnsupportedAddressFamily,
     IO_kInvalidAddressFormat, IO_kAddressAlreadyInUse, IO_kConnectionRefused,
     IO_kConnectionResetByPeer, IO_kTimeout, IO_kFileAlreadyExists, IO_kNoSpaceLeft,
     IO_kSocketOperationOnNonSocket, IO_kInvalidMemoryAddress, IO_kUnableToResolveHostname,
     IO_kSocketOperationUnknownAtLevel, IO_kSocketOperationValueOutOfBound, IO_kAddressNotValid,
     IO_kBrokenPipe, IO_kNotConnected]"

lemma io_order_nth: "io_order ! t_type (IOErrorTemplates a) = a"
  by (cases a) (simp_all add: io_order_def)

lemma io_type_inject: "t_type (IOErrorTemplates a) = t_type (IOErrorTemplates b) \<longleftrightarrow> a = b"
  by (metis io_order_nth)

definition db_order :: "DBErrorType list" where
  "db_order = [DB_kJsonParseError, DB_kUnknownError, DB_kConnectionError, DB_kNotConnected,
     DB_kInsertError, DB_kDuplicateID, DB_kAlreadyConnected, DB_kBadAddress, DB_kMemoryError,
     DB_kNoRecord, DB_kWrongInput]"

lemma db_order_nth: "db_order ! t_type (DBErrorTemplates a) = a"
  by (cases a) (simp_all add: db_order_def)

lemma db_type_inject: "t_type (DBErrorTemplates a) = t_type (DBErrorTemplates b) \<longleftrightarrow> a = b"
  by (metis db_order_nth)

definition rcv_order :: "ReceiverErrorType list" where
  "rcv_order = [R_kInvalidOpCode, R_kBadRequest, R_kAuthorizationFailure, R_kInternalServerError,
     R_kReAuthorizationFailure, R_kWarningDuplicatedRequest, R_kUnsupportedClient,
     R_kProcessingError]"

lemma rcv_order_nth: "rcv_order ! t_type (ReceiverErrorTemplates a) = a"
  by (cases a) (simp_all add: rcv_order_def)

lemma rcv_type_inject: "t_type (ReceiverErrorTemplates a) = t_type (ReceiverErrorTemplates b) \<longleftrightarrow> a = b"
  by (metis rcv_order_nth)

definition prd_order :: "ProducerErrorType list" where
  "prd_order = [P_kInternalServerError, P_kRequestPoolIsFull, P_kLocalIOError, P_kWrongInput,
     P_kServerWarning, P_kReAuthorizationNeeded, P_kUnsupportedClient, P_kTimeout]"

lemma prd_order_nth: "prd_order ! t_type (ProducerErrorTemplates a) = a"
  by (cases a) (simp_all add: prd_order_def)

lemma prd_type_inject: "t_type (ProducerErrorTemplates a) = t_type (ProducerErrorTemplates b) \<longleftrightarrow> a = b"
  by (metis prd_order_nth)

definition cns_order :: "ConsumerErrorType list" where
  "cns_order = [C_kNoData, C_kEndOfStream, C_kStreamFinished, C_kUnavailableService,
     C_kInterruptedTransaction, C_kLocalIOError, C_kWrongInput, C_kPartialData,
     C_kUnsupportedClient]"

lemma cns_order_nth: "cns_order ! t_type (ConsumerErrorTemplates a) = a"
  by (cases a) (simp_all add: cns_order_def)

lemma cns_type_inject: "t_type (ConsumerErrorTemplates a) = t_type (ConsumerErrorTemplates b) \<longleftrightarrow> a = b"
  by (metis cns_order_nth)

lemmas type_inject = io_type_inject db_type_inject rcv_type_inject prd_type_inject cns_type_inject

text \<open>Details are a \<open>std::map\<close>: adding one keeps the order and overwrites an equal key.\<close>

lemma details_AddDetails [simp]: "details (AddDetails k v e) = map_put k v (details e)"
  by (cases e) simp

lemma details_Generate [simp]: "details (Generate t m) = []"
  by (simp add: Generate_def)

lemma details_wf_AddDetails [inv_intros]: "map_wf (details e) \<Longrightarrow> map_wf (details (AddDetails k v e))"
  by (simp add: map_wf_map_put)

section \<open>JSON escaping is invertible\<close>

text \<open>
  The reading side, from the JSON grammar: a string body has no raw quote and no raw control
  character, and a backslash starts an escape.  Only the escapes of code points below 256 are
  read, one byte each.
\<close>

definition hex_value :: "char \<Rightarrow> nat option" where
  "hex_value c =
     (let n = (of_char c :: nat) in
      if 48 \<le> n \<and> n \<le> 57 then Some (n - 48)
      else if 97 \<le> n \<and> n \<le> 102 then Some (n - 87) else None)"

fun json_unescape :: "string \<Rightarrow> string option" where
  "json_unescape [] = Some []"
| "json_unescape (c # cs) =
     (if c = BACKSLASH then
        (case cs of [] \<Rightarrow> None
         | e # r \<Rightarrow>
             if e = QUOTE \<or> e = BACKSLASH then map_option (Cons e) (json_unescape r)
             else if e = CHR ''b'' then map_option (Cons (CHR 0x08)) (json_unescape r)
             else if e = CHR ''f'' then map_option (Cons (CHR 0x0C)) (json_unescape r)
             else if e = CHR ''n'' then map_option (Cons (CHR 0x0A)) (json_unescape r)
             else if e = CHR ''r'' then map_option (Cons (CHR 0x0D)) (json_unescape r)
             else if e = CHR ''t'' then map_option (Cons (CHR 0x09)) (json_unescape r)
             else if e = CHR ''u'' then
               (case r of z1 # z2 # h # l # r' \<Rightarrow>
                  (if z1 = CHR ''0'' \<and> z2 = CHR ''0'' then
                     (case (hex_value h, hex_value l) of
                        (Some a, Some b) \<Rightarrow> map_option (Cons (char_of (16 * a + b))) (json_unescape r')
                      | _ \<Rightarrow> None)
                   else None)
                | _ \<Rightarrow> None)
             else None)
      else if c = QUOTE \<or> (of_char c :: nat) \<le> 31 then None
      else map_option (Cons c) (json_unescape cs))"

lemma hex_value_hex_digit: "d < 16 \<Longrightarrow> hex_value (hex_digit d) = Some d"
  by (auto simp: hex_value_def hex_digit_def Let_def)

lemma escape_chars_distinct [simp]:
  "QUOTE \<noteq> BACKSLASH" "BACKSLASH \<noteq> QUOTE"
  "CHR ''b'' \<noteq> QUOTE" "CHR ''b'' \<noteq> BACKSLASH" "CHR ''f'' \<noteq> QUOTE" "CHR ''f'' \<noteq> BACKSLASH"
  "CHR ''n'' \<noteq> QUOTE" "CHR ''n'' \<noteq> BACKSLASH" "CHR ''r'' \<noteq> QUOTE" "CHR ''r'' \<noteq> BACKSLASH"
  "CHR ''t'' \<noteq> QUOTE" "CHR ''t'' \<noteq> BACKSLASH" "CHR ''u'' \<noteq> QUOTE" "CHR ''u'' \<noteq> BACKSLASH"
  by (simp_all add: QUOTE_def BACKSLASH_def)

text \<open>One equation per kind of character, so that no proof unfolds the whole reader.\<close>

lemma json_unescape_plain:
  "c \<noteq> BACKSLASH \<Longrightarrow> c \<noteq> QUOTE \<Longrightarrow> \<not> (of_char c :: nat) \<le> 31 \<Longrightarrow>
   json_unescape (c # t) = map_option (Cons c) (json_unescape t)"
  by (simp only: json_unescape.simps if_False simp_thms)

lemma json_unescape_short:
  "json_unescape (BACKSLASH # QUOTE # t) = map_option (Cons QUOTE) (json_unescape t)"
  "json_unescape (BACKSLASH # BACKSLASH # t) = map_option (Cons BACKSLASH) (json_unescape t)"
  "json_unescape (BACKSLASH # CHR ''b'' # t) = map_option (Cons (CHR 0x08)) (json_unescape t)"
  "json_unescape (BACKSLASH # CHR ''f'' # t) = map_option (Cons (CHR 0x0C)) (json_unescape t)"
  "json_unescape (BACKSLASH # CHR ''n'' # t) = map_option (Cons (CHR 0x0A)) (json_unescape t)"
  "json_unescape (BACKSLASH # CHR ''r'' # t) = map_option (Cons (CHR 0x0D)) (json_unescape t)"
  "json_unescape (BACKSLASH # CHR ''t'' # t) = map_option (Cons (CHR 0x09)) (json_unescape t)"
  by (subst json_unescape.simps, simp del: json_unescape.simps)+

lemma json_unescape_hex:
  "hex_value h = Some a \<Longrightarrow> hex_value l = Some b \<Longrightarrow>
   json_unescape (BACKSLASH # CHR ''u'' # CHR ''0'' # CHR ''0'' # h # l # t)
   = map_option (Cons (char_of (16 * a + b))) (json_unescape t)"
  by (subst json_unescape.simps) (simp del: json_unescape.simps)

lemma unescape_escape_char:
  "json_unescape (escape_json_char c @ t) = map_option (Cons c) (json_unescape t)"
proof (cases "c \<in> {QUOTE, BACKSLASH, CHR 0x08, CHR 0x0C, CHR 0x0A, CHR 0x0D, CHR 0x09}")
  case True
  then show ?thesis
    by (elim insertE emptyE)
      (simp_all add: escape_json_char_def json_unescape_short del: json_unescape.simps)
next
  case False
  then have ne: "c \<noteq> QUOTE" "c \<noteq> BACKSLASH" "c \<noteq> CHR 0x08" "c \<noteq> CHR 0x0C" "c \<noteq> CHR 0x0A"
    "c \<noteq> CHR 0x0D" "c \<noteq> CHR 0x09" by simp_all
  show ?thesis
  proof (cases "(of_char c :: nat) \<le> 31")
    case True
    have "(of_char c :: nat) div 16 < 16" "(of_char c :: nat) mod 16 < 16" using True by simp_all
    then have h: "hex_value (hex_digit (of_char c div 16)) = Some (of_char c div 16)"
      "hex_value (hex_digit (of_char c mod 16)) = Some (of_char c mod 16)"
      by (simp_all add: hex_value_hex_digit)
    have "char_of (16 * (of_char c div 16) + of_char c mod 16 :: nat) = c" by simp
    then show ?thesis
      using json_unescape_hex [OF h] True ne by (simp add: escape_json_char_def del: json_unescape.simps)
  next
    case False
    then show ?thesis
      using ne json_unescape_plain by (simp add: escape_json_char_def del: json_unescape.simps)
  qed
qed

lemma unescape_EscapeJson_append: "json_unescape (EscapeJson s @ t) = map_option ((@) s) (json_unescape t)"
proof (induction s)
  case Nil
  then show ?case by (simp add: EscapeJson_def option.map_ident)
next
  case (Cons c s)
  have "json_unescape (EscapeJson (c # s) @ t) = map_option (Cons c) (json_unescape (EscapeJson s @ t))"
    by (simp add: EscapeJson_def unescape_escape_char)
  then show ?case
    using Cons by (simp add: option.map_comp comp_def)
qed

section \<open>Properties\<close>

text \<open>
  The text that \<open>EscapeJson\<close> puts between quotes is a valid JSON string body, with no raw
  quote or control character, and a JSON reader gets the original text back from it.
\<close>
theorem EscapeJson_round_trip: "json_unescape (EscapeJson s) = Some s"
  using unescape_EscapeJson_append [of s "[]"] by simp

text \<open>
  Comparing an error with a template of the same service is exact, whatever message, details
  and cause the error has; but the comparison ignores the service, so a read error of the I/O
  layer counts as the producer's server warning, and so does the receiver's failed
  reauthorization.
\<close>
theorem error_comparison:
  "(err_is (Some (AddDetails k v (GenerateWithCause (IOErrorTemplates a) msg c))) (IOErrorTemplates b) \<longleftrightarrow> a = b)
   \<and> (err_is (Some (AddDetails k v (GenerateWithCause (DBErrorTemplates a1) msg c))) (DBErrorTemplates b1) \<longleftrightarrow> a1 = b1)
   \<and> (err_is (Some (AddDetails k v (GenerateWithCause (ReceiverErrorTemplates a2) msg c))) (ReceiverErrorTemplates b2)
      \<longleftrightarrow> a2 = b2)
   \<and> (err_is (Some (AddDetails k v (GenerateWithCause (ProducerErrorTemplates a3) msg c))) (ProducerErrorTemplates b3)
      \<longleftrightarrow> a3 = b3)
   \<and> (err_is (Some (AddDetails k v (GenerateWithCause (ConsumerErrorTemplates a4) msg c))) (ConsumerErrorTemplates b4)
      \<longleftrightarrow> a4 = b4)
   \<and> err_is (Some (io_err IO_kReadError msg)) (ProducerErrorTemplates P_kServerWarning)
   \<and> err_is (Some (rcv_err R_kReAuthorizationFailure msg)) (ProducerErrorTemplates P_kServerWarning)"
  using type_inject by auto

end
