(* ===== verification/Json_Parser.thy ===== *)
theory Json_Parser
  imports Asapo_Errors
begin

text \<open>
  The JSON reader (\<open>common/cpp/src/json_parser\<close>): the class \<open>RapidJson\<close> that \<open>JsonParser\<close>
  forwards to.

  The RapidJSON library itself is third-party code: its parser and its writer are the two
  fields of \<open>rapidjson_lib\<close>.  A document is initialised lazily and then kept; the input of a
  parser does not change during its life, so the model recomputes the value instead of
  caching it.  A getter returns the error and the new value of its out parameter, which is the
  old one on every error path that does not assign it.
\<close>

datatype json =
    JNull
  | JBool bool
  | JInt int
  | JDouble string
  | JString string
  | JArray "json list"
  | JObject "(string \<times> json) list"

record rapidjson_lib =
  rj_parse :: "string \<Rightarrow> json option"
  rj_write :: "json \<Rightarrow> string"

datatype ValueType = kUint64 | kInt64 | kString | kObject | kArray | kBool

text \<open>
  \<open>json_io\<close> is the file reader of a \<open>JsonFileParser\<close>: the text of a file and the error.
  \<open>embedded\<close> is what the constructor of an embedded parser stored: its error or the object.
\<close>

record RapidJson =
  lib :: rapidjson_lib
  json_io :: "(string \<Rightarrow> string \<times> error option) option"
  json_text :: string
  embedded :: "(error + (string \<times> json) list) option"

definition JsonStringParser :: "rapidjson_lib \<Rightarrow> string \<Rightarrow> RapidJson" where
  "JsonStringParser L s = \<lparr>lib = L, json_io = None, json_text = s, embedded = None\<rparr>"

definition JsonFileParser :: "rapidjson_lib \<Rightarrow> (string \<Rightarrow> string \<times> error option) \<Rightarrow> string \<Rightarrow> RapidJson" where
  "JsonFileParser L io fname = \<lparr>lib = L, json_io = Some io, json_text = fname, embedded = None\<rparr>"

definition LazyInitialize :: "RapidJson \<Rightarrow> error + (string \<times> json) list" where
  "LazyInitialize p =
     (case embedded p of
        Some (Inl e) \<Rightarrow> Inl (gen_err kSimpleError (Explain e))
      | Some (Inr ob) \<Rightarrow> Inr ob
      | None \<Rightarrow>
          (let (str, err) = (case json_io p of None \<Rightarrow> (json_text p, None) | Some rd \<Rightarrow> rd (json_text p)) in
           case err of Some e \<Rightarrow> Inl e
           | None \<Rightarrow> (case rj_parse (lib p) (c_str str) of
                        Some (JObject ob) \<Rightarrow> Inr ob
                      | _ \<Rightarrow> Inl (gen_err kSimpleError ''Cannot parse document''))))"

fun IsInt64 :: "json \<Rightarrow> bool" where
  "IsInt64 (JInt i) = (- (2 ^ 63) \<le> i \<and> i < 2 ^ 63)"
| "IsInt64 j = False"

fun IsUint64 :: "json \<Rightarrow> bool" where
  "IsUint64 (JInt i) = (0 \<le> i \<and> i < 2 ^ 64)"
| "IsUint64 j = False"

fun has_type :: "ValueType \<Rightarrow> json \<Rightarrow> bool" where
  "has_type kObject v = (case v of JObject ob \<Rightarrow> True | _ \<Rightarrow> False)"
| "has_type kString v = (case v of JString s \<Rightarrow> True | _ \<Rightarrow> False)"
| "has_type kUint64 v = IsUint64 v"
| "has_type kInt64 v = IsInt64 v"
| "has_type kBool v = (case v of JBool b \<Rightarrow> True | _ \<Rightarrow> False)"
| "has_type kArray v = (case v of JArray a \<Rightarrow> True | _ \<Rightarrow> False)"

definition CheckValueType :: "string \<Rightarrow> ValueType \<Rightarrow> json \<Rightarrow> RapidJson \<Rightarrow> error option" where
  "CheckValueType name ty v p =
     (if has_type ty v then None
      else Some (gen_err kSimpleError (''wrong type for: '' @ name @ '' in: '' @ json_text p)))"

definition FindMember :: "string \<Rightarrow> (string \<times> json) list \<Rightarrow> json option" where
  "FindMember name ob = map_of ob (c_str name)"

definition GetValuePointer :: "string \<Rightarrow> ValueType \<Rightarrow> RapidJson \<Rightarrow> error + json" where
  "GetValuePointer name ty p =
     (case LazyInitialize p of Inl e \<Rightarrow> Inl e
      | Inr ob \<Rightarrow>
          (case FindMember name ob of
             None \<Rightarrow> Inl (gen_err kSimpleError (''cannot find: '' @ name))
           | Some v \<Rightarrow> (case CheckValueType name ty v p of Some e \<Rightarrow> Inl e | None \<Rightarrow> Inr v)))"

fun int_of_json :: "json \<Rightarrow> int" where
  "int_of_json (JInt i) = i"
| "int_of_json j = 0"

definition GetInt64 :: "string \<Rightarrow> RapidJson \<Rightarrow> error + int" where
  "GetInt64 name p = map_sum id int_of_json (GetValuePointer name kInt64 p)"

definition GetUInt64 :: "string \<Rightarrow> u64 \<Rightarrow> RapidJson \<Rightarrow> error option \<times> u64" where
  "GetUInt64 name val p =
     (case LazyInitialize p of Inl e \<Rightarrow> (Some e, val)
      | Inr ob \<Rightarrow>
          (case GetInt64 name p of
             Inr i \<Rightarrow> (None, of_int i)
           | Inl e1 \<Rightarrow>
               (case GetValuePointer name kUint64 p of
                  Inl e \<Rightarrow> (Some e, val)
                | Inr v \<Rightarrow> (None, of_int (int_of_json v)))))"

definition GetBool :: "string \<Rightarrow> bool \<Rightarrow> RapidJson \<Rightarrow> error option \<times> bool" where
  "GetBool name val p =
     (case GetValuePointer name kBool p of
        Inl e \<Rightarrow> (Some e, val)
      | Inr (JBool b) \<Rightarrow> (None, b)
      | Inr v \<Rightarrow> (None, val))"

definition GetString :: "string \<Rightarrow> string \<Rightarrow> RapidJson \<Rightarrow> error option \<times> string" where
  "GetString name val p =
     (case GetValuePointer name kString p of
        Inl e \<Rightarrow> (Some e, val)
      | Inr (JString s) \<Rightarrow> (None, c_str s)
      | Inr v \<Rightarrow> (None, val))"

text \<open>
  The three array getters clear the out parameter and append until an element has the wrong
  type; \<open>conv\<close> is the conversion of one element.
\<close>

fun push_elements :: "(json \<Rightarrow> 'a option) \<Rightarrow> string \<Rightarrow> json list \<Rightarrow> 'a list \<Rightarrow> error option \<times> 'a list" where
  "push_elements conv name [] acc = (None, acc)"
| "push_elements conv name (v # vs) acc =
     (case conv v of
        None \<Rightarrow> (Some (gen_err kSimpleError (''wrong type of array element: '' @ name)), acc)
      | Some x \<Rightarrow> push_elements conv name vs (acc @ [x]))"

definition uint64_element :: "json \<Rightarrow> u64 option" where
  "uint64_element v = (if IsUint64 v then Some (of_int (int_of_json v)) else None)"

fun string_element :: "json \<Rightarrow> string option" where
  "string_element (JString s) = Some (c_str s)"
| "string_element j = None"

fun object_element :: "rapidjson_lib \<Rightarrow> json \<Rightarrow> string option" where
  "object_element L (JObject ob) = Some (c_str (rj_write L (JObject ob)))"
| "object_element L j = None"

definition get_array :: "(json \<Rightarrow> 'a option) \<Rightarrow> string \<Rightarrow> 'a list \<Rightarrow> RapidJson \<Rightarrow> error option \<times> 'a list" where
  "get_array conv name val p =
     (case GetValuePointer name kArray p of
        Inl e \<Rightarrow> (Some e, val)
      | Inr (JArray vs) \<Rightarrow> push_elements conv name vs []
      | Inr v \<Rightarrow> (None, val))"

definition GetArrayUInt64 :: "string \<Rightarrow> u64 list \<Rightarrow> RapidJson \<Rightarrow> error option \<times> u64 list" where
  "GetArrayUInt64 name val p = get_array uint64_element name val p"

definition GetArrayString :: "string \<Rightarrow> string list \<Rightarrow> RapidJson \<Rightarrow> error option \<times> string list" where
  "GetArrayString name val p = get_array string_element name val p"

definition GetArrayRawStrings :: "string \<Rightarrow> string list \<Rightarrow> RapidJson \<Rightarrow> error option \<times> string list" where
  "GetArrayRawStrings name val p = get_array (object_element (lib p)) name val p"

definition Embedded :: "string \<Rightarrow> RapidJson \<Rightarrow> RapidJson" where
  "Embedded subname p =
     \<lparr>lib = lib p, json_io = None, json_text = [],
      embedded = Some (case GetValuePointer subname kObject p of
                         Inl e \<Rightarrow> Inl e
                       | Inr (JObject ob) \<Rightarrow> Inr ob
                       | Inr v \<Rightarrow> Inr [])\<rparr>"

definition GetRawString :: "string \<Rightarrow> RapidJson \<Rightarrow> error option \<times> string" where
  "GetRawString val p =
     (case LazyInitialize p of
        Inl e \<Rightarrow> (Some e, val)
      | Inr ob \<Rightarrow> (None, c_str (rj_write (lib p) (JObject ob))))"

text \<open>\<open>AddVals\<close> returns after the first member that is an object.\<close>

fun AddVals :: "string \<Rightarrow> string \<Rightarrow> (string \<times> json) list \<Rightarrow> (string \<times> json) list \<Rightarrow> (string \<times> json) list" where
  "AddVals prefix separator vals [] = vals"
| "AddVals prefix separator vals ((k, JObject sub) # ms) =
     AddVals (if prefix \<noteq> [] then prefix @ separator @ c_str k else c_str k) separator vals sub"
| "AddVals prefix separator vals ((k, v) # ms) =
     AddVals prefix separator
       (vals @ [(if prefix \<noteq> [] then prefix @ separator @ c_str k else c_str k, v)]) ms"

definition GetFlattenedString :: "string \<Rightarrow> string \<Rightarrow> string \<Rightarrow> RapidJson \<Rightarrow> error option \<times> string" where
  "GetFlattenedString prefix separator val p =
     (case LazyInitialize p of
        Inl e \<Rightarrow> (Some e, val)
      | Inr ob \<Rightarrow>
          (None, c_str (rj_write (lib p)
                   (JObject (AddVals prefix separator [] ob)))))"

section \<open>Reading a document\<close>

lemma LazyInitialize_string:
  assumes "rj_parse L (c_str s) = Some (JObject ob)"
  shows "LazyInitialize (JsonStringParser L s) = Inr ob"
  using assms by (simp add: LazyInitialize_def JsonStringParser_def)

lemma LazyInitialize_embedded [simp]:
  "LazyInitialize \<lparr>lib = L, json_io = io, json_text = t, embedded = Some (Inr ob)\<rparr> = Inr ob"
  by (simp add: LazyInitialize_def)

text \<open>The getters on a document that was parsed, for a member that is there with its type.\<close>

lemma getters_found:
  assumes init: "LazyInitialize p = Inr ob" and n: "NUL \<notin> set name"
  shows "map_of ob name = Some (JInt i) \<Longrightarrow> 0 \<le> i \<Longrightarrow> i < 2 ^ 64 \<Longrightarrow> GetUInt64 name v p = (None, of_int i)"
    and "map_of ob name = Some (JInt i) \<Longrightarrow> - (2 ^ 63) \<le> i \<Longrightarrow> i < 2 ^ 63 \<Longrightarrow>
         GetUInt64 name v p = (None, of_int i)"
    and "map_of ob name = Some (JString s) \<Longrightarrow> GetString name t p = (None, c_str s)"
    and "map_of ob name = Some (JBool b) \<Longrightarrow> GetBool name b0 p = (None, b)"
    and "map_of ob name = Some (JObject sub) \<Longrightarrow> LazyInitialize (Embedded name p) = Inr sub"
    and "map_of ob name = Some (JArray vs) \<Longrightarrow> get_array conv name xs p = push_elements conv name vs []"
  using init c_str_id [OF n]
  by (auto simp: GetUInt64_def GetInt64_def GetString_def GetBool_def GetValuePointer_def FindMember_def
      CheckValueType_def Embedded_def get_array_def)

lemma getters_uninitialised:
  assumes "LazyInitialize p = Inl e"
  shows "GetUInt64 name v p = (Some e, v)" and "GetString name t p = (Some e, t)"
    and "GetBool name b p = (Some e, b)" and "get_array conv name xs p = (Some e, xs)"
  using assms by (simp_all add: GetUInt64_def GetString_def GetBool_def get_array_def GetValuePointer_def)

text \<open>On success the array getters return the converted elements, all of them and in order.\<close>

lemma push_elements_ok:
  "push_elements conv name vs acc = (None, xs) \<longleftrightarrow> (\<exists>ys. xs = acc @ ys \<and> map conv vs = map Some ys)"
proof (induction vs arbitrary: acc)
  case Nil
  then show ?case by auto
next
  case (Cons v vs)
  then show ?case by (cases "conv v") (auto simp: Cons_eq_map_conv)
qed

section \<open>Flattening\<close>

fun is_object :: "json \<Rightarrow> bool" where
  "is_object (JObject ob) = True"
| "is_object j = False"

definition prefixed :: "string \<Rightarrow> string \<Rightarrow> string \<Rightarrow> string" where
  "prefixed prefix separator k = (if prefix \<noteq> [] then prefix @ separator @ c_str k else c_str k)"

lemma AddVals_flat_append:
  "list_all (\<lambda>kv. \<not> is_object (snd kv)) flat \<Longrightarrow>
   AddVals prefix separator vals (flat @ rest)
   = AddVals prefix separator (vals @ map (\<lambda>(k, v). (prefixed prefix separator k, v)) flat) rest"
proof (induction flat arbitrary: vals)
  case (Cons kv flat)
  obtain k v where kv: "kv = (k, v)" by (cases kv)
  then show ?case using Cons by (cases v) (simp_all add: prefixed_def)
qed simp

section \<open>Properties\<close>

text \<open>
  Flattening keeps every member of an object without nested objects, in order and with its
  prefixed name; but after the first nested object everything that follows it on the same level
  is lost: the result does not depend on it.
\<close>
theorem flatten_drops_after_object:
  assumes "list_all (\<lambda>kv. \<not> is_object (snd kv)) flat"
  shows "AddVals prefix separator [] flat = map (\<lambda>(k, v). (prefixed prefix separator k, v)) flat
    \<and> AddVals prefix separator [] (flat @ (k, JObject sub) # rest) =
      AddVals (prefixed prefix separator k) separator
        (map (\<lambda>(k, v). (prefixed prefix separator k, v)) flat) sub"
  using AddVals_flat_append [OF assms, of prefix separator "[]" "[]"]
    AddVals_flat_append [OF assms, of prefix separator "[]" "(k, JObject sub) # rest"]
  by (simp add: prefixed_def)

theorem flatten_drops_after_object_witness:
  "AddVals ''meta'' ''.'' [] ([(''a'', JInt 1)] @ (''b'', JObject [(''c'', JInt 2)]) # [(''d'', JInt 3)])
   = [(''meta.a'', JInt 1), (''meta.b.c'', JInt 2)]"
proof -
  have p: "c_str ''a'' = ''a''" "c_str ''b'' = ''b''" "c_str ''c'' = ''c''"
    by code_simp+
  show ?thesis
    using flatten_drops_after_object [of "[(''a'', JInt 1)]" "''meta''" "''.''" "''b''"
        "[(''c'', JInt 2)]" "[(''d'', JInt 3)]"] p
    by (simp add: prefixed_def)
qed

end
