(* ===== verification/Asapo_Network.thy ===== *)
theory Asapo_Network
  imports Asapo_Errors
begin

text \<open>
  The wire format of the producer, the receiver and the consumer
  (\<open>common/networking.h\<close>): operation codes, response codes, the request header and the response.

  The enumerations have a fixed underlying type and arrive from the network, so a code is a
  machine word and the enumerators are constants.  A \<open>char[n]\<close> member is a list of \<open>n\<close>
  characters.  \<open>message\<close>, \<open>stream\<close> and \<open>api_version\<close> are adjacent, so reading an unterminated
  \<open>message\<close> as a C string goes on into the next member.
\<close>

abbreviation (input) kOpcodeUnknownOp :: u8 where "kOpcodeUnknownOp \<equiv> 1"
abbreviation (input) kOpcodeTransferData :: u8 where "kOpcodeTransferData \<equiv> 2"
abbreviation (input) kOpcodeTransferDatasetData :: u8 where "kOpcodeTransferDatasetData \<equiv> 3"
abbreviation (input) kOpcodeStreamInfo :: u8 where "kOpcodeStreamInfo \<equiv> 4"
abbreviation (input) kOpcodeLastStream :: u8 where "kOpcodeLastStream \<equiv> 5"
abbreviation (input) kOpcodeGetBufferData :: u8 where "kOpcodeGetBufferData \<equiv> 6"
abbreviation (input) kOpcodeAuthorize :: u8 where "kOpcodeAuthorize \<equiv> 7"
abbreviation (input) kOpcodeTransferMetaData :: u8 where "kOpcodeTransferMetaData \<equiv> 8"
abbreviation (input) kOpcodeDeleteStream :: u8 where "kOpcodeDeleteStream \<equiv> 9"
abbreviation (input) kOpcodeGetMeta :: u8 where "kOpcodeGetMeta \<equiv> 10"

definition OpcodeToString :: "u8 \<Rightarrow> string" where
  "OpcodeToString code =
     (if code = kOpcodeTransferData then ''transfer data''
      else if code = kOpcodeTransferDatasetData then ''transfer dataset data''
      else if code = kOpcodeStreamInfo then ''stream info''
      else if code = kOpcodeLastStream then ''last stream''
      else if code = kOpcodeGetBufferData then ''get buffer data''
      else if code = kOpcodeAuthorize then ''authorize''
      else if code = kOpcodeTransferMetaData then ''transfer metadata''
      else if code = kOpcodeDeleteStream then ''delete stream''
      else if code = kOpcodeGetMeta then ''get meta''
      else ''unknown op'')"

abbreviation (input) kNetErrorNoError :: u16 where "kNetErrorNoError \<equiv> 0"
abbreviation (input) kNetErrorReauthorize :: u16 where "kNetErrorReauthorize \<equiv> 1"
abbreviation (input) kNetErrorWarning :: u16 where "kNetErrorWarning \<equiv> 2"
abbreviation (input) kNetErrorWrongRequest :: u16 where "kNetErrorWrongRequest \<equiv> 3"
abbreviation (input) kNetErrorNotSupported :: u16 where "kNetErrorNotSupported \<equiv> 4"
abbreviation (input) kNetErrorNoData :: u16 where "kNetErrorNoData \<equiv> 5"
abbreviation (input) kNetAuthorizationError :: u16 where "kNetAuthorizationError \<equiv> 6"
abbreviation (input) kNetErrorInternalServerError :: u16 where "kNetErrorInternalServerError \<equiv> 65535"

definition NetworkErrorCodeToString :: "u16 \<Rightarrow> string" where
  "NetworkErrorCodeToString code =
     (if code = kNetErrorNoError then ''success''
      else if code = kNetErrorReauthorize then ''reauthorize''
      else if code = kNetErrorWarning then ''warning''
      else if code = kNetErrorWrongRequest then ''wrong request''
      else if code = kNetErrorNotSupported then ''not suported''
      else if code = kNetErrorNoData then ''no data''
      else if code = kNetAuthorizationError then ''authorization error''
      else if code = kNetErrorInternalServerError then ''internal server error''
      else ''unknown code'')"

definition kMaxMessageSize :: nat where "kMaxMessageSize = 1024"
definition kMaxVersionSize :: nat where "kMaxVersionSize = 10"
definition kNCustomParams :: nat where [simp]: "kNCustomParams = 3"
abbreviation (input) kPosIngestMode :: nat where "kPosIngestMode \<equiv> 0"
abbreviation (input) kPosDataSetId :: nat where "kPosDataSetId \<equiv> 1"
abbreviation (input) kPosMetaIngestMode :: nat where "kPosMetaIngestMode \<equiv> 1"
abbreviation (input) kPosDataSetSize :: nat where "kPosDataSetSize \<equiv> 2"

record GenericRequestHeader =
  op_code :: u8
  data_id :: u64
  data_size :: u64
  meta_size :: u64
  custom_params :: "u64 list"
  message :: string
  stream :: string
  api_version :: string

text \<open>
  The constructor leaves \<open>custom_data\<close> as it is in memory; those values are the argument \<open>cd0\<close>.
\<close>

definition GenericRequestHeader_new ::
    "u64 list \<Rightarrow> u8 \<Rightarrow> u64 \<Rightarrow> u64 \<Rightarrow> u64 \<Rightarrow> string \<Rightarrow> string \<Rightarrow> GenericRequestHeader" where
  "GenericRequestHeader_new cd0 i_op_code i_data_id i_data_size i_meta_size i_message i_stream =
     \<lparr>op_code = i_op_code, data_id = i_data_id, data_size = i_data_size, meta_size = i_meta_size,
      custom_params = cd0,
      message = strncpy kMaxMessageSize i_message, stream = strncpy kMaxMessageSize i_stream,
      api_version = strncpy kMaxVersionSize ''v0.0''\<rparr>"

definition copy_header :: "GenericRequestHeader \<Rightarrow> GenericRequestHeader" where
  "copy_header h =
     \<lparr>op_code = op_code h, data_id = data_id h, data_size = data_size h, meta_size = meta_size h,
      custom_params = take kNCustomParams (custom_params h),
      message = take kMaxMessageSize (message h),
      stream = strncpy kMaxMessageSize (stream h @ api_version h),
      api_version = strncpy kMaxVersionSize (api_version h)\<rparr>"

definition custom_param :: "nat \<Rightarrow> GenericRequestHeader \<Rightarrow> u64" where
  "custom_param i h = custom_params h ! i"

text \<open>\<open>std::string(header.message)\<close> and \<open>std::string(header.stream)\<close>.\<close>

definition message_str :: "GenericRequestHeader \<Rightarrow> string" where
  "message_str h = c_str (message h @ stream h @ api_version h)"

definition stream_str :: "GenericRequestHeader \<Rightarrow> string" where
  "stream_str h = c_str (stream h @ api_version h)"

definition api_version_str :: "GenericRequestHeader \<Rightarrow> string" where
  "api_version_str h = c_str (api_version h)"

definition header_Json :: "GenericRequestHeader \<Rightarrow> string" where
  "header_Json h =
     ''{'' @ WrapInQuotes ''id'' @ '':'' @ to_string (data_id h) @ '',''
     @ WrapInQuotes ''buffer'' @ '':'' @ WrapInQuotes (message_str h) @ '',''
     @ WrapInQuotes ''stream'' @ '':'' @ WrapInQuotes (stream_str h) @ ''}''"

record GenericNetworkResponse =
  resp_op_code :: u8
  error_code :: u16
  resp_message :: string

definition response_str :: "GenericNetworkResponse \<Rightarrow> string" where
  "response_str r = c_str (resp_message r)"

definition header_wf :: "GenericRequestHeader \<Rightarrow> bool" where
  "header_wf h \<longleftrightarrow> length (message h) = kMaxMessageSize \<and> length (stream h) = kMaxMessageSize
     \<and> length (api_version h) = kMaxVersionSize \<and> length (custom_params h) = kNCustomParams"

section \<open>What arrives is what was sent\<close>

lemma header_new_wf [inv_intros]:
  "length cd = kNCustomParams \<Longrightarrow> header_wf (GenericRequestHeader_new cd op i n m s t)"
  by (simp add: header_wf_def GenericRequestHeader_new_def)

lemma header_texts_new:
  assumes "NUL \<notin> set s" and "length s < kMaxMessageSize"
    and "NUL \<notin> set t" and "length t < kMaxMessageSize"
  shows "message_str (GenericRequestHeader_new cd op i n m s t) = s"
    and "stream_str (GenericRequestHeader_new cd op i n m s t) = t"
  using assms
  by (simp_all add: message_str_def stream_str_def GenericRequestHeader_new_def c_str_strncpy_short)

lemma api_version_new: "api_version_str (GenericRequestHeader_new cd op i n m s t) = ''v0.0''"
proof -
  have "c_str (strncpy 10 ''v0.0'') = ''v0.0''" by code_simp
  then show ?thesis
    by (simp add: api_version_str_def GenericRequestHeader_new_def kMaxVersionSize_def)
qed

text \<open>
  A message of exactly \<open>kMaxMessageSize\<close> characters leaves no room for the terminator, and the
  receiver reads the stream name as part of it.
\<close>

lemma message_str_full:
  assumes "NUL \<notin> set s" and "length s = kMaxMessageSize"
    and "NUL \<notin> set t" and "length t < kMaxMessageSize"
  shows "message_str (GenericRequestHeader_new cd op i n m s t) = s @ t"
  using assms
  by (simp add: message_str_def GenericRequestHeader_new_def strncpy_full c_str_append c_str_strncpy_short)

lemma strncpy_c_str: "strncpy n (c_str s) = strncpy n s"
  by (simp add: strncpy_def c_str_id)

lemma c_str_strncpy_c_str: "length (c_str s) < n \<Longrightarrow> c_str (strncpy n s @ t) = c_str s"
  using c_str_strncpy_short [of "c_str s" n t] by (simp add: strncpy_c_str)

lemma c_str_short: "NUL \<in> set s \<Longrightarrow> length (c_str s) < length s"
  by (induction s) (auto simp: c_str_def)

text \<open>Copying a header keeps the texts.\<close>

lemma copy_header_texts:
  assumes "header_wf h" and "NUL \<in> set (message h)" and "NUL \<in> set (stream h)" and "NUL \<in> set (api_version h)"
  shows "message_str (copy_header h) = message_str h" and "stream_str (copy_header h) = stream_str h"
    and "api_version_str (copy_header h) = api_version_str h" and "header_wf (copy_header h)"
proof -
  have len: "length (message h) = kMaxMessageSize" "length (stream h) = kMaxMessageSize"
    "length (api_version h) = kMaxVersionSize" "length (custom_params h) = kNCustomParams"
    using assms(1) by (simp_all add: header_wf_def)
  show "message_str (copy_header h) = message_str h"
    using assms(2) len by (simp add: message_str_def copy_header_def c_str_append_terminated)
  have s: "c_str (stream h @ api_version h) = c_str (stream h)"
    using assms(3) by (rule c_str_append_terminated)
  show "stream_str (copy_header h) = stream_str h"
    using c_str_short [OF assms(3)] len
    by (simp add: stream_str_def copy_header_def s c_str_strncpy_c_str)
  show "api_version_str (copy_header h) = api_version_str h"
    using c_str_short [OF assms(4)] len c_str_strncpy_c_str [of "api_version h" kMaxVersionSize "[]"]
    by (simp add: api_version_str_def copy_header_def)
  show "header_wf (copy_header h)"
    using len by (simp add: header_wf_def copy_header_def)
qed

end
