(* ===== verification/Data_Structs.thy ===== *)
theory Data_Structs
  imports Json_Parser Asapo_Network
begin

text \<open>
  The data structures of the public interface (\<open>common/data_structs.{h,cpp}\<close>): message metadata,
  stream information, data sets, credentials, ingest modes and their encodings.

  A \<open>time_point\<close> of the system clock counts nanoseconds, so it is its 64 bit count.
\<close>

definition kFinishStreamKeyword :: string where "kFinishStreamKeyword = ''asapo_finish_stream''"
definition kNoNextStreamKeyword :: string where "kNoNextStreamKeyword = ''asapo_no_next''"

section \<open>Credentials\<close>

datatype SourceType = kProcessed | kRaw

definition GetStringFromSourceType :: "SourceType \<Rightarrow> string" where
  "GetStringFromSourceType t = (case t of kRaw \<Rightarrow> ''raw'' | kProcessed \<Rightarrow> ''processed'')"

definition GetSourceTypeFromString :: "string \<Rightarrow> SourceType \<Rightarrow> error option \<times> SourceType" where
  "GetSourceTypeFromString stype t =
     (if stype = ''raw'' then (None, kRaw)
      else if stype = ''processed'' then (None, kProcessed)
      else (Some (gen_err kSimpleError (''cannot parse/wrong source type: '' @ stype)), t))"

record SourceCredentials =
  sc_beamtime_id :: string
  sc_beamline :: string
  sc_data_source :: string
  sc_user_token :: string
  sc_type :: SourceType

definition kDefaultDataSource :: string where "kDefaultDataSource = ''detector''"
definition kDefaultBeamline :: string where "kDefaultBeamline = ''auto''"
definition kDefaultBeamtimeId :: string where "kDefaultBeamtimeId = ''auto''"

definition credentials_GetString :: "SourceCredentials \<Rightarrow> string" where
  "credentials_GetString c =
     (if sc_type c = kRaw then ''raw'' else ''processed'') @ ''%'' @ sc_beamtime_id c @ ''%''
     @ sc_beamline c @ ''%'' @ sc_data_source c @ ''%'' @ sc_user_token c"

section \<open>Ingest modes and options\<close>

definition kTransferData :: u64 where "kTransferData = 1"
definition kTransferMetaDataOnly :: u64 where "kTransferMetaDataOnly = 2"
definition kStoreInFilesystem :: u64 where "kStoreInFilesystem = 4"
definition kStoreInDatabase :: u64 where "kStoreInDatabase = 8"
definition kWriteRawDataToOffline :: u64 where "kWriteRawDataToOffline = 16"

definition kDefaultIngestMode :: u64 where
  "kDefaultIngestMode = kTransferData OR kStoreInFilesystem OR kStoreInDatabase"

text \<open>\<open>mode & flag\<close> used as a condition.\<close>

definition has_flag :: "u64 \<Rightarrow> u64 \<Rightarrow> bool" where
  "has_flag mode flag \<longleftrightarrow> mode AND flag \<noteq> 0"

lemmas ingest_flags = kTransferData_def kTransferMetaDataOnly_def kStoreInFilesystem_def
  kStoreInDatabase_def kWriteRawDataToOffline_def

record DeleteStreamOptions =
  delete_meta :: bool
  error_on_not_exist :: bool

definition DeleteStreamOptions_Encode :: "DeleteStreamOptions \<Rightarrow> u64" where
  "DeleteStreamOptions_Encode opts =
     (let flag = 0;
          flag = (if delete_meta opts then flag OR 1 else flag);
          flag = (if error_on_not_exist opts then flag OR 2 else flag) in flag)"

definition DeleteStreamOptions_Decode :: "u64 \<Rightarrow> DeleteStreamOptions" where
  "DeleteStreamOptions_Decode flag =
     \<lparr>delete_meta = flag AND 1 > 0, error_on_not_exist = flag AND 2 > 0\<rparr>"

definition json_bool :: "bool \<Rightarrow> string" where
  "json_bool b = (if b then ''true'' else ''false'')"

definition DeleteStreamOptions_Json :: "DeleteStreamOptions \<Rightarrow> string" where
  "DeleteStreamOptions_Json opts =
     ''{'' @ WrapInQuotes ''ErrorOnNotExist'' @ '':'' @ json_bool (error_on_not_exist opts) @ '',''
     @ WrapInQuotes ''DeleteMeta'' @ '':'' @ json_bool (delete_meta opts) @ ''}''"

definition MI_kInsert :: u64 where "MI_kInsert = 1"
definition MI_kReplace :: u64 where "MI_kReplace = 2"
definition MI_kUpdate :: u64 where "MI_kUpdate = 3"

record MetaIngestMode =
  mi_op :: u64
  upsert :: bool

definition MetaIngestMode_Encode :: "MetaIngestMode \<Rightarrow> u64" where
  "MetaIngestMode_Encode m = mi_op m + 10 * (if upsert m then 1 else 0)"

definition MetaIngestMode_Decode :: "u64 \<Rightarrow> MetaIngestMode \<Rightarrow> MetaIngestMode" where
  "MetaIngestMode_Decode code m =
     (let ups = code > 10;
          val = code - (if ups then 10 else 0) in
      if val \<le> 3 then \<lparr>mi_op = val, upsert = ups\<rparr> else m\<lparr>upsert := ups\<rparr>)"

section \<open>Messages, streams and data sets\<close>

record MessageMeta =
  mm_name :: string
  mm_timestamp :: u64
  mm_size :: u64
  mm_id :: u64
  mm_source :: string
  mm_metadata :: string
  mm_buf_id :: u64
  mm_dataset_substream :: u64

definition MessageMeta_new :: MessageMeta where
  "MessageMeta_new = \<lparr>mm_name = [], mm_timestamp = 0, mm_size = 0, mm_id = 0, mm_source = [],
     mm_metadata = [], mm_buf_id = 0, mm_dataset_substream = 0\<rparr>"

definition NanosecsEpochFromTimePoint :: "u64 \<Rightarrow> u64" where
  "NanosecsEpochFromTimePoint t = t"

definition TimePointfromNanosec :: "u64 \<Rightarrow> u64" where
  "TimePointfromNanosec ns = ns"

definition MessageMeta_Json :: "MessageMeta \<Rightarrow> string" where
  "MessageMeta_Json m =
     ''{'' @ WrapInQuotes ''_id'' @ '':'' @ to_string (mm_id m) @ '',''
     @ WrapInQuotes ''size'' @ '':'' @ to_string (mm_size m) @ '',''
     @ WrapInQuotes ''name'' @ '':'' @ WrapInQuotes (mm_name m) @ '',''
     @ WrapInQuotes ''timestamp'' @ '':'' @ to_string (NanosecsEpochFromTimePoint (mm_timestamp m)) @ '',''
     @ WrapInQuotes ''source'' @ '':'' @ WrapInQuotes (mm_source m) @ '',''
     @ WrapInQuotes ''buf_id'' @ '':'' @ int_to_string (sint (mm_buf_id m)) @ '',''
     @ WrapInQuotes ''dataset_substream'' @ '':'' @ to_string (mm_dataset_substream m) @ '',''
     @ WrapInQuotes ''meta'' @ '':'' @ (if mm_metadata m = [] then ''{}'' else mm_metadata m) @ ''}''"

definition TimeFromJson :: "RapidJson \<Rightarrow> string \<Rightarrow> u64 \<Rightarrow> bool \<times> u64" where
  "TimeFromJson parser name val =
     (case GetUInt64 name 0 parser of
        (Some e, ns) \<Rightarrow> (False, val)
      | (None, ns) \<Rightarrow> (True, TimePointfromNanosec ns))"

text \<open>
  \<open>a || b || ...\<close> over getters stops at the first error and every getter assigns its member;
  on an error the whole object is restored, so only the order and the values matter.
\<close>

definition MessageMeta_SetFromJson :: "rapidjson_lib \<Rightarrow> string \<Rightarrow> MessageMeta \<Rightarrow> bool \<times> MessageMeta" where
  "MessageMeta_SetFromJson L json_string old =
     (let parser = JsonStringParser L json_string;
          (e1, i) = GetUInt64 ''_id'' (mm_id old) parser;
          (e2, sz) = GetUInt64 ''size'' (mm_size old) parser;
          (e3, nm) = GetString ''name'' (mm_name old) parser;
          (e4, src) = GetString ''source'' (mm_source old) parser;
          (e5, buf) = GetUInt64 ''buf_id'' (mm_buf_id old) parser;
          (e6, sub) = GetUInt64 ''dataset_substream'' (mm_dataset_substream old) parser;
          (e7, md) = GetRawString (mm_metadata old) (Embedded ''meta'' parser);
          (ok, ts) = TimeFromJson parser ''timestamp'' (mm_timestamp old) in
      if e1 \<noteq> None \<or> e2 \<noteq> None \<or> e3 \<noteq> None \<or> e4 \<noteq> None \<or> e5 \<noteq> None \<or> e6 \<noteq> None \<or> e7 \<noteq> None \<or> \<not> ok
      then (False, old)
      else (True, \<lparr>mm_name = nm, mm_timestamp = ts, mm_size = sz, mm_id = i, mm_source = src,
                   mm_metadata = md, mm_buf_id = buf, mm_dataset_substream = sub\<rparr>))"

definition MessageMeta_FullName :: "MessageMeta \<Rightarrow> string \<Rightarrow> string" where
  "MessageMeta_FullName m base_path =
     (if base_path = [] then [] else base_path @ ''/'') @ mm_name m"

record DataSet =
  ds_id :: u64
  expected_size :: u64
  content :: "MessageMeta list"

text \<open>The loop over the messages: \<open>content\<close> is appended to, not replaced.\<close>

fun set_content :: "rapidjson_lib \<Rightarrow> string list \<Rightarrow> MessageMeta list \<Rightarrow> MessageMeta list option" where
  "set_content L [] ms = Some ms"
| "set_content L (s # ss) ms =
     (let (ok, fi) = MessageMeta_SetFromJson L s MessageMeta_new in
      if \<not> ok then None else set_content L ss (ms @ [fi]))"

definition DataSet_SetFromJson :: "rapidjson_lib \<Rightarrow> string \<Rightarrow> DataSet \<Rightarrow> bool \<times> DataSet" where
  "DataSet_SetFromJson L json_string old =
     (let parser = JsonStringParser L json_string;
          (e1, vec) = GetArrayRawStrings ''messages'' [] parser;
          (e2, sz) = GetUInt64 ''size'' (expected_size old) parser;
          (e3, i) = GetUInt64 ''_id'' (ds_id old) parser in
      if e1 \<noteq> None \<or> e2 \<noteq> None \<or> e3 \<noteq> None then (False, old)
      else (case set_content L vec (content old) of
              None \<Rightarrow> (False, old)
            | Some ms \<Rightarrow> (True, \<lparr>ds_id = i, expected_size = sz, content = ms\<rparr>)))"

record StreamInfo =
  si_last_id :: u64
  si_name :: string
  si_finished :: bool
  si_next_stream :: string
  si_timestamp_created :: u64
  si_timestamp_lastentry :: u64

definition StreamInfo_new :: StreamInfo where
  "StreamInfo_new = \<lparr>si_last_id = 0, si_name = [], si_finished = False, si_next_stream = [],
     si_timestamp_created = 0, si_timestamp_lastentry = 0\<rparr>"

definition StreamInfo_Json :: "StreamInfo \<Rightarrow> string" where
  "StreamInfo_Json s =
     ''{'' @ WrapInQuotes ''lastId'' @ '':'' @ to_string (si_last_id s) @ '',''
     @ WrapInQuotes ''name'' @ '':'' @ WrapInQuotes (si_name s) @ '',''
     @ WrapInQuotes ''timestampCreated'' @ '':''
     @ to_string (NanosecsEpochFromTimePoint (si_timestamp_created s)) @ '',''
     @ WrapInQuotes ''timestampLast'' @ '':''
     @ to_string (NanosecsEpochFromTimePoint (si_timestamp_lastentry s)) @ '',''
     @ WrapInQuotes ''finished'' @ '':'' @ json_bool (si_finished s) @ '',''
     @ WrapInQuotes ''nextStream'' @ '':'' @ WrapInQuotes (si_next_stream s) @ ''}''"

definition StreamInfo_SetFromJson :: "rapidjson_lib \<Rightarrow> string \<Rightarrow> StreamInfo \<Rightarrow> bool \<times> StreamInfo" where
  "StreamInfo_SetFromJson L json_string old =
     (let parser = JsonStringParser L json_string;
          (e1, li) = GetUInt64 ''lastId'' (si_last_id old) parser;
          (e2, fin) = GetBool ''finished'' (si_finished old) parser;
          (e3, nxt) = GetString ''nextStream'' (si_next_stream old) parser;
          (ok1, tl) = TimeFromJson parser ''timestampLast'' (si_timestamp_lastentry old);
          (e4, nm) = GetString ''name'' (si_name old) parser;
          (ok2, tc) = TimeFromJson parser ''timestampCreated'' (si_timestamp_created old) in
      if e1 \<noteq> None \<or> e2 \<noteq> None \<or> e3 \<noteq> None \<or> \<not> ok1 \<or> e4 \<noteq> None \<or> \<not> ok2
      then (False, old)
      else (True, \<lparr>si_last_id = li, si_name = nm, si_finished = fin, si_next_stream = nxt,
                   si_timestamp_created = tc, si_timestamp_lastentry = tl\<rparr>))"

definition HostFromUri :: "string \<Rightarrow> string" where
  "HostFromUri uri = before_char (CHR '':'') uri"

section \<open>JSON texts\<close>

text \<open>The text of a JSON value, from the grammar of RFC 8259, without insignificant space.\<close>

fun print_json :: "json \<Rightarrow> string" where
  "print_json JNull = ''null''"
| "print_json (JBool b) = json_bool b"
| "print_json (JInt i) = int_to_string i"
| "print_json (JDouble s) = s"
| "print_json (JString s) = WrapInQuotes (EscapeJson s)"
| "print_json (JArray vs) = ''['' @ join_with '','' (map print_json vs) @ '']''"
| "print_json (JObject ob) =
     ''{'' @ join_with '','' (map (\<lambda>(k, v). WrapInQuotes (EscapeJson k) @ '':'' @ print_json v) ob) @ ''}''"

text \<open>
  What is relied on of the library: it reads the text of a value as that value and it writes a
  value as that text.
\<close>

definition rj_reads :: "rapidjson_lib \<Rightarrow> json \<Rightarrow> bool" where
  "rj_reads L j \<longleftrightarrow> rj_parse L (c_str (print_json j)) = Some j"

definition rj_writes :: "rapidjson_lib \<Rightarrow> json \<Rightarrow> bool" where
  "rj_writes L j \<longleftrightarrow> c_str (rj_write L j) = print_json j"

text \<open>Texts that \<open>Json()\<close> may put between quotes as they are.\<close>

definition plain :: "string \<Rightarrow> bool" where
  "plain s \<longleftrightarrow> list_all (\<lambda>c. escape_json_char c = [c]) s"

lemma EscapeJson_plain: "plain s \<Longrightarrow> EscapeJson s = s"
  by (induction s) (simp_all add: plain_def EscapeJson_def)

lemma NUL_not_plain: "plain s \<Longrightarrow> NUL \<notin> set s"
proof -
  have "escape_json_char NUL \<noteq> [NUL]" by (simp add: escape_json_char_def QUOTE_def BACKSLASH_def)
  then show "plain s \<Longrightarrow> NUL \<notin> set s" unfolding plain_def list_all_iff by blast
qed

lemma int_to_string_uint [simp]: "int_to_string (uint w) = to_string w"
  by (simp add: int_to_string_def to_string_def)

definition message_doc :: "MessageMeta \<Rightarrow> (string \<times> json) list \<Rightarrow> (string \<times> json) list" where
  "message_doc m sub =
     [(''_id'', JInt (uint (mm_id m))), (''size'', JInt (uint (mm_size m))), (''name'', JString (mm_name m)),
      (''timestamp'', JInt (uint (mm_timestamp m))), (''source'', JString (mm_source m)),
      (''buf_id'', JInt (sint (mm_buf_id m))),
      (''dataset_substream'', JInt (uint (mm_dataset_substream m))), (''meta'', JObject sub)]"

definition stream_doc :: "StreamInfo \<Rightarrow> (string \<times> json) list" where
  "stream_doc s =
     [(''lastId'', JInt (uint (si_last_id s))), (''name'', JString (si_name s)),
      (''timestampCreated'', JInt (uint (si_timestamp_created s))),
      (''timestampLast'', JInt (uint (si_timestamp_lastentry s))), (''finished'', JBool (si_finished s)),
      (''nextStream'', JString (si_next_stream s))]"

lemma plain_keys:
  "plain ''_id''" "plain ''size''" "plain ''name''" "plain ''timestamp''" "plain ''source''"
  "plain ''buf_id''" "plain ''dataset_substream''" "plain ''meta''" "plain ''lastId''"
  "plain ''timestampCreated''" "plain ''timestampLast''" "plain ''finished''" "plain ''nextStream''"
  by (simp_all add: plain_def escape_json_char_def QUOTE_def BACKSLASH_def)

lemmas escape_keys = plain_keys [THEN EscapeJson_plain]
lemmas NUL_keys = plain_keys [THEN NUL_not_plain]

lemma print_message_doc:
  assumes "plain (mm_name m)" and "plain (mm_source m)"
    and "(if mm_metadata m = [] then ''{}'' else mm_metadata m) = print_json (JObject sub)"
  shows "print_json (JObject (message_doc m sub)) = MessageMeta_Json m"
  unfolding message_doc_def MessageMeta_Json_def assms(3) print_json.simps(7) [of "x # xs" for x xs]
  by (simp add: escape_keys NanosecsEpochFromTimePoint_def EscapeJson_plain [OF assms(1)]
      EscapeJson_plain [OF assms(2)] del: print_json.simps(7))

lemma print_stream_doc:
  assumes "plain (si_name s)" and "plain (si_next_stream s)"
  shows "print_json (JObject (stream_doc s)) = StreamInfo_Json s"
  using EscapeJson_plain [OF assms(1)] EscapeJson_plain [OF assms(2)]
  by (simp add: stream_doc_def StreamInfo_Json_def escape_keys NanosecsEpochFromTimePoint_def)

lemma sint_range64: "- (2 ^ 63) \<le> sint (w :: u64)" "sint (w :: u64) < 2 ^ 63"
  using sint_greater_eq [of w] sint_less [of w] by simp_all

lemma uint_range64: "0 \<le> uint (w :: u64)" "uint (w :: u64) < 2 ^ 64"
  using uint_lt2p [of w] by simp_all

lemma word_of_uint_sint [simp]: "word_of_int (uint (w :: u64)) = w" "word_of_int (sint (w :: u64)) = w"
  by simp_all

text \<open>Reading the text of a message gives the message back.\<close>

lemma message_json_reads:
  assumes "plain (mm_name m)" and "plain (mm_source m)"
    and "(if mm_metadata m = [] then ''{}'' else mm_metadata m) = print_json (JObject sub)"
    and "rj_reads L (JObject (message_doc m sub))" and "rj_writes L (JObject sub)"
  shows "MessageMeta_SetFromJson L (MessageMeta_Json m) old =
    (True, m\<lparr>mm_metadata := (if mm_metadata m = [] then ''{}'' else mm_metadata m)\<rparr>)"
proof -
  let ?p = "JsonStringParser L (MessageMeta_Json m)" and ?ob = "message_doc m sub"
  have init: "LazyInitialize ?p = Inr ?ob"
    using assms(4) print_message_doc [OF assms(1-3)] by (intro LazyInitialize_string) (simp add: rj_reads_def)
  have mem: "map_of ?ob ''_id'' = Some (JInt (uint (mm_id m)))" "map_of ?ob ''size'' = Some (JInt (uint (mm_size m)))"
    "map_of ?ob ''name'' = Some (JString (mm_name m))" "map_of ?ob ''source'' = Some (JString (mm_source m))"
    "map_of ?ob ''timestamp'' = Some (JInt (uint (mm_timestamp m)))"
    "map_of ?ob ''buf_id'' = Some (JInt (sint (mm_buf_id m)))"
    "map_of ?ob ''dataset_substream'' = Some (JInt (uint (mm_dataset_substream m)))"
    "map_of ?ob ''meta'' = Some (JObject sub)"
    by (simp_all add: message_doc_def)
  note g = getters_found [OF init]
  have u: "GetUInt64 ''_id'' v ?p = (None, mm_id m)" "GetUInt64 ''size'' v ?p = (None, mm_size m)"
    "GetUInt64 ''timestamp'' v ?p = (None, mm_timestamp m)" "GetUInt64 ''buf_id'' v ?p = (None, mm_buf_id m)"
    "GetUInt64 ''dataset_substream'' v ?p = (None, mm_dataset_substream m)" for v
    using g(1) [OF NUL_keys(1) mem(1)] g(1) [OF NUL_keys(2) mem(2)] g(1) [OF NUL_keys(4) mem(5)]
      g(2) [OF NUL_keys(6) mem(6)] g(1) [OF NUL_keys(7) mem(7)] uint_range64 sint_range64
    by simp_all
  have t: "GetString ''name'' v ?p = (None, mm_name m)" "GetString ''source'' v ?p = (None, mm_source m)" for v
    using g(3) [OF NUL_keys(3) mem(3)] g(3) [OF NUL_keys(5) mem(4)]
      c_str_id [OF NUL_not_plain [OF assms(1)]] c_str_id [OF NUL_not_plain [OF assms(2)]] by simp_all
  have "LazyInitialize (Embedded ''meta'' ?p) = Inr sub" using g(5) [OF NUL_keys(8) mem(8)] .
  then have r: "GetRawString v (Embedded ''meta'' ?p) = (None, print_json (JObject sub))" for v
    using assms(5) unfolding rj_writes_def by (simp add: GetRawString_def Embedded_def JsonStringParser_def)
  show ?thesis
    unfolding MessageMeta_SetFromJson_def Let_def TimeFromJson_def u t r assms(3)
    by (simp add: TimePointfromNanosec_def)
qed

section \<open>Properties\<close>

text \<open>
  The JSON text of a message, written by the sender, is read back by the receiving side as
  the same message, including 64 bit numbers above the signed range; metadata that was empty
  comes back as an empty object.  Name and source must not need JSON escapes, because
  \<open>Json()\<close> writes them as they are.
\<close>
theorem message_meta_round_trip:
  assumes "plain (mm_name m)" and "plain (mm_source m)"
    and "(if mm_metadata m = [] then ''{}'' else mm_metadata m) = print_json (JObject sub)"
    and "rj_reads L (JObject (message_doc m sub))" and "rj_writes L (JObject sub)"
  shows "MessageMeta_SetFromJson L (MessageMeta_Json m) old =
    (True, m\<lparr>mm_metadata := (if mm_metadata m = [] then ''{}'' else mm_metadata m)\<rparr>)"
  using assms by (rule message_json_reads)

definition demo_message :: MessageMeta where
  "demo_message = \<lparr>mm_name = ''raw/a'', mm_timestamp = 17, mm_size = 100, mm_id = 3, mm_source = ''h:1'',
     mm_metadata = [], mm_buf_id = - 1, mm_dataset_substream = 0\<rparr>"

definition demo_lib :: rapidjson_lib where
  "demo_lib = \<lparr>rj_parse = (\<lambda>s. if s = c_str (print_json (JObject (message_doc demo_message [])))
                               then Some (JObject (message_doc demo_message [])) else None),
               rj_write = (\<lambda>j. print_json j)\<rparr>"

theorem message_meta_round_trip_witness:
  "MessageMeta_SetFromJson demo_lib (MessageMeta_Json demo_message) MessageMeta_new =
     (True, demo_message\<lparr>mm_metadata := ''{}''\<rparr>)"
proof -
  have "plain (mm_name demo_message)" "plain (mm_source demo_message)"
    by (simp_all add: demo_message_def plain_def escape_json_char_def QUOTE_def BACKSLASH_def)
  moreover have "(if mm_metadata demo_message = [] then ''{}'' else mm_metadata demo_message)
      = print_json (JObject [])"
    by (simp add: demo_message_def)
  moreover have "rj_reads demo_lib (JObject (message_doc demo_message []))"
    unfolding rj_reads_def demo_lib_def by simp
  moreover have "rj_writes demo_lib (JObject [])"
    unfolding rj_writes_def demo_lib_def by (simp add: c_str_def)
  ultimately show ?thesis
    using message_meta_round_trip [of demo_message "[]" demo_lib MessageMeta_new]
    by (simp add: demo_message_def)
qed

text \<open>
  The codes that travel in the custom parameters of a request come out as they went in:
  delete options, metadata ingest modes (whatever mode object the decoder starts from) and
  source types.  Two other codes are worth knowing: 10 decodes to no upsert with the old
  operation kept, and 0 to the operation number 0, which no enumerator has.
\<close>
theorem option_codes_round_trip:
  "DeleteStreamOptions_Decode (DeleteStreamOptions_Encode opts) = opts
   \<and> (mi_op md \<in> {MI_kInsert, MI_kReplace, MI_kUpdate} \<longrightarrow>
        MetaIngestMode_Decode (MetaIngestMode_Encode md) md0 = md)
   \<and> GetSourceTypeFromString (GetStringFromSourceType ty) ty0 = (None, ty)
   \<and> MetaIngestMode_Decode 10 md0 = md0\<lparr>upsert := False\<rparr>
   \<and> MetaIngestMode_Decode 0 md0 = \<lparr>mi_op = 0, upsert = False\<rparr>"
proof (intro conjI impI)
  show "DeleteStreamOptions_Decode (DeleteStreamOptions_Encode opts) = opts"
    by (cases opts) (simp add: DeleteStreamOptions_Decode_def DeleteStreamOptions_Encode_def)
  show "MetaIngestMode_Decode (MetaIngestMode_Encode md) md0 = md"
    if "mi_op md \<in> {MI_kInsert, MI_kReplace, MI_kUpdate}"
    using that
    by (cases md; cases "upsert md")
      (auto simp: MetaIngestMode_Decode_def MetaIngestMode_Encode_def MI_kInsert_def MI_kReplace_def MI_kUpdate_def)
  show "GetSourceTypeFromString (GetStringFromSourceType ty) ty0 = (None, ty)"
    by (cases ty) (simp_all add: GetSourceTypeFromString_def GetStringFromSourceType_def)
qed (simp_all add: MetaIngestMode_Decode_def)

theorem option_codes_round_trip_witness:
  "MI_kUpdate \<in> {MI_kInsert, MI_kReplace, MI_kUpdate}
   \<and> MetaIngestMode_Decode (MetaIngestMode_Encode \<lparr>mi_op = MI_kUpdate, upsert = True\<rparr>)
       \<lparr>mi_op = MI_kInsert, upsert = False\<rparr> = \<lparr>mi_op = MI_kUpdate, upsert = True\<rparr>"
  using option_codes_round_trip [of "\<lparr>delete_meta = True, error_on_not_exist = True\<rparr>"
      "\<lparr>mi_op = MI_kUpdate, upsert = True\<rparr>" "\<lparr>mi_op = MI_kInsert, upsert = False\<rparr>" kRaw kRaw]
  by simp

end
