(* ===== verification/Request_Pool.thy ===== *)
theory Request_Pool
  imports Asapo_Network "HOL-Library.Multiset"
begin

text \<open>
  The request pool of the producer and of the data server (\<open>common/request/request.h\<close>,
  \<open>common/cpp/src/request/request_pool.cpp\<close>): a queue of requests, its limits, and the worker
  threads that take requests from it.

  A request class derives from \<open>GenericRequest\<close>, so requests are extensible records and the
  virtual method \<open>ContainsData\<close> is an argument.  A \<open>RequestHandler\<close> is a record of its virtual
  methods over a handler state.  A worker holds the mutex except while its handler processes a
  request, so \<open>ProcessRequest\<close> is the sequence of two atomic sections with the handler call
  between them.  Times are nanoseconds of the system clock.
\<close>

record GenericRequest =
  header :: GenericRequestHeader
  retry_counter :: u64
  timeout_ms :: u64
  created_at :: int

definition GetRetryCounter :: "'a GenericRequest_scheme \<Rightarrow> u64" where
  "GetRetryCounter r = retry_counter r"

definition IncreaseRetryCounter :: "'a GenericRequest_scheme \<Rightarrow> 'a GenericRequest_scheme" where
  "IncreaseRetryCounter r = r\<lparr>retry_counter := retry_counter r + 1\<rparr>"

definition TimedOut :: "int \<Rightarrow> 'a GenericRequest_scheme \<Rightarrow> bool" where
  "TimedOut now r =
     (if timeout_ms r = 0 then False
      else (let elapsed_ms = (of_int (millis_between (created_at r) now) :: u64) in
            elapsed_ms > timeout_ms r))"

record RequestPoolLimits =
  max_requests :: u64
  max_memory_mb :: u64

record 'r RequestPool =
  request_queue :: "'r list"
  requests_in_progress :: u64
  memory_used :: u64
  pool_limits :: RequestPoolLimits
  quit_flag :: bool

definition RequestPool_new :: "'r RequestPool" where
  "RequestPool_new = \<lparr>request_queue = [], requests_in_progress = 0, memory_used = 0,
     pool_limits = \<lparr>max_requests = 0, max_memory_mb = 0\<rparr>, quit_flag = False\<rparr>"

definition NRequestsInPoolWithoutLock :: "'r RequestPool \<Rightarrow> u64" where
  "NRequestsInPoolWithoutLock p = of_nat (length (request_queue p)) + requests_in_progress p"

definition SetLimits :: "RequestPoolLimits \<Rightarrow> 'r RequestPool \<Rightarrow> 'r RequestPool" where
  "SetLimits lim p = p\<lparr>pool_limits := lim\<rparr>"

definition max_requests_error :: "'r RequestPool \<Rightarrow> error" where
  "max_requests_error p = io_err IO_kNoSpaceLeft
     (''reached maximum number of '' @ to_string (max_requests (pool_limits p)) @ '' requests'')"

definition max_memory_error :: "'r RequestPool \<Rightarrow> error" where
  "max_memory_error p = io_err IO_kNoSpaceLeft
     (''reached maximum memory capacity of '' @ to_string (max_memory_mb (pool_limits p)) @ '' MB'')"

text \<open>The summation loop of \<open>CanAddRequests\<close> and \<open>AddRequests\<close>.\<close>

definition contained_size :: "('a GenericRequest_scheme \<Rightarrow> bool) \<Rightarrow> 'a GenericRequest_scheme \<Rightarrow> u64" where
  "contained_size ContainsData r = (if ContainsData r then data_size (header r) else 0)"

definition total_size ::
    "('a GenericRequest_scheme \<Rightarrow> bool) \<Rightarrow> 'a GenericRequest_scheme list \<Rightarrow> u64" where
  "total_size ContainsData rs = sum_list (map (contained_size ContainsData) rs)"

definition CanAddRequests ::
    "('a GenericRequest_scheme \<Rightarrow> bool) \<Rightarrow> 'a GenericRequest_scheme list
     \<Rightarrow> 'a GenericRequest_scheme RequestPool \<Rightarrow> error option" where
  "CanAddRequests ContainsData rs p =
     (if NRequestsInPoolWithoutLock p + of_nat (length rs) > max_requests (pool_limits p)
         \<and> max_requests (pool_limits p) > 0
      then Some (max_requests_error p)
      else if max_memory_mb (pool_limits p) = 0 then None
      else if memory_used p + total_size ContainsData rs > max_memory_mb (pool_limits p) * 1000000
      then Some (max_memory_error p)
      else None)"

definition CanAddRequest ::
    "('a GenericRequest_scheme \<Rightarrow> bool) \<Rightarrow> 'a GenericRequest_scheme \<Rightarrow> bool
     \<Rightarrow> 'a GenericRequest_scheme RequestPool \<Rightarrow> error option" where
  "CanAddRequest ContainsData r top_priority p =
     (if top_priority then None
      else if max_requests (pool_limits p) > 0 \<and> NRequestsInPoolWithoutLock p \<ge> max_requests (pool_limits p)
      then Some (max_requests_error p)
      else if \<not> ContainsData r then None
      else if max_memory_mb (pool_limits p) > 0
              \<and> memory_used p + data_size (header r) > max_memory_mb (pool_limits p) * 1000000
      then Some (max_memory_error p)
      else None)"

text \<open>On refusal the request goes back to the caller as the custom data of the error.\<close>

definition AddRequest ::
    "('a GenericRequest_scheme \<Rightarrow> bool) \<Rightarrow> 'a GenericRequest_scheme \<Rightarrow> bool
     \<Rightarrow> 'a GenericRequest_scheme RequestPool
     \<Rightarrow> (error \<times> 'a GenericRequest_scheme) option \<times> 'a GenericRequest_scheme RequestPool" where
  "AddRequest ContainsData r top_priority p =
     (case CanAddRequest ContainsData r top_priority p of
        Some e \<Rightarrow> (Some (e, r), p)
      | None \<Rightarrow>
          (let p1 = (if ContainsData r then p\<lparr>memory_used := memory_used p + data_size (header r)\<rparr> else p) in
           (None, if top_priority then p1\<lparr>request_queue := r # request_queue p1\<rparr>
                  else p1\<lparr>request_queue := request_queue p1 @ [r]\<rparr>)))"

text \<open>The loop of \<open>AddRequests\<close> puts each request in front of the queue.\<close>

fun emplace_all_front :: "'r list \<Rightarrow> 'r list \<Rightarrow> 'r list" where
  "emplace_all_front [] q = q"
| "emplace_all_front (r # rs) q = emplace_all_front rs (r # q)"

definition AddRequests ::
    "('a GenericRequest_scheme \<Rightarrow> bool) \<Rightarrow> 'a GenericRequest_scheme list
     \<Rightarrow> 'a GenericRequest_scheme RequestPool \<Rightarrow> error option \<times> 'a GenericRequest_scheme RequestPool" where
  "AddRequests ContainsData rs p =
     (case CanAddRequests ContainsData rs p of
        Some e \<Rightarrow> (Some e, p)
      | None \<Rightarrow>
          (None, p\<lparr>request_queue := emplace_all_front rs (request_queue p),
                   memory_used := memory_used p + total_size ContainsData rs\<rparr>))"

section \<open>Worker threads\<close>

record ('r, 'h) RequestHandler =
  PrepareProcessingRequestLocked :: "'h \<Rightarrow> 'h"
  TearDownProcessingRequestLocked :: "bool \<Rightarrow> 'h \<Rightarrow> 'h"
  ProcessRequestUnlocked :: "'r \<Rightarrow> 'h \<Rightarrow> (bool \<times> bool) \<times> 'r \<times> 'h"
  ProcessRequestTimeoutUnlocked :: "'r \<Rightarrow> 'h \<Rightarrow> 'h"
  ReadyProcessRequest :: "'h \<Rightarrow> bool"

definition CanProcessRequest :: "('r, 'h) RequestHandler \<Rightarrow> 'h \<Rightarrow> 'r RequestPool \<Rightarrow> bool" where
  "CanProcessRequest H h p \<longleftrightarrow> request_queue p \<noteq> [] \<and> ReadyProcessRequest H h"

text \<open>The queue is not empty when this is called.\<close>

definition GetRequestFromQueue :: "'r RequestPool \<Rightarrow> 'r \<times> 'r RequestPool" where
  "GetRequestFromQueue p = (hd (request_queue p), p\<lparr>request_queue := tl (request_queue p)\<rparr>)"

definition PutRequestBackToQueue ::
    "'a GenericRequest_scheme \<Rightarrow> 'a GenericRequest_scheme RequestPool \<Rightarrow> 'a GenericRequest_scheme RequestPool" where
  "PutRequestBackToQueue r p = p\<lparr>request_queue := IncreaseRetryCounter r # request_queue p\<rparr>"

text \<open>First section, for a request that has not timed out: the counter goes up.\<close>

definition begin_processing :: "'r RequestPool \<Rightarrow> 'r RequestPool" where
  "begin_processing p = p\<lparr>requests_in_progress := requests_in_progress p + 1\<rparr>"

text \<open>Second section, with the request as the handler left it.\<close>

definition end_processing ::
    "('a GenericRequest_scheme \<Rightarrow> bool) \<Rightarrow> 'a GenericRequest_scheme \<Rightarrow> bool
     \<Rightarrow> 'a GenericRequest_scheme RequestPool \<Rightarrow> 'a GenericRequest_scheme RequestPool" where
  "end_processing ContainsData r retry p =
     (let p1 = p\<lparr>requests_in_progress := requests_in_progress p - 1\<rparr> in
      if retry then PutRequestBackToQueue r p1
      else if ContainsData r then p1\<lparr>memory_used := memory_used p1 - data_size (header r)\<rparr>
      else p1)"

text \<open>The whole method, when no other thread runs in between.\<close>

definition ProcessRequest ::
    "('a GenericRequest_scheme \<Rightarrow> bool) \<Rightarrow> ('a GenericRequest_scheme, 'h) RequestHandler \<Rightarrow> int \<Rightarrow> 'h
     \<Rightarrow> 'a GenericRequest_scheme RequestPool \<Rightarrow> 'h \<times> 'a GenericRequest_scheme RequestPool" where
  "ProcessRequest ContainsData H now h p =
     (let (r, p1) = GetRequestFromQueue p in
      if TimedOut now r then (ProcessRequestTimeoutUnlocked H r h, p1)
      else
        (let h1 = PrepareProcessingRequestLocked H h;
             p2 = begin_processing p1;
             ((success, retry), r', h2) = ProcessRequestUnlocked H r h1;
             h3 = TearDownProcessingRequestLocked H success h2 in
         (h3, end_processing ContainsData r' retry p2)))"

text \<open>
  One turn of \<open>ThreadHandler\<close>, after the wait has returned.  \<open>do_work\<close> is the value of the
  predicate when the wait ends.
\<close>

definition ThreadHandler_turn ::
    "('a GenericRequest_scheme \<Rightarrow> bool) \<Rightarrow> ('a GenericRequest_scheme, 'h) RequestHandler \<Rightarrow> int \<Rightarrow> 'h
     \<Rightarrow> 'a GenericRequest_scheme RequestPool \<Rightarrow> 'h \<times> 'a GenericRequest_scheme RequestPool" where
  "ThreadHandler_turn ContainsData H now h p =
     (let do_work = CanProcessRequest H h p \<or> quit_flag p in
      if \<not> quit_flag p \<and> do_work then ProcessRequest ContainsData H now h p else (h, p))"

definition StopThreads :: "'r RequestPool \<Rightarrow> 'r RequestPool" where
  "StopThreads p = p\<lparr>quit_flag := True\<rparr>"

text \<open>
  \<open>WaitRequestsFinished\<close> polls the pool; \<open>n_requests i\<close> is what the \<open>i\<close>-th poll sees.  Not
  returning is \<open>None\<close>; \<open>Some None\<close> is success.
\<close>

partial_function (option) wait_loop :: "(nat \<Rightarrow> u64) \<Rightarrow> u64 \<Rightarrow> u64 \<Rightarrow> nat \<Rightarrow> error option option" where
  "wait_loop n_requests tmo elapsed_ms i =
     (if n_requests i = 0 then Some None
      else if elapsed_ms \<ge> tmo then Some (Some (io_err IO_kTimeout []))
      else wait_loop n_requests tmo (elapsed_ms + 100) (Suc i))"

definition WaitRequestsFinished :: "(nat \<Rightarrow> u64) \<Rightarrow> u64 \<Rightarrow> error option option" where
  "WaitRequestsFinished n_requests tmo = wait_loop n_requests tmo 0 0"

section \<open>The pool with its clients and workers\<close>

text \<open>
  Requests between the two sections of \<open>ProcessRequest\<close> are \<open>in_flight\<close>; \<open>done\<close> are those that left
  the pool and \<open>added\<close> those that entered it, both only to state properties.  The environment
  says what the clients submit (\<open>submits\<close> with its priority), what a handler may turn a
  request into (\<open>outcome\<close>) and whether requests expire.
\<close>

record 'r pool_sys =
  pool :: "'r RequestPool"
  in_flight :: "'r list"
  dones :: "'r list"
  added :: "'r list"

record 'r pool_env =
  contains :: "'r \<Rightarrow> bool"
  submits :: "'r \<Rightarrow> bool \<Rightarrow> bool"
  submits_batch :: "'r list \<Rightarrow> bool"
  outcome :: "'r \<Rightarrow> 'r \<Rightarrow> bool"
  expires :: bool

inductive pool_step ::
    "'a GenericRequest_scheme pool_env \<Rightarrow> 'a GenericRequest_scheme pool_sys
     \<Rightarrow> 'a GenericRequest_scheme pool_sys \<Rightarrow> bool"
  for E :: "'a GenericRequest_scheme pool_env" where
  add: "submits E r prio \<Longrightarrow> AddRequest (contains E) r prio (pool s) = (None, p') \<Longrightarrow>
    pool_step E s (s\<lparr>pool := p', added := r # added s\<rparr>)"
| add_batch: "submits_batch E rs \<Longrightarrow> AddRequests (contains E) rs (pool s) = (None, p') \<Longrightarrow>
    pool_step E s (s\<lparr>pool := p', added := rs @ added s\<rparr>)"
| take_request: "request_queue (pool s) \<noteq> [] \<Longrightarrow> GetRequestFromQueue (pool s) = (r, p') \<Longrightarrow>
    \<not> TimedOut now r \<Longrightarrow>
    pool_step E s (s\<lparr>pool := begin_processing p', in_flight := r # in_flight s\<rparr>)"
| expire: "expires E \<Longrightarrow> request_queue (pool s) \<noteq> [] \<Longrightarrow> GetRequestFromQueue (pool s) = (r, p') \<Longrightarrow>
    TimedOut now r \<Longrightarrow> pool_step E s (s\<lparr>pool := p', dones := r # dones s\<rparr>)"
| finish: "in_flight s = xs @ r # ys \<Longrightarrow> outcome E r r' \<Longrightarrow>
    pool_step E s (s\<lparr>pool := end_processing (contains E) r' retry (pool s), in_flight := xs @ ys,
                     dones := (if retry then dones s else r' # dones s)\<rparr>)"

definition pool_sys_new :: "RequestPoolLimits \<Rightarrow> 'r pool_sys" where
  "pool_sys_new lim = \<lparr>pool = SetLimits lim RequestPool_new, in_flight = [], dones = [], added = []\<rparr>"

inductive pool_reachable ::
    "'a GenericRequest_scheme pool_env \<Rightarrow> RequestPoolLimits \<Rightarrow> 'a GenericRequest_scheme pool_sys \<Rightarrow> bool"
  for E :: "'a GenericRequest_scheme pool_env" and lim :: RequestPoolLimits where
  start: "pool_reachable E lim (pool_sys_new lim)"
| step: "pool_reachable E lim s \<Longrightarrow> pool_step E s s' \<Longrightarrow> pool_reachable E lim s'"

definition in_pool :: "'r pool_sys \<Rightarrow> 'r list" where
  "in_pool s = request_queue (pool s) @ in_flight s"

definition limits_ok :: "RequestPoolLimits \<Rightarrow> bool" where
  "limits_ok lim \<longleftrightarrow> 0 < max_requests lim \<and> unat (max_requests lim) < 2 ^ 63
     \<and> 0 < max_memory_mb lim \<and> unat (max_memory_mb lim) * 1000000 < 2 ^ 63"

definition bytes_of :: "('a GenericRequest_scheme \<Rightarrow> bool) \<Rightarrow> 'a GenericRequest_scheme list \<Rightarrow> nat" where
  "bytes_of C rs = sum_list (map (\<lambda>r. unat (contained_size C r)) rs)"

definition ordinary_clients :: "'a GenericRequest_scheme pool_env \<Rightarrow> bool" where
  "ordinary_clients E \<longleftrightarrow> \<not> expires E
     \<and> (\<forall>r prio. submits E r prio \<longrightarrow> \<not> prio \<and> bytes_of (contains E) [r] < 2 ^ 63)
     \<and> (\<forall>rs. submits_batch E rs \<longrightarrow> length rs < 2 ^ 63 \<and> bytes_of (contains E) rs < 2 ^ 63)"

definition within_limits ::
    "'a GenericRequest_scheme pool_env \<Rightarrow> RequestPoolLimits \<Rightarrow> 'a GenericRequest_scheme pool_sys \<Rightarrow> bool" where
  "within_limits E lim s \<longleftrightarrow> pool_limits (pool s) = lim
     \<and> length (in_pool s) \<le> unat (max_requests lim)
     \<and> bytes_of (contains E) (in_pool s) \<le> unat (max_memory_mb lim) * 1000000"

lemma emplace_all_front_rev: "emplace_all_front rs q = rev rs @ q"
  by (induction rs arbitrary: q) simp_all

lemma total_size_append [simp]: "total_size C (xs @ ys) = total_size C xs + total_size C ys"
  by (simp add: total_size_def)

lemma total_size_Cons [simp]: "total_size C (x # xs) = contained_size C x + total_size C xs"
  by (simp add: total_size_def)

lemma total_size_Nil [simp]: "total_size C [] = 0"
  by (simp add: total_size_def)

lemma total_size_rev [simp]: "total_size C (rev xs) = total_size C xs"
  by (induction xs) (simp_all add: add.commute)

lemma bytes_of_simps [simp]:
  "bytes_of C [] = 0" "bytes_of C (r # rs) = unat (contained_size C r) + bytes_of C rs"
  "bytes_of C (xs @ ys) = bytes_of C xs + bytes_of C ys" "bytes_of C (rev xs) = bytes_of C xs"
  by (simp_all add: bytes_of_def rev_map [symmetric])

lemma unat_total_size: "bytes_of C rs < 2 ^ 64 \<Longrightarrow> unat (total_size C rs) = bytes_of C rs"
proof (induction rs)
  case (Cons r rs)
  then have "unat (total_size C rs) = bytes_of C rs" by simp
  then show ?case using Cons.prems by (simp add: unat_add_no_wrap)
qed simp

lemma limit_bytes:
  assumes "limits_ok lim"
  shows "unat (max_memory_mb lim * 1000000) = unat (max_memory_mb lim) * 1000000"
  using assms by (simp add: limits_ok_def unat_word_ariths)

lemma CanAddRequest_limits:
  assumes none: "CanAddRequest C r False p = None" and lim: "pool_limits p = lim" "limits_ok lim"
    and n: "requests_in_progress p = of_nat k" "length (request_queue p) + k \<le> unat (max_requests lim)"
    and mem: "unat (memory_used p) = b" "b \<le> unat (max_memory_mb lim) * 1000000" "bytes_of C [r] < 2 ^ 63"
  shows "length (request_queue p) + k < unat (max_requests lim)"
    and "b + bytes_of C [r] \<le> unat (max_memory_mb lim) * 1000000"
proof -
  have pos: "0 < max_requests lim" "0 < max_memory_mb lim"
    and bnd: "unat (max_requests lim) < 2 ^ 63" "unat (max_memory_mb lim) * 1000000 < 2 ^ 63"
    using lim(2) by (simp_all add: limits_ok_def)
  have "NRequestsInPoolWithoutLock p = of_nat (length (request_queue p) + k)"
    using n by (simp add: NRequestsInPoolWithoutLock_def)
  moreover have "NRequestsInPoolWithoutLock p < max_requests lim"
    using none lim(1) pos by (simp add: CanAddRequest_def not_le split: if_splits)
  ultimately show "length (request_queue p) + k < unat (max_requests lim)"
    using n(2) bnd unat_of_nat64 [of "length (request_queue p) + k"] by (simp add: word_less_nat_alt)
  show "b + bytes_of C [r] \<le> unat (max_memory_mb lim) * 1000000"
  proof (cases "C r")
    case True
    then have "memory_used p + data_size (header r) \<le> max_memory_mb lim * 1000000"
      using none lim(1) pos by (auto simp: CanAddRequest_def not_less split: if_splits)
    then have "unat (memory_used p + contained_size C r) \<le> unat (max_memory_mb lim) * 1000000"
      using True limit_bytes [OF lim(2)] by (simp add: contained_size_def word_le_nat_alt)
    then show ?thesis using mem bnd by (simp add: unat_add_no_wrap)
  next
    case False
    then show ?thesis using mem by (simp add: contained_size_def)
  qed
qed

lemma CanAddRequests_limits:
  assumes none: "CanAddRequests C rs p = None" and lim: "pool_limits p = lim" "limits_ok lim"
    and n: "requests_in_progress p = of_nat k" "length (request_queue p) + k \<le> unat (max_requests lim)"
      "length rs < 2 ^ 63"
    and mem: "unat (memory_used p) = b" "b \<le> unat (max_memory_mb lim) * 1000000" "bytes_of C rs < 2 ^ 63"
  shows "length (request_queue p) + k + length rs \<le> unat (max_requests lim)"
    and "b + bytes_of C rs \<le> unat (max_memory_mb lim) * 1000000"
proof -
  have pos: "0 < max_requests lim" "0 < max_memory_mb lim"
    and bnd: "unat (max_requests lim) < 2 ^ 63" "unat (max_memory_mb lim) * 1000000 < 2 ^ 63"
    using lim(2) by (simp_all add: limits_ok_def)
  have "NRequestsInPoolWithoutLock p + of_nat (length rs) = of_nat (length (request_queue p) + k + length rs)"
    using n by (simp add: NRequestsInPoolWithoutLock_def)
  moreover have "NRequestsInPoolWithoutLock p + of_nat (length rs) \<le> max_requests lim"
    using none lim(1) pos by (simp add: CanAddRequests_def not_less split: if_splits)
  ultimately show "length (request_queue p) + k + length rs \<le> unat (max_requests lim)"
    using n bnd unat_of_nat64 [of "length (request_queue p) + k + length rs"] by (simp add: word_le_nat_alt)
  have "memory_used p + total_size C rs \<le> max_memory_mb lim * 1000000"
    using none lim(1) pos by (auto simp: CanAddRequests_def not_less split: if_splits)
  then have "unat (memory_used p + total_size C rs) \<le> unat (max_memory_mb lim) * 1000000"
    using limit_bytes [OF lim(2)] by (simp add: word_le_nat_alt)
  then show "b + bytes_of C rs \<le> unat (max_memory_mb lim) * 1000000"
    using mem bnd by (simp add: unat_add_no_wrap unat_total_size)
qed

lemma AddRequest_cases:
  assumes "AddRequest C r prio p = (None, p')"
  shows "CanAddRequest C r prio p = None"
    and "memory_used p' = memory_used p + contained_size C r"
    and "request_queue p' = (if prio then r # request_queue p else request_queue p @ [r])"
    and "requests_in_progress p' = requests_in_progress p" and "pool_limits p' = pool_limits p"
  using assms by (auto simp: AddRequest_def contained_size_def Let_def split: option.splits if_splits)

lemma AddRequests_cases:
  assumes "AddRequests C rs p = (None, p')"
  shows "CanAddRequests C rs p = None"
    and "memory_used p' = memory_used p + total_size C rs"
    and "request_queue p' = rev rs @ request_queue p"
    and "requests_in_progress p' = requests_in_progress p" and "pool_limits p' = pool_limits p"
  using assms by (auto simp: AddRequests_def emplace_all_front_rev split: option.splits)

lemma GetRequestFromQueue_cases:
  assumes "GetRequestFromQueue p = (r, p')" and "request_queue p \<noteq> []"
  shows "request_queue p = r # request_queue p'" and "memory_used p' = memory_used p"
    and "requests_in_progress p' = requests_in_progress p" and "pool_limits p' = pool_limits p"
  using assms by (auto simp: GetRequestFromQueue_def)

text \<open>
  What the accounting needs of a handler: it does not change whether a request carries its data,
  nor how much; \<open>key\<close> is whatever identifies a request.
\<close>

locale accounted_requests =
  fixes E :: "'a GenericRequest_scheme pool_env" and key :: "'a GenericRequest_scheme \<Rightarrow> 'k"
  assumes outcome_size: "outcome E r r' \<Longrightarrow> contained_size (contains E) r' = contained_size (contains E) r"
    and outcome_key: "outcome E r r' \<Longrightarrow> key r' = key r"
    and retry_contains: "contains E (IncreaseRetryCounter r) = contains E r"
    and retry_key: "key (IncreaseRetryCounter r) = key r"
begin

lemma retry_size: "contained_size (contains E) (IncreaseRetryCounter r) = contained_size (contains E) r"
  by (simp add: contained_size_def retry_contains) (simp add: IncreaseRetryCounter_def)

lemma end_processing_simps:
  "request_queue (end_processing (contains E) r retry p)
     = (if retry then IncreaseRetryCounter r # request_queue p else request_queue p)"
  "memory_used (end_processing (contains E) r retry p)
     = (if retry then memory_used p else memory_used p - contained_size (contains E) r)"
  "requests_in_progress (end_processing (contains E) r retry p) = requests_in_progress p - 1"
  "pool_limits (end_processing (contains E) r retry p) = pool_limits p"
  by (simp_all add: end_processing_def PutRequestBackToQueue_def contained_size_def Let_def)

text \<open>The counters agree with the requests, as 64 bit numbers.\<close>

lemma accounting_step:
  assumes "pool_step E s s'" and "\<not> expires E"
    and "requests_in_progress (pool s) = of_nat (length (in_flight s))
      \<and> memory_used (pool s) = total_size (contains E) (in_pool s)"
  shows "requests_in_progress (pool s') = of_nat (length (in_flight s'))
      \<and> memory_used (pool s') = total_size (contains E) (in_pool s')"
  using assms(1)
proof cases
  case (add r prio p')
  then show ?thesis using assms by (simp add: in_pool_def AddRequest_cases [OF add(3)])
next
  case (add_batch rs p')
  then show ?thesis using assms by (simp add: in_pool_def AddRequests_cases [OF add_batch(3)])
next
  case (take_request r p' now)
  then show ?thesis
    using assms by (simp add: in_pool_def begin_processing_def GetRequestFromQueue_cases [OF take_request(3,2)])
next
  case (finish xs r ys r' retry)
  then show ?thesis
    using assms by (simp add: in_pool_def end_processing_simps outcome_size retry_size)
qed (use assms in simp)

text \<open>No request is lost or processed twice.\<close>

lemma conservation_step:
  assumes "pool_step E s s'"
    and "mset (map key (in_pool s @ dones s)) = mset (map key (added s))"
  shows "mset (map key (in_pool s' @ dones s')) = mset (map key (added s'))"
  using assms(1)
proof cases
  case (add r prio p')
  then show ?thesis using assms by (simp add: in_pool_def AddRequest_cases [OF add(3)])
next
  case (add_batch rs p')
  then show ?thesis using assms by (simp add: in_pool_def AddRequests_cases [OF add_batch(3)])
next
  case (take_request r p' now)
  then show ?thesis
    using assms by (simp add: in_pool_def begin_processing_def GetRequestFromQueue_cases(1) [OF take_request(3,2)])
next
  case (expire r p' now)
  then show ?thesis using assms by (simp add: in_pool_def GetRequestFromQueue_cases(1) [OF expire(4,3)])
next
  case (finish xs r ys r' retry)
  then show ?thesis using assms by (simp add: in_pool_def end_processing_simps outcome_key retry_key)
qed

lemma limits_step:
  assumes "pool_step E s s'" and cl: "ordinary_clients E" and lim: "limits_ok lim"
    and acc: "requests_in_progress (pool s) = of_nat (length (in_flight s))"
      "memory_used (pool s) = total_size (contains E) (in_pool s)"
    and within: "within_limits E lim s"
  shows "within_limits E lim s'"
proof -
  have w: "pool_limits (pool s) = lim"
    "length (request_queue (pool s)) + length (in_flight s) \<le> unat (max_requests lim)"
    "bytes_of (contains E) (in_pool s) \<le> unat (max_memory_mb lim) * 1000000"
    using within by (simp_all add: within_limits_def in_pool_def)
  then have mem: "unat (memory_used (pool s)) = bytes_of (contains E) (in_pool s)"
    using acc(2) lim by (simp add: unat_total_size limits_ok_def)
  show ?thesis
    using assms(1)
  proof cases
    case (add r prio p')
    then have prio: "prio = False" and small: "bytes_of (contains E) [r] < 2 ^ 63"
      using cl by (auto simp: ordinary_clients_def)
    note a = AddRequest_cases [OF add(3) [unfolded prio]]
    show ?thesis
      using CanAddRequest_limits [OF a(1) w(1) lim acc(1) w(2) mem w(3) small] a(3,5) add(1) w(1)
      by (simp add: within_limits_def in_pool_def)
  next
    case (add_batch rs p')
    then have small: "length rs < 2 ^ 63" "bytes_of (contains E) rs < 2 ^ 63"
      using cl by (auto simp: ordinary_clients_def)
    note a = AddRequests_cases [OF add_batch(3)]
    show ?thesis
      using CanAddRequests_limits [OF a(1) w(1) lim acc(1) w(2) small(1) mem w(3) small(2)] a(3,5)
        add_batch(1) w(1)
      by (simp add: within_limits_def in_pool_def)
  next
    case (take_request r p' now)
    then show ?thesis
      using w by (simp add: within_limits_def in_pool_def begin_processing_def
          GetRequestFromQueue_cases [OF take_request(3,2)])
  next
    case (finish xs r ys r' retry)
    then show ?thesis
      using w by (simp add: within_limits_def in_pool_def end_processing_simps outcome_size retry_size)
  qed (use cl in \<open>simp add: ordinary_clients_def\<close>)
qed

text \<open>The three invariants in every reachable state.\<close>

lemma accounting_reachable:
  assumes "pool_reachable E lim s" and "\<not> expires E"
  shows "requests_in_progress (pool s) = of_nat (length (in_flight s))
      \<and> memory_used (pool s) = total_size (contains E) (in_pool s)"
  using assms
proof (induction rule: pool_reachable.induct)
  case start
  then show ?case by (simp add: pool_sys_new_def SetLimits_def RequestPool_new_def in_pool_def)
next
  case (step s s')
  then show ?case using accounting_step by blast
qed

lemma conservation_reachable:
  "pool_reachable E lim s \<Longrightarrow> mset (map key (in_pool s @ dones s)) = mset (map key (added s))"
proof (induction rule: pool_reachable.induct)
  case start
  then show ?case by (simp add: pool_sys_new_def SetLimits_def RequestPool_new_def in_pool_def)
next
  case (step s s')
  then show ?case using conservation_step by blast
qed

lemma limits_reachable:
  assumes "pool_reachable E lim s" and cl: "ordinary_clients E" and lim: "limits_ok lim"
  shows "within_limits E lim s"
  using assms(1)
proof (induction rule: pool_reachable.induct)
  case start
  then show ?case
    by (simp add: within_limits_def pool_sys_new_def SetLimits_def RequestPool_new_def in_pool_def)
next
  case (step s s')
  have "\<not> expires E" using cl by (simp add: ordinary_clients_def)
  then show ?case
    using limits_step [OF step.hyps(2) cl lim] accounting_reachable [OF step.hyps(1)] step.IH by blast
qed

end

section \<open>Waiting for the pool\<close>

lemma wait_loop_result:
  assumes K: "K = (unat tmo + 99) div 100" "unat tmo + 100 \<le> 2 ^ 64" and "i \<le> K"
  shows "wait_loop n tmo (of_nat (100 * i)) i =
    Some (if \<exists>j. i \<le> j \<and> j \<le> K \<and> n j = 0 then None else Some (io_err IO_kTimeout []))"
  using assms(3)
proof (induction "K - i" arbitrary: i)
  case 0
  have "unat tmo \<le> 100 * K" "100 * K < 2 ^ 64" using K by simp_all
  then have "tmo \<le> of_nat (100 * K)" using unat_of_nat64 [of "100 * K"] by (simp add: word_le_nat_alt)
  moreover have "i = K" using 0 by simp
  ultimately show ?case by (subst wait_loop.simps) auto
next
  case (Suc m)
  have less: "100 * i < unat tmo" "100 * i < 2 ^ 64" using Suc K by simp_all
  then have more: "\<not> tmo \<le> of_nat (100 * i)" using unat_of_nat64 [of "100 * i"] by (simp add: word_le_nat_alt)
  have split: "(\<exists>j. i \<le> j \<and> j \<le> K \<and> n j = 0) \<longleftrightarrow> n i = 0 \<or> (\<exists>j. Suc i \<le> j \<and> j \<le> K \<and> n j = 0)"
  proof -
    have "i \<le> j \<longleftrightarrow> j = i \<or> Suc i \<le> j" for j by auto
    then show ?thesis using Suc.prems by auto
  qed
  have "of_nat (100 * i) + 100 = (of_nat (100 * Suc i) :: u64)" by simp
  moreover have "m = K - Suc i" "Suc i \<le> K" using Suc.hyps(2) by simp_all
  ultimately have rec: "wait_loop n tmo (of_nat (100 * i) + 100) (Suc i) =
      Some (if \<exists>j. Suc i \<le> j \<and> j \<le> K \<and> n j = 0 then None else Some (io_err IO_kTimeout []))"
    using Suc.hyps(1) [of "Suc i"] by (simp only:)
  show ?case
  proof (cases "n i = 0")
    case True
    then show ?thesis using Suc.prems by (subst wait_loop.simps) auto
  next
    case False
    then show ?thesis using more rec split by (subst wait_loop.simps) simp
  qed
qed

section \<open>Properties\<close>

text \<open>
  C37. \<open>WaitRequestsFinished\<close> always returns, for a timeout that is not within 100 ms of the
  largest 64 bit number: it succeeds exactly when one of its polls, one every 100 ms up to the
  timeout, finds the pool empty, and reports a timeout otherwise.
\<close>
theorem wait_requests_finished_returns:
  assumes "unat tmo + 100 \<le> 2 ^ 64"
  shows "WaitRequestsFinished n tmo =
    Some (if \<exists>j \<le> (unat tmo + 99) div 100. n j = 0 then None else Some (io_err IO_kTimeout []))"
  using wait_loop_result [OF refl assms, of 0 n] by (simp add: WaitRequestsFinished_def)

theorem wait_requests_finished_returns_witness:
  "WaitRequestsFinished (\<lambda>i. if i < 3 then 1 else 0) 250 = Some None
   \<and> WaitRequestsFinished (\<lambda>i. 1) 250 = Some (Some (io_err IO_kTimeout []))"
proof -
  have "\<exists>j \<le> 3. (if j < (3 :: nat) then 1 else 0 :: u64) = 0" by (rule exI [of _ 3]) simp
  then show ?thesis
    using wait_requests_finished_returns [of 250 "\<lambda>i. if i < 3 then 1 else 0"]
      wait_requests_finished_returns [of 250 "\<lambda>i. 1"] by simp
qed

text \<open>
  A request that timed out in the queue is dropped after its handler was told, but the
  memory it was accounted for is not given back: the used memory stays what it was although the
  request is gone, so with a memory limit the pool fills up for good.
\<close>
theorem timed_out_request_keeps_memory:
  assumes "request_queue p = r # q" and "TimedOut now r"
    and "memory_used p = total_size C (r # q)"
  shows "ProcessRequest C H now h p = (ProcessRequestTimeoutUnlocked H r h, p\<lparr>request_queue := q\<rparr>)
    \<and> memory_used (snd (ProcessRequest C H now h p))
      = total_size C (request_queue (snd (ProcessRequest C H now h p))) + contained_size C r"
  using assms by (simp add: ProcessRequest_def GetRequestFromQueue_def)

definition demo_request :: "u64 \<Rightarrow> u64 \<Rightarrow> GenericRequest" where
  "demo_request n tmo = \<lparr>header = GenericRequestHeader_new [0, 0, 0] kOpcodeTransferData 1 n 0 [] [],
     retry_counter = 0, timeout_ms = tmo, created_at = 0\<rparr>"

theorem timed_out_request_keeps_memory_witness:
  "TimedOut 9000000 (demo_request 100 5)
   \<and> memory_used (snd (ProcessRequest (\<lambda>r. True)
       \<lparr>PrepareProcessingRequestLocked = \<lambda>h. h, TearDownProcessingRequestLocked = \<lambda>ok h. h,
        ProcessRequestUnlocked = \<lambda>r h. ((True, False), r, h),
        ProcessRequestTimeoutUnlocked = \<lambda>r h. h, ReadyProcessRequest = \<lambda>h. True\<rparr> 9000000 ()
       (RequestPool_new\<lparr>request_queue := [demo_request 100 5], memory_used := 100\<rparr>))) = 100"
proof -
  let ?r = "demo_request 100 5" and ?p = "RequestPool_new\<lparr>request_queue := [demo_request 100 5], memory_used := 100\<rparr>"
  have size: "contained_size (\<lambda>r. True) ?r = 100"
    by (simp add: contained_size_def demo_request_def GenericRequestHeader_new_def)
  have t: "TimedOut 9000000 ?r" by (simp add: TimedOut_def demo_request_def millis_between_def)
  have q: "request_queue ?p = ?r # []" and m: "memory_used ?p = total_size (\<lambda>r. True) (?r # [])"
    by (simp_all add: size)
  have "ProcessRequest (\<lambda>r. True) H 9000000 () ?p = (ProcessRequestTimeoutUnlocked H ?r (), ?p\<lparr>request_queue := []\<rparr>)"
    for H :: "(GenericRequest, unit) RequestHandler"
    by (rule timed_out_request_keeps_memory [OF q t m, THEN conjunct1])
  then show ?thesis using t by simp
qed

lemma priority_adds:
  "fold (\<lambda>r q. snd (AddRequest C r True q)) rs p =
     p\<lparr>request_queue := rev rs @ request_queue p, memory_used := memory_used p + total_size C rs\<rparr>"
  by (induction rs arbitrary: p) (simp_all add: AddRequest_def CanAddRequest_def contained_size_def Let_def add.assoc)

text \<open>
  C33. Adding a batch is adding its requests one after the other with priority: when \<open>AddRequests\<close>
  accepts a batch, the pool is the one that \<open>AddRequest\<close> makes of the same requests, so the last
  request of the batch is the first to be processed.  For one request with data the two tests of
  the limits agree as well, unless the number of requests is the largest number there is.
\<close>

theorem batch_is_repeated_priority_add:
  "(fst (AddRequests C rs p) = None \<longrightarrow>
      snd (AddRequests C rs p) = fold (\<lambda>r q. snd (AddRequest C r True q)) rs p
      \<and> request_queue (snd (AddRequests C rs p)) = rev rs @ request_queue p)
   \<and> (C r \<and> NRequestsInPoolWithoutLock p \<noteq> - 1 \<longrightarrow> CanAddRequests C [r] p = CanAddRequest C r False p)"
proof (intro conjI impI)
  assume "fst (AddRequests C rs p) = None"
  then show "snd (AddRequests C rs p) = fold (\<lambda>r q. snd (AddRequest C r True q)) rs p"
    and "request_queue (snd (AddRequests C rs p)) = rev rs @ request_queue p"
    by (auto simp: AddRequests_def priority_adds emplace_all_front_rev split: option.splits)
next
  assume a: "C r \<and> NRequestsInPoolWithoutLock p \<noteq> - 1"
  then have "1 + NRequestsInPoolWithoutLock p \<noteq> 0" by (metis add.commute eq_neg_iff_add_eq_0)
  from unatSuc [OF this] have "m < NRequestsInPoolWithoutLock p + 1 \<longleftrightarrow> m \<le> NRequestsInPoolWithoutLock p" for m
    by (simp add: word_less_nat_alt word_le_nat_alt add.commute less_Suc_eq_le)
  then show "CanAddRequests C [r] p = CanAddRequest C r False p"
    using a by (auto simp: CanAddRequests_def CanAddRequest_def contained_size_def word_neq_0_conv)
qed

theorem batch_is_repeated_priority_add_witness:
  "request_queue (snd (AddRequests (\<lambda>r. True) [demo_request 100 5, demo_request 200 5] RequestPool_new)) = [demo_request 200 5, demo_request 100 5]
   \<and> CanAddRequests (\<lambda>r. True) [demo_request 100 5] RequestPool_new = CanAddRequest (\<lambda>r. True) (demo_request 100 5) False RequestPool_new"
proof -
  let ?p = "RequestPool_new :: GenericRequest RequestPool" and ?rs = "[demo_request 100 5, demo_request 200 5]"
  have h: "fst (AddRequests (\<lambda>r. True) ?rs ?p) = None" "NRequestsInPoolWithoutLock ?p \<noteq> - 1" "request_queue ?p = []"
    by (simp_all add: AddRequests_def CanAddRequests_def RequestPool_new_def NRequestsInPoolWithoutLock_def)
  note b = batch_is_repeated_priority_add [of "\<lambda>r. True" ?rs ?p "demo_request 100 5"]
  have "request_queue (snd (AddRequests (\<lambda>r. True) ?rs ?p)) = rev ?rs" using b h by (metis append_Nil2)
  then show ?thesis using b h(2) by simp
qed

end
