(* ===== verification/Producer_Request.thy ===== *)
theory Producer_Request
  imports Data_Structs Request_Pool
begin

text \<open>
  The requests of a producer (\<open>producer/api/cpp/src/producer_request.{h,cpp}\<close>), the discovery of
  receivers (\<open>receiver_discovery_service.cpp\<close>) and the request handler that writes to a local
  file system (\<open>request_handler_filesystem.cpp\<close>).

  The data of a message is \<open>None\<close> for a null pointer.  A callback is user code: it is a number,
  and the handler states record the calls that were made in \<open>cb_log\<close>.
\<close>

record RequestCallbackPayload =
  original_header :: GenericRequestHeader
  cb_data :: "string option"
  cb_response :: string

type_synonym callback_call = "nat \<times> RequestCallbackPayload \<times> error option"

record ProducerRequest = GenericRequest +
  source_credentials :: string
  user_metadata :: string
  msg_data :: "string option"
  original_filepath :: string
  callback :: "nat option"
  manage_data_memory :: bool

text \<open>\<open>strcpy\<close> into a buffer that is large enough: the bytes after the terminator stay.\<close>

definition strcpy_into :: "string \<Rightarrow> string \<Rightarrow> string" where
  "strcpy_into s buf = c_str s @ NUL # drop (length (c_str s) + 1) buf"

text \<open>\<open>version\<close> is the receiver version of the producer protocol, a constant of the build.\<close>

definition ProducerRequest_new ::
    "string \<Rightarrow> string \<Rightarrow> GenericRequestHeader \<Rightarrow> string option \<Rightarrow> string \<Rightarrow> string \<Rightarrow> nat option \<Rightarrow> bool \<Rightarrow> u64 \<Rightarrow> int
      \<Rightarrow> ProducerRequest" where
  "ProducerRequest_new version creds h d md path cb manage tmo now =
     (let h1 = copy_header h in
      \<lparr>header = h1\<lparr>api_version := strcpy_into (if length version < kMaxVersionSize then version else ''v0.0'') (api_version h1)\<rparr>,
       retry_counter = 0, timeout_ms = tmo, created_at = now,
       source_credentials = creds, user_metadata = md, msg_data = d, original_filepath = path, callback = cb,
       manage_data_memory = manage\<rparr>)"

definition NeedSend :: "'a ProducerRequest_scheme \<Rightarrow> bool" where
  "NeedSend r =
     (if op_code (header r) = kOpcodeTransferData \<or> op_code (header r) = kOpcodeTransferDatasetData
      then has_flag (custom_param kPosIngestMode (header r)) kTransferData else True)"

definition NeedSendMetaData :: "'a ProducerRequest_scheme \<Rightarrow> bool" where
  "NeedSendMetaData r \<longleftrightarrow> meta_size (header r) > 0"

definition DataFromFile :: "'a ProducerRequest_scheme \<Rightarrow> bool" where
  "DataFromFile r = (if msg_data r \<noteq> None \<or> original_filepath r = [] \<or> \<not> NeedSend r then False else True)"

definition ContainsData :: "'a ProducerRequest_scheme \<Rightarrow> bool" where
  "ContainsData r \<longleftrightarrow> \<not> DataFromFile r"

section \<open>Discovery of receivers\<close>

record ReceiverDiscoveryService =
  max_connections :: u64
  uri_list :: "string list"
  update_frequency_ms :: u64

definition ReceiverDiscoveryService_new :: "u64 \<Rightarrow> ReceiverDiscoveryService" where
  "ReceiverDiscoveryService_new freq = \<lparr>max_connections = 1, uri_list = [], update_frequency_ms = freq\<rparr>"

definition Discovery_ParseResponse ::
    "rapidjson_lib \<Rightarrow> string \<Rightarrow> string list \<Rightarrow> u64 \<Rightarrow> error option \<times> string list \<times> u64" where
  "Discovery_ParseResponse L response uris n =
     (let p = JsonStringParser L response;
          (err, uris1) = GetArrayString ''Uris'' uris p in
      case err of
        Some e \<Rightarrow> (Some e, uris1, n)
      | None \<Rightarrow> (let (err2, n1) = GetUInt64 ''MaxConnections'' n p in (err2, uris1, n1)))"

text \<open>The answer of the HTTP client is a text, a status code and an error.\<close>

definition UpdateFromEndpoint ::
    "rapidjson_lib \<Rightarrow> string \<times> nat \<times> error option \<Rightarrow> string list \<Rightarrow> u64 \<Rightarrow> error option \<times> string list \<times> u64" where
  "UpdateFromEndpoint L answer uris n =
     (case answer of (response, code, err) \<Rightarrow>
        (case err of
           Some e \<Rightarrow> (Some e, uris, n)
         | None \<Rightarrow>
             (if code \<noteq> 200 then (Some (gen_err kSimpleError response), uris, n)
              else Discovery_ParseResponse L response uris n)))"

text \<open>
  One turn of the update thread with what the endpoint answered.  \<open>n0\<close> is the contents of the
  uninitialised local variable.
\<close>

definition Discovery_turn ::
    "rapidjson_lib \<Rightarrow> u64 \<Rightarrow> string \<times> nat \<times> error option \<Rightarrow> ReceiverDiscoveryService \<Rightarrow> ReceiverDiscoveryService" where
  "Discovery_turn L n0 answer d =
     (case UpdateFromEndpoint L answer [] n0 of
        (Some e, uris, n) \<Rightarrow> d
      | (None, uris, n) \<Rightarrow> d\<lparr>max_connections := n, uri_list := uris\<rparr>)"

definition RotatedUriList :: "u64 \<Rightarrow> ReceiverDiscoveryService \<Rightarrow> string list" where
  "RotatedUriList nthread d =
     (let sz = length (uri_list d) in
      if sz = 0 then []
      else rotate_left (unat (ucast (nthread mod of_nat sz) :: u32)) (uri_list d))"

section \<open>The file system handler\<close>

record 'w filesystem_io =
  fio_GetDataFromFile :: "string \<Rightarrow> u64 \<Rightarrow> 'w \<Rightarrow> (string \<times> u64 \<times> error option) \<times> 'w"
  fio_WriteDataToFile :: "string \<Rightarrow> string \<Rightarrow> string option \<Rightarrow> u64 \<Rightarrow> bool \<Rightarrow> bool \<Rightarrow> 'w \<Rightarrow> error option \<times> 'w"

record 'w filesystem_handler =
  fh_world :: 'w
  destination_folder :: string
  fh_cb_log :: "callback_call list"

definition call_callback ::
    "'a ProducerRequest_scheme \<Rightarrow> string option \<Rightarrow> string \<Rightarrow> error option \<Rightarrow> callback_call list \<Rightarrow> callback_call list" where
  "call_callback r d response err log =
     (case callback r of
        None \<Rightarrow> log
      | Some cb \<Rightarrow> log @ [(cb, \<lparr>original_header = copy_header (header r), cb_data = d, cb_response = response\<rparr>, err)])"

text \<open>
  The callback takes the data away.  A file that cannot be read leaves the size as the reader set
  it.
\<close>

definition Filesystem_ProcessRequestUnlocked ::
    "'w filesystem_io \<Rightarrow> ProducerRequest \<Rightarrow> 'w filesystem_handler \<Rightarrow> (bool \<times> bool) \<times> ProducerRequest \<times> 'w filesystem_handler" where
  "Filesystem_ProcessRequestUnlocked F r h =
     (let write = (\<lambda>r1 h1.
            (let (err, w) = fio_WriteDataToFile F (destination_folder h1) (message_str (header r1)) (msg_data r1)
                              (data_size (header r1)) True True (fh_world h1);
                 h2 = h1\<lparr>fh_world := w, fh_cb_log := call_callback r1 (msg_data r1) [] err (fh_cb_log h1)\<rparr>;
                 r2 = (if callback r1 = None then r1 else r1\<lparr>msg_data := None\<rparr>) in
             ((True, False), r2, h2))) in
      if DataFromFile r then
        (let ((d, n, err), w) = fio_GetDataFromFile F (original_filepath r) (data_size (header r)) (fh_world h);
             r1 = r\<lparr>header := (header r)\<lparr>data_size := n\<rparr>\<rparr>;
             h1 = h\<lparr>fh_world := w\<rparr> in
         if err \<noteq> None then ((False, True), r1\<lparr>msg_data := None\<rparr>, h1)
         else write (r1\<lparr>msg_data := Some d\<rparr>) h1)
      else write r h)"

definition filesystem_request_handler :: "'w filesystem_io \<Rightarrow> (ProducerRequest, 'w filesystem_handler) RequestHandler" where
  "filesystem_request_handler F =
     \<lparr>PrepareProcessingRequestLocked = (\<lambda>h. h), TearDownProcessingRequestLocked = (\<lambda>ok h. h),
      ProcessRequestUnlocked = Filesystem_ProcessRequestUnlocked F,
      ProcessRequestTimeoutUnlocked = (\<lambda>r h. h), ReadyProcessRequest = (\<lambda>h. True)\<rparr>"

section \<open>Properties\<close>

lemma rotation_index:
  assumes "0 < n" and "n < 2 ^ 32"
  shows "unat (ucast ((i :: u64) mod of_nat n) :: u32) = unat i mod n"
proof -
  have "unat (of_nat n :: u64) = n" using assms by (simp add: unat_of_nat64)
  then have "unat (i mod of_nat n) = unat i mod n" by (simp add: unat_mod)
  moreover have "unat i mod n < 2 ^ 32" using assms mod_less_divisor [of n "unat i"] by linarith
  ultimately show ?thesis by (simp add: unsigned_ucast_eq take_bit_nat_eq_self)
qed

text \<open>
  Every thread of a producer may use every receiver and the threads start with different
  ones: the rotated list has the receivers that the discovery service knows, each as often as
  there, and begins with the receiver whose index is the thread number modulo the number of
  receivers.
\<close>
theorem rotated_list_balances:
  assumes "uri_list d \<noteq> []" and "length (uri_list d) < 2 ^ 32"
  shows "mset (RotatedUriList i d) = mset (uri_list d)
    \<and> hd (RotatedUriList i d) = uri_list d ! (unat i mod length (uri_list d))"
proof -
  let ?n = "length (uri_list d)" and ?k = "unat i mod length (uri_list d)"
  have k: "?k < ?n" using assms(1) by simp
  have eq: "RotatedUriList i d = drop ?k (uri_list d) @ take ?k (uri_list d)"
    using assms rotation_index [of ?n i] by (simp add: RotatedUriList_def rotate_left_def Let_def)
  have "mset (drop ?k (uri_list d)) + mset (take ?k (uri_list d)) = mset (take ?k (uri_list d) @ drop ?k (uri_list d))"
    by (simp only: mset_append add.commute)
  then show ?thesis using k by (simp add: eq hd_append hd_drop_conv_nth del: mset_append) (simp only: append_take_drop_id mset_append)
qed

theorem rotated_list_balances_witness:
  "hd (RotatedUriList 4 \<lparr>max_connections = 1, uri_list = [''a'', ''b'', ''c''], update_frequency_ms = 0\<rparr>) = ''b''"
  using rotated_list_balances [of "\<lparr>max_connections = 1, uri_list = [''a'', ''b'', ''c''], update_frequency_ms = 0\<rparr>" 4]
  by simp

text \<open>
  Without a callback the file system handler breaks the accounting of the pool.  It loads
  the file into the request, which then counts as carrying data, and with no callback to hand the
  data to, its size is subtracted from memory that never included it: the 64-bit counter of an
  otherwise empty pool wraps around.
\<close>
theorem filesystem_handler_wraps_memory:
  assumes "DataFromFile r" and "callback r = None" and "\<not> TimedOut now r"
    and "fio_GetDataFromFile F (original_filepath r) (data_size (header r)) (fh_world h) = ((d, n, None), w)"
  shows "memory_used (snd (ProcessRequest ContainsData (filesystem_request_handler F) now h
      (RequestPool_new\<lparr>request_queue := [r]\<rparr>))) = - n"
proof -
  let ?r = "r\<lparr>header := (header r)\<lparr>data_size := n\<rparr>, msg_data := Some d\<rparr>"
  obtain h' where "Filesystem_ProcessRequestUnlocked F r h = ((True, False), ?r, h')"
    using assms
    by (cases "fio_WriteDataToFile F (destination_folder h) (message_str ((header r)\<lparr>data_size := n\<rparr>)) (Some d) n True True w")
      (simp add: Filesystem_ProcessRequestUnlocked_def Let_def)
  moreover have "ContainsData ?r" "data_size (header ?r) = n" by (simp_all add: ContainsData_def DataFromFile_def)
  ultimately show ?thesis
    using assms(3)
    by (simp add: ProcessRequest_def GetRequestFromQueue_def filesystem_request_handler_def begin_processing_def
        end_processing_def RequestPool_new_def Let_def)
qed

theorem filesystem_handler_wraps_memory_witness:
  "\<exists>r. DataFromFile r \<and> memory_used (snd (ProcessRequest ContainsData (filesystem_request_handler
     \<lparr>fio_GetDataFromFile = (\<lambda>f n w. ((''abc'', 3, None), w)), fio_WriteDataToFile = (\<lambda>a b c d e f w. (None, w))\<rparr>) 0
     \<lparr>fh_world = (), destination_folder = ''/d'', fh_cb_log = []\<rparr> (RequestPool_new\<lparr>request_queue := [r]\<rparr>))) = - 3"
proof -
  let ?F = "\<lparr>fio_GetDataFromFile = (\<lambda>f n w. ((''abc'', 3, None), w)), fio_WriteDataToFile = (\<lambda>a b c d e f w. (None, w))\<rparr>"
  let ?h = "\<lparr>fh_world = (), destination_folder = ''/d'', fh_cb_log = []\<rparr>"
  let ?r = "ProducerRequest_new ''v0.6'' [] (GenericRequestHeader_new [13, 0, 0] kOpcodeTransferData 1 0 0 ''f'' ''s'')
     None [] ''/x'' None True 0 0"
  have "DataFromFile ?r" "callback ?r = None" "\<not> TimedOut 0 ?r"
    by (simp_all add: ProducerRequest_new_def DataFromFile_def NeedSend_def copy_header_def GenericRequestHeader_new_def
        custom_param_def has_flag_def kTransferData_def TimedOut_def Let_def)
  then show ?thesis
    using filesystem_handler_wraps_memory [of ?r 0 ?F ?h "''abc''" 3 "()"] by (intro exI [of _ ?r]) simp
qed

end
