(* ===== verification/Producer_Tcp.thy ===== *)
theory Producer_Tcp
  imports Producer_Request
begin

text \<open>
  The request handler of a producer thread that sends requests to the receivers
  (\<open>producer/api/cpp/src/request_handler_tcp.{h,cpp}\<close>).  The counter of open connections and the
  discovery service are shared by the threads; a thread touches them only while it holds the
  mutex of the pool or of the service, so they are part of the state of the handler here.
\<close>

record 'w producer_io =
  pio_CreateAndConnectIPTCPSocket :: "string \<Rightarrow> 'w \<Rightarrow> (int \<times> error option) \<times> 'w"
  pio_SendHeader :: "int \<Rightarrow> GenericRequestHeader \<Rightarrow> 'w \<Rightarrow> error option \<times> 'w"
  pio_SendBytes :: "int \<Rightarrow> string option \<Rightarrow> u64 \<Rightarrow> 'w \<Rightarrow> error option \<times> 'w"
  pio_SendFile :: "int \<Rightarrow> string \<Rightarrow> u64 \<Rightarrow> 'w \<Rightarrow> error option \<times> 'w"
  pio_ReceiveResponse :: "int \<Rightarrow> 'w \<Rightarrow> (GenericNetworkResponse \<times> error option) \<times> 'w"
  pio_CloseSocket :: "int \<Rightarrow> 'w \<Rightarrow> 'w"
  pio_GetMessageMeta :: "string \<Rightarrow> 'w \<Rightarrow> (u64 \<times> error option) \<times> 'w"
  pio_now :: "'w \<Rightarrow> int"
  pio_custom_data :: "u64 list"

record 'w RequestHandlerTcp =
  tw :: 'w
  sd :: int
  receivers_list :: "string list"
  last_receivers_uri_update :: int
  connected_receiver_uri :: string
  thread_id :: u64
  ncurrent_connections :: u64
  discovery :: ReceiverDiscoveryService
  cb_log :: "callback_call list"

abbreviation kDisconnected :: int where
  "kDisconnected \<equiv> -1"

definition RequestHandlerTcp_new :: "ReceiverDiscoveryService \<Rightarrow> u64 \<Rightarrow> u64 \<Rightarrow> 'w \<Rightarrow> 'w RequestHandlerTcp" where
  "RequestHandlerTcp_new d tid n w =
     \<lparr>tw = w, sd = kDisconnected, receivers_list = [], last_receivers_uri_update = 0, connected_receiver_uri = [],
      thread_id = tid, ncurrent_connections = n, discovery = d, cb_log = []\<rparr>"

definition on_world :: "('w \<Rightarrow> 'a \<times> 'w) \<Rightarrow> 'w RequestHandlerTcp \<Rightarrow> 'a \<times> 'w RequestHandlerTcp" where
  "on_world f t = (let (x, w) = f (tw t) in (x, t\<lparr>tw := w\<rparr>))"

section \<open>Sending and receiving\<close>

text \<open>A response and what the caller's \<open>response\<close> string becomes (empty unless it succeeds).\<close>

definition ReceiveResponse :: "'w producer_io \<Rightarrow> 'w RequestHandlerTcp \<Rightarrow> (error option \<times> string) \<times> 'w RequestHandlerTcp" where
  "ReceiveResponse P t =
     (let ((resp, err), t1) = on_world (pio_ReceiveResponse P (sd t)) t;
          msg = response_str resp;
          failed = (\<lambda>ty. (Some (AddDetails ''response'' msg (prd_err ty [])), [])) in
      case err of
        Some e \<Rightarrow> ((Some e, []), t1)
      | None \<Rightarrow>
          (if error_code resp = kNetAuthorizationError then failed P_kWrongInput
           else if error_code resp = kNetErrorNotSupported then failed P_kUnsupportedClient
           else if error_code resp = kNetErrorWrongRequest then failed P_kWrongInput
           else if error_code resp = kNetErrorWarning then failed P_kServerWarning
           else if error_code resp = kNetErrorReauthorize then (Some (prd_err P_kReAuthorizationNeeded []), [])
           else if error_code resp = kNetErrorNoError then (None, msg)
           else failed P_kInternalServerError, t1))"

definition Producer_Authorize :: "'w producer_io \<Rightarrow> string \<Rightarrow> 'w RequestHandlerTcp \<Rightarrow> error option \<times> 'w RequestHandlerTcp" where
  "Producer_Authorize P creds t =
     (let h = GenericRequestHeader_new (pio_custom_data P) kOpcodeAuthorize 0 0 (of_nat (length creds)) [] [];
          (err, t1) = on_world (pio_SendHeader P (sd t) h) t in
      if err \<noteq> None then (err, t1)
      else
        (let (err2, t2) = on_world (pio_SendBytes P (sd t1) (Some creds) (meta_size h)) t1 in
         if err2 \<noteq> None then (err2, t2)
         else (let ((err3, resp), t3) = ReceiveResponse P t2 in (err3, t3))))"

definition Disconnect :: "'w producer_io \<Rightarrow> 'w RequestHandlerTcp \<Rightarrow> 'w RequestHandlerTcp" where
  "Disconnect P t = t\<lparr>tw := pio_CloseSocket P (sd t) (tw t), sd := kDisconnected, connected_receiver_uri := []\<rparr>"

definition ConnectToReceiver ::
    "'w producer_io \<Rightarrow> string \<Rightarrow> string \<Rightarrow> 'w RequestHandlerTcp \<Rightarrow> error option \<times> 'w RequestHandlerTcp" where
  "ConnectToReceiver P creds receiver_address t =
     (let ((fd, err), t0) = on_world (pio_CreateAndConnectIPTCPSocket P receiver_address) t;
          t1 = t0\<lparr>sd := fd\<rparr> in
      if err \<noteq> None then (err, t1)
      else
        (let (err2, t2) = Producer_Authorize P creds (t1\<lparr>connected_receiver_uri := receiver_address\<rparr>) in
         if err2 \<noteq> None then (err2, Disconnect P t2) else (None, t2)))"

definition SendRequestContent :: "'w producer_io \<Rightarrow> ProducerRequest \<Rightarrow> 'w RequestHandlerTcp \<Rightarrow> error option \<times> 'w RequestHandlerTcp" where
  "SendRequestContent P r t =
     (let (err, t1) = on_world (pio_SendHeader P (sd t) (header r)) t in
      if err \<noteq> None then (err, t1)
      else
        (let (err2, t2) = (if NeedSendMetaData r
                           then on_world (pio_SendBytes P (sd t1) (Some (user_metadata r)) (meta_size (header r))) t1
                           else (None, t1)) in
         if err2 \<noteq> None then (err2, t2)
         else if NeedSend r then
           (if DataFromFile r then on_world (pio_SendFile P (sd t2) (original_filepath r) (data_size (header r))) t2
            else on_world (pio_SendBytes P (sd t2) (msg_data r) (data_size (header r))) t2)
         else (None, t2)))"

definition TrySendToReceiver ::
    "'w producer_io \<Rightarrow> ProducerRequest \<Rightarrow> 'w RequestHandlerTcp \<Rightarrow> (error option \<times> string) \<times> 'w RequestHandlerTcp" where
  "TrySendToReceiver P r t =
     (let (err, t1) = SendRequestContent P r t in
      if err \<noteq> None then ((err, []), t1) else ReceiveResponse P t1)"

section \<open>Choosing a receiver\<close>

definition Connected :: "'w RequestHandlerTcp \<Rightarrow> bool" where
  "Connected t \<longleftrightarrow> sd t \<noteq> kDisconnected"

definition Disconnected :: "'w RequestHandlerTcp \<Rightarrow> bool" where
  "Disconnected t \<longleftrightarrow> \<not> Connected t"

definition UpdateReceiversList :: "'w producer_io \<Rightarrow> 'w RequestHandlerTcp \<Rightarrow> bool \<times> 'w RequestHandlerTcp" where
  "UpdateReceiversList P t =
     (let new_list = RotatedUriList (thread_id t) (discovery t);
          t1 = t\<lparr>last_receivers_uri_update := pio_now P (tw t)\<rparr> in
      if new_list \<noteq> receivers_list t then (True, t1\<lparr>receivers_list := new_list\<rparr>) else (False, t1))"

definition TimeToUpdateReceiverList :: "'w producer_io \<Rightarrow> 'w RequestHandlerTcp \<Rightarrow> bool" where
  "TimeToUpdateReceiverList P t \<longleftrightarrow>
     (of_int (millis_between (last_receivers_uri_update t) (pio_now P (tw t))) :: u64) > update_frequency_ms (discovery t)"

definition UpdateIfNewConnection :: "'w producer_io \<Rightarrow> 'w RequestHandlerTcp \<Rightarrow> 'w RequestHandlerTcp" where
  "UpdateIfNewConnection P t =
     (if Connected t then t
      else (let t1 = snd (UpdateReceiversList P t) in t1\<lparr>ncurrent_connections := ncurrent_connections t1 + 1\<rparr>))"

definition NeedRebalance :: "'w producer_io \<Rightarrow> 'w RequestHandlerTcp \<Rightarrow> bool \<times> 'w RequestHandlerTcp" where
  "NeedRebalance P t =
     (if Disconnected t then (False, t)
      else if TimeToUpdateReceiverList P t then UpdateReceiversList P t
      else (False, t))"

definition CloseConnectionToPeformRebalance :: "'w producer_io \<Rightarrow> 'w RequestHandlerTcp \<Rightarrow> 'w RequestHandlerTcp" where
  "CloseConnectionToPeformRebalance P t = t\<lparr>tw := pio_CloseSocket P (sd t) (tw t), sd := kDisconnected\<rparr>"

definition ServerError :: "error option \<Rightarrow> bool" where
  "ServerError err \<longleftrightarrow> err \<noteq> None \<and> err_is_not err (ProducerErrorTemplates P_kWrongInput)
     \<and> err_is_not err (ProducerErrorTemplates P_kLocalIOError)
     \<and> err_is_not err (ProducerErrorTemplates P_kUnsupportedClient)
     \<and> err_is_not err (ProducerErrorTemplates P_kServerWarning)"

definition ProcessErrorFromReceiver :: "'w producer_io \<Rightarrow> error option \<Rightarrow> 'w RequestHandlerTcp \<Rightarrow> bool \<times> 'w RequestHandlerTcp" where
  "ProcessErrorFromReceiver P err t =
     (ServerError err,
      if err \<noteq> None \<and> err_is_not err (ProducerErrorTemplates P_kServerWarning) then Disconnect P t else t)"

text \<open>The request loses its data when there is a callback.\<close>

definition ProcessRequestCallback ::
    "error option \<Rightarrow> ProducerRequest \<Rightarrow> string \<Rightarrow> 'w RequestHandlerTcp \<Rightarrow> ProducerRequest \<times> 'w RequestHandlerTcp" where
  "ProcessRequestCallback err r response t =
     (if callback r = None then r else r\<lparr>msg_data := None\<rparr>,
      t\<lparr>cb_log := call_callback r (msg_data r) response err (cb_log t)\<rparr>)"

definition ImmediateCallbackAfterError :: "error option \<Rightarrow> bool" where
  "ImmediateCallbackAfterError err \<longleftrightarrow>
     err_is err (ProducerErrorTemplates P_kWrongInput) \<or> err_is err (ProducerErrorTemplates P_kUnsupportedClient)"

text \<open>The loop over the receivers; the results are success, retry, the request and the handler.\<close>

fun send_to_receivers ::
    "'w producer_io \<Rightarrow> string list \<Rightarrow> ProducerRequest \<Rightarrow> 'w RequestHandlerTcp
      \<Rightarrow> (bool \<times> bool) \<times> ProducerRequest \<times> 'w RequestHandlerTcp" where
  "send_to_receivers P [] r t = ((False, True), r, t)"
| "send_to_receivers P (receiver_uri # uris) r t =
     (let (cerr, t1) = (if Disconnected t then ConnectToReceiver P (source_credentials r) receiver_uri t else (None, t)) in
      if ImmediateCallbackAfterError cerr then ((False, False), ProcessRequestCallback cerr r [] t1)
      else if cerr \<noteq> None then send_to_receivers P uris r t1
      else
        (let ((err, response), t2) = TrySendToReceiver P r t1;
             (server_error_can_retry, t3) = ProcessErrorFromReceiver P err t2 in
         if server_error_can_retry then send_to_receivers P uris r t3
         else
           (let success = (\<not> (err \<noteq> None \<and> err_is_not err (ProducerErrorTemplates P_kServerWarning))) in
            ((success, False), ProcessRequestCallback err r response t3))))"

definition SendToOneOfTheReceivers ::
    "'w producer_io \<Rightarrow> ProducerRequest \<Rightarrow> 'w RequestHandlerTcp \<Rightarrow> (bool \<times> bool) \<times> ProducerRequest \<times> 'w RequestHandlerTcp" where
  "SendToOneOfTheReceivers P r t = send_to_receivers P (receivers_list t) r t"

definition UpdateDataSizeFromFileIfNeeded ::
    "'w producer_io \<Rightarrow> ProducerRequest \<Rightarrow> 'w RequestHandlerTcp \<Rightarrow> error option \<times> ProducerRequest \<times> 'w RequestHandlerTcp" where
  "UpdateDataSizeFromFileIfNeeded P r t =
     (if \<not> DataFromFile r \<or> data_size (header r) > 0 then (None, r, t)
      else
        (let ((n, err), t1) = on_world (pio_GetMessageMeta P (original_filepath r)) t in
         case err of
           Some e \<Rightarrow> (Some (prd_err P_kLocalIOError (Explain e)), r, t1)
         | None \<Rightarrow> (None, r\<lparr>header := (header r)\<lparr>data_size := n\<rparr>\<rparr>, t1)))"

definition Tcp_ProcessRequestUnlocked ::
    "'w producer_io \<Rightarrow> ProducerRequest \<Rightarrow> 'w RequestHandlerTcp \<Rightarrow> (bool \<times> bool) \<times> ProducerRequest \<times> 'w RequestHandlerTcp" where
  "Tcp_ProcessRequestUnlocked P r t =
     (case UpdateDataSizeFromFileIfNeeded P r t of
        (Some e, r1, t1) \<Rightarrow>
          ((False, False), r1, t1\<lparr>cb_log := call_callback r1 None [] (Some e) (cb_log t1)\<rparr>)
      | (None, r1, t1) \<Rightarrow>
          (let (rebalance, t2) = NeedRebalance P t1;
               t3 = (if rebalance then CloseConnectionToPeformRebalance P t2 else t2) in
           SendToOneOfTheReceivers P r1 t3))"

section \<open>The interface to the pool\<close>

definition CanCreateNewConnections :: "'w RequestHandlerTcp \<Rightarrow> bool" where
  "CanCreateNewConnections t \<longleftrightarrow> ncurrent_connections t < max_connections (discovery t)"

definition Tcp_ReadyProcessRequest :: "'w RequestHandlerTcp \<Rightarrow> bool" where
  "Tcp_ReadyProcessRequest t \<longleftrightarrow> Connected t \<or> CanCreateNewConnections t"

definition Tcp_TearDown :: "bool \<Rightarrow> 'w RequestHandlerTcp \<Rightarrow> 'w RequestHandlerTcp" where
  "Tcp_TearDown request_processed_successfully t =
     (if \<not> request_processed_successfully \<and> ncurrent_connections t > 0
      then t\<lparr>ncurrent_connections := ncurrent_connections t - 1\<rparr> else t)"

definition timeout_text :: "ProducerRequest \<Rightarrow> string" where
  "timeout_text r = ''request id:'' @ to_string (data_id (header r)) @ '', opcode: ''
     @ nat_to_string (unat (op_code (header r))) @ '' for '' @ stream_str (header r) @ '' stream''"

definition Tcp_ProcessRequestTimeoutUnlocked :: "ProducerRequest \<Rightarrow> 'w RequestHandlerTcp \<Rightarrow> 'w RequestHandlerTcp" where
  "Tcp_ProcessRequestTimeoutUnlocked r t =
     t\<lparr>cb_log := call_callback r (msg_data r) [] (Some (prd_err P_kTimeout (timeout_text r))) (cb_log t)\<rparr>"

definition tcp_request_handler :: "'w producer_io \<Rightarrow> (ProducerRequest, 'w RequestHandlerTcp) RequestHandler" where
  "tcp_request_handler P =
     \<lparr>PrepareProcessingRequestLocked = UpdateIfNewConnection P, TearDownProcessingRequestLocked = Tcp_TearDown,
      ProcessRequestUnlocked = Tcp_ProcessRequestUnlocked P,
      ProcessRequestTimeoutUnlocked = Tcp_ProcessRequestTimeoutUnlocked, ReadyProcessRequest = Tcp_ReadyProcessRequest\<rparr>"

section \<open>Frames\<close>

text \<open>Network operations touch the world, the socket and the address, nothing else.\<close>

definition net_frame_of :: "'w RequestHandlerTcp \<Rightarrow> 'w RequestHandlerTcp \<Rightarrow> bool" where
  "net_frame_of t t' \<longleftrightarrow> cb_log t' = cb_log t \<and> receivers_list t' = receivers_list t
     \<and> ncurrent_connections t' = ncurrent_connections t \<and> discovery t' = discovery t \<and> thread_id t' = thread_id t"

lemma net_frame_of_refl [simp]: "net_frame_of t t"
  by (simp add: net_frame_of_def)

lemma net_frame_of_trans: "net_frame_of t u \<Longrightarrow> net_frame_of u v \<Longrightarrow> net_frame_of t v"
  by (simp add: net_frame_of_def)

lemma on_world_eq: "on_world f t = (fst (f (tw t)), t\<lparr>tw := snd (f (tw t))\<rparr>)"
  by (simp add: on_world_def split: prod.splits)

lemma ReceiveResponse_frame:
  assumes "ReceiveResponse P t = (res, t')"
  shows "net_frame_of t t' \<and> sd t' = sd t"
  using assms
  by (auto simp: ReceiveResponse_def on_world_eq net_frame_of_def Let_def split: prod.splits option.splits if_splits)

lemma Authorize_frame:
  assumes "Producer_Authorize P creds t = (err, t')"
  shows "net_frame_of t t' \<and> sd t' = sd t"
proof -
  obtain res t3 where r: "ReceiveResponse P (snd (on_world (pio_SendBytes P (sd (snd (on_world (pio_SendHeader P (sd t)
      (GenericRequestHeader_new (pio_custom_data P) kOpcodeAuthorize 0 0 (of_nat (length creds)) [] [])) t))) (Some creds)
      (of_nat (length creds))) (snd (on_world (pio_SendHeader P (sd t)
      (GenericRequestHeader_new (pio_custom_data P) kOpcodeAuthorize 0 0 (of_nat (length creds)) [] [])) t)))) = (res, t3)"
    by fastforce
  show ?thesis
    using assms ReceiveResponse_frame [OF r] r
    by (auto simp: Producer_Authorize_def on_world_eq net_frame_of_def Let_def GenericRequestHeader_new_def
        split: prod.splits if_splits)
qed

lemma SendRequestContent_frame:
  assumes "SendRequestContent P r t = (err, t')"
  shows "net_frame_of t t' \<and> sd t' = sd t"
  using assms
  by (auto simp: SendRequestContent_def on_world_eq net_frame_of_def Let_def split: prod.splits if_splits)

lemma TrySendToReceiver_frame:
  assumes "TrySendToReceiver P r t = (res, t')"
  shows "net_frame_of t t' \<and> sd t' = sd t"
proof -
  obtain err t1 where s: "SendRequestContent P r t = (err, t1)" by fastforce
  note f = SendRequestContent_frame [OF s]
  show ?thesis
  proof (cases err)
    case None
    then have "ReceiveResponse P t1 = (res, t')" using assms by (simp add: TrySendToReceiver_def s)
    from ReceiveResponse_frame [OF this] f show ?thesis by (auto intro: net_frame_of_trans)
  next
    case (Some e)
    then show ?thesis using assms f by (auto simp: TrySendToReceiver_def s)
  qed
qed

lemma Disconnect_frame [simp]: "net_frame_of t (Disconnect P t)" "Disconnected (Disconnect P t)"
  by (simp_all add: Disconnect_def net_frame_of_def Disconnected_def Connected_def)

lemma ConnectToReceiver_frame:
  assumes "ConnectToReceiver P creds a t = (err, t')"
  shows "net_frame_of t t'"
proof -
  obtain fd e w where c: "pio_CreateAndConnectIPTCPSocket P a (tw t) = ((fd, e), w)" by (metis prod.collapse)
  let ?t1 = "t\<lparr>tw := w, sd := fd, connected_receiver_uri := a\<rparr>"
  obtain e2 t2 where auth: "Producer_Authorize P creds ?t1 = (e2, t2)" by fastforce
  have "net_frame_of t ?t1" by (simp add: net_frame_of_def)
  then have "net_frame_of t t2" using Authorize_frame [OF auth] net_frame_of_trans by blast
  then show ?thesis
    using assms Disconnect_frame(1) [of t2 P]
    by (auto simp: ConnectToReceiver_def on_world_eq c auth net_frame_of_def Let_def split: if_splits)
qed

text \<open>What the socket operations promise: an error comes with the invalid descriptor, success without.\<close>

definition connects_properly :: "'w producer_io \<Rightarrow> bool" where
  "connects_properly P \<longleftrightarrow> (\<forall>a w. case pio_CreateAndConnectIPTCPSocket P a w of
     ((fd, err), w') \<Rightarrow> (err = None \<longleftrightarrow> fd \<noteq> kDisconnected))"

lemma ConnectToReceiver_socket:
  assumes "ConnectToReceiver P creds a t = (err, t')" and "connects_properly P"
  shows "err = None \<longleftrightarrow> Connected t'"
proof -
  obtain fd e w where c: "pio_CreateAndConnectIPTCPSocket P a (tw t) = ((fd, e), w)" by (metis prod.collapse)
  have fd: "e = None \<longleftrightarrow> fd \<noteq> kDisconnected"
    using assms(2) [unfolded connects_properly_def, rule_format, of a "tw t"] c by simp
  let ?t1 = "t\<lparr>tw := w, sd := fd, connected_receiver_uri := a\<rparr>"
  obtain e2 t2 where auth: "Producer_Authorize P creds ?t1 = (e2, t2)" by fastforce
  then have "sd t2 = fd" using Authorize_frame [OF auth] by simp
  then show ?thesis
    using assms(1) fd Disconnect_frame(2) [of P t2]
    by (auto simp: ConnectToReceiver_def on_world_eq c auth Connected_def Disconnected_def Let_def split: if_splits)
qed

section \<open>The loop over the receivers\<close>

lemma err_is_not_Some: "err_is_not (Some x) ty \<longleftrightarrow> \<not> err_is (Some x) ty"
  by (simp add: err_is_not_def err_is_def)

lemma immediate_not_warning:
  "ImmediateCallbackAfterError err \<Longrightarrow> err \<noteq> None \<and> \<not> err_is err (ProducerErrorTemplates P_kServerWarning)"
  by (cases err) (auto simp: ImmediateCallbackAfterError_def err_is_def)

definition delivered :: "error option \<Rightarrow> bool" where
  "delivered err \<longleftrightarrow> err = None \<or> err_is err (ProducerErrorTemplates P_kServerWarning)"

lemma success_delivered:
  "(\<not> (err \<noteq> None \<and> err_is_not err (ProducerErrorTemplates P_kServerWarning))) \<longleftrightarrow> delivered err"
  by (cases err) (simp_all add: delivered_def err_is_not_Some)

lemma ProcessErrorFromReceiver_eq:
  "ProcessErrorFromReceiver P err t = (ServerError err, if delivered err then t else Disconnect P t)"
  by (cases err) (simp_all add: ProcessErrorFromReceiver_def delivered_def err_is_not_Some)

lemma ServerError_not_delivered: "ServerError err \<Longrightarrow> \<not> delivered err"
  by (cases err) (auto simp: ServerError_def delivered_def err_is_not_Some)

text \<open>The three ways the loop goes on after one receiver.\<close>

lemma send_to_receivers_cases:
  assumes "send_to_receivers P (u # us) r t = res"
  obtains (refused) cerr t1 where "Disconnected t" and "ConnectToReceiver P (source_credentials r) u t = (cerr, t1)"
      and "cerr \<noteq> None" and "\<not> delivered cerr" and "res = ((False, False), ProcessRequestCallback cerr r [] t1)"
  | (unreachable) cerr t1 where "Disconnected t" and "ConnectToReceiver P (source_credentials r) u t = (cerr, t1)"
      and "cerr \<noteq> None" and "res = send_to_receivers P us r t1"
  | (retry) t1 err resp t2 where "Connected t \<and> t1 = t \<or> ConnectToReceiver P (source_credentials r) u t = (None, t1)"
      and "TrySendToReceiver P r t1 = ((err, resp), t2)" and "ServerError err"
      and "res = send_to_receivers P us r (Disconnect P t2)"
  | (answered) t1 err resp t2 where "Connected t \<and> t1 = t \<or> ConnectToReceiver P (source_credentials r) u t = (None, t1)"
      and "TrySendToReceiver P r t1 = ((err, resp), t2)" and "\<not> ServerError err"
      and "res = ((delivered err, False), ProcessRequestCallback err r resp (if delivered err then t2 else Disconnect P t2))"
proof -
  define c where "c = (if Disconnected t then ConnectToReceiver P (source_credentials r) u t else (None, t))"
  obtain cerr t1 where c_eq: "c = (cerr, t1)" by fastforce
  obtain err resp t2 where try_eq: "TrySendToReceiver P r t1 = ((err, resp), t2)" by (metis prod.collapse)
  have step: "res = (if ImmediateCallbackAfterError cerr then ((False, False), ProcessRequestCallback cerr r [] t1)
      else if cerr \<noteq> None then send_to_receivers P us r t1
      else if ServerError err then send_to_receivers P us r (if delivered err then t2 else Disconnect P t2)
      else ((delivered err, False), ProcessRequestCallback err r resp (if delivered err then t2 else Disconnect P t2)))"
    unfolding assms [symmetric] send_to_receivers.simps c_eq [unfolded c_def] try_eq Let_def prod.case
      ProcessErrorFromReceiver_eq success_delivered
    by (rule refl)
  show thesis
  proof (cases cerr)
    case None
    then have ni: "\<not> ImmediateCallbackAfterError cerr" using immediate_not_warning by blast
    have conn: "Connected t \<and> t1 = t \<or> ConnectToReceiver P (source_credentials r) u t = (None, t1)"
      using c_eq None by (auto simp: c_def Disconnected_def split: if_splits)
    show thesis
    proof (cases "ServerError err")
      case True
      then show thesis
        using retry [OF conn try_eq True] step ni None ServerError_not_delivered [OF True] by simp
    next
      case False
      then show thesis using answered [OF conn try_eq False] step ni None by simp
    qed
  next
    case (Some e)
    then have "Disconnected t" and conn: "ConnectToReceiver P (source_credentials r) u t = (cerr, t1)" and ne: "cerr \<noteq> None"
      using c_eq by (auto simp: c_def split: if_splits)
    then show thesis
      using refused [OF _ conn ne] unreachable [OF _ conn ne] step immediate_not_warning [of cerr]
      by (auto simp: delivered_def split: if_splits)
  qed
qed

text \<open>What happens to the request: it goes back unchanged, or it is answered with one callback.\<close>

definition answered_once :: "ProducerRequest \<Rightarrow> callback_call list \<Rightarrow> bool \<Rightarrow> bool \<Rightarrow> ProducerRequest \<Rightarrow> callback_call list \<Rightarrow> bool" where
  "answered_once r log ok retry r' log' \<longleftrightarrow>
     (if retry then \<not> ok \<and> r' = r \<and> log' = log
      else \<exists>err d resp. r' = (if callback r = None then r else r\<lparr>msg_data := None\<rparr>)
        \<and> log' = call_callback r d resp err log \<and> (ok \<longleftrightarrow> delivered err))"

lemma ProcessRequestCallback_once:
  assumes "ProcessRequestCallback err r resp t1 = (r', t')" and "net_frame_of t t1" and "ok \<longleftrightarrow> delivered err"
  shows "answered_once r (cb_log t) ok False r' (cb_log t')
    \<and> receivers_list t' = receivers_list t \<and> ncurrent_connections t' = ncurrent_connections t \<and> discovery t' = discovery t"
proof -
  have "answered_once r (cb_log t) ok False r' (cb_log t')"
    unfolding answered_once_def if_False
    by (rule exI [of _ err], rule exI [of _ "msg_data r"], rule exI [of _ resp])
      (use assms in \<open>auto simp: ProcessRequestCallback_def net_frame_of_def\<close>)
  then show ?thesis using assms by (auto simp: ProcessRequestCallback_def net_frame_of_def)
qed

lemma send_to_receivers_once:
  "send_to_receivers P uris r t = ((ok, retry), r', t') \<Longrightarrow>
   answered_once r (cb_log t) ok retry r' (cb_log t') \<and> receivers_list t' = receivers_list t
   \<and> ncurrent_connections t' = ncurrent_connections t \<and> discovery t' = discovery t"
proof (induction uris arbitrary: t)
  case Nil
  then show ?case by (simp add: answered_once_def)
next
  case (Cons u us)
  have conn: "net_frame_of t t1" if "Connected t \<and> t1 = t \<or> ConnectToReceiver P (source_credentials r) u t = (None, t1)" for t1
    using that ConnectToReceiver_frame by auto
  from Cons.prems show ?case
  proof (cases rule: send_to_receivers_cases)
    case (refused cerr t1)
    then show ?thesis
      using ProcessRequestCallback_once [of cerr r "[]" t1 r' t' t False] ConnectToReceiver_frame [OF refused(2)] by auto
  next
    case (unreachable cerr t1)
    then show ?thesis using Cons.IH [of t1] ConnectToReceiver_frame [OF unreachable(2)] by (simp add: net_frame_of_def)
  next
    case (retry t1 err resp t2)
    have "net_frame_of t (Disconnect P t2)"
      using conn [OF retry(1)] TrySendToReceiver_frame [OF retry(2)] Disconnect_frame(1) net_frame_of_trans by blast
    then show ?thesis using Cons.IH [of "Disconnect P t2"] retry(4) by (simp add: net_frame_of_def)
  next
    case (answered t1 err resp t2)
    let ?t3 = "if delivered err then t2 else Disconnect P t2"
    have "net_frame_of t t2"
      using conn [OF answered(1)] TrySendToReceiver_frame [OF answered(2)] net_frame_of_trans by blast
    then have "net_frame_of t ?t3" using net_frame_of_trans [OF _ Disconnect_frame(1)] by auto
    then show ?thesis
      using answered(4) ProcessRequestCallback_once [of err r resp ?t3 r' t' t "delivered err"] by auto
  qed
qed

lemma ProcessRequestCallback_sd: "ProcessRequestCallback err r resp t = (r', t') \<Longrightarrow> sd t' = sd t"
  by (auto simp: ProcessRequestCallback_def)

text \<open>A thread is connected after a request exactly when the request was delivered.\<close>

lemma send_to_receivers_socket:
  "send_to_receivers P uris r t = ((ok, retry), r', t') \<Longrightarrow> connects_properly P \<Longrightarrow> uris \<noteq> [] \<or> Disconnected t \<Longrightarrow>
   ok \<longleftrightarrow> Connected t'"
proof (induction uris arbitrary: t)
  case Nil
  then show ?case by (simp add: Disconnected_def)
next
  case (Cons u us)
  have conn: "Connected t1" if "Connected t \<and> t1 = t \<or> ConnectToReceiver P (source_credentials r) u t = (None, t1)" for t1
    using that ConnectToReceiver_socket [of P "source_credentials r" u t None t1] Cons.prems(2) by auto
  from Cons.prems(1) show ?case
  proof (cases rule: send_to_receivers_cases)
    case (refused cerr t1)
    then show ?thesis
      using ConnectToReceiver_socket [OF refused(2) Cons.prems(2)] ProcessRequestCallback_sd [of cerr r "[]" t1 r' t']
      by (auto simp: Connected_def)
  next
    case (unreachable cerr t1)
    then show ?thesis
      using Cons.IH [of t1] ConnectToReceiver_socket [OF unreachable(2) Cons.prems(2)] Cons.prems(2)
      by (simp add: Disconnected_def)
  next
    case (retry t1 err resp t2)
    then show ?thesis using Cons.IH [of "Disconnect P t2"] Cons.prems(2) by simp
  next
    case (answered t1 err resp t2)
    have "Connected t2" using conn [OF answered(1)] TrySendToReceiver_frame [OF answered(2)] by (simp add: Connected_def)
    moreover have "sd t' = sd (if delivered err then t2 else Disconnect P t2)" and "ok \<longleftrightarrow> delivered err"
      using answered(4) ProcessRequestCallback_sd [of err r resp "if delivered err then t2 else Disconnect P t2" r' t'] by auto
    ultimately show ?thesis using Disconnect_frame(2) [of P t2] by (auto simp: Connected_def Disconnected_def)
  qed
qed

section \<open>Processing one request\<close>

lemma UpdateDataSize_cases:
  assumes "UpdateDataSizeFromFileIfNeeded P r t = (err, r1, t1)"
  shows "net_frame_of t t1 \<and> sd t1 = sd t
    \<and> (\<exists>n. r1 = r\<lparr>header := (header r)\<lparr>data_size := n\<rparr>\<rparr> \<and> (n = data_size (header r) \<or> DataFromFile r))
    \<and> (err \<noteq> None \<longrightarrow> r1 = r \<and> DataFromFile r \<and> \<not> delivered err)"
proof -
  have "\<exists>n. r = r\<lparr>header := (header r)\<lparr>data_size := n\<rparr>\<rparr> \<and> (n = data_size (header r) \<or> DataFromFile r)"
    by (rule exI [of _ "data_size (header r)"]) simp
  moreover have "\<not> delivered (Some (prd_err P_kLocalIOError m))" for m
    by (simp add: delivered_def)
  ultimately show ?thesis
    using assms
    by (auto simp: UpdateDataSizeFromFileIfNeeded_def on_world_eq net_frame_of_def Let_def
        split: if_splits prod.splits option.splits)
qed

lemma NeedRebalance_cases:
  assumes "NeedRebalance P t = (b, t1)"
  defines "t' \<equiv> (if b then CloseConnectionToPeformRebalance P t1 else t1)"
  shows "cb_log t' = cb_log t" and "ncurrent_connections t' = ncurrent_connections t"
    and "receivers_list t' = receivers_list t \<or> Disconnected t'" and "Connected t' \<Longrightarrow> Connected t"
  using assms(1)
  by (auto simp: t'_def NeedRebalance_def UpdateReceiversList_def CloseConnectionToPeformRebalance_def Connected_def
      Disconnected_def Let_def split: if_splits)

lemma Tcp_ProcessRequestUnlocked_cases:
  assumes "Tcp_ProcessRequestUnlocked P r t = ((ok, retry), r', t')"
  obtains (local_error) e t1 where "UpdateDataSizeFromFileIfNeeded P r t = (Some e, r, t1)" and "r' = r"
      and "\<not> ok" and "\<not> retry" and "t' = t1\<lparr>cb_log := call_callback r None [] (Some e) (cb_log t1)\<rparr>"
  | (sent) r1 t1 t3 where "UpdateDataSizeFromFileIfNeeded P r t = (None, r1, t1)"
      and "cb_log t3 = cb_log t" and "ncurrent_connections t3 = ncurrent_connections t"
      and "receivers_list t3 = receivers_list t \<or> Disconnected t3" and "Connected t3 \<longrightarrow> Connected t"
      and "send_to_receivers P (receivers_list t3) r1 t3 = ((ok, retry), r', t')"
proof -
  obtain err r1 t1 where upd: "UpdateDataSizeFromFileIfNeeded P r t = (err, r1, t1)" by (metis prod_cases3)
  note u = UpdateDataSize_cases [OF upd]
  show thesis
  proof (cases err)
    case (Some e)
    then have "r1 = r" using u by simp
    then show thesis using local_error [of e t1] upd Some assms by (auto simp: Tcp_ProcessRequestUnlocked_def)
  next
    case None
    obtain b t2 where n: "NeedRebalance P t1 = (b, t2)" by fastforce
    let ?t3 = "if b then CloseConnectionToPeformRebalance P t2 else t2"
    have "send_to_receivers P (receivers_list ?t3) r1 ?t3 = ((ok, retry), r', t')"
      using assms upd None n by (simp add: Tcp_ProcessRequestUnlocked_def SendToOneOfTheReceivers_def Let_def split: if_splits)
    then show thesis
      using sent [of r1 t1 ?t3] upd None NeedRebalance_cases [OF n] u by (simp add: net_frame_of_def Connected_def)
  qed
qed

section \<open>A concrete producer\<close>

definition demo_pio :: "unit producer_io" where
  "demo_pio = \<lparr>pio_CreateAndConnectIPTCPSocket = (\<lambda>a w. ((5, None), w)), pio_SendHeader = (\<lambda>fd h w. (None, w)),
     pio_SendBytes = (\<lambda>fd b n w. (None, w)), pio_SendFile = (\<lambda>fd f n w. (None, w)),
     pio_ReceiveResponse = (\<lambda>fd w. ((\<lparr>resp_op_code = kOpcodeTransferData, error_code = kNetErrorNoError,
        resp_message = [NUL]\<rparr>, None), w)),
     pio_CloseSocket = (\<lambda>fd w. w), pio_GetMessageMeta = (\<lambda>f w. ((0, Some (io_err IO_kFileNotFound f)), w)),
     pio_now = (\<lambda>w. 0), pio_custom_data = [0, 0, 0]\<rparr>"

definition demo_producer_request :: "u64 \<Rightarrow> string option \<Rightarrow> string \<Rightarrow> ProducerRequest" where
  "demo_producer_request n d path = \<lparr>header = GenericRequestHeader_new [13, 0, 0] kOpcodeTransferData 1 n 0 ''f'' ''s'',
     retry_counter = 0, timeout_ms = 0, created_at = 0, source_credentials = ''c'', user_metadata = [], msg_data = d,
     original_filepath = path, callback = Some 7, manage_data_memory = True\<rparr>"

definition demo_handler :: "int \<Rightarrow> unit RequestHandlerTcp" where
  "demo_handler fd = (RequestHandlerTcp_new \<lparr>max_connections = 3, uri_list = [''a''], update_frequency_ms = 10\<rparr> 0 1 ())
     \<lparr>sd := fd, receivers_list := [''a'']\<rparr>"

lemmas demo_tcp_defs = demo_pio_def demo_producer_request_def demo_handler_def RequestHandlerTcp_new_def

lemma demo_connected: "Connected (demo_handler 5)"
  by (simp add: demo_tcp_defs Connected_def)

lemma demo_sends:
  "TrySendToReceiver demo_pio (demo_producer_request 3 (Some ''abc'') []) (demo_handler 5) = ((None, []), demo_handler 5)"
proof -
  have "SendRequestContent demo_pio (demo_producer_request 3 (Some ''abc'') []) (demo_handler 5) = (None, demo_handler 5)"
    by (simp add: SendRequestContent_def on_world_eq demo_pio_def NeedSendMetaData_def DataFromFile_def
        demo_producer_request_def GenericRequestHeader_new_def)
  moreover have "ReceiveResponse demo_pio (demo_handler 5) = ((None, []), demo_handler 5)"
    by (simp add: ReceiveResponse_def on_world_eq demo_pio_def response_str_def c_str_def)
  ultimately show ?thesis by (simp add: TrySendToReceiver_def)
qed

lemma demo_run:
  "\<exists>r'. Tcp_ProcessRequestUnlocked demo_pio (demo_producer_request 3 (Some ''abc'') []) (demo_handler 5)
     = ((True, False), r', (demo_handler 5)\<lparr>cb_log := call_callback (demo_producer_request 3 (Some ''abc'') []) (Some ''abc'') [] None []\<rparr>)"
proof -
  let ?r = "demo_producer_request 3 (Some ''abc'') []" and ?t = "demo_handler 5"
  have upd: "UpdateDataSizeFromFileIfNeeded demo_pio ?r ?t = (None, ?r, ?t)"
    by (simp add: UpdateDataSizeFromFileIfNeeded_def DataFromFile_def demo_producer_request_def)
  have reb: "NeedRebalance demo_pio ?t = (False, ?t)"
    by (simp add: NeedRebalance_def TimeToUpdateReceiverList_def demo_tcp_defs millis_between_def)
  have "receivers_list ?t = [''a'']" "\<not> Disconnected ?t" "cb_log ?t = []" "msg_data ?r = Some ''abc''" "callback ?r = Some 7"
    by (simp_all add: demo_tcp_defs Disconnected_def Connected_def)
  then show ?thesis
    by (simp add: Tcp_ProcessRequestUnlocked_def upd reb SendToOneOfTheReceivers_def ImmediateCallbackAfterError_def
        demo_sends ProcessErrorFromReceiver_eq ServerError_def delivered_def ProcessRequestCallback_def)
qed

section \<open>Properties\<close>



text \<open>
  C26. The shared counter of connections is exact.  Provided that the socket calls return the
  invalid descriptor exactly on an error, and the size of a file to send could be read, a turn of a
  worker thread changes the counter by the change of its own connection: a connection that is
  opened is added, one that is lost is removed, everything else leaves the counter as it is.
\<close>
theorem connection_counter_exact:
  assumes "connects_properly P"
    and "request_queue p = r # q" and "\<not> TimedOut now r"
    and "Connected t \<longrightarrow> receivers_list t \<noteq> [] \<and> 0 < ncurrent_connections t"
    and "ncurrent_connections t + 1 \<noteq> 0"
    and "fst (UpdateDataSizeFromFileIfNeeded P r (UpdateIfNewConnection P t)) = None"
    and "ProcessRequest ContainsData (tcp_request_handler P) now t p = (t', p')"
  shows "ncurrent_connections t' + of_bool (Connected t) = ncurrent_connections t + of_bool (Connected t')
    \<and> (Connected t' \<longrightarrow> receivers_list t' \<noteq> [] \<and> 0 < ncurrent_connections t')"
proof -
  let ?t1 = "UpdateIfNewConnection P t"
  obtain ok retry r' t2 where run: "Tcp_ProcessRequestUnlocked P r ?t1 = ((ok, retry), r', t2)"
    by (metis prod.collapse)
  have t': "t' = Tcp_TearDown ok t2"
    using assms(2,3,7) run by (simp add: ProcessRequest_def GetRequestFromQueue_def tcp_request_handler_def Let_def)
  have c1: "Connected ?t1 \<longleftrightarrow> Connected t"
    "ncurrent_connections ?t1 = ncurrent_connections t + of_bool (\<not> Connected t)"
    "Connected t \<Longrightarrow> receivers_list ?t1 = receivers_list t" "0 < ncurrent_connections ?t1"
    using assms(4,5)
    by (simp_all add: UpdateIfNewConnection_def UpdateReceiversList_def Connected_def Let_def word_gt_0)
  have sent: "(ok \<longleftrightarrow> Connected t2) \<and> ncurrent_connections t2 = ncurrent_connections ?t1 \<and> (ok \<longrightarrow> receivers_list t2 \<noteq> [])"
    using run
  proof (cases rule: Tcp_ProcessRequestUnlocked_cases)
    case (local_error e t1)
    then show ?thesis using assms(6) by simp
  next
    case (sent r1 t1 t3)
    have "receivers_list t3 \<noteq> [] \<or> Disconnected t3"
      using sent(4,5) c1 assms(4) by (auto simp: Disconnected_def)
    then have "ok \<longleftrightarrow> Connected t2" by (rule send_to_receivers_socket [OF sent(6) assms(1)])
    moreover have "ok \<longrightarrow> receivers_list t3 \<noteq> []" using sent(6) by auto
    moreover have "receivers_list t2 = receivers_list t3" "ncurrent_connections t2 = ncurrent_connections t3"
      using send_to_receivers_once [OF sent(6)] by blast+
    ultimately show ?thesis using sent(3) by metis
  qed
  have conn: "Connected t' \<longleftrightarrow> ok" "receivers_list t' = receivers_list t2"
    using sent by (simp_all add: t' Tcp_TearDown_def Connected_def)
  have "ncurrent_connections t' = (if ok then ncurrent_connections ?t1 else ncurrent_connections ?t1 - 1)"
    using sent c1(4) by (simp add: t' Tcp_TearDown_def)
  then show ?thesis using conn sent c1(2,4) by (cases ok; cases "Connected t") simp_all
qed

theorem connection_counter_exact_witness:
  "\<exists>t' p'. ProcessRequest ContainsData (tcp_request_handler demo_pio) 0 (demo_handler 5)
       (RequestPool_new\<lparr>request_queue := [demo_producer_request 3 (Some ''abc'') []]\<rparr>) = (t', p')
     \<and> Connected t' \<and> ncurrent_connections t' = 1"
proof -
  let ?r = "demo_producer_request 3 (Some ''abc'') []" and ?t = "demo_handler 5"
  let ?p = "RequestPool_new\<lparr>request_queue := [?r]\<rparr>"
  obtain t' p' where run: "ProcessRequest ContainsData (tcp_request_handler demo_pio) 0 ?t ?p = (t', p')" by fastforce
  have new: "UpdateIfNewConnection demo_pio ?t = ?t" by (simp add: UpdateIfNewConnection_def demo_connected)
  have "Connected t'"
    using run demo_run new demo_connected
    by (auto simp: ProcessRequest_def GetRequestFromQueue_def tcp_request_handler_def TimedOut_def Tcp_TearDown_def
        Connected_def demo_producer_request_def Let_def split: prod.splits)
  moreover have "connects_properly demo_pio" by (simp add: connects_properly_def demo_pio_def)
  moreover have "request_queue ?p = ?r # []" "\<not> TimedOut 0 ?r"
    by (simp_all add: TimedOut_def demo_producer_request_def)
  moreover have "receivers_list ?t \<noteq> []" "ncurrent_connections ?t = 1" by (simp_all add: demo_tcp_defs)
  moreover have "fst (UpdateDataSizeFromFileIfNeeded demo_pio ?r (UpdateIfNewConnection demo_pio ?t)) = None"
    by (simp add: new UpdateDataSizeFromFileIfNeeded_def DataFromFile_def demo_producer_request_def)
  ultimately show ?thesis
    using connection_counter_exact [of demo_pio ?p ?r "[]" 0 ?t t' p'] run demo_connected by auto
qed

text \<open>
  When the size of a file cannot be read, the counter loses an open connection.  The
  request is answered with a local error and the connection stays open, but the end of the turn
  counts it as closed, so the threads together can open more connections than the receivers
  allow.
\<close>
theorem local_file_error_loses_connection:
  assumes "Connected t" and "0 < ncurrent_connections t" and "DataFromFile r" and "data_size (header r) = 0"
    and "pio_GetMessageMeta P (original_filepath r) (tw t) = ((n, Some e), w)" and "\<not> TimedOut now r"
  shows "\<exists>t'. fst (ProcessRequest ContainsData (tcp_request_handler P) now t (RequestPool_new\<lparr>request_queue := [r]\<rparr>)) = t'
    \<and> Connected t' \<and> sd t' = sd t \<and> ncurrent_connections t' = ncurrent_connections t - 1"
  using assms
  by (simp add: ProcessRequest_def GetRequestFromQueue_def tcp_request_handler_def UpdateIfNewConnection_def
      Tcp_ProcessRequestUnlocked_def UpdateDataSizeFromFileIfNeeded_def on_world_eq Tcp_TearDown_def Connected_def Let_def)

theorem local_file_error_loses_connection_witness:
  "\<exists>t'. fst (ProcessRequest ContainsData (tcp_request_handler demo_pio) 0 (demo_handler 5)
       (RequestPool_new\<lparr>request_queue := [demo_producer_request 0 None ''/x'']\<rparr>)) = t'
     \<and> Connected t' \<and> ncurrent_connections t' = 0"
proof -
  let ?r = "demo_producer_request 0 None ''/x''"
  have "DataFromFile ?r" "data_size (header ?r) = 0" "\<not> TimedOut 0 ?r"
    by (simp_all add: DataFromFile_def NeedSend_def demo_producer_request_def GenericRequestHeader_new_def custom_param_def
        has_flag_def kTransferData_def TimedOut_def)
  moreover have "pio_GetMessageMeta demo_pio (original_filepath ?r) (tw (demo_handler 5)) = ((0, Some (io_err IO_kFileNotFound ''/x'')), ())"
    by (simp add: demo_pio_def demo_producer_request_def)
  moreover have "ncurrent_connections (demo_handler 5) = 1" by (simp add: demo_tcp_defs)
  ultimately show ?thesis
    using local_file_error_loses_connection [of "demo_handler 5" ?r demo_pio 0 "io_err IO_kFileNotFound ''/x''" "()" 0]
      demo_connected by auto
qed

text \<open>
  Which network errors are tried again.  Errors are told apart by their numbers only, so when
  the answer of the receiver cannot be read, a temporarily unavailable resource is taken for a
  local file error and a missing file for wrong input: the request is dropped.  A read error is
  taken for a warning of the receiver: the request counts as delivered.  A lost connection is
  tried again, as intended.
\<close>
theorem network_errors_confused:
  assumes "Connected t" and "receivers_list t = [u]" and "SendRequestContent P r t = (None, t1)"
    and "pio_ReceiveResponse P (sd t1) (tw t1) = ((resp, Some (io_err ty msg)), w)"
  shows "fst (SendToOneOfTheReceivers P r t) =
    (if ty = IO_kReadError then (True, False)
     else if ty \<in> {IO_kResourceTemporarilyUnavailable, IO_kFileNotFound, IO_kUnsupportedAddressFamily} then (False, False)
     else (False, True))"
proof -
  obtain t2 where "ReceiveResponse P t1 = ((Some (io_err ty msg), []), t2)"
    using assms(4) by (simp add: ReceiveResponse_def on_world_eq)
  then have "TrySendToReceiver P r t = ((Some (io_err ty msg), []), t2)"
    using assms(3) by (simp add: TrySendToReceiver_def)
  moreover have "\<not> Disconnected t" using assms(1) by (simp add: Disconnected_def)
  ultimately have "fst (SendToOneOfTheReceivers P r t) =
      (if ServerError (Some (io_err ty msg)) then (False, True) else (delivered (Some (io_err ty msg)), False))"
    by (simp add: SendToOneOfTheReceivers_def assms(2) ImmediateCallbackAfterError_def ProcessErrorFromReceiver_eq
        success_delivered err_is_def Let_def del: not_None_eq de_Morgan_conj)
      (cases ty; simp add: delivered_def err_is_not_def err_is_def)
  then show ?thesis
    by (cases ty) (simp_all add: ServerError_def delivered_def err_is_not_def err_is_def)
qed

theorem network_errors_confused_witness:
  "fst (SendToOneOfTheReceivers
     (demo_pio\<lparr>pio_ReceiveResponse := (\<lambda>fd w. ((\<lparr>resp_op_code = 0, error_code = 0, resp_message = []\<rparr>,
        Some (io_err IO_kResourceTemporarilyUnavailable [])), w))\<rparr>)
     (demo_producer_request 3 (Some ''abc'') []) (demo_handler 5)) = (False, False)"
proof -
  let ?P = "demo_pio\<lparr>pio_ReceiveResponse := (\<lambda>fd w. ((\<lparr>resp_op_code = 0, error_code = 0, resp_message = []\<rparr>,
        Some (io_err IO_kResourceTemporarilyUnavailable [])), w))\<rparr>"
  have "SendRequestContent ?P (demo_producer_request 3 (Some ''abc'') []) (demo_handler 5) = (None, demo_handler 5)"
    by (simp add: SendRequestContent_def on_world_eq demo_pio_def NeedSendMetaData_def DataFromFile_def
        demo_producer_request_def GenericRequestHeader_new_def)
  moreover have "receivers_list (demo_handler 5) = [''a'']" by (simp add: demo_tcp_defs)
  ultimately show ?thesis
    using network_errors_confused [OF demo_connected, of "''a''" ?P "demo_producer_request 3 (Some ''abc'') []" "demo_handler 5"
        "\<lparr>resp_op_code = 0, error_code = 0, resp_message = []\<rparr>" IO_kResourceTemporarilyUnavailable "[]" "()"]
    by simp
qed

section \<open>The pool of a producer\<close>

text \<open>
  A request carries either its data or the path of a file.  The client threads submit such
  requests, the workers do to them what the TCP handler does; \<open>submitted\<close> says which ones are
  submitted and with which priority.
\<close>

definition data_or_file :: "ProducerRequest \<Rightarrow> bool" where
  "data_or_file r \<longleftrightarrow> msg_data r = None \<or> original_filepath r = []"

definition tcp_pool_env :: "'w producer_io \<Rightarrow> (ProducerRequest \<Rightarrow> bool \<Rightarrow> bool) \<Rightarrow> ProducerRequest pool_env" where
  "tcp_pool_env P submitted =
     \<lparr>contains = ContainsData, submits = (\<lambda>r prio. data_or_file r \<and> submitted r prio), submits_batch = (\<lambda>rs. False),
      outcome = (\<lambda>r r'. data_or_file r \<and> (\<exists>res t t'. ProcessRequestUnlocked (tcp_request_handler P) r t = (res, r', t'))),
      expires = False\<rparr>"

lemma DataFromFile_cong:
  "original_filepath r' = original_filepath r \<Longrightarrow> op_code (header r') = op_code (header r) \<Longrightarrow>
   custom_params (header r') = custom_params (header r) \<Longrightarrow> (msg_data r' = None \<longleftrightarrow> msg_data r = None) \<Longrightarrow>
   DataFromFile r' = DataFromFile r"
  by (simp add: DataFromFile_def NeedSend_def custom_param_def)

lemma tcp_outcome:
  assumes "outcome (tcp_pool_env P sub) r r'"
  shows "contained_size ContainsData r' = contained_size ContainsData r
    \<and> (data_id (header r'), stream (header r'), callback r') = (data_id (header r), stream (header r), callback r)"
proof -
  obtain ok retry t t' where run: "Tcp_ProcessRequestUnlocked P r t = ((ok, retry), r', t')" and wf: "data_or_file r"
    using assms by (auto simp: tcp_pool_env_def tcp_request_handler_def)
  obtain n where n: "n = data_size (header r) \<or> DataFromFile r"
    and once: "answered_once (r\<lparr>header := (header r)\<lparr>data_size := n\<rparr>\<rparr>) (cb_log t) ok retry r' (cb_log t')"
  proof -
    from run show thesis
    proof (cases rule: Tcp_ProcessRequestUnlocked_cases)
      case (local_error e t1)
      then have "msg_data r = None"
        using UpdateDataSize_cases [OF local_error(1)] by (simp add: DataFromFile_def split: if_splits)
      then have "answered_once r (cb_log t) ok retry r' (cb_log t')"
        unfolding answered_once_def using local_error UpdateDataSize_cases [OF local_error(1)]
        by (auto simp: net_frame_of_def)
      then show thesis using that [of "data_size (header r)"] by simp
    next
      case (sent r1 t1 t3)
      then show thesis
        using that UpdateDataSize_cases [OF sent(1)] send_to_receivers_once [OF sent(6)] by auto
    qed
  qed
  let ?r1 = "r\<lparr>header := (header r)\<lparr>data_size := n\<rparr>\<rparr>"
  have r': "r' = ?r1 \<or> r' = ?r1\<lparr>msg_data := None\<rparr>" using once by (auto simp: answered_once_def split: if_splits)
  have same: "DataFromFile r' = DataFromFile r"
  proof (cases "original_filepath r = []")
    case True
    then show ?thesis using r' by (auto simp: DataFromFile_def)
  next
    case False
    then show ?thesis using r' wf by (intro DataFromFile_cong) (auto simp: data_or_file_def)
  qed
  show ?thesis using r' same n by (auto simp: contained_size_def ContainsData_def)
qed

interpretation tcp_pool: accounted_requests "tcp_pool_env P submitted"
  "\<lambda>r. (data_id (header r), stream (header r), callback r)" for P submitted
proof unfold_locales
  have c: "contains (tcp_pool_env P submitted) = ContainsData" for P submitted by (simp add: tcp_pool_env_def)
  show "contained_size (contains (tcp_pool_env P submitted)) r' = contained_size (contains (tcp_pool_env P submitted)) r"
    "(data_id (header r'), stream (header r'), callback r') = (data_id (header r), stream (header r), callback r)"
    if "outcome (tcp_pool_env P submitted) r r'" for r r'
    using tcp_outcome [OF that] by (simp_all add: c)
  show "contains (tcp_pool_env P submitted) (IncreaseRetryCounter r) = contains (tcp_pool_env P submitted) r" for r
    by (simp add: c ContainsData_def IncreaseRetryCounter_def DataFromFile_def NeedSend_def)
  show "(data_id (header (IncreaseRetryCounter r)), stream (header (IncreaseRetryCounter r)), callback (IncreaseRetryCounter r))
      = (data_id (header r), stream (header r), callback r)" for r :: ProducerRequest
    by (simp add: IncreaseRetryCounter_def)
qed



end
