(* ===== verification/Asapo_Version.thy ===== *)
theory Asapo_Version
  imports Data_Structs
begin

text \<open>
  Protocol versions of the clients (\<open>common/data_structs.h\<close>) and the answer of the discovery
  service about versions (\<open>common/cpp/src/version/version.cpp\<close>).  The version numbers are filled
  in by the build, so they are values of the two records.
\<close>

record ProducerProtocol =
  pp_version :: string
  pp_discovery_version :: string
  pp_receiver_version :: string

record ConsumerProtocol =
  cp_version :: string
  cp_discovery_version :: string
  cp_authorizer_version :: string
  cp_file_transfer_service_version :: string
  cp_broker_version :: string
  cp_rds_version :: string

text \<open>
  \<open>server_info\<close> and \<open>supported\<close> are pointers to variables of the caller; \<open>None\<close> is a null
  pointer.
\<close>

definition ExtractVersionFromResponse ::
    "rapidjson_lib \<Rightarrow> string \<Rightarrow> string \<Rightarrow> string option \<Rightarrow> bool option
      \<Rightarrow> error option \<times> string option \<times> bool option" where
  "ExtractVersionFromResponse L response client server_info supported =
     (let p = JsonStringParser L response;
          (err1, server_version) = GetString ''softwareVersion'' [] p in
      if err1 \<noteq> None then (err1, server_info, supported)
      else
        (let (err2, client_supported) = GetString ''clientSupported'' [] p in
         if err2 \<noteq> None then (err2, server_info, supported)
         else
           (let (err3, current_client_protocol) = GetString ''versionInfo'' [] (Embedded ''clientProtocol'' p) in
            if err3 \<noteq> None then (err3, server_info, supported)
            else
              (None,
               map_option (\<lambda>s. ''Server version: '' @ server_version @ '', '' @ client
                                @ '' protocol on server: '' @ current_client_protocol) server_info,
               map_option (\<lambda>b. client_supported = ''yes'') supported))))"

section \<open>Lemmas\<close>

text \<open>A complete answer is understood, and variables that are not asked for stay untouched.\<close>

lemma extract_version_complete:
  assumes "rj_parse L (c_str response) = Some (JObject ob)"
    and "map_of ob ''softwareVersion'' = Some (JString v)" and "map_of ob ''clientSupported'' = Some (JString s)"
    and "map_of ob ''clientProtocol'' = Some (JObject sub)" and "map_of sub ''versionInfo'' = Some (JString i)"
  shows "ExtractVersionFromResponse L response client server_info supported =
    (None,
     map_option (\<lambda>x. ''Server version: '' @ c_str v @ '', '' @ client @ '' protocol on server: '' @ c_str i) server_info,
     map_option (\<lambda>x. c_str s = ''yes'') supported)"
proof -
  let ?p = "JsonStringParser L response"
  have init: "LazyInitialize ?p = Inr ob" using assms(1) by (rule LazyInitialize_string)
  have names: "NUL \<notin> set ''softwareVersion''" "NUL \<notin> set ''clientSupported''" "NUL \<notin> set ''clientProtocol''"
    "NUL \<notin> set ''versionInfo''" by simp_all
  have emb: "LazyInitialize (Embedded ''clientProtocol'' ?p) = Inr sub"
    using getters_found(5) [OF init names(3) assms(4)] .
  show ?thesis
    unfolding ExtractVersionFromResponse_def Let_def
    by (simp only: getters_found(3) [OF init names(1) assms(2)] getters_found(3) [OF init names(2) assms(3)]
        getters_found(3) [OF emb names(4) assms(5)] split_conv simp_thms if_False)
qed

end
