(* ===== verification/Producer_Client.thy ===== *)
theory Producer_Client
  imports Producer_Tcp Asapo_Version
begin

text \<open>
  The producer's programming interface (\<open>producer/api/cpp/src/producer_impl.cpp\<close>, \<open>producer.cpp\<close>):
  the checks of what the user passes, the requests that are put into the pool, and the calls that
  wait for an answer.

  Data that a null pointer stands for is \<open>None\<close>.  A refused message goes back to the user as the
  custom data of the error when the producer manages the memory; otherwise the user still has it.
  The time at which a request is created and the callback that stands for a promise are arguments.
\<close>

section \<open>The state\<close>

datatype RequestHandlerType = kTcp | kFilesystem

datatype StreamRequestOp = SR_kStreamInfo | SR_kLastStream

record MessageHeader =
  mh_message_id :: u64
  mh_data_size :: u64
  mh_file_name :: string
  mh_user_metadata :: string
  mh_dataset_substream :: u64
  mh_dataset_size :: u64
  mh_auto_id :: bool

definition MessageHeader_new :: MessageHeader where
  "MessageHeader_new = \<lparr>mh_message_id = 0, mh_data_size = 0, mh_file_name = [], mh_user_metadata = [],
     mh_dataset_substream = 0, mh_dataset_size = 0, mh_auto_id = False\<rparr>"

record ProducerImpl =
  discovery_service :: "ReceiverDiscoveryService option"
  handler_type :: RequestHandlerType
  n_threads :: u8
  source_cred_string :: string
  default_timeout_ms :: u64
  endpoint :: string
  request_pool :: "ProducerRequest RequestPool"

definition kDiscoveryServiceUpdateFrequencyMs :: u64 where "kDiscoveryServiceUpdateFrequencyMs = 10000"
definition kMaxProcessingThreads :: u8 where "kMaxProcessingThreads = 32"

definition ProducerImpl_new :: "string \<Rightarrow> u8 \<Rightarrow> u64 \<Rightarrow> RequestHandlerType \<Rightarrow> ProducerImpl" where
  "ProducerImpl_new ep n tmo type =
     \<lparr>discovery_service =
        (case type of kTcp \<Rightarrow> Some (ReceiverDiscoveryService_new kDiscoveryServiceUpdateFrequencyMs) | kFilesystem \<Rightarrow> None),
      handler_type = type, n_threads = n, source_cred_string = [], default_timeout_ms = tmo, endpoint = ep,
      request_pool = RequestPool_new\<rparr>"

text \<open>The build's constants and the memory that is not initialised.\<close>

record producer_build =
  protocol :: ProducerProtocol
  kVersion :: string
  stack_params :: "u64 list"

section \<open>Checks\<close>

definition wrong_input :: "string \<Rightarrow> error option" where
  "wrong_input msg = Some (prd_err P_kWrongInput msg)"

definition CheckIngestMode :: "u64 \<Rightarrow> error option" where
  "CheckIngestMode mode =
     (if has_flag mode kTransferData \<and> has_flag mode kTransferMetaDataOnly then wrong_input ''wrong ingest mode''
      else if \<not> has_flag mode kTransferData \<and> \<not> has_flag mode kTransferMetaDataOnly
      then wrong_input ''wrong ingest mode''
      else if has_flag mode kTransferData \<and> \<not> has_flag mode (kStoreInDatabase OR kStoreInFilesystem)
      then wrong_input ''wrong ingest mode''
      else if has_flag mode kTransferMetaDataOnly \<and> has_flag mode kStoreInFilesystem
      then wrong_input ''wrong ingest mode''
      else None)"

definition CheckFileNameInRequest :: "MessageHeader \<Rightarrow> error option" where
  "CheckFileNameInRequest mh =
     (if length (mh_file_name mh) > kMaxMessageSize then wrong_input ''too long filename''
      else if mh_file_name mh = [] then wrong_input ''empty filename''
      else None)"

definition CheckDatasetInRequest :: "MessageHeader \<Rightarrow> error option" where
  "CheckDatasetInRequest mh =
     (if mh_dataset_substream mh = 0 then None
      else if mh_dataset_size mh = 0 then wrong_input ''dataset dimensions''
      else if mh_auto_id mh then wrong_input ''auto id mode not implemented for datasets''
      else None)"

definition CheckMessageIdInRequest :: "MessageHeader \<Rightarrow> error option" where
  "CheckMessageIdInRequest mh =
     (if mh_auto_id mh
      then (if mh_message_id mh \<noteq> 0 then wrong_input ''message id should be 0 for auto id mode'' else None)
      else (if mh_message_id mh = 0 then wrong_input ''message id should be positive'' else None))"

definition CheckProducerRequest :: "MessageHeader \<Rightarrow> u64 \<Rightarrow> string \<Rightarrow> error option" where
  "CheckProducerRequest mh mode strm =
     (if strm = [] then wrong_input ''stream empty''
      else case CheckFileNameInRequest mh of Some e \<Rightarrow> Some e
      | None \<Rightarrow>
          (case CheckDatasetInRequest mh of Some e \<Rightarrow> Some e
           | None \<Rightarrow>
               (case CheckMessageIdInRequest mh of Some e \<Rightarrow> Some e
                | None \<Rightarrow> CheckIngestMode mode)))"

definition WantTransferData :: "u64 \<Rightarrow> bool" where
  "WantTransferData mode = has_flag mode kTransferData"

definition CheckData :: "u64 \<Rightarrow> MessageHeader \<Rightarrow> string option \<Rightarrow> error option" where
  "CheckData mode mh d =
     (if WantTransferData mode then
        (if d = None then wrong_input ''need data for this ingest mode''
         else if mh_data_size mh = 0 then wrong_input ''zero data size''
         else None)
      else None)"

section \<open>Sending messages\<close>

definition GenerateNextSendRequest :: "producer_build \<Rightarrow> MessageHeader \<Rightarrow> string \<Rightarrow> u64 \<Rightarrow> GenericRequestHeader" where
  "GenerateNextSendRequest B mh strm mode =
     (let request = GenericRequestHeader_new (stack_params B) kOpcodeTransferData (mh_message_id mh) (mh_data_size mh)
                      (of_nat (length (mh_user_metadata mh))) (mh_file_name mh) strm;
          request1 = (if mh_dataset_substream mh \<noteq> 0
                      then request\<lparr>op_code := kOpcodeTransferDatasetData,
                             custom_params := (custom_params request)
                               [kPosDataSetId := mh_dataset_substream mh, kPosDataSetSize := mh_dataset_size mh]\<rparr>
                      else request) in
      request1\<lparr>custom_params := (custom_params request1)[kPosIngestMode := mode]\<rparr>)"

text \<open>The pool returns a request that it refuses with the error.\<close>

definition HandleErrorFromPool :: "(error \<times> ProducerRequest) option \<Rightarrow> bool \<Rightarrow> error option" where
  "HandleErrorFromPool original manage =
     (case original of
        None \<Rightarrow> None
      | Some (e, r) \<Rightarrow>
          (let producer_error = prd_err P_kRequestPoolIsFull (Explain e) in
           case msg_data r of
             None \<Rightarrow> Some producer_error
           | Some d \<Rightarrow>
               (if \<not> manage then Some producer_error
                else Some (SetCustomData (Some (OriginalData d)) producer_error))))"

definition HandleInputError :: "error \<Rightarrow> string option \<Rightarrow> bool \<Rightarrow> error option" where
  "HandleInputError original d manage =
     (case d of
        None \<Rightarrow> Some original
      | Some x \<Rightarrow> (if \<not> manage then Some original else Some (SetCustomData (Some (OriginalData x)) original)))"

text \<open>Adding a request to the pool.\<close>

definition pool_add :: "ProducerRequest \<Rightarrow> bool \<Rightarrow> ProducerImpl \<Rightarrow> (error \<times> ProducerRequest) option \<times> ProducerImpl" where
  "pool_add r top_priority p =
     (let (err, q) = AddRequest ContainsData r top_priority (request_pool p) in (err, p\<lparr>request_pool := q\<rparr>))"

definition Send_impl ::
    "producer_build \<Rightarrow> int \<Rightarrow> MessageHeader \<Rightarrow> string \<Rightarrow> string option \<Rightarrow> string \<Rightarrow> u64 \<Rightarrow> nat option \<Rightarrow> bool
      \<Rightarrow> ProducerImpl \<Rightarrow> error option \<times> ProducerImpl" where
  "Send_impl B now mh strm d full_path mode cb manage p =
     (case CheckProducerRequest mh mode strm of
        Some e \<Rightarrow> (HandleInputError e d manage, p)
      | None \<Rightarrow>
          (let request_header = GenerateNextSendRequest B mh strm mode;
               (err, p1) = pool_add (ProducerRequest_new (pp_receiver_version (protocol B)) (source_cred_string p)
                             request_header d (mh_user_metadata mh) full_path cb manage (default_timeout_ms p) now) False p in
           (HandleErrorFromPool err manage, p1)))"

definition Send ::
    "producer_build \<Rightarrow> int \<Rightarrow> MessageHeader \<Rightarrow> string option \<Rightarrow> u64 \<Rightarrow> string \<Rightarrow> nat option \<Rightarrow> ProducerImpl \<Rightarrow> error option \<times> ProducerImpl" where
  "Send B now mh d mode strm cb p =
     (case CheckData mode mh d of
        Some e \<Rightarrow> (HandleInputError e d True, p)
      | None \<Rightarrow> Send_impl B now mh strm d [] mode cb True p)"

text \<open>\<open>Send__\<close>: the user keeps the ownership of the data.\<close>

definition Send_unmanaged ::
    "producer_build \<Rightarrow> int \<Rightarrow> MessageHeader \<Rightarrow> string option \<Rightarrow> u64 \<Rightarrow> string \<Rightarrow> nat option \<Rightarrow> ProducerImpl \<Rightarrow> error option \<times> ProducerImpl" where
  "Send_unmanaged B now mh d mode strm cb p =
     (case CheckData mode mh d of
        Some e \<Rightarrow> (Some e, p)
      | None \<Rightarrow> Send_impl B now mh strm d [] mode cb False p)"

definition SendFile ::
    "producer_build \<Rightarrow> int \<Rightarrow> MessageHeader \<Rightarrow> string \<Rightarrow> u64 \<Rightarrow> string \<Rightarrow> nat option \<Rightarrow> ProducerImpl \<Rightarrow> error option \<times> ProducerImpl" where
  "SendFile B now mh full_path mode strm cb p =
     (if full_path = [] then (wrong_input ''empty filename'', p)
      else Send_impl B now mh strm None full_path mode cb True p)"

definition finish_message :: "u64 \<Rightarrow> string \<Rightarrow> MessageHeader" where
  "finish_message last_id next_stream =
     (let next = (if next_stream = [] then kNoNextStreamKeyword else next_stream) in
      MessageHeader_new\<lparr>mh_file_name := kFinishStreamKeyword, mh_data_size := 0, mh_message_id := last_id + 1,
        mh_user_metadata := ''{'' @ WrapInQuotes ''next_stream'' @ '':'' @ WrapInQuotes next @ ''}''\<rparr>)"

definition SendStreamFinishedFlag ::
    "producer_build \<Rightarrow> int \<Rightarrow> string \<Rightarrow> u64 \<Rightarrow> string \<Rightarrow> nat option \<Rightarrow> ProducerImpl \<Rightarrow> error option \<times> ProducerImpl" where
  "SendStreamFinishedFlag B now strm last_id next_stream cb p =
     Send_impl B now (finish_message last_id next_stream) strm None [] kTransferMetaDataOnly cb True p"

section \<open>Credentials\<close>

definition SetCredentials :: "SourceCredentials \<Rightarrow> ProducerImpl \<Rightarrow> error option \<times> ProducerImpl" where
  "SetCredentials cred p =
     (if source_cred_string p \<noteq> [] then (wrong_input ''credentials already set'', p)
      else
        (let c1 = (if sc_data_source cred = [] then cred\<lparr>sc_data_source := kDefaultDataSource\<rparr> else cred);
             c2 = (if sc_beamline c1 = [] then c1\<lparr>sc_beamline := kDefaultBeamline\<rparr> else c1);
             c3 = (if sc_beamtime_id c2 = [] then c2\<lparr>sc_beamtime_id := kDefaultBeamtimeId\<rparr> else c2);
             s = credentials_GetString c3 in
         if sc_beamtime_id c3 = kDefaultBeamtimeId \<and> sc_beamline c3 = kDefaultBeamline
         then (wrong_input ''beamtime or beamline should be set'', p\<lparr>source_cred_string := []\<rparr>)
         else if length s + length (sc_user_token c3) > kMaxMessageSize
         then (wrong_input ''credentials string is too long'', p\<lparr>source_cred_string := []\<rparr>)
         else (None, p\<lparr>source_cred_string := s\<rparr>)))"

text \<open>The construction of a producer; \<open>None\<close> is a null pointer.\<close>

definition Producer_Create ::
    "string \<Rightarrow> u8 \<Rightarrow> RequestHandlerType \<Rightarrow> SourceCredentials \<Rightarrow> u64 \<Rightarrow> ProducerImpl option \<times> error option" where
  "Producer_Create ep n type cred tmo =
     (if n > kMaxProcessingThreads \<or> n = 0
      then (None, wrong_input (''Set number of processing threads > 0 and <= ''
                                @ nat_to_string (unat kMaxProcessingThreads)))
      else
        (let (err, p) = SetCredentials cred (ProducerImpl_new ep n tmo type) in
         if err \<noteq> None then (None, err) else (Some p, None)))"

section \<open>Metadata\<close>

definition SendMeta ::
    "producer_build \<Rightarrow> int \<Rightarrow> string \<Rightarrow> MetaIngestMode \<Rightarrow> string \<Rightarrow> nat option \<Rightarrow> ProducerImpl \<Rightarrow> error option \<times> ProducerImpl" where
  "SendMeta B now metadata mode strm cb p =
     (let h = GenericRequestHeader_new (stack_params B) kOpcodeTransferMetaData 0 (of_nat (length metadata)) 0
                (if strm = [] then ''beamtime_global.meta'' else strm @ ''.meta'') strm;
          h1 = h\<lparr>custom_params := (custom_params h)[kPosIngestMode := kTransferData OR kStoreInDatabase,
                   kPosMetaIngestMode := MetaIngestMode_Encode mode]\<rparr>;
          (err, p1) = pool_add (ProducerRequest_new (pp_receiver_version (protocol B)) (source_cred_string p) h1
                        (Some (strncpy (length metadata) metadata)) [] [] cb True (default_timeout_ms p) now) False p in
      (HandleErrorFromPool err True, p1))"

definition SendBeamtimeMetadata ::
    "producer_build \<Rightarrow> int \<Rightarrow> string \<Rightarrow> MetaIngestMode \<Rightarrow> nat option \<Rightarrow> ProducerImpl \<Rightarrow> error option \<times> ProducerImpl" where
  "SendBeamtimeMetadata B now metadata mode cb p = SendMeta B now metadata mode [] cb p"

definition SendMetadata :: "producer_build \<Rightarrow> int \<Rightarrow> string \<Rightarrow> nat option \<Rightarrow> ProducerImpl \<Rightarrow> error option \<times> ProducerImpl" where
  "SendMetadata B now metadata cb p = SendBeamtimeMetadata B now metadata \<lparr>mi_op = MI_kReplace, upsert = True\<rparr> cb p"

definition SendStreamMetadata ::
    "producer_build \<Rightarrow> int \<Rightarrow> string \<Rightarrow> MetaIngestMode \<Rightarrow> string \<Rightarrow> nat option \<Rightarrow> ProducerImpl \<Rightarrow> error option \<times> ProducerImpl" where
  "SendStreamMetadata B now metadata mode strm cb p =
     (if strm = [] then (wrong_input ''stream is empty'', p) else SendMeta B now metadata mode strm cb p)"

section \<open>Calls that wait for an answer\<close>

record ReceiverResponse =
  rr_payload :: string
  rr_err :: "error option"

definition ActivatePromiseForReceiverResponse :: "RequestCallbackPayload \<Rightarrow> error option \<Rightarrow> ReceiverResponse" where
  "ActivatePromiseForReceiverResponse payload err =
     (if err = None then \<lparr>rr_payload = cb_response payload, rr_err = None\<rparr> else \<lparr>rr_payload = [], rr_err = err\<rparr>)"

text \<open>\<open>reply\<close> is the first call of the callback within the time that the caller waits.\<close>

definition GetResultFromCallback ::
    "(RequestCallbackPayload \<times> error option) option \<Rightarrow> error option \<Rightarrow> ReceiverResponse \<times> error option" where
  "GetResultFromCallback reply err =
     (case reply of
        Some (payload, e) \<Rightarrow> (ActivatePromiseForReceiverResponse payload e, err)
      | None \<Rightarrow> (\<lparr>rr_payload = [], rr_err = None\<rparr>, Some (prd_err P_kTimeout [])))"

definition CreateRequestHeaderFromOp :: "producer_build \<Rightarrow> StreamRequestOp \<Rightarrow> string \<Rightarrow> GenericRequestHeader" where
  "CreateRequestHeaderFromOp B op strm =
     (case op of
        SR_kStreamInfo \<Rightarrow> GenericRequestHeader_new (stack_params B) kOpcodeStreamInfo 0 0 0 [] strm
      | SR_kLastStream \<Rightarrow> GenericRequestHeader_new (stack_params B) kOpcodeLastStream 0 0 0 [] [])"

text \<open>\<open>answer\<close> says what the callback is called with, given the request and the time to wait.\<close>

type_synonym answer = "ProducerRequest \<Rightarrow> u64 \<Rightarrow> (RequestCallbackPayload \<times> error option) option"

definition blocking_request :: "producer_build \<Rightarrow> int \<Rightarrow> nat \<Rightarrow> GenericRequestHeader \<Rightarrow> u64 \<Rightarrow> ProducerImpl \<Rightarrow> ProducerRequest" where
  "blocking_request B now promise h tmo p =
     ProducerRequest_new (pp_receiver_version (protocol B)) (source_cred_string p) h None [] [] (Some promise) True tmo now"

definition BlockingRequest ::
    "producer_build \<Rightarrow> int \<Rightarrow> nat \<Rightarrow> answer \<Rightarrow> GenericRequestHeader \<Rightarrow> u64 \<Rightarrow> ProducerImpl \<Rightarrow> (string \<times> error option) \<times> ProducerImpl" where
  "BlockingRequest B now promise answer h tmo p =
     (let r = blocking_request B now promise h tmo p;
          (perr, p1) = pool_add r True p in
      case perr of
        Some (e, r') \<Rightarrow> (([], Some e), p1)
      | None \<Rightarrow>
          (let (res, err) = GetResultFromCallback (answer r (tmo + 2000)) None in
           if err \<noteq> None then (([], err), p1)
           else if rr_err res = None then ((rr_payload res, None), p1)
           else (([], rr_err res), p1)))"

definition StreamRequest ::
    "producer_build \<Rightarrow> rapidjson_lib \<Rightarrow> int \<Rightarrow> nat \<Rightarrow> answer \<Rightarrow> StreamRequestOp \<Rightarrow> string \<Rightarrow> u64 \<Rightarrow> ProducerImpl
      \<Rightarrow> (StreamInfo \<times> error option) \<times> ProducerImpl" where
  "StreamRequest B L now promise answer op strm tmo p =
     (let header = CreateRequestHeaderFromOp B op strm;
          ((response, err), p1) = BlockingRequest B now promise answer header tmo p in
      if err \<noteq> None then ((StreamInfo_new, err), p1)
      else
        (let (ok, res) = StreamInfo_SetFromJson L response StreamInfo_new in
         if \<not> ok
         then ((StreamInfo_new, Some (prd_err P_kInternalServerError
                 (''cannot read JSON string from server response: '' @ response))), p1)
         else ((res, None), p1)))"

definition GetStreamInfo ::
    "producer_build \<Rightarrow> rapidjson_lib \<Rightarrow> int \<Rightarrow> nat \<Rightarrow> answer \<Rightarrow> string \<Rightarrow> u64 \<Rightarrow> ProducerImpl \<Rightarrow> (StreamInfo \<times> error option) \<times> ProducerImpl" where
  "GetStreamInfo B L now promise answer strm tmo p =
     (if strm = [] then ((StreamInfo_new, wrong_input ''stream empty''), p)
      else StreamRequest B L now promise answer SR_kStreamInfo strm tmo p)"

definition GetLastStream ::
    "producer_build \<Rightarrow> rapidjson_lib \<Rightarrow> int \<Rightarrow> nat \<Rightarrow> answer \<Rightarrow> u64 \<Rightarrow> ProducerImpl \<Rightarrow> (StreamInfo \<times> error option) \<times> ProducerImpl" where
  "GetLastStream B L now promise answer tmo p = StreamRequest B L now promise answer SR_kLastStream [] tmo p"

definition DeleteStream ::
    "producer_build \<Rightarrow> int \<Rightarrow> nat \<Rightarrow> answer \<Rightarrow> string \<Rightarrow> u64 \<Rightarrow> DeleteStreamOptions \<Rightarrow> ProducerImpl \<Rightarrow> error option \<times> ProducerImpl" where
  "DeleteStream B now promise answer strm tmo options p =
     (let h = GenericRequestHeader_new (stack_params B) kOpcodeDeleteStream 0 0 0 [] strm;
          h1 = h\<lparr>custom_params := (custom_params h)[0 := DeleteStreamOptions_Encode options]\<rparr>;
          ((response, err), p1) = BlockingRequest B now promise answer h1 tmo p in
      (err, p1))"

definition GetMeta ::
    "producer_build \<Rightarrow> int \<Rightarrow> nat \<Rightarrow> answer \<Rightarrow> string \<Rightarrow> u64 \<Rightarrow> ProducerImpl \<Rightarrow> (string \<times> error option) \<times> ProducerImpl" where
  "GetMeta B now promise answer strm tmo p =
     (let header = GenericRequestHeader_new (stack_params B) kOpcodeGetMeta 0 0 0 [] strm;
          ((response, err), p1) = BlockingRequest B now promise answer header tmo p in
      if err \<noteq> None then (([], err), p1) else ((response, None), p1))"

definition GetStreamMeta ::
    "producer_build \<Rightarrow> int \<Rightarrow> nat \<Rightarrow> answer \<Rightarrow> string \<Rightarrow> u64 \<Rightarrow> ProducerImpl \<Rightarrow> (string \<times> error option) \<times> ProducerImpl" where
  "GetStreamMeta B now promise answer strm tmo p = GetMeta B now promise answer strm tmo p"

definition GetBeamtimeMeta ::
    "producer_build \<Rightarrow> int \<Rightarrow> nat \<Rightarrow> answer \<Rightarrow> u64 \<Rightarrow> ProducerImpl \<Rightarrow> (string \<times> error option) \<times> ProducerImpl" where
  "GetBeamtimeMeta B now promise answer tmo p = GetMeta B now promise answer [] tmo p"

section \<open>Control of the queue\<close>

definition GetRequestsQueueSize :: "ProducerImpl \<Rightarrow> u64" where
  "GetRequestsQueueSize p = NRequestsInPoolWithoutLock (request_pool p)"

definition GetRequestsQueueVolumeMb :: "ProducerImpl \<Rightarrow> u64" where
  "GetRequestsQueueVolumeMb p = memory_used (request_pool p) div 1000000"

definition SetRequestsQueueLimits :: "u64 \<Rightarrow> u64 \<Rightarrow> ProducerImpl \<Rightarrow> ProducerImpl" where
  "SetRequestsQueueLimits n volume p =
     p\<lparr>request_pool := SetLimits \<lparr>max_requests = n, max_memory_mb = volume\<rparr> (request_pool p)\<rparr>"

text \<open>\<open>n_requests i\<close> is what the \<open>i\<close>-th poll of the pool sees; \<open>None\<close> is not returning.\<close>

definition Producer_WaitRequestsFinished :: "(nat \<Rightarrow> u64) \<Rightarrow> u64 \<Rightarrow> error option option" where
  "Producer_WaitRequestsFinished n_requests tmo =
     map_option (\<lambda>err. if err \<noteq> None then Some (prd_err P_kTimeout ''waiting to finish processing requests'') else None)
       (WaitRequestsFinished n_requests tmo)"

definition Producer_StopThreads :: "ProducerImpl \<Rightarrow> ProducerImpl" where
  "Producer_StopThreads p = p\<lparr>request_pool := StopThreads (request_pool p)\<rparr>"

section \<open>Versions\<close>

text \<open>\<open>http_get\<close> is the answer of the HTTP client to a request for an address.\<close>

definition Producer_GetServerVersionInfo ::
    "producer_build \<Rightarrow> rapidjson_lib \<Rightarrow> (string \<Rightarrow> string \<times> nat \<times> error option) \<Rightarrow> string option \<Rightarrow> bool option \<Rightarrow> ProducerImpl
      \<Rightarrow> error option \<times> string option \<times> bool option" where
  "Producer_GetServerVersionInfo B L http_get server_info supported p =
     (let (response, code, err) = http_get (endpoint p @ ''/asapo-discovery/'' @ pp_discovery_version (protocol B)
              @ ''/version?client=producer&protocol='' @ pp_version (protocol B)) in
      if err \<noteq> None then (err, server_info, supported)
      else ExtractVersionFromResponse L response ''producer'' server_info supported)"

definition Producer_GetVersionInfo ::
    "producer_build \<Rightarrow> rapidjson_lib \<Rightarrow> (string \<Rightarrow> string \<times> nat \<times> error option) \<Rightarrow> string option \<Rightarrow> string option \<Rightarrow> bool option
      \<Rightarrow> ProducerImpl \<Rightarrow> error option \<times> string option \<times> string option \<times> bool option" where
  "Producer_GetVersionInfo B L http_get client_info server_info supported p =
     (if client_info = None \<and> server_info = None \<and> supported = None
      then (wrong_input ''missing parameters'', client_info, server_info, supported)
      else
        (let client_info1 = map_option (\<lambda>s. ''software version: '' @ kVersion B @ '', producer protocol: ''
                                            @ pp_version (protocol B)) client_info in
         if server_info \<noteq> None \<or> supported \<noteq> None
         then (let (err, si, su) = Producer_GetServerVersionInfo B L http_get server_info supported p in
               (err, client_info1, si, su))
         else (None, client_info1, server_info, supported)))"

section \<open>The header of a request\<close>

lemma length_strcpy_into:
  "length (c_str v) < length buf \<Longrightarrow> length (strcpy_into v buf) = length buf"
  by (simp add: strcpy_into_def)

lemma c_str_strcpy_into: "c_str (strcpy_into v buf) = c_str v"
  by (simp add: strcpy_into_def c_str_append_NUL)

lemma length_c_str_le: "length (c_str s) \<le> length s"
  by (simp add: c_str_def length_takeWhile_le)

text \<open>The fields of the header of a new request, for a header whose arrays have the right sizes.\<close>

lemma request_header_wf [inv_intros]:
  assumes "header_wf h"
  shows "header_wf (header (ProducerRequest_new v c h d md path cb mng tmo now))"
proof -
  let ?v = "if length v < kMaxVersionSize then v else ''v0.0''"
  have "length (c_str ?v) < kMaxVersionSize"
    using length_c_str_le [of v] by (simp add: kMaxVersionSize_def c_str_def)
  moreover have "length (api_version (copy_header h)) = kMaxVersionSize" by (simp add: copy_header_def)
  ultimately show ?thesis
    using assms length_strcpy_into [of ?v "api_version (copy_header h)"]
    by (simp add: ProducerRequest_new_def header_wf_def copy_header_def Let_def)
qed

lemma request_header_fields [simp]:
  "op_code (header (ProducerRequest_new v c h d md path cb mng tmo now)) = op_code h"
  "data_id (header (ProducerRequest_new v c h d md path cb mng tmo now)) = data_id h"
  "data_size (header (ProducerRequest_new v c h d md path cb mng tmo now)) = data_size h"
  "meta_size (header (ProducerRequest_new v c h d md path cb mng tmo now)) = meta_size h"
  "custom_params (header (ProducerRequest_new v c h d md path cb mng tmo now)) = take kNCustomParams (custom_params h)"
  "msg_data (ProducerRequest_new v c h d md path cb mng tmo now) = d"
  "user_metadata (ProducerRequest_new v c h d md path cb mng tmo now) = md"
  "original_filepath (ProducerRequest_new v c h d md path cb mng tmo now) = path"
  "callback (ProducerRequest_new v c h d md path cb mng tmo now) = cb"
  "manage_data_memory (ProducerRequest_new v c h d md path cb mng tmo now) = mng"
  "source_credentials (ProducerRequest_new v c h d md path cb mng tmo now) = c"
  "timeout_ms (ProducerRequest_new v c h d md path cb mng tmo now) = tmo"
  "created_at (ProducerRequest_new v c h d md path cb mng tmo now) = now"
  by (simp_all add: ProducerRequest_new_def copy_header_def Let_def)

text \<open>
  The texts of the header arrive as they were given when each leaves room for its terminator; the
  version is replaced by the one of the producer.
\<close>

lemma request_header_texts:
  assumes h: "header_wf h" "NUL \<in> set (message h)" "NUL \<in> set (stream h)"
    and v: "length v < kMaxVersionSize" "NUL \<notin> set v"
  shows "message_str (header (ProducerRequest_new v c h d md path cb mng tmo now)) = message_str h"
    and "stream_str (header (ProducerRequest_new v c h d md path cb mng tmo now)) = stream_str h"
    and "api_version_str (header (ProducerRequest_new v c h d md path cb mng tmo now)) = v"
proof -
  let ?r = "ProducerRequest_new v c h d md path cb mng tmo now"
  have len: "length (message h) = kMaxMessageSize" "length (stream h) = kMaxMessageSize"
    using h(1) by (simp_all add: header_wf_def)
  have m: "message (header ?r) = message h"
    using len by (simp add: ProducerRequest_new_def copy_header_def Let_def)
  show "message_str (header ?r) = message_str h"
    using h(2) m by (simp add: message_str_def c_str_append_terminated)
  have s: "stream (header ?r) = strncpy kMaxMessageSize (stream h @ api_version h)"
    by (simp add: ProducerRequest_new_def copy_header_def Let_def)
  have eq: "c_str (stream h @ api_version h) = c_str (stream h)" using h(3) by (rule c_str_append_terminated)
  show "stream_str (header ?r) = stream_str h"
    using c_str_strncpy_c_str [of "stream h @ api_version h" kMaxMessageSize] c_str_short [OF h(3)] len eq
    by (simp add: stream_str_def s)
  show "api_version_str (header ?r) = v"
    using v by (simp add: api_version_str_def ProducerRequest_new_def Let_def c_str_strcpy_into c_str_id)
qed

lemma header_new_terminated:
  assumes "length s < kMaxMessageSize" and "length t < kMaxMessageSize"
  shows "NUL \<in> set (message (GenericRequestHeader_new cd op i n m s t))"
    and "NUL \<in> set (stream (GenericRequestHeader_new cd op i n m s t))"
proof -
  have "NUL \<in> set (strncpy k x)" if "length x < k" for k x
  proof -
    have "length (c_str x) < k" using that length_c_str_le [of x] by linarith
    then have "strncpy k x = c_str x @ replicate (k - length (c_str x)) NUL" by (simp add: strncpy_def)
    then show ?thesis using \<open>length (c_str x) < k\<close> by simp
  qed
  then show "NUL \<in> set (message (GenericRequestHeader_new cd op i n m s t))"
    "NUL \<in> set (stream (GenericRequestHeader_new cd op i n m s t))"
    using assms by (simp_all add: GenericRequestHeader_new_def)
qed

lemma generated_header_fields [simp]:
  "op_code (GenerateNextSendRequest B mh strm mode) =
     (if mh_dataset_substream mh = 0 then kOpcodeTransferData else kOpcodeTransferDatasetData)"
  "data_id (GenerateNextSendRequest B mh strm mode) = mh_message_id mh"
  "data_size (GenerateNextSendRequest B mh strm mode) = mh_data_size mh"
  "meta_size (GenerateNextSendRequest B mh strm mode) = of_nat (length (mh_user_metadata mh))"
  "message (GenerateNextSendRequest B mh strm mode) = strncpy kMaxMessageSize (mh_file_name mh)"
  "stream (GenerateNextSendRequest B mh strm mode) = strncpy kMaxMessageSize strm"
  "api_version (GenerateNextSendRequest B mh strm mode) = strncpy kMaxVersionSize ''v0.0''"
  by (simp_all add: GenerateNextSendRequest_def GenericRequestHeader_new_def Let_def)

lemma generated_header_params:
  assumes "length (stack_params B) = kNCustomParams"
  shows "custom_params (GenerateNextSendRequest B mh strm mode) =
    (if mh_dataset_substream mh = 0 then [mode, stack_params B ! 1, stack_params B ! 2]
     else [mode, mh_dataset_substream mh, mh_dataset_size mh])"
proof -
  obtain a b c where "stack_params B = [a, b, c]" using assms by (auto simp: length_Suc_conv numeral_3_eq_3)
  then show ?thesis by (simp add: GenerateNextSendRequest_def GenericRequestHeader_new_def Let_def)
qed

lemma generated_header_wf [inv_intros]:
  "length (stack_params B) = kNCustomParams \<Longrightarrow> header_wf (GenerateNextSendRequest B mh strm mode)"
  using generated_header_params [of B mh strm mode] by (simp add: header_wf_def)

section \<open>What the checks accept\<close>

lemma check_request_accepts:
  "CheckProducerRequest mh mode strm = None \<longleftrightarrow>
     strm \<noteq> [] \<and> mh_file_name mh \<noteq> [] \<and> length (mh_file_name mh) \<le> kMaxMessageSize
     \<and> (mh_dataset_substream mh = 0 \<or> mh_dataset_size mh \<noteq> 0 \<and> \<not> mh_auto_id mh)
     \<and> (mh_message_id mh = 0 \<longleftrightarrow> mh_auto_id mh) \<and> CheckIngestMode mode = None"
  by (auto simp: CheckProducerRequest_def CheckFileNameInRequest_def CheckDatasetInRequest_def
      CheckMessageIdInRequest_def wrong_input_def split: option.splits)

lemma check_errors:
  "CheckProducerRequest mh mode strm = Some e \<Longrightarrow> err_is (Some e) (ProducerErrorTemplates P_kWrongInput) \<and> custom_data e = None"
  "CheckData mode mh d = Some e \<Longrightarrow> err_is (Some e) (ProducerErrorTemplates P_kWrongInput) \<and> custom_data e = None"
  by (auto simp: CheckProducerRequest_def CheckFileNameInRequest_def CheckDatasetInRequest_def CheckData_def
      CheckMessageIdInRequest_def CheckIngestMode_def wrong_input_def err_is_def Generate_def
      split: option.splits if_splits)

lemma custom_data_SetCustomData [simp]:
  "custom_data (SetCustomData c e) = c" "error_type (SetCustomData c e) = error_type e"
  by (cases e; simp)+

section \<open>Properties\<close>

text \<open>The request that \<open>Send\<close> makes of its arguments.\<close>

definition send_request ::
    "producer_build \<Rightarrow> int \<Rightarrow> MessageHeader \<Rightarrow> string \<Rightarrow> string option \<Rightarrow> string \<Rightarrow> u64 \<Rightarrow> nat option \<Rightarrow> bool \<Rightarrow> ProducerImpl \<Rightarrow> ProducerRequest" where
  "send_request B now mh strm d full_path mode cb manage p =
     ProducerRequest_new (pp_receiver_version (protocol B)) (source_cred_string p) (GenerateNextSendRequest B mh strm mode)
       d (mh_user_metadata mh) full_path cb manage (default_timeout_ms p) now"

definition refused_with :: "string option \<Rightarrow> bool \<Rightarrow> error \<Rightarrow> bool" where
  "refused_with d manage e \<longleftrightarrow>
     (err_is (Some e) (ProducerErrorTemplates P_kWrongInput) \<or> err_is (Some e) (ProducerErrorTemplates P_kRequestPoolIsFull))
     \<and> custom_data e = (if manage then map_option OriginalData d else None)"

lemma input_error_returns_data:
  assumes "err_is (Some e) (ProducerErrorTemplates P_kWrongInput) \<and> custom_data e = None"
  shows "\<exists>e'. HandleInputError e d manage = Some e' \<and> refused_with d manage e'"
  using assms by (auto simp: HandleInputError_def refused_with_def err_is_def split: option.splits)

lemma pool_error_returns_data:
  "\<exists>e'. HandleErrorFromPool (Some (e, r)) manage = Some e' \<and> refused_with (msg_data r) manage e'"
  by (auto simp: HandleErrorFromPool_def refused_with_def err_is_def Generate_def Let_def split: option.splits)

lemma send_impl_outcome:
  assumes r_def: "r = send_request B now mh strm d full_path mode cb manage p"
  shows "(\<exists>e. Send_impl B now mh strm d full_path mode cb manage p = (Some e, p) \<and> refused_with d manage e)
    \<or> CheckProducerRequest mh mode strm = None
      \<and> Send_impl B now mh strm d full_path mode cb manage p =
        (None, p\<lparr>request_pool := (request_pool p)\<lparr>request_queue := request_queue (request_pool p) @ [r],
           memory_used := memory_used (request_pool p) + (if ContainsData r then mh_data_size mh else 0)\<rparr>\<rparr>)"
proof (cases "CheckProducerRequest mh mode strm")
  case (Some e)
  then show ?thesis
    using input_error_returns_data [of e d manage] check_errors(1) [OF Some] by (auto simp: Send_impl_def)
next
  case ok: None
  have size: "data_size (header r) = mh_data_size mh" and data: "msg_data r = d"
    by (simp_all add: r_def send_request_def)
  show ?thesis
  proof (cases "CanAddRequest ContainsData r False (request_pool p)")
    case None
    then have "pool_add r False p = (None, p\<lparr>request_pool := (request_pool p)\<lparr>request_queue := request_queue (request_pool p) @ [r],
        memory_used := memory_used (request_pool p) + (if ContainsData r then mh_data_size mh else 0)\<rparr>\<rparr>)"
      by (simp add: pool_add_def AddRequest_def size Let_def)
    then show ?thesis using ok by (simp add: Send_impl_def r_def send_request_def HandleErrorFromPool_def)
  next
    case (Some e)
    then have "pool_add r False p = (Some (e, r), p)" by (simp add: pool_add_def AddRequest_def)
    then have "Send_impl B now mh strm d full_path mode cb manage p = (HandleErrorFromPool (Some (e, r)) manage, p)"
      using ok by (simp add: Send_impl_def r_def send_request_def)
    then show ?thesis using pool_error_returns_data [of e r manage] data by auto
  qed
qed

text \<open>
  C11. Sending a message is all or nothing.  Either \<open>Send\<close> refuses it - for wrong input or because
  the pool is full - and nothing changes and the error gives the user's data back; or exactly one
  request joins the end of the queue.  That request carries the message: its data, metadata,
  callback, identifier and sizes; it has data if it needs to send any, its ingest mode is one of
  the valid ones, a part of a data set says which, and the arrays of its header have their sizes.
\<close>
theorem send_all_or_nothing:
  assumes "length (stack_params B) = kNCustomParams"
  shows "case Send B now mh d mode strm cb p of
      (Some e, p') \<Rightarrow> p' = p \<and> refused_with d True e
    | (None, p') \<Rightarrow>
        (\<exists>r. request_queue (request_pool p') = request_queue (request_pool p) @ [r]
          \<and> memory_used (request_pool p') = memory_used (request_pool p) + mh_data_size mh
          \<and> msg_data r = d \<and> user_metadata r = mh_user_metadata mh \<and> callback r = cb
          \<and> data_id (header r) = mh_message_id mh \<and> data_size (header r) = mh_data_size mh
          \<and> meta_size (header r) = of_nat (length (mh_user_metadata mh))
          \<and> (NeedSend r \<longrightarrow> d \<noteq> None \<and> mh_data_size mh \<noteq> 0)
          \<and> (NeedSend r \<longleftrightarrow> \<not> has_flag mode kTransferMetaDataOnly)
          \<and> custom_param kPosIngestMode (header r) = mode \<and> CheckIngestMode mode = None
          \<and> op_code (header r) = (if mh_dataset_substream mh = 0 then kOpcodeTransferData else kOpcodeTransferDatasetData)
          \<and> (mh_dataset_substream mh \<noteq> 0 \<longrightarrow> custom_param kPosDataSetId (header r) = mh_dataset_substream mh
               \<and> custom_param kPosDataSetSize (header r) = mh_dataset_size mh \<and> mh_dataset_size mh \<noteq> 0)
          \<and> header_wf (header r))"
proof (cases "CheckData mode mh d")
  case (Some e)
  then show ?thesis using input_error_returns_data [of e d True] check_errors(2) [OF Some] by (auto simp: Send_def)
next
  case None
  let ?r = "send_request B now mh strm d [] mode cb True p"
  have data: "has_flag mode kTransferData \<Longrightarrow> d \<noteq> None \<and> mh_data_size mh \<noteq> 0"
    using None by (auto simp: CheckData_def WantTransferData_def wrong_input_def split: if_splits)
  have params: "custom_params (header ?r) = custom_params (GenerateNextSendRequest B mh strm mode)"
    using generated_header_params [OF assms, of mh strm mode] by (simp add: send_request_def)
  have mode: "custom_param kPosIngestMode (header ?r) = mode"
    using generated_header_params [OF assms, of mh strm mode] by (simp add: custom_param_def params)
  have opc: "op_code (header ?r) = (if mh_dataset_substream mh = 0 then kOpcodeTransferData else kOpcodeTransferDatasetData)"
    by (simp add: send_request_def)
  have need: "NeedSend ?r \<longleftrightarrow> has_flag mode kTransferData"
    using opc mode by (simp add: NeedSend_def)
  have wf: "header_wf (header ?r)"
    unfolding send_request_def by (intro inv_intros assms)
  have cont: "ContainsData ?r" by (simp add: ContainsData_def DataFromFile_def send_request_def)
  from send_impl_outcome [OF refl, of B now mh strm d "[]" mode cb True p] show ?thesis
  proof
    assume "\<exists>e. Send_impl B now mh strm d [] mode cb True p = (Some e, p) \<and> refused_with d True e"
    then show ?thesis using None by (auto simp: Send_def)
  next
    assume sent: "CheckProducerRequest mh mode strm = None
      \<and> Send_impl B now mh strm d [] mode cb True p =
        (None, p\<lparr>request_pool := (request_pool p)\<lparr>request_queue := request_queue (request_pool p) @ [?r],
           memory_used := memory_used (request_pool p) + (if ContainsData ?r then mh_data_size mh else 0)\<rparr>\<rparr>)"
    then have checks: "CheckIngestMode mode = None"
      "mh_dataset_substream mh = 0 \<or> mh_dataset_size mh \<noteq> 0" by (auto simp: check_request_accepts)
    have excl: "has_flag mode kTransferData \<longleftrightarrow> \<not> has_flag mode kTransferMetaDataOnly"
      using checks(1) by (auto simp: CheckIngestMode_def wrong_input_def split: if_splits)
    have ds: "mh_dataset_substream mh \<noteq> 0 \<Longrightarrow> custom_param kPosDataSetId (header ?r) = mh_dataset_substream mh
        \<and> custom_param kPosDataSetSize (header ?r) = mh_dataset_size mh"
      using generated_header_params [OF assms, of mh strm mode] by (simp add: custom_param_def params)
    show ?thesis
      using sent None data need excl mode checks wf ds opc cont
      by (simp add: Send_def) (auto simp: send_request_def)
  qed
qed

definition demo_build :: producer_build where
  "demo_build = \<lparr>protocol = \<lparr>pp_version = ''v0.6'', pp_discovery_version = ''v0.1'', pp_receiver_version = ''v0.6''\<rparr>,
     kVersion = ''23.12.0'', stack_params = [11, 22, 33]\<rparr>"

definition demo_producer :: ProducerImpl where
  "demo_producer = snd (SetCredentials \<lparr>sc_beamtime_id = ''bt'', sc_beamline = ''bl'', sc_data_source = [],
     sc_user_token = ''tok'', sc_type = kRaw\<rparr> (ProducerImpl_new ''host'' 2 1000 kTcp))"

definition demo_message_header :: MessageHeader where
  "demo_message_header = MessageHeader_new\<lparr>mh_message_id := 7, mh_data_size := 3, mh_file_name := ''raw/f'',
     mh_user_metadata := ''{}''\<rparr>"

lemma demo_producer_pool: "request_pool demo_producer = RequestPool_new"
  by (simp add: demo_producer_def SetCredentials_def ProducerImpl_new_def Let_def)

lemma demo_request_accepted:
  "CheckProducerRequest demo_message_header kDefaultIngestMode ''s'' = None"
  "CheckData kDefaultIngestMode demo_message_header (Some d) = None"
  by (simp_all add: check_request_accepts CheckIngestMode_def CheckData_def WantTransferData_def has_flag_def
      kDefaultIngestMode_def ingest_flags demo_message_header_def MessageHeader_new_def kMaxMessageSize_def)

theorem send_all_or_nothing_witness:
  "fst (Send demo_build 0 demo_message_header (Some ''abc'') kDefaultIngestMode ''s'' (Some 1) demo_producer) = None
   \<and> (\<exists>r. request_queue (request_pool (snd (Send demo_build 0 demo_message_header (Some ''abc'') kDefaultIngestMode ''s''
              (Some 1) demo_producer))) = [r]
          \<and> msg_data r = Some ''abc'' \<and> data_id (header r) = 7)"
proof -
  let ?s = "Send demo_build 0 demo_message_header (Some ''abc'') kDefaultIngestMode ''s'' (Some 1) demo_producer"
  have add: "CanAddRequest ContainsData r False RequestPool_new = None" for r :: ProducerRequest
    by (simp add: CanAddRequest_def RequestPool_new_def)
  have "fst ?s = None"
    using add by (simp add: Send_def Send_impl_def demo_request_accepted pool_add_def AddRequest_def
        HandleErrorFromPool_def demo_producer_pool Let_def)
  moreover have "request_queue (request_pool demo_producer) = []"
    by (simp add: demo_producer_pool RequestPool_new_def)
  moreover have "length (stack_params demo_build) = kNCustomParams" by (simp add: demo_build_def)
  moreover have "mh_message_id demo_message_header = 7" by (simp add: demo_message_header_def)
  ultimately show ?thesis
    using send_all_or_nothing [where B = demo_build and now = 0 and mh = demo_message_header and d = "Some ''abc''"
        and mode = kDefaultIngestMode and strm = "''s''" and cb = "Some 1" and p = demo_producer]
    by (cases ?s) auto
qed

lemma overlong_names:
  assumes "CheckProducerRequest mh mode strm = None" and "NUL \<notin> set (mh_file_name mh)" and "NUL \<notin> set strm"
    and "length (pp_receiver_version (protocol B)) < kMaxVersionSize" and "NUL \<notin> set (pp_receiver_version (protocol B))"
  shows "length (mh_file_name mh) = kMaxMessageSize \<and> length strm < kMaxMessageSize \<Longrightarrow>
      message_str (header (send_request B now mh strm d path mode cb mng p)) = mh_file_name mh @ strm"
    and "length strm \<ge> kMaxMessageSize \<Longrightarrow>
      stream_str (header (send_request B now mh strm d path mode cb mng p)) =
        take kMaxMessageSize strm @ pp_receiver_version (protocol B)"
proof -
  let ?h = "header (send_request B now mh strm d path mode cb mng p)" and ?v = "pp_receiver_version (protocol B)"
  have s: "stream ?h = strncpy kMaxMessageSize (strncpy kMaxMessageSize strm @ strncpy kMaxVersionSize ''v0.0'')"
    by (simp add: send_request_def ProducerRequest_new_def copy_header_def Let_def)
  have v: "c_str (api_version ?h) = ?v"
    using assms(4,5) by (simp add: send_request_def ProducerRequest_new_def Let_def c_str_strcpy_into c_str_id)
  {
    assume len: "length (mh_file_name mh) = kMaxMessageSize \<and> length strm < kMaxMessageSize"
    have m: "message ?h = mh_file_name mh"
      using len assms(2) by (simp add: send_request_def ProducerRequest_new_def copy_header_def strncpy_full Let_def)
    have "stream ?h = strncpy kMaxMessageSize strm"
      using len assms(3) strncpy_c_str [of kMaxMessageSize "strncpy kMaxMessageSize strm @ strncpy kMaxVersionSize ''v0.0''"]
      by (simp add: s c_str_strncpy_short)
    then show "message_str ?h = mh_file_name mh @ strm"
      using len assms by (simp add: message_str_def m c_str_append c_str_strncpy_short)
  next
    assume len: "length strm \<ge> kMaxMessageSize"
    have nul: "NUL \<notin> set (take kMaxMessageSize strm)" using assms(3) by (meson in_set_takeD)
    have full: "strncpy kMaxMessageSize strm = take kMaxMessageSize strm"
      using len assms(3) by (simp add: strncpy_def c_str_id)
    have "stream ?h = take kMaxMessageSize strm"
      using len nul by (simp add: s full strncpy_def [of kMaxMessageSize "take kMaxMessageSize strm @ x" for x] c_str_append)
    then show "stream_str ?h = take kMaxMessageSize strm @ ?v"
      using nul v by (simp add: stream_str_def c_str_append)
  }
qed

text \<open>
  Names that fill their array are accepted and sent without a terminator.  A file name of exactly
  1024 characters passes the checks and the receiver reads it with the stream name attached; the
  length of a stream name is not checked at all, and one of 1024 characters or more is cut and
  read with the protocol version attached.
\<close>
theorem overlong_names_are_mangled:
  assumes "CheckProducerRequest mh mode strm = None" and "NUL \<notin> set (mh_file_name mh)" and "NUL \<notin> set strm"
    and "length (pp_receiver_version (protocol B)) < kMaxVersionSize" and "NUL \<notin> set (pp_receiver_version (protocol B))"
  shows "(length (mh_file_name mh) = kMaxMessageSize \<and> length strm < kMaxMessageSize \<longrightarrow>
      message_str (header (send_request B now mh strm d path mode cb mng p)) = mh_file_name mh @ strm)
    \<and> (length strm \<ge> kMaxMessageSize \<longrightarrow>
      stream_str (header (send_request B now mh strm d path mode cb mng p)) =
        take kMaxMessageSize strm @ pp_receiver_version (protocol B))"
  using overlong_names [OF assms] by blast

theorem overlong_names_are_mangled_witness:
  "message_str (header (send_request demo_build 0 (demo_message_header\<lparr>mh_file_name := replicate 1024 CHR ''a''\<rparr>) ''s'' None []
      kDefaultIngestMode None True demo_producer)) = replicate 1024 CHR ''a'' @ ''s''"
proof -
  let ?m = "demo_message_header\<lparr>mh_file_name := replicate 1024 CHR ''a''\<rparr>"
  have "CheckProducerRequest ?m kDefaultIngestMode ''s'' = None"
    using demo_request_accepted(1) by (auto simp: check_request_accepts kMaxMessageSize_def demo_message_header_def MessageHeader_new_def)
  then show ?thesis
    using overlong_names_are_mangled [of ?m kDefaultIngestMode "''s''" demo_build 0 None "[]" None True demo_producer]
    by (simp add: kMaxMessageSize_def kMaxVersionSize_def demo_build_def)
qed

end
