(* ===== verification/Data_Cache.thy ===== *)
theory Data_Cache
  imports Asapo_Prelude "HOL-Library.Multiset"
begin

text \<open>
  The receiver's in-memory data cache (\<open>receiver/src/data_cache.{h,cpp}\<close>): one buffer of
  \<open>cache_size\<close> bytes used as a ring, the slots handed out in it, and a lock count per slot.

  A pointer into the buffer is its offset from the start of the buffer.  A \<open>CacheMeta*\<close> is the
  identity of a slot record, a number that no other record has had (\<open>next_ref\<close> is the next
  one); following a pointer to an erased record is undefined in the code and \<open>None\<close> here.  The
  single float operation, \<open>(uint64_t)((float)cache_size * keepunlocked_ratio)\<close>, is the function
  \<open>keepunlocked_ratio\<close> applied to the cache size.  Each public operation holds the mutex
  from start to end, so a concurrent execution is a sequence of the operations below.
\<close>

record CacheMeta =
  cm_ref :: nat
  cm_id :: u64
  cm_addr :: u64
  cm_size :: u64
  cm_lock :: int

record DataCache =
  cache_size :: u64
  keepunlocked_ratio :: "u64 \<Rightarrow> u64"
  counter :: u32
  cur_pointer :: u64
  meta :: "CacheMeta list"
  next_ref :: nat

definition DataCache_new :: "u64 \<Rightarrow> (u64 \<Rightarrow> u64) \<Rightarrow> nat \<Rightarrow> DataCache" where
  "DataCache_new sz ratio rnd =
     \<lparr>cache_size = sz, keepunlocked_ratio = ratio, counter = of_nat (rnd mod 100 + 1),
      cur_pointer = 0, meta = [], next_ref = 0\<rparr>"

definition CheckAllocationSize :: "u64 \<Rightarrow> DataCache \<Rightarrow> bool" where
  "CheckAllocationSize sz d \<longleftrightarrow> sz \<le> cache_size d"

definition Intersects :: "u64 \<Rightarrow> u64 \<Rightarrow> u64 \<Rightarrow> u64 \<Rightarrow> bool" where
  "Intersects left1 right1 left2 right2 \<longleftrightarrow>
     (left1 \<ge> left2 \<and> left1 < right2) \<or> (right1 \<le> right2 \<and> right1 > left2)"

text \<open>The first loop of \<open>CleanOldSlots\<close>: the index of the last slot to delete, from \<open>-1\<close>.\<close>

fun last_del_scan :: "u64 \<Rightarrow> u64 \<Rightarrow> CacheMeta list \<Rightarrow> nat \<Rightarrow> int \<Rightarrow> bool \<Rightarrow> int" where
  "last_del_scan cur sz [] i last_del was_intersecting = last_del"
| "last_del_scan cur sz (m # ms) i last_del was_intersecting =
     (if Intersects (cm_addr m) (cm_addr m + cm_size m) (cur - sz) cur
      then last_del_scan cur sz ms (Suc i) (int i) True
      else if cur - sz > 0 \<or> was_intersecting then last_del
      else last_del_scan cur sz ms (Suc i) last_del was_intersecting)"

definition CleanOldSlots :: "u64 \<Rightarrow> DataCache \<Rightarrow> bool \<times> DataCache" where
  "CleanOldSlots sz d =
     (let last_del = last_del_scan (cur_pointer d) sz (meta d) 0 (-1) False;
          n = nat (last_del + 1) in
      if \<exists>m \<in> set (take n (meta d)). cm_lock m > 0 then (False, d)
      else if last_del \<ge> 0 then (True, d\<lparr>meta := drop n (meta d)\<rparr>)
      else (True, d))"

definition AllocateSlot :: "u64 \<Rightarrow> DataCache \<Rightarrow> u64 option \<times> DataCache" where
  "AllocateSlot sz d =
     (let tmp = cur_pointer d;
          start = (if cur_pointer d + sz > cache_size d then 0 else cur_pointer d);
          d1 = d\<lparr>cur_pointer := start + sz\<rparr>;
          (ok, d2) = CleanOldSlots sz d1 in
      if \<not> ok then (None, d2\<lparr>cur_pointer := tmp\<rparr>) else (Some start, d2))"

definition GetNextId :: "u64 \<Rightarrow> DataCache \<Rightarrow> u64 \<times> DataCache" where
  "GetNextId time_millis d =
     (let c = counter d + 1 in (push_bit 32 time_millis OR ucast c, d\<lparr>counter := c\<rparr>))"

definition GetFreeSlotAndLock :: "u64 \<Rightarrow> u64 \<Rightarrow> DataCache \<Rightarrow> (u64 \<times> nat) option \<times> DataCache" where
  "GetFreeSlotAndLock sz time_millis d =
     (if \<not> CheckAllocationSize sz d then (None, d)
      else (case AllocateSlot sz d of
              (None, d1) \<Rightarrow> (None, d1)
            | (Some addr, d1) \<Rightarrow>
                (let (slot_id, d2) = GetNextId time_millis d1;
                     m = \<lparr>cm_ref = next_ref d2, cm_id = slot_id, cm_addr = addr, cm_size = sz, cm_lock = 1\<rparr> in
                 (Some (addr, next_ref d2),
                  d2\<lparr>meta := meta d2 @ [m], next_ref := Suc (next_ref d2)\<rparr>))))"

definition SlotTooCloseToCurrentPointer :: "DataCache \<Rightarrow> CacheMeta \<Rightarrow> bool" where
  "SlotTooCloseToCurrentPointer d m =
     (let shift = cm_addr m;
          dist = (if shift > cur_pointer d then shift - cur_pointer d
                  else cache_size d - cur_pointer d + shift) in
      dist < keepunlocked_ratio d (cache_size d))"

text \<open>
  The search loop of \<open>GetSlotToReadAndLock\<close>.  The results are the returned address, the value
  of the out parameter \<open>*meta\<close> (whose initial value \<open>meta0\<close> survives the early return) and the
  slot list.
\<close>

fun find_and_lock :: "DataCache \<Rightarrow> u64 \<Rightarrow> u64 \<Rightarrow> nat option \<Rightarrow> CacheMeta list
    \<Rightarrow> u64 option \<times> nat option \<times> CacheMeta list" where
  "find_and_lock d slot_id data_size meta0 [] = (None, None, [])"
| "find_and_lock d slot_id data_size meta0 (m # ms) =
     (if cm_id m = slot_id then
        (if data_size \<noteq> cm_size m \<or> SlotTooCloseToCurrentPointer d m then (None, meta0, m # ms)
         else (Some (cm_addr m), Some (cm_ref m), m\<lparr>cm_lock := cm_lock m + 1\<rparr> # ms))
      else (let (a, r, ms') = find_and_lock d slot_id data_size meta0 ms in (a, r, m # ms')))"

definition GetSlotToReadAndLock ::
    "u64 \<Rightarrow> u64 \<Rightarrow> nat option \<Rightarrow> DataCache \<Rightarrow> u64 option \<times> nat option \<times> DataCache" where
  "GetSlotToReadAndLock slot_id data_size meta0 d =
     (let (a, r, ms) = find_and_lock d slot_id data_size meta0 (meta d) in (a, r, d\<lparr>meta := ms\<rparr>))"

definition unlock_meta :: "nat \<Rightarrow> CacheMeta list \<Rightarrow> CacheMeta list" where
  "unlock_meta r ms = map (\<lambda>m. if cm_ref m = r then m\<lparr>cm_lock := max 0 (cm_lock m - 1)\<rparr> else m) ms"

definition UnlockSlot :: "nat option \<Rightarrow> DataCache \<Rightarrow> (bool \<times> DataCache) option" where
  "UnlockSlot r d =
     (case r of None \<Rightarrow> Some (False, d)
      | Some p \<Rightarrow> if p \<in> cm_ref ` set (meta d) then Some (True, d\<lparr>meta := unlock_meta p (meta d)\<rparr>)
                  else None)"

section \<open>Which slots \<open>CleanOldSlots\<close> removes\<close>

definition slot_start :: "CacheMeta \<Rightarrow> nat" where
  "slot_start m = unat (cm_addr m)"

definition slot_end :: "CacheMeta \<Rightarrow> nat" where
  "slot_end m = unat (cm_addr m) + unat (cm_size m)"

text \<open>The intersection test on unbounded numbers, for a new slot \<open>[a, b)\<close>.\<close>

definition hits :: "nat \<Rightarrow> nat \<Rightarrow> CacheMeta \<Rightarrow> bool" where
  "hits a b m \<longleftrightarrow> (a \<le> slot_start m \<and> slot_start m < b) \<or> (slot_end m \<le> b \<and> a < slot_end m)"

text \<open>How many slots are removed from the front, for a new slot \<open>[a, b)\<close>.\<close>

definition n_removed :: "nat \<Rightarrow> nat \<Rightarrow> CacheMeta list \<Rightarrow> nat" where
  "n_removed a b ms =
     (if a > 0 then length (takeWhile (hits a b) ms)
      else if \<exists>m \<in> set ms. hits a b m
        then length (takeWhile (\<lambda>m. \<not> hits a b m) ms)
             + length (takeWhile (hits a b) (dropWhile (\<lambda>m. \<not> hits a b m) ms))
      else 0)"

lemma slot_start_le_end: "slot_start m \<le> slot_end m"
  by (simp add: slot_start_def slot_end_def)

lemma Intersects_hits:
  assumes "slot_end m < 2 ^ 64"
  shows "Intersects (cm_addr m) (cm_addr m + cm_size m) l r = hits (unat l) (unat r) m"
  using assms
  by (simp add: Intersects_def hits_def slot_start_def slot_end_def word_le_nat_alt
        word_less_nat_alt unat_add_no_wrap)

lemma last_del_scan_sticky:
  assumes "\<forall>m \<in> set ms. slot_end m < 2 ^ 64" and "cur - sz > 0 \<or> was"
  shows "last_del_scan cur sz ms i ld was =
    (let n = length (takeWhile (hits (unat (cur - sz)) (unat cur)) ms) in
     if n = 0 then ld else int i + int n - 1)"
  using assms
proof (induction ms arbitrary: i ld was)
  case Nil
  then show ?case by simp
next
  case (Cons m ms)
  then show ?case
    by (cases "hits (unat (cur - sz)) (unat cur) m") (auto simp: Intersects_hits Let_def)
qed

lemma last_del_scan_from_zero:
  assumes "\<forall>m \<in> set ms. slot_end m < 2 ^ 64" and "cur - sz = 0"
  shows "last_del_scan cur sz ms i ld False =
    (if \<exists>m \<in> set ms. hits 0 (unat cur) m then int i + int (n_removed 0 (unat cur) ms) - 1 else ld)"
  using assms
proof (induction ms arbitrary: i ld)
  case Nil
  then show ?case by simp
next
  case (Cons m ms)
  show ?case
  proof (cases "hits 0 (unat cur) m")
    case True
    with Cons.prems have "last_del_scan cur sz (m # ms) i ld False
        = last_del_scan cur sz ms (Suc i) (int i) True"
      by (simp add: Intersects_hits del: right_minus_eq)
    then show ?thesis
      using True Cons.prems by (simp add: last_del_scan_sticky n_removed_def Let_def del: right_minus_eq)
  next
    case False
    with Cons.prems have "last_del_scan cur sz (m # ms) i ld False
        = last_del_scan cur sz ms (Suc i) ld False"
      by (simp add: Intersects_hits del: right_minus_eq)
    then show ?thesis
      using False Cons by (auto simp: n_removed_def)
  qed
qed

lemma nat_last_del_scan:
  assumes "\<forall>m \<in> set ms. slot_end m < 2 ^ 64"
  shows "nat (last_del_scan cur sz ms 0 (-1) False + 1) = n_removed (unat (cur - sz)) (unat cur) ms"
proof (cases "cur - sz = 0")
  case True
  then show ?thesis
    using assms by (auto simp: last_del_scan_from_zero n_removed_def simp del: right_minus_eq)
next
  case False
  then have "cur - sz > 0" "unat (cur - sz) > 0"
    by (simp_all add: word_neq_0_conv [symmetric] unat_gt_0 del: right_minus_eq)
  then show ?thesis
    using assms by (simp add: last_del_scan_sticky n_removed_def Let_def)
qed

section \<open>Well-formed caches: every slot lies in the buffer\<close>

text \<open>The size bound keeps \<open>cur_pointer + size\<close> from wrapping; a cache is far smaller in practice.\<close>

definition cache_wf :: "DataCache \<Rightarrow> bool" where
  "cache_wf d \<longleftrightarrow> unat (cache_size d) < 2 ^ 63 \<and> unat (cur_pointer d) \<le> unat (cache_size d) \<and>
     (\<forall>m \<in> set (meta d). slot_end m \<le> unat (cache_size d))"

text \<open>Where the next slot of a given size begins.\<close>

definition alloc_start :: "u64 \<Rightarrow> DataCache \<Rightarrow> u64" where
  "alloc_start sz d = (if cur_pointer d + sz > cache_size d then 0 else cur_pointer d)"

definition alloc_removed :: "u64 \<Rightarrow> DataCache \<Rightarrow> nat" where
  "alloc_removed sz d =
     n_removed (unat (alloc_start sz d)) (unat (alloc_start sz d) + unat sz) (meta d)"

lemma cache_wf_new: "unat sz < 2 ^ 63 \<Longrightarrow> cache_wf (DataCache_new sz ratio rnd)"
  by (simp add: cache_wf_def DataCache_new_def)

lemma alloc_start_bounds:
  assumes "cache_wf d" and "sz \<le> cache_size d"
  shows "unat (alloc_start sz d) + unat sz \<le> unat (cache_size d)"
    and "unat (alloc_start sz d + sz) = unat (alloc_start sz d) + unat sz"
    and "unat (alloc_start sz d) =
           (if unat (cur_pointer d) + unat sz > unat (cache_size d) then 0 else unat (cur_pointer d))"
proof -
  have sz: "unat sz \<le> unat (cache_size d)" using assms(2) by (simp add: word_le_nat_alt)
  have cur: "unat (cur_pointer d + sz) = unat (cur_pointer d) + unat sz"
    using assms(1) sz by (intro unat_add_no_wrap) (simp add: cache_wf_def)
  then show "unat (alloc_start sz d) =
      (if unat (cur_pointer d) + unat sz > unat (cache_size d) then 0 else unat (cur_pointer d))"
    by (simp add: alloc_start_def word_less_nat_alt)
  with sz show le: "unat (alloc_start sz d) + unat sz \<le> unat (cache_size d)" by simp
  show "unat (alloc_start sz d + sz) = unat (alloc_start sz d) + unat sz"
    using le assms(1) by (intro unat_add_no_wrap) (simp add: cache_wf_def)
qed

lemma cache_wf_slot_end: "cache_wf d \<Longrightarrow> m \<in> set (meta d) \<Longrightarrow> slot_end m < 2 ^ 64"
  by (fastforce simp: cache_wf_def)

lemma AllocateSlot_eq:
  assumes "cache_wf d" and "sz \<le> cache_size d"
  shows "AllocateSlot sz d =
    (if \<exists>m \<in> set (take (alloc_removed sz d) (meta d)). cm_lock m > 0 then (None, d)
     else (Some (alloc_start sz d),
           d\<lparr>cur_pointer := alloc_start sz d + sz, meta := drop (alloc_removed sz d) (meta d)\<rparr>))"
proof -
  let ?s = "alloc_start sz d"
  let ?ld = "last_del_scan (?s + sz) sz (meta d) 0 (-1) False"
  have n: "nat (?ld + 1) = alloc_removed sz d"
    using assms alloc_start_bounds(2) [OF assms]
    by (subst nat_last_del_scan) (auto simp: alloc_removed_def dest: cache_wf_slot_end)
  have neg: "?ld < 0 \<Longrightarrow> alloc_removed sz d = 0" using n by simp
  show ?thesis
    unfolding AllocateSlot_def CleanOldSlots_def alloc_start_def [symmetric] Let_def
    using n neg by auto
qed

lemma GetFreeSlotAndLock_cases:
  assumes wf: "cache_wf d" and get: "GetFreeSlotAndLock sz t d = (res, d')"
  obtains (refused) "res = None" and "d' = d"
  | (granted) m where "sz \<le> cache_size d"
      and "\<forall>x \<in> set (take (alloc_removed sz d) (meta d)). cm_lock x \<le> 0"
      and "res = Some (cm_addr m, cm_ref m)"
      and "cm_ref m = next_ref d" and "cm_addr m = alloc_start sz d" and "cm_size m = sz"
      and "cm_lock m = 1" and "cm_id m = push_bit 32 t OR ucast (counter d + 1)"
      and "d' = d\<lparr>cur_pointer := alloc_start sz d + sz, counter := counter d + 1,
                  meta := drop (alloc_removed sz d) (meta d) @ [m], next_ref := Suc (next_ref d)\<rparr>"
proof (cases "sz \<le> cache_size d \<and> (\<forall>x \<in> set (take (alloc_removed sz d) (meta d)). cm_lock x \<le> 0)")
  case True
  then have "\<not> (\<exists>m \<in> set (take (alloc_removed sz d) (meta d)). cm_lock m > 0)" by force
  then have "AllocateSlot sz d = (Some (alloc_start sz d),
      d\<lparr>cur_pointer := alloc_start sz d + sz, meta := drop (alloc_removed sz d) (meta d)\<rparr>)"
    using True wf by (simp add: AllocateSlot_eq)
  then show ?thesis
    using True get
    by (intro granted [of "\<lparr>cm_ref = next_ref d, cm_id = push_bit 32 t OR ucast (counter d + 1),
          cm_addr = alloc_start sz d, cm_size = sz, cm_lock = 1\<rparr>"])
      (auto simp: GetFreeSlotAndLock_def CheckAllocationSize_def GetNextId_def Let_def)
next
  case False
  then have "GetFreeSlotAndLock sz t d = (None, d)"
    using wf by (force simp: GetFreeSlotAndLock_def CheckAllocationSize_def AllocateSlot_eq)
  then show ?thesis using get refused by simp
qed

lemma cache_wf_GetFreeSlotAndLock [inv_intros]:
  assumes "cache_wf d" and "GetFreeSlotAndLock sz t d = (res, d')"
  shows "cache_wf d'"
  using assms
proof (cases rule: GetFreeSlotAndLock_cases)
  case refused
  then show ?thesis using assms by simp
next
  case (granted m)
  have "slot_end m \<le> unat (cache_size d)"
    using alloc_start_bounds [OF assms(1) granted(1)] granted by (simp add: slot_end_def)
  then show ?thesis
    using alloc_start_bounds [OF assms(1) granted(1)] granted assms(1)
    by (auto simp: cache_wf_def dest: in_set_dropD)
qed

section \<open>The ring order of the slots\<close>

text \<open>Consecutive slots that do not overlap, from \<open>lo\<close> to \<open>hi\<close>.\<close>

fun chain :: "nat \<Rightarrow> CacheMeta list \<Rightarrow> nat \<Rightarrow> bool" where
  "chain lo [] hi = (lo \<le> hi)"
| "chain lo (m # ms) hi = (lo \<le> slot_start m \<and> chain (slot_end m) ms hi)"

definition disjoint_slots :: "CacheMeta \<Rightarrow> CacheMeta \<Rightarrow> bool" where
  "disjoint_slots m m' \<longleftrightarrow> slot_end m \<le> slot_start m' \<or> slot_end m' \<le> slot_start m"

text \<open>
  The slot list is what is left of the previous round, beyond the write position, followed by
  the slots of the current round, before it.
\<close>

definition ring_inv :: "DataCache \<Rightarrow> bool" where
  "ring_inv d \<longleftrightarrow>
     (\<exists>old new. meta d = old @ new
        \<and> chain (unat (cur_pointer d)) old (unat (cache_size d))
        \<and> chain 0 new (unat (cur_pointer d))
        \<and> (unat (cur_pointer d) > 0 \<longrightarrow> new \<noteq> [] \<and> slot_start (hd new) = 0))"

lemma chain_le: "chain lo ms hi \<Longrightarrow> lo \<le> hi"
proof (induction ms arbitrary: lo)
  case (Cons m ms)
  then have "slot_end m \<le> hi" by simp
  with Cons.prems slot_start_le_end [of m] show ?case by simp
qed simp

lemma chain_mono: "chain lo ms hi \<Longrightarrow> lo' \<le> lo \<Longrightarrow> hi \<le> hi' \<Longrightarrow> chain lo' ms hi'"
  by (induction ms arbitrary: lo lo') auto

lemma chain_bounds: "chain lo ms hi \<Longrightarrow> m \<in> set ms \<Longrightarrow> lo \<le> slot_start m \<and> slot_end m \<le> hi"
proof (induction ms arbitrary: lo)
  case Nil
  then show ?case by simp
next
  case (Cons x xs)
  then show ?case
    using chain_le [of "slot_end x" xs hi] slot_start_le_end [of x] by fastforce
qed

lemma chain_append: "chain lo (xs @ ys) hi \<longleftrightarrow> (\<exists>mid. chain lo xs mid \<and> chain mid ys hi)"
proof (induction xs arbitrary: lo)
  case Nil
  then show ?case by (auto intro: chain_mono)
next
  case (Cons x xs)
  then show ?case by auto
qed

lemma chain_appendI: "chain lo xs mid \<Longrightarrow> chain mid ys hi \<Longrightarrow> chain lo (xs @ ys) hi"
  by (auto simp: chain_append)

lemma chain_drop: "chain lo ms hi \<Longrightarrow> chain lo (drop k ms) hi"
proof (induction k arbitrary: ms lo)
  case 0
  then show ?case by simp
next
  case (Suc k)
  show ?case
  proof (cases ms)
    case (Cons m ms')
    then have "chain (slot_end m) (drop k ms') hi" "lo \<le> slot_end m"
      using Suc slot_start_le_end [of m] by auto
    then show ?thesis using Cons by (auto intro: chain_mono)
  qed (use Suc in simp)
qed

text \<open>Once the first slot begins at or after \<open>b\<close>, so does the whole chain.\<close>

lemma chain_raise: "chain lo ms hi \<Longrightarrow> (ms \<noteq> [] \<Longrightarrow> b \<le> slot_start (hd ms)) \<Longrightarrow> b \<le> hi \<Longrightarrow> chain b ms hi"
  by (cases ms) auto

lemma chain_disjoint:
  assumes "chain lo ms hi" and "i < j" and "j < length ms"
  shows "slot_end (ms ! i) \<le> slot_start (ms ! j)"
  using assms
proof (induction ms arbitrary: lo i j)
  case Nil
  then show ?case by simp
next
  case (Cons x xs)
  then obtain j' where j: "j = Suc j'" by (cases j) auto
  show ?case
  proof (cases i)
    case 0
    then show ?thesis
      using Cons.prems j chain_bounds [of "slot_end x" xs hi "xs ! j'"] by auto
  next
    case (Suc i')
    then show ?thesis using Cons.IH [of "slot_end x" i' j'] Cons.prems j by auto
  qed
qed

lemma not_hits_after: "a \<le> slot_start m \<Longrightarrow> \<not> hits a b m \<Longrightarrow> b \<le> slot_start m"
  by (auto simp: hits_def)

lemma not_hits_before: "slot_end m \<le> a \<Longrightarrow> \<not> hits a b m \<or> slot_start m = a"
  using slot_start_le_end [of m] by (auto simp: hits_def)

text \<open>What \<open>n_removed\<close> leaves begins with a slot that the new one does not hit.\<close>

lemma hd_drop_n_removed:
  assumes "drop (n_removed a b ms) ms \<noteq> []"
  shows "\<not> hits a b (hd (drop (n_removed a b ms) ms))"
proof (cases "a > 0")
  case True
  then have "drop (n_removed a b ms) ms = dropWhile (hits a b) ms"
    by (simp add: n_removed_def dropWhile_eq_drop)
  then show ?thesis using assms by (simp add: hd_dropWhile)
next
  case False
  show ?thesis
  proof (cases "\<exists>m \<in> set ms. hits a b m")
    case True
    let ?q = "dropWhile (\<lambda>m. \<not> hits a b m) ms"
    have "drop (n_removed a b ms) ms = dropWhile (hits a b) ?q"
      using False True by (simp add: n_removed_def dropWhile_eq_drop add.commute)
    then show ?thesis using assms by (metis hd_dropWhile)
  next
    case nohit: False
    then have "n_removed a b ms = 0" using False by (simp add: n_removed_def)
    then show ?thesis using assms nohit by (cases ms) auto
  qed
qed

text \<open>A slot in the current round, a slot at the start of the buffer, and a wrap-around.\<close>

lemma removed_forward:
  assumes "c > 0" and "chain c old n" and "chain 0 new c" and "new \<noteq> []" and "slot_start (hd new) = 0"
  shows "drop (n_removed c b (old @ new)) (old @ new) = dropWhile (hits c b) old @ new"
proof -
  obtain x xs where new: "new = x # xs" using assms(4) by (cases new) auto
  have "\<not> hits c b x"
    using assms(1,3,5) new chain_bounds [of 0 new c x] by (auto simp: hits_def)
  then have "dropWhile (hits c b) (old @ new) = dropWhile (hits c b) old @ new"
    using new by (simp add: dropWhile_append)
  then show ?thesis
    using assms(1) by (simp add: n_removed_def dropWhile_eq_drop)
qed

lemma chain_forward:
  assumes "chain c old n" and "b \<le> n"
  shows "chain b (dropWhile (hits c b) old) n"
proof (rule chain_raise)
  show "chain c (dropWhile (hits c b) old) n"
    using assms(1) by (simp add: dropWhile_eq_drop chain_drop)
  show "b \<le> slot_start (hd (dropWhile (hits c b) old))" if "dropWhile (hits c b) old \<noteq> []"
    using that assms(1) hd_dropWhile [OF that] chain_bounds [of c old n]
    by (meson hd_in_set not_hits_after set_dropWhileD)
qed (rule assms(2))

lemma removed_wrap:
  assumes "chain c old n" and "chain 0 new c" and "new \<noteq> []" and "slot_start (hd new) = 0"
    and "0 < b" and "b < c"
  shows "drop (n_removed 0 b (old @ new)) (old @ new) = dropWhile (hits 0 b) new"
proof -
  have old: "\<not> hits 0 b x" if "x \<in> set old" for x
    using that assms(1,6) chain_bounds [of c old n x] slot_start_le_end [of x] by (auto simp: hits_def)
  obtain x xs where new: "new = x # xs" and hit: "hits 0 b x"
    using assms(3,4,5) by (cases new) (auto simp: hits_def)
  have "takeWhile (\<lambda>m. \<not> hits 0 b m) (old @ new) = old"
    "dropWhile (\<lambda>m. \<not> hits 0 b m) (old @ new) = new"
    using old new hit by (simp_all add: takeWhile_append dropWhile_append)
  then have "n_removed 0 b (old @ new) = length old + length (takeWhile (hits 0 b) new)"
    using new hit by (simp add: n_removed_def)
  then show ?thesis by (simp add: dropWhile_eq_drop)
qed

lemma ring_inv_intro:
  assumes "meta d = old @ new @ [m]"
    and "chain (slot_end m) old (unat (cache_size d))" and "chain 0 new (slot_start m)"
    and "unat (cur_pointer d) = slot_end m" and "new = [] \<Longrightarrow> slot_start m = 0"
    and "new \<noteq> [] \<Longrightarrow> slot_start (hd new) = 0"
  shows "ring_inv d"
proof -
  have "chain 0 (new @ [m]) (slot_end m)"
    using assms(3) by (auto simp: chain_append)
  then show ?thesis
    unfolding ring_inv_def using assms
    by (intro exI [of _ old] exI [of _ "new @ [m]"]) (auto simp: hd_append)
qed

lemma ring_inv_GetFreeSlotAndLock [inv_intros]:
  assumes wf: "cache_wf d" and ring: "ring_inv d" and half: "2 * unat sz \<le> unat (cache_size d)"
    and get: "GetFreeSlotAndLock sz t d = (res, d')"
  shows "ring_inv d'"
  using wf get
proof (cases rule: GetFreeSlotAndLock_cases)
  case refused
  then show ?thesis using ring by simp
next
  case (granted m)
  let ?c = "unat (cur_pointer d)" and ?n = "unat (cache_size d)" and ?s = "unat sz"
  let ?b = "slot_end m"
  note bounds = alloc_start_bounds [OF wf granted(1)]
  obtain old new where split: "meta d = old @ new" and co: "chain ?c old ?n" and cn: "chain 0 new ?c"
    and pos: "?c > 0 \<Longrightarrow> new \<noteq> [] \<and> slot_start (hd new) = 0"
    using ring by (auto simp: ring_inv_def)
  have m: "slot_start m = unat (alloc_start sz d)" "?b = unat (alloc_start sz d) + ?s"
    using granted by (simp_all add: slot_start_def slot_end_def)
  let ?rest = "drop (n_removed (slot_start m) ?b (old @ new)) (old @ new)"
  have meta': "meta d' = ?rest @ [m]" and cur': "unat (cur_pointer d') = ?b"
    and size': "cache_size d' = cache_size d"
    using granted m bounds split by (simp_all add: alloc_removed_def)
  have b: "?b \<le> ?n" using m bounds by simp
  consider (forward) "?c > 0" "?c + ?s \<le> ?n" | (zero) "?c = 0" | (wrap) "?c + ?s > ?n"
    by linarith
  then show ?thesis
  proof cases
    case forward
    then have st: "slot_start m = ?c" using m bounds by simp
    have "meta d' = dropWhile (hits ?c ?b) old @ new @ [m]"
      using meta' st forward pos co cn by (simp add: removed_forward del: drop_append)
    then show ?thesis
      using b cur' size' st cn pos forward chain_forward [OF co b]
      by (intro ring_inv_intro [where m = m]) auto
  next
    case zero
    then have st: "slot_start m = 0" using m bounds by simp
    let ?k = "n_removed 0 ?b (old @ new)"
    have "chain ?b (drop ?k old) ?n"
    proof (rule chain_raise)
      show "chain 0 (drop ?k old) ?n" using co zero by (simp add: chain_drop)
      show "?b \<le> slot_start (hd (drop ?k old))" if "drop ?k old \<noteq> []"
        using that hd_drop_n_removed [of 0 ?b "old @ new"] by (auto intro: not_hits_after)
    qed (rule b)
    moreover have "slot_start x = 0" if "x \<in> set new" for x
      using that cn zero chain_bounds [of 0 new ?c x] slot_start_le_end [of x] by simp
    then have "slot_start (hd (drop j new)) = 0" if "drop j new \<noteq> []" for j
      using that by (meson hd_in_set in_set_dropD)
    ultimately show ?thesis
      using meta' cur' size' st chain_drop [of 0 new ?c "?k - length old"] cn zero
      by (intro ring_inv_intro [where m = m and old = "drop ?k old" and new = "drop (?k - length old) new"])
        auto
  next
    case wrap
    then have st: "slot_start m = 0" and "0 < ?b" "?b < ?c" "?c > 0"
      using m bounds half wf by (auto simp: cache_wf_def)
    then have "meta d' = dropWhile (hits 0 ?b) new @ [] @ [m]"
      using meta' pos co cn by (simp add: removed_wrap del: drop_append)
    moreover have "chain ?b (dropWhile (hits 0 ?b) new) ?n"
      using chain_forward [of 0 new ?n ?b] b cn wf by (auto simp: cache_wf_def intro: chain_mono)
    ultimately show ?thesis
      using cur' size' st by (intro ring_inv_intro [where m = m]) auto
  qed
qed

text \<open>In a ring no two slots overlap.\<close>

lemma ring_inv_disjoint:
  assumes "ring_inv d" and "i < j" and "j < length (meta d)"
  shows "disjoint_slots (meta d ! i) (meta d ! j)"
proof -
  obtain old new where split: "meta d = old @ new"
    and co: "chain (unat (cur_pointer d)) old (unat (cache_size d))"
    and cn: "chain 0 new (unat (cur_pointer d))"
    using assms(1) by (auto simp: ring_inv_def)
  consider "j < length old" | "length old \<le> i" | "i < length old" "length old \<le> j"
    by linarith
  then show ?thesis
  proof cases
    case 1
    then show ?thesis
      using assms(2) chain_disjoint [OF co assms(2)] split by (simp add: nth_append disjoint_slots_def)
  next
    case 2
    then show ?thesis
      using assms split chain_disjoint [OF cn, of "i - length old" "j - length old"]
      by (simp add: nth_append disjoint_slots_def)
  next
    case 3
    then have "old ! i \<in> set old" "new ! (j - length old) \<in> set new"
      using assms(3) split by simp_all
    then show ?thesis
      using chain_bounds [OF co, of "old ! i"] chain_bounds [OF cn, of "new ! (j - length old)"] 3 split
      by (simp add: nth_append disjoint_slots_def)
  qed
qed

section \<open>Lock counts\<close>

text \<open>Reading and unlocking change nothing but the lock counts.\<close>

definition strip_lock :: "CacheMeta \<Rightarrow> CacheMeta" where
  "strip_lock m = m\<lparr>cm_lock := 0\<rparr>"

lemma strip_lock_eq:
  "strip_lock m = strip_lock m' \<longleftrightarrow>
     cm_ref m = cm_ref m' \<and> cm_id m = cm_id m' \<and> cm_addr m = cm_addr m' \<and> cm_size m = cm_size m'"
  by (cases m; cases m') (simp add: strip_lock_def)

lemma strip_lock_slot:
  "strip_lock m = strip_lock m' \<Longrightarrow> slot_start m = slot_start m' \<and> slot_end m = slot_end m'"
  by (simp add: strip_lock_eq slot_start_def slot_end_def)

lemma chain_strip: "map strip_lock xs = map strip_lock ys \<Longrightarrow> chain lo xs hi = chain lo ys hi"
proof (induction xs arbitrary: ys lo)
  case (Cons x xs)
  then obtain y ys' where "ys = y # ys'" "strip_lock x = strip_lock y" by (cases ys) auto
  then show ?case using Cons strip_lock_slot [of x y] by auto
qed simp

definition same_slots :: "DataCache \<Rightarrow> DataCache \<Rightarrow> bool" where
  "same_slots d d' \<longleftrightarrow> cache_size d' = cache_size d \<and> cur_pointer d' = cur_pointer d \<and>
     counter d' = counter d \<and> next_ref d' = next_ref d \<and>
     map strip_lock (meta d') = map strip_lock (meta d)"

lemma same_slots_ring_inv:
  assumes "same_slots d d'" and "ring_inv d"
  shows "ring_inv d'"
proof -
  obtain old new where split: "meta d = old @ new"
    and co: "chain (unat (cur_pointer d)) old (unat (cache_size d))"
    and cn: "chain 0 new (unat (cur_pointer d))"
    and pos: "unat (cur_pointer d) > 0 \<longrightarrow> new \<noteq> [] \<and> slot_start (hd new) = 0"
    using assms(2) by (auto simp: ring_inv_def)
  define old' new' where "old' = take (length old) (meta d')" and "new' = drop (length old) (meta d')"
  have eq: "map strip_lock (meta d') = map strip_lock old @ map strip_lock new"
    using assms(1) split by (simp add: same_slots_def)
  have o: "map strip_lock old' = map strip_lock old" and n: "map strip_lock new' = map strip_lock new"
    unfolding old'_def new'_def take_map [symmetric] drop_map [symmetric] eq by simp_all
  have hd: "new' \<noteq> [] \<and> slot_start (hd new') = slot_start (hd new)" if "new \<noteq> []"
    using that n by (cases new; cases new') (auto dest: strip_lock_slot)
  have "meta d' = old' @ new'" by (simp add: old'_def new'_def)
  then show ?thesis
    using co cn pos hd assms(1) chain_strip [OF o] chain_strip [OF n]
    unfolding ring_inv_def same_slots_def
    by (intro exI [of _ old'] exI [of _ new']) simp
qed

lemma same_slots_cache_wf:
  assumes "same_slots d d'" and "cache_wf d"
  shows "cache_wf d'"
proof -
  have "slot_end m \<le> unat (cache_size d)" if "m \<in> set (meta d')" for m
  proof -
    have "strip_lock m \<in> set (map strip_lock (meta d'))" using that by simp
    also have "\<dots> = strip_lock ` set (meta d)" using assms(1) by (simp add: same_slots_def)
    finally obtain x where "x \<in> set (meta d)" "strip_lock m = strip_lock x" by blast
    then show ?thesis using assms(2) strip_lock_slot [of m x] by (simp add: cache_wf_def)
  qed
  then show ?thesis using assms by (simp add: cache_wf_def same_slots_def)
qed

definition cache_inv :: "DataCache \<Rightarrow> bool" where
  "cache_inv d \<longleftrightarrow> cache_wf d \<and> distinct (map cm_ref (meta d)) \<and>
     (\<forall>m \<in> set (meta d). cm_ref m < next_ref d \<and> 0 \<le> cm_lock m)"

text \<open>The lock count of a slot record, 0 when there is no such record, and the bytes it covers.\<close>

definition lock_count :: "DataCache \<Rightarrow> nat \<Rightarrow> int" where
  "lock_count d r = (case map_of (map (\<lambda>m. (cm_ref m, cm_lock m)) (meta d)) r of None \<Rightarrow> 0 | Some n \<Rightarrow> n)"

definition slot_region :: "DataCache \<Rightarrow> nat \<Rightarrow> (nat \<times> nat) option" where
  "slot_region d r = map_of (map (\<lambda>m. (cm_ref m, (slot_start m, slot_end m))) (meta d)) r"

lemma map_of_ref:
  assumes "distinct (map cm_ref ms)" and "m \<in> set ms"
  shows "map_of (map (\<lambda>m. (cm_ref m, f m)) ms) (cm_ref m) = Some (f m)"
  using assms by (intro map_of_is_SomeI) (auto simp: comp_def)

lemma map_of_ref_None: "map_of (map (\<lambda>m. (cm_ref m, f m)) ms) r = None \<longleftrightarrow> r \<notin> cm_ref ` set ms"
  by (induction ms) auto

lemma lock_count_mem: "cache_inv d \<Longrightarrow> m \<in> set (meta d) \<Longrightarrow> lock_count d (cm_ref m) = cm_lock m"
  by (simp add: lock_count_def cache_inv_def map_of_ref)

lemma slot_region_mem:
  "cache_inv d \<Longrightarrow> m \<in> set (meta d) \<Longrightarrow> slot_region d (cm_ref m) = Some (slot_start m, slot_end m)"
  by (simp add: slot_region_def cache_inv_def map_of_ref)

lemma lock_count_absent: "r \<notin> cm_ref ` set (meta d) \<Longrightarrow> lock_count d r = 0"
  by (simp add: lock_count_def map_of_ref_None [THEN iffD2])

lemma lock_count_posD:
  assumes "cache_inv d" and "lock_count d r > 0"
  obtains m where "m \<in> set (meta d)" and "cm_ref m = r" and "cm_lock m = lock_count d r"
proof -
  have "r \<in> cm_ref ` set (meta d)" using assms(2) lock_count_absent by force
  then show thesis using that lock_count_mem [OF assms(1)] by auto
qed

lemma lock_count_nonneg: "cache_inv d \<Longrightarrow> 0 \<le> lock_count d r"
  by (cases "r \<in> cm_ref ` set (meta d)")
    (auto simp: lock_count_mem lock_count_absent cache_inv_def)

lemma same_slots_regions:
  assumes "same_slots d d'"
  shows "slot_region d' = slot_region d" and "map cm_ref (meta d') = map cm_ref (meta d)"
proof -
  have strip: "map strip_lock (meta d') = map strip_lock (meta d)" using assms by (simp add: same_slots_def)
  then have len: "length (meta d') = length (meta d)" by (rule map_eq_imp_length_eq)
  have eq: "strip_lock (meta d' ! i) = strip_lock (meta d ! i)" if "i < length (meta d)" for i
    using arg_cong [OF strip, of "\<lambda>xs. xs ! i"] that len by simp
  have "cm_ref (meta d' ! i) = cm_ref (meta d ! i)" "slot_start (meta d' ! i) = slot_start (meta d ! i)"
    "slot_end (meta d' ! i) = slot_end (meta d ! i)" if "i < length (meta d)" for i
    using eq [OF that] strip_lock_slot [OF eq [OF that]] by (simp_all add: strip_lock_eq)
  then have "map cm_ref (meta d') = map cm_ref (meta d)"
    and "map (\<lambda>m. (cm_ref m, (slot_start m, slot_end m))) (meta d') =
        map (\<lambda>m. (cm_ref m, (slot_start m, slot_end m))) (meta d)"
    using len by (auto intro: nth_equalityI)
  then show "slot_region d' = slot_region d" and "map cm_ref (meta d') = map cm_ref (meta d)"
    by (simp_all add: slot_region_def fun_eq_iff)
qed

text \<open>The slots after changing the lock of one record.\<close>

lemma relock:
  assumes inv: "cache_inv d" and ms: "meta d = pre @ m # post" and n: "0 \<le> n"
    and d': "d' = d\<lparr>meta := pre @ m\<lparr>cm_lock := n\<rparr> # post\<rparr>"
  shows "same_slots d d'" and "cache_inv d'" and "lock_count d' = (lock_count d)(cm_ref m := n)"
proof -
  show same: "same_slots d d'" using ms d' by (simp add: same_slots_def strip_lock_def)
  show inv': "cache_inv d'"
    using inv same_slots_cache_wf [OF same] same_slots_regions(2) [OF same] ms d' n
    by (auto simp: cache_inv_def)
  show "lock_count d' = (lock_count d)(cm_ref m := n)"
  proof
    fix r
    show "lock_count d' r = ((lock_count d)(cm_ref m := n)) r"
    proof (cases "r = cm_ref m")
      case True
      then show ?thesis using lock_count_mem [OF inv', of "m\<lparr>cm_lock := n\<rparr>"] d' by simp
    next
      case False
      then show ?thesis by (simp add: lock_count_def ms d' map_add_def split: option.splits)
    qed
  qed
qed

subsection \<open>Reading\<close>

lemma find_and_lock_cases:
  assumes "find_and_lock d i n m0 ms = (a, r, ms')"
  obtains (missing) "a = None" and "ms' = ms"
  | (found) pre m post where "ms = pre @ m # post" and "\<forall>x \<in> set pre. cm_id x \<noteq> i" and "cm_id m = i"
      and "cm_size m = n" and "\<not> SlotTooCloseToCurrentPointer d m" and "a = Some (cm_addr m)"
      and "r = Some (cm_ref m)" and "ms' = pre @ m\<lparr>cm_lock := cm_lock m + 1\<rparr> # post"
  using assms
proof (induction ms arbitrary: a r ms' thesis)
  case Nil
  then show ?case by simp
next
  case (Cons x xs)
  show ?case
  proof (cases "cm_id x = i")
    case True
    then show ?thesis using Cons.prems(2) [of "[]" x xs] Cons.prems(1,3) by (auto split: if_splits)
  next
    case False
    then obtain xs' where rec: "find_and_lock d i n m0 xs = (a, r, xs')" and ms': "ms' = x # xs'"
      using Cons.prems(3) by (auto split: prod.splits)
    show ?thesis
    proof (rule Cons.IH [OF _ _ rec])
      fix pre m post
      assume "xs = pre @ m # post" "\<forall>x\<in>set pre. cm_id x \<noteq> i" "cm_id m = i" "cm_size m = n"
        "\<not> SlotTooCloseToCurrentPointer d m" "a = Some (cm_addr m)" "r = Some (cm_ref m)"
        "xs' = pre @ m\<lparr>cm_lock := cm_lock m + 1\<rparr> # post"
      then show thesis using Cons.prems(2) [of "x # pre" m post] False ms' by simp
    qed (use Cons.prems(1) ms' in simp)
  qed
qed

lemma GetSlotToReadAndLock_cases:
  assumes inv: "cache_inv d" and get: "GetSlotToReadAndLock i n m0 d = (a, r, d')"
  obtains (missing) "a = None" and "d' = d"
  | (found) m where "m \<in> set (meta d)" and "cm_id m = i" and "cm_size m = n"
      and "\<not> SlotTooCloseToCurrentPointer d m"
      and "a = Some (cm_addr m)" and "r = Some (cm_ref m)"
      and "same_slots d d'" and "cache_inv d'"
      and "lock_count d' = (lock_count d)(cm_ref m := lock_count d (cm_ref m) + 1)"
proof -
  obtain ms' where f: "find_and_lock d i n m0 (meta d) = (a, r, ms')" and d': "d' = d\<lparr>meta := ms'\<rparr>"
    using get by (auto simp: GetSlotToReadAndLock_def split: prod.splits)
  show thesis
    using f
  proof (cases rule: find_and_lock_cases)
    case missing
    then show ?thesis using that(1) d' by simp
  next
    case (found pre m post)
    have m: "m \<in> set (meta d)" using found by simp
    moreover have "0 \<le> cm_lock m + 1" using inv m by (force simp: cache_inv_def)
    ultimately show ?thesis
      using that(2) [OF m] relock [OF inv found(1), of "cm_lock m + 1" d'] found d' lock_count_mem [OF inv m]
      by simp
  qed
qed

subsection \<open>Unlocking\<close>

lemma unlock_meta_absent: "r \<notin> cm_ref ` set ms \<Longrightarrow> unlock_meta r ms = ms"
  by (induction ms) (auto simp: unlock_meta_def)

lemma unlock_meta_split:
  assumes "distinct (map cm_ref (pre @ m # post))"
  shows "unlock_meta (cm_ref m) (pre @ m # post) = pre @ m\<lparr>cm_lock := max 0 (cm_lock m - 1)\<rparr> # post"
proof -
  have "unlock_meta (cm_ref m) pre = pre" "unlock_meta (cm_ref m) post = post"
    using assms by (simp_all add: unlock_meta_absent)
  then show ?thesis by (simp add: unlock_meta_def)
qed

lemma UnlockSlot_live:
  assumes inv: "cache_inv d" and "r \<in> cm_ref ` set (meta d)"
  obtains d' where "UnlockSlot (Some r) d = Some (True, d')" and "same_slots d d'" and "cache_inv d'"
    and "lock_count d' = (lock_count d)(r := max 0 (lock_count d r - 1))"
proof -
  obtain m where m: "m \<in> set (meta d)" "cm_ref m = r" using assms(2) by blast
  then obtain pre post where split: "meta d = pre @ m # post" by (meson split_list)
  define d' where "d' = d\<lparr>meta := pre @ m\<lparr>cm_lock := max 0 (cm_lock m - 1)\<rparr> # post\<rparr>"
  have dist: "distinct (map cm_ref (pre @ m # post))" using inv split by (simp add: cache_inv_def)
  have unlock: "unlock_meta r (meta d) = pre @ m\<lparr>cm_lock := max 0 (cm_lock m - 1)\<rparr> # post"
    using unlock_meta_split [OF dist] split m(2) by simp
  have "UnlockSlot (Some r) d = Some (True, d')"
    unfolding UnlockSlot_def option.case unlock d'_def using assms(2) by simp
  moreover have "lock_count d r = cm_lock m" using lock_count_mem [OF inv m(1)] m(2) by simp
  ultimately show thesis
    using relock [OF inv split _ d'_def] that m(2) by simp
qed

lemma UnlockSlot_held:
  assumes "cache_inv d" and "lock_count d r > 0"
  obtains d' where "UnlockSlot (Some r) d = Some (True, d')" and "same_slots d d'" and "cache_inv d'"
    and "lock_count d' = (lock_count d)(r := lock_count d r - 1)"
proof -
  have "r \<in> cm_ref ` set (meta d)" using assms(2) lock_count_absent by force
  moreover have "max 0 (lock_count d r - 1) = lock_count d r - 1" using assms(2) by simp
  ultimately show thesis using UnlockSlot_live [OF assms(1), of r] that by auto
qed

subsection \<open>Allocating\<close>

lemma lock_count_GetFreeSlotAndLock:
  assumes inv: "cache_inv d" and get: "GetFreeSlotAndLock sz t d = (Some (a, r), d')"
  shows "r = next_ref d" and "lock_count d r = 0" and "lock_count d' = (lock_count d)(r := 1)"
    and "cache_inv d'" and "lock_count d q > 0 \<Longrightarrow> slot_region d' q = slot_region d q"
proof -
  have wf: "cache_wf d" using inv by (simp add: cache_inv_def)
  obtain m where g: "\<forall>x \<in> set (take (alloc_removed sz d) (meta d)). cm_lock x \<le> 0"
    "r = cm_ref m" "cm_ref m = next_ref d" "cm_lock m = 1"
    "meta d' = drop (alloc_removed sz d) (meta d) @ [m]" "next_ref d' = Suc (next_ref d)"
    using wf get by (cases rule: GetFreeSlotAndLock_cases) auto
  let ?k = "alloc_removed sz d"
  have split: "meta d = take ?k (meta d) @ drop ?k (meta d)" by simp
  show r: "r = next_ref d" using g by simp
  have fresh: "next_ref d \<notin> cm_ref ` set (meta d)" using inv by (auto simp: cache_inv_def)
  then show "lock_count d r = 0" using r by (simp add: lock_count_absent)
  have "distinct (map cm_ref (drop ?k (meta d)))" using inv by (simp add: cache_inv_def drop_map [symmetric])
  moreover have "\<forall>x \<in> set (drop ?k (meta d)). cm_ref x < next_ref d \<and> 0 \<le> cm_lock x"
    using inv by (auto simp: cache_inv_def dest: in_set_dropD)
  ultimately show inv': "cache_inv d'"
    using cache_wf_GetFreeSlotAndLock [OF wf get] g by (force simp: cache_inv_def)
  have kept: "x \<in> set (meta d')" if "x \<in> set (meta d)" "cm_lock x > 0" for x
  proof -
    have "x \<in> set (take ?k (meta d)) \<union> set (drop ?k (meta d))"
      using that(1) by (simp flip: set_append)
    then show ?thesis using that(2) g(1,5) by force
  qed
  show "lock_count d' = (lock_count d)(r := 1)"
  proof
    fix q
    consider "q = r" | "q \<noteq> r" "q \<in> cm_ref ` set (drop ?k (meta d))"
      | "q \<noteq> r" "q \<notin> cm_ref ` set (drop ?k (meta d))" by blast
    then show "lock_count d' q = ((lock_count d)(r := 1)) q"
    proof cases
      case 1
      then show ?thesis using lock_count_mem [OF inv', of m] g by simp
    next
      case 2
      then obtain x where "x \<in> set (drop ?k (meta d))" "cm_ref x = q" by blast
      then show ?thesis
        using 2 lock_count_mem [OF inv', of x] lock_count_mem [OF inv, of x] g(5) by (auto dest: in_set_dropD)
    next
      case 3
      then have "q \<notin> cm_ref ` set (meta d')" using g by auto
      moreover have "lock_count d q \<le> 0"
      proof (rule ccontr)
        assume "\<not> lock_count d q \<le> 0"
        then obtain x where "x \<in> set (meta d)" "cm_ref x = q" "cm_lock x > 0"
          using lock_count_posD [OF inv, of q] by (metis linorder_not_le)
        then show False using kept \<open>q \<notin> cm_ref ` set (meta d')\<close> by blast
      qed
      ultimately show ?thesis using 3 lock_count_nonneg [OF inv, of q] by (simp add: lock_count_absent)
    qed
  qed
  show "slot_region d' q = slot_region d q" if held: "lock_count d q > 0"
  proof -
    obtain x where "x \<in> set (meta d)" "cm_ref x = q" "cm_lock x > 0"
      using lock_count_posD [OF inv held] held by metis
    then show ?thesis using slot_region_mem [OF inv, of x] slot_region_mem [OF inv', of x] kept by simp
  qed
qed

section \<open>The interface of the cache\<close>

text \<open>
  What the receiver and the data server rely on.  \<open>alloc\<close> and \<open>lookup\<close> return an address and
  the handle to unlock it with; a handle that is locked stays valid, with the same bytes.
\<close>

locale locked_slots =
  fixes inv :: "'c \<Rightarrow> bool"
    and locks :: "'c \<Rightarrow> nat \<Rightarrow> int"
    and region :: "'c \<Rightarrow> nat \<Rightarrow> (nat \<times> nat) option"
    and alloc :: "u64 \<Rightarrow> u64 \<Rightarrow> 'c \<Rightarrow> (u64 \<times> nat) option \<times> 'c"
    and lookup :: "u64 \<Rightarrow> u64 \<Rightarrow> nat option \<Rightarrow> 'c \<Rightarrow> u64 option \<times> nat option \<times> 'c"
    and unlock :: "nat option \<Rightarrow> 'c \<Rightarrow> (bool \<times> 'c) option"
  assumes locks_nonneg: "inv c \<Longrightarrow> 0 \<le> locks c r"
    and alloc_refused: "inv c \<Longrightarrow> alloc sz t c = (None, c') \<Longrightarrow> c' = c"
    and alloc_granted: "inv c \<Longrightarrow> alloc sz t c = (Some (a, r), c') \<Longrightarrow>
      inv c' \<and> locks c r = 0 \<and> locks c' = (locks c)(r := 1)"
    and alloc_region: "inv c \<Longrightarrow> alloc sz t c = (Some (a, r), c') \<Longrightarrow> locks c q > 0 \<Longrightarrow>
      region c' q = region c q"
    and lookup_missing: "inv c \<Longrightarrow> lookup i n None c = (None, h, c') \<Longrightarrow> h = None \<and> c' = c"
    and lookup_found: "inv c \<Longrightarrow> lookup i n None c = (Some a, h, c') \<Longrightarrow>
      \<exists>r. h = Some r \<and> inv c' \<and> locks c' = (locks c)(r := locks c r + 1) \<and> region c' = region c"
    and unlock_null: "unlock None c = Some (False, c)"
    and unlock_held: "inv c \<Longrightarrow> locks c r > 0 \<Longrightarrow>
      \<exists>c'. unlock (Some r) c = Some (True, c') \<and> inv c' \<and> locks c' = (locks c)(r := locks c r - 1)
           \<and> region c' = region c"
begin

text \<open>Using a slot between the call that locks it and the unlock leaves no lock behind.\<close>

lemma alloc_unlock:
  assumes "inv c" and "alloc sz t c = (Some (a, r), c1)"
  shows "\<exists>c2. unlock (Some r) c1 = Some (True, c2) \<and> inv c2 \<and> locks c2 = locks c"
proof -
  have c1: "inv c1" "locks c r = 0" "locks c1 = (locks c)(r := 1)"
    using alloc_granted [OF assms] by simp_all
  then show ?thesis using unlock_held [OF c1(1), of r] by (auto simp: fun_eq_iff)
qed

lemma alloc_region_any:
  assumes "inv c" and "alloc sz t c = (res, c')" and "locks c q > 0"
  shows "region c' q = region c q"
proof (cases res)
  case None
  then show ?thesis using alloc_refused [of c sz t c'] assms by simp
next
  case (Some ar)
  then show ?thesis using alloc_region [of c sz t "fst ar" "snd ar" c' q] assms by simp
qed

lemma lookup_unlock:
  assumes "inv c" and "lookup i n None c = (Some a, h, c1)"
  shows "\<exists>c2. unlock h c1 = Some (True, c2) \<and> inv c2 \<and> locks c2 = locks c \<and> region c2 = region c"
proof -
  obtain r where c1: "h = Some r" "inv c1" "locks c1 = (locks c)(r := locks c r + 1)" "region c1 = region c"
    using lookup_found [OF assms] by blast
  moreover have "locks c1 r > 0" using c1(3) locks_nonneg [OF assms(1), of r] by simp
  ultimately show ?thesis using unlock_held [OF c1(2), of r] by (auto simp: fun_eq_iff)
qed

end

lemma find_and_lock_None:
  "find_and_lock d i n None ms = (None, h, ms') \<Longrightarrow> h = None \<and> ms' = ms"
  by (induction ms arbitrary: ms') (auto split: if_splits prod.splits)

interpretation dc: locked_slots cache_inv lock_count slot_region
  GetFreeSlotAndLock GetSlotToReadAndLock UnlockSlot
proof unfold_locales
  show "0 \<le> lock_count c r" if "cache_inv c" for c r
    using that by (rule lock_count_nonneg)
  show "c' = c" if "cache_inv c" "GetFreeSlotAndLock sz t c = (None, c')" for c sz t c'
    using that by (auto simp: cache_inv_def elim: GetFreeSlotAndLock_cases)
  show "cache_inv c' \<and> lock_count c r = 0 \<and> lock_count c' = (lock_count c)(r := 1)"
    if "cache_inv c" "GetFreeSlotAndLock sz t c = (Some (a, r), c')" for c sz t a r c'
    using lock_count_GetFreeSlotAndLock [OF that] by blast
  show "slot_region c' q = slot_region c q"
    if "cache_inv c" "GetFreeSlotAndLock sz t c = (Some (a, r), c')" "lock_count c q > 0"
    for c sz t a r c' q
    using lock_count_GetFreeSlotAndLock(5) [OF that] .
  show "h = None \<and> c' = c" if "cache_inv c" "GetSlotToReadAndLock i n None c = (None, h, c')"
    for c i n h c'
    using that(2) find_and_lock_None [of c i n "meta c"]
    by (auto simp: GetSlotToReadAndLock_def split: prod.splits)
  show "\<exists>r. h = Some r \<and> cache_inv c' \<and> lock_count c' = (lock_count c)(r := lock_count c r + 1)
      \<and> slot_region c' = slot_region c"
    if "cache_inv c" "GetSlotToReadAndLock i n None c = (Some a, h, c')" for c i n a h c'
    using that by (cases rule: GetSlotToReadAndLock_cases) (auto dest: same_slots_regions(1))
  show "UnlockSlot None c = Some (False, c)" for c
    by (simp add: UnlockSlot_def)
  show "\<exists>c'. UnlockSlot (Some r) c = Some (True, c') \<and> cache_inv c'
      \<and> lock_count c' = (lock_count c)(r := lock_count c r - 1) \<and> slot_region c' = slot_region c"
    if "cache_inv c" "lock_count c r > 0" for c r
    using UnlockSlot_held [OF that] same_slots_regions(1) by metis
qed

section \<open>Threads that use the cache\<close>

text \<open>
  An interleaving of the clients' calls.  \<open>held\<close> are the locks taken and not yet given back;
  a client unlocks only what it holds.  \<open>admissible\<close> bounds the requested sizes.
\<close>

inductive cache_step :: "(u64 \<Rightarrow> bool) \<Rightarrow> DataCache \<times> nat multiset \<Rightarrow> DataCache \<times> nat multiset \<Rightarrow> bool"
  for admissible :: "u64 \<Rightarrow> bool" where
  alloc_granted: "admissible sz \<Longrightarrow> GetFreeSlotAndLock sz t d = (Some (a, r), d') \<Longrightarrow>
    cache_step admissible (d, held) (d', add_mset r held)"
| alloc_refused: "admissible sz \<Longrightarrow> GetFreeSlotAndLock sz t d = (None, d') \<Longrightarrow>
    cache_step admissible (d, held) (d', held)"
| read_found: "GetSlotToReadAndLock i n None d = (Some a, Some r, d') \<Longrightarrow>
    cache_step admissible (d, held) (d', add_mset r held)"
| read_missing: "GetSlotToReadAndLock i n None d = (None, h, d') \<Longrightarrow>
    cache_step admissible (d, held) (d', held)"
| unlocked: "r \<in># held \<Longrightarrow> UnlockSlot (Some r) d = Some (b, d') \<Longrightarrow>
    cache_step admissible (d, held) (d', held - {#r#})"

inductive cache_reachable :: "u64 \<Rightarrow> (u64 \<Rightarrow> bool) \<Rightarrow> DataCache \<times> nat multiset \<Rightarrow> bool"
  for N :: u64 and admissible :: "u64 \<Rightarrow> bool" where
  start: "cache_reachable N admissible (DataCache_new N ratio rnd, {#})"
| step: "cache_reachable N admissible s \<Longrightarrow> cache_step admissible s s' \<Longrightarrow> cache_reachable N admissible s'"

definition lock_inv :: "DataCache \<times> nat multiset \<Rightarrow> bool" where
  "lock_inv s \<longleftrightarrow> cache_inv (fst s) \<and> (\<forall>r. lock_count (fst s) r = int (count (snd s) r))"

lemma lock_inv_step:
  assumes "cache_step adm s s'" and "lock_inv s"
  shows "lock_inv s'"
  using assms
proof (induction rule: cache_step.induct)
  case (alloc_granted sz t d a r d' held)
  then show ?case
    using dc.alloc_granted [of d sz t a r d'] by (auto simp: lock_inv_def)
next
  case (alloc_refused sz t d d' held)
  then show ?case using dc.alloc_refused [of d sz t d'] by (simp add: lock_inv_def)
next
  case (read_found i n d a r d' held)
  then show ?case using dc.lookup_found [of d i n a "Some r" d'] by (auto simp: lock_inv_def)
next
  case (read_missing i n d h d' held)
  then show ?case using dc.lookup_missing [of d i n h d'] by (simp add: lock_inv_def)
next
  case (unlocked r held d b d')
  then have "lock_count d r > 0" by (simp add: lock_inv_def)
  then show ?case
    using unlocked dc.unlock_held [of d r] by (auto simp: lock_inv_def)
qed

lemma cache_inv_new: "unat N < 2 ^ 63 \<Longrightarrow> cache_inv (DataCache_new N ratio rnd)"
  using cache_wf_new [of N ratio rnd] by (simp add: cache_inv_def DataCache_new_def)

lemma lock_inv_reachable:
  assumes "cache_reachable N adm s" and "unat N < 2 ^ 63"
  shows "lock_inv s"
  using assms
proof (induction rule: cache_reachable.induct)
  case (start ratio rnd)
  then show ?case
    using cache_inv_new by (simp add: lock_inv_def lock_count_def DataCache_new_def)
next
  case (step s s')
  then show ?case using lock_inv_step by blast
qed

subsection \<open>Slot identifiers\<close>

text \<open>The low half of the identifiers counts up along the slot list to the current counter.\<close>

definition ids_inv :: "DataCache \<Rightarrow> bool" where
  "ids_inv d \<longleftrightarrow> (\<forall>i < length (meta d).
     ucast (cm_id (meta d ! i)) = counter d - of_nat (length (meta d) - 1 - i))"

lemma ucast_slot_id: "ucast (push_bit 32 (t :: u64) OR ucast (c :: u32)) = c"
  by (rule bit_word_eqI) (auto simp: bit_simps)

lemma ids_inv_alloc:
  assumes wf: "cache_wf d" and ids: "ids_inv d" and get: "GetFreeSlotAndLock sz t d = (res, d')"
  shows "ids_inv d'"
  using wf get
proof (cases rule: GetFreeSlotAndLock_cases)
  case refused
  then show ?thesis using ids by simp
next
  case (granted m)
  let ?k = "alloc_removed sz d" and ?n = "length (meta d)"
  have meta': "meta d' = drop ?k (meta d) @ [m]" and counter': "counter d' = counter d + 1"
    using granted by simp_all
  have low: "ucast (cm_id m) = counter d + 1" using granted ucast_slot_id by simp
  show ?thesis
    unfolding ids_inv_def
  proof (intro allI impI)
    fix i
    assume i: "i < length (meta d')"
    show "ucast (cm_id (meta d' ! i)) = counter d' - of_nat (length (meta d') - 1 - i)"
    proof (cases "i < ?n - ?k")
      case True
      then have "ucast (cm_id (meta d ! (?k + i))) = counter d - of_nat (?n - 1 - (?k + i))"
        using ids by (simp add: ids_inv_def)
      moreover have "length (meta d') - 1 - i = Suc (?n - 1 - (?k + i))" using True meta' by simp
      moreover have "meta d' ! i = meta d ! (?k + i)" using True meta' by (simp add: nth_append)
      ultimately show ?thesis using counter' by (simp only: of_nat_Suc) simp
    next
      case False
      then show ?thesis using i meta' counter' low by (simp add: nth_append)
    qed
  qed
qed

lemma same_slots_ids:
  assumes "same_slots d d'"
  shows "map cm_id (meta d') = map cm_id (meta d)"
proof -
  have "map strip_lock (meta d') = map strip_lock (meta d)" using assms by (simp add: same_slots_def)
  then have "map (cm_id \<circ> strip_lock) (meta d') = map (cm_id \<circ> strip_lock) (meta d)"
    unfolding map_map [symmetric] by simp
  then show ?thesis by (simp add: comp_def strip_lock_def)
qed

lemma same_slots_ids_inv:
  assumes "same_slots d d'" and "ids_inv d"
  shows "ids_inv d'"
proof -
  have len: "length (meta d') = length (meta d)"
    using same_slots_ids [OF assms(1)] by (rule map_eq_imp_length_eq)
  have "cm_id (meta d' ! i) = cm_id (meta d ! i)" if "i < length (meta d)" for i
    using arg_cong [OF same_slots_ids [OF assms(1)], of "\<lambda>xs. xs ! i"] that len by simp
  then show ?thesis using assms len by (simp add: ids_inv_def same_slots_def)
qed

lemma ids_inv_distinct:
  assumes "ids_inv d" and "length (meta d) \<le> 2 ^ 32"
  shows "distinct (map cm_id (meta d))"
  unfolding distinct_conv_nth
proof (intro allI impI)
  fix i j
  assume ij: "i < length (map cm_id (meta d))" "j < length (map cm_id (meta d))" "i \<noteq> j"
  let ?f = "\<lambda>i. length (meta d) - 1 - i"
  have "(of_nat (?f i) :: u32) \<noteq> of_nat (?f j)"
    using ij assms(2) by (simp add: word_of_nat_eq_iff take_bit_nat_eq_self)
  then have "(ucast (cm_id (meta d ! i)) :: u32) \<noteq> ucast (cm_id (meta d ! j))"
    using assms(1) ij by (simp add: ids_inv_def)
  then show "map cm_id (meta d) ! i \<noteq> map cm_id (meta d) ! j" using ij by auto
qed

subsection \<open>Invariants of the reachable states\<close>

lemma cache_step_same_or_alloc:
  assumes "cache_step adm (d, h) (d', h')" and "lock_inv (d, h)"
  obtains "same_slots d d'" | sz t res where "adm sz" and "GetFreeSlotAndLock sz t d = (res, d')"
proof -
  have inv: "cache_inv d" using assms(2) by (simp add: lock_inv_def)
  have refl: "same_slots d d" by (simp add: same_slots_def)
  show thesis
    using assms(1)
  proof cases
    case (read_found i n a r)
    then show ?thesis
      using that(1) GetSlotToReadAndLock_cases [OF inv] by (metis option.discI)
  next
    case (read_missing i n h)
    then show ?thesis using that(1) dc.lookup_missing [OF inv] refl by metis
  next
    case (unlocked r b)
    then have "r \<in> cm_ref ` set (meta d)" by (auto simp: UnlockSlot_def split: if_splits)
    then show ?thesis using that(1) UnlockSlot_live [OF inv] unlocked by (metis option.inject prod.inject)
  qed (use that(2) in auto)
qed

lemma cache_step_size:
  assumes "cache_step adm (d, h) (d', h')" and "lock_inv (d, h)"
  shows "cache_size d' = cache_size d"
  using cache_step_same_or_alloc [OF assms]
proof cases
  case 1
  then show ?thesis by (simp add: same_slots_def)
next
  case (2 sz t res)
  have "cache_wf d" using assms(2) by (simp add: lock_inv_def cache_inv_def)
  then show ?thesis using 2(2) by (cases rule: GetFreeSlotAndLock_cases) auto
qed

lemma reachable_size_ids:
  assumes "cache_reachable N adm s" and "unat N < 2 ^ 63"
  shows "cache_size (fst s) = N \<and> ids_inv (fst s)"
  using assms
proof (induction rule: cache_reachable.induct)
  case (start ratio rnd)
  then show ?case by (simp add: DataCache_new_def ids_inv_def)
next
  case (step s s')
  obtain d h d' h' where s: "s = (d, h)" "s' = (d', h')" by fastforce
  have inv: "lock_inv (d, h)" using lock_inv_reachable step s by blast
  have "ids_inv d'"
    using cache_step_same_or_alloc [OF step.hyps(2) [unfolded s] inv] step s inv
    by (metis same_slots_ids_inv ids_inv_alloc lock_inv_def cache_inv_def fst_conv)
  then show ?case using cache_step_size [OF step.hyps(2) [unfolded s] inv] step s by simp
qed

lemma reachable_ring_inv:
  assumes "cache_reachable N (\<lambda>sz. 2 * unat sz \<le> unat N) s" and "unat N < 2 ^ 63"
  shows "ring_inv (fst s)"
  using assms
proof (induction rule: cache_reachable.induct)
  case (start ratio rnd)
  then show ?case by (simp add: DataCache_new_def ring_inv_def)
next
  case (step s s')
  obtain d h d' h' where s: "s = (d, h)" "s' = (d', h')" by fastforce
  have inv: "lock_inv (d, h)" using lock_inv_reachable step s by blast
  then have wf: "cache_wf d" by (simp add: lock_inv_def cache_inv_def)
  have N: "cache_size d = N" using reachable_size_ids step s by fastforce
  show ?case
    using cache_step_same_or_alloc [OF step.hyps(2) [unfolded s] inv]
  proof cases
    case 1
    then show ?thesis using same_slots_ring_inv step s by simp
  next
    case (2 sz t res)
    then show ?thesis using ring_inv_GetFreeSlotAndLock [OF wf _ _ 2(2)] step s N by simp
  qed
qed

subsection \<open>Running a list of calls\<close>

datatype cache_call = Alloc u64 u64 | Read u64 u64 | Unlock nat

fun run_call :: "cache_call \<Rightarrow> DataCache \<times> nat multiset \<Rightarrow> (DataCache \<times> nat multiset) option" where
  "run_call (Alloc sz t) (d, held) =
     (case GetFreeSlotAndLock sz t d of
        (Some (a, r), d') \<Rightarrow> Some (d', add_mset r held)
      | (None, d') \<Rightarrow> Some (d', held))"
| "run_call (Read i n) (d, held) =
     (case GetSlotToReadAndLock i n None d of
        (Some a, Some r, d') \<Rightarrow> Some (d', add_mset r held)
      | (None, h, d') \<Rightarrow> Some (d', held)
      | (Some a, None, d') \<Rightarrow> None)"
| "run_call (Unlock r) (d, held) =
     (if r \<in># held then map_option (\<lambda>(b, d'). (d', held - {#r#})) (UnlockSlot (Some r) d) else None)"

fun run_calls :: "cache_call list \<Rightarrow> DataCache \<times> nat multiset \<Rightarrow> (DataCache \<times> nat multiset) option" where
  "run_calls [] s = Some s"
| "run_calls (c # cs) s = (case run_call c s of None \<Rightarrow> None | Some s' \<Rightarrow> run_calls cs s')"

fun call_admissible :: "(u64 \<Rightarrow> bool) \<Rightarrow> cache_call \<Rightarrow> bool" where
  "call_admissible adm (Alloc sz t) = adm sz"
| "call_admissible adm (Read i n) = True"
| "call_admissible adm (Unlock r) = True"

lemma run_call_step:
  "run_call c s = Some s' \<Longrightarrow> call_admissible adm c \<Longrightarrow> cache_step adm s s'"
  by (induction c s rule: run_call.induct)
    (auto split: prod.splits option.splits if_splits intro: cache_step.intros)

lemma run_calls_reachable:
  "run_calls cs s = Some s' \<Longrightarrow> list_all (call_admissible adm) cs \<Longrightarrow> cache_reachable N adm s \<Longrightarrow>
   cache_reachable N adm s'"
proof (induction cs arbitrary: s)
  case (Cons c cs)
  then obtain s1 where "run_call c s = Some s1" "run_calls cs s1 = Some s'"
    by (auto split: option.splits)
  moreover from this have "cache_step adm s s1" using Cons.prems run_call_step by simp
  ultimately show ?case using Cons cache_reachable.step by simp
qed simp

text \<open>
  The demonstration below uses a cache of 100 bytes: three slots, of which the first two are
  unlocked, then a slot of 30 bytes at the start of the buffer, then one of 72 bytes.
\<close>

definition overlap_calls :: "cache_call list" where
  "overlap_calls = [Alloc 40 1, Alloc 40 1, Alloc 15 1, Unlock 0, Unlock 1, Alloc 30 1, Alloc 72 1]"

definition half_calls :: "cache_call list" where
  "half_calls = [Alloc 40 1, Alloc 40 1, Alloc 15 1, Unlock 0, Alloc 30 1]"

definition demo_cache :: DataCache where
  "demo_cache = DataCache_new 100 (\<lambda>n. 10) 0"

lemma overlap_run:
  "map_option (\<lambda>(d, held). (map (\<lambda>m. (cm_ref m, cm_addr m, cm_size m)) (meta d), held))
     (run_calls overlap_calls (demo_cache, {#})) =
   Some ([(2, 80, 15), (3, 0, 30), (4, 0, 72)], {#2, 3, 4#})"
  by code_simp

lemma half_run:
  "map_option (\<lambda>(d, held). (map (\<lambda>m. (cm_ref m, cm_addr m, cm_size m)) (meta d), held))
     (run_calls half_calls (demo_cache, {#})) =
   Some ([(1, 40, 40), (2, 80, 15), (3, 0, 30)], {#1, 2, 3#})"
  by code_simp

lemma demo_reachable: "cache_reachable 100 adm (demo_cache, {#})"
  unfolding demo_cache_def by (rule cache_reachable.start)

lemma run_result:
  assumes "map_option (\<lambda>(d, held). (f d, held)) res = Some (x, h)"
  obtains d where "res = Some (d, h)" and "f d = x"
  using assms by (cases res) auto

lemma half_reachable:
  obtains d where "cache_reachable 100 (\<lambda>sz. 2 * unat sz \<le> unat (100 :: u64)) (d, {#1, 2, 3#})"
    and "map (\<lambda>m. (cm_ref m, cm_addr m, cm_size m)) (meta d) = [(1, 40, 40), (2, 80, 15), (3, 0, 30)]"
proof -
  obtain d where run: "run_calls half_calls (demo_cache, {#}) = Some (d, {#1, 2, 3#})"
    and meta: "map (\<lambda>m. (cm_ref m, cm_addr m, cm_size m)) (meta d) = [(1, 40, 40), (2, 80, 15), (3, 0, 30)]"
    by (rule run_result [OF half_run])
  have "list_all (call_admissible (\<lambda>sz. 2 * unat sz \<le> unat (100 :: u64))) half_calls"
    by (simp add: half_calls_def)
  from run_calls_reachable [OF run this demo_reachable] show thesis by (rule that [OF _ meta])
qed

section \<open>Properties\<close>

text \<open>
  C14. As long as no request is larger than half of the cache, the slots of the cache never
  overlap and never leave the buffer, whatever sequence of allocations, reads and unlocks the
  threads perform: data that is being written or read is not overwritten by another slot.
\<close>
theorem cache_slots_disjoint:
  assumes "cache_reachable N (\<lambda>sz. 2 * unat sz \<le> unat N) (d, held)" and "unat N < 2 ^ 63"
    and "i < j" and "j < length (meta d)"
  shows "disjoint_slots (meta d ! i) (meta d ! j)
    \<and> slot_end (meta d ! i) \<le> unat N \<and> slot_end (meta d ! j) \<le> unat N"
proof -
  have "cache_wf d" "cache_size d = N"
    using lock_inv_reachable [OF assms(1,2)] reachable_size_ids [OF assms(1,2)]
    by (simp_all add: lock_inv_def cache_inv_def)
  then show ?thesis
    using ring_inv_disjoint [OF _ assms(3,4)] reachable_ring_inv [OF assms(1,2)] assms(3,4)
    by (auto simp: cache_wf_def)
qed

theorem cache_slots_disjoint_witness:
  "\<exists>d held. cache_reachable 100 (\<lambda>sz. 2 * unat sz \<le> unat (100 :: u64)) (d, held)
     \<and> length (meta d) = 3 \<and> disjoint_slots (meta d ! 0) (meta d ! 2)"
proof -
  obtain d where d: "cache_reachable 100 (\<lambda>sz. 2 * unat sz \<le> unat (100 :: u64)) (d, {#1, 2, 3#})"
    and meta: "map (\<lambda>m. (cm_ref m, cm_addr m, cm_size m)) (meta d) = [(1, 40, 40), (2, 80, 15), (3, 0, 30)]"
    by (rule half_reachable)
  have len: "length (meta d) = 3" using arg_cong [OF meta, of length] by simp
  have "disjoint_slots (meta d ! 0) (meta d ! 2)"
    using cache_slots_disjoint [OF d, of 0 2] len by simp
  then show ?thesis using d len by blast
qed

text \<open>
  C16. A lock protects its slot in every execution, for every request size: while a client holds
  a lock, the slot record exists, its lock count is the number of locks held on it, unlocking it
  succeeds, and no step of any thread moves or resizes it.
\<close>
theorem cache_lock_protects:
  assumes "cache_reachable N adm (d, held)" and "unat N < 2 ^ 63" and "r \<in># held"
  shows "(\<exists>m \<in> set (meta d). cm_ref m = r \<and> cm_lock m = int (count held r)
            \<and> slot_region d r = Some (slot_start m, slot_end m))
    \<and> (\<exists>d'. UnlockSlot (Some r) d = Some (True, d'))
    \<and> (\<forall>d' held'. cache_step adm (d, held) (d', held') \<longrightarrow> slot_region d' r = slot_region d r)"
proof (intro conjI allI impI)
  have inv: "cache_inv d" and cnt: "lock_count d r = int (count held r)"
    using lock_inv_reachable [OF assms(1,2)] by (simp_all add: lock_inv_def)
  have pos: "lock_count d r > 0" using cnt assms(3) by simp
  show "\<exists>m \<in> set (meta d). cm_ref m = r \<and> cm_lock m = int (count held r)
      \<and> slot_region d r = Some (slot_start m, slot_end m)"
    using lock_count_posD [OF inv pos] slot_region_mem [OF inv] cnt by metis
  show "\<exists>d'. UnlockSlot (Some r) d = Some (True, d')"
    using dc.unlock_held [OF inv pos] by blast
  show "slot_region d' r = slot_region d r" if st: "cache_step adm (d, held) (d', held')" for d' held'
    using cache_step_same_or_alloc [OF st lock_inv_reachable [OF assms(1,2)]]
  proof cases
    case 1
    then show ?thesis by (simp add: same_slots_regions)
  next
    case (2 sz t res)
    then show ?thesis by (intro dc.alloc_region_any [OF inv _ pos])
  qed
qed

theorem cache_lock_protects_witness:
  "\<exists>d d' m. cache_reachable 100 (\<lambda>sz. 2 * unat sz \<le> unat (100 :: u64)) (d, {#1, 2, 3#})
     \<and> m \<in> set (meta d) \<and> cm_ref m = 2 \<and> cm_lock m = 1 \<and> UnlockSlot (Some 2) d = Some (True, d')"
proof -
  obtain d where d: "cache_reachable 100 (\<lambda>sz. 2 * unat sz \<le> unat (100 :: u64)) (d, {#1, 2, 3#})"
    by (rule half_reachable)
  have "unat (100 :: u64) < 2 ^ 63" and "2 \<in># {#1, 2, 3 :: nat#}" by simp_all
  note cache_lock_protects [OF d this]
  then obtain m d' where m: "m \<in> set (meta d)" "cm_ref m = 2" "cm_lock m = int (count {#1, 2, 3#} (2 :: nat))"
    and d': "UnlockSlot (Some 2) d = Some (True, d')" by blast
  have "cm_lock m = 1" using m(3) by simp
  then show ?thesis using d m(1,2) d' by blast
qed

text \<open>
  C17. The bound of half the cache on the request sizes is needed: with a larger request that still passes
  \<open>CheckAllocationSize\<close>, a slot that is locked by one client can be granted, in part, to another
  one.  After a wrap-around the clean-up stops at the first slot of the previous round that does
  not intersect, and the slots of the current round that follow it are not looked at.
\<close>
theorem cache_large_slot_overlaps:
  "\<exists>d held m m'. cache_reachable 100 (\<lambda>sz. CheckAllocationSize sz demo_cache) (d, held)
     \<and> m \<in> set (meta d) \<and> m' \<in> set (meta d) \<and> cm_ref m \<noteq> cm_ref m'
     \<and> cm_ref m \<in># held \<and> cm_ref m' \<in># held \<and> \<not> disjoint_slots m m'"
proof -
  let ?adm = "\<lambda>sz. CheckAllocationSize sz demo_cache"
  obtain d where run: "run_calls overlap_calls (demo_cache, {#}) = Some (d, {#2, 3, 4#})"
    and meta: "map (\<lambda>m. (cm_ref m, cm_addr m, cm_size m)) (meta d) = [(2, 80, 15), (3, 0, 30), (4, 0, 72)]"
    by (rule run_result [OF overlap_run])
  have "list_all (call_admissible ?adm) overlap_calls"
    by (simp add: overlap_calls_def CheckAllocationSize_def demo_cache_def DataCache_new_def)
  then have reach: "cache_reachable 100 ?adm (d, {#2, 3, 4#})"
    by (rule run_calls_reachable [OF run _ demo_reachable])
  obtain m0 m m' where ms: "meta d = [m0, m, m']"
    using arg_cong [OF meta, of length] by (auto simp: length_Suc_conv)
  have f: "cm_ref m = 3" "cm_addr m = 0" "cm_size m = 30" "cm_ref m' = 4" "cm_addr m' = 0" "cm_size m' = 72"
    using meta by (simp_all add: ms)
  then have "\<not> disjoint_slots m m'" by (simp add: disjoint_slots_def slot_start_def slot_end_def)
  moreover have "cm_ref m \<noteq> cm_ref m'" "cm_ref m \<in># {#2, 3, 4#}" "cm_ref m' \<in># {#2, 3, 4#}"
    using f by simp_all
  moreover have "m \<in> set (meta d)" "m' \<in> set (meta d)" using ms by simp_all
  ultimately show ?thesis using reach by blast
qed

text \<open>
  C20. Data that was just put into the cache is found again under its identifier: the reader gets
  the address the writer got, and a second lock on the slot, exactly when it asks for the size
  that was stored and the rest of the cache is at least as large as the part kept for writing.
  This needs the identifiers of the cached slots to be distinct, which the 32 bit counter in
  them guarantees for up to \<open>2^32\<close> slots.
\<close>
theorem cache_read_back:
  assumes "cache_reachable N adm (d, held)" and "unat N < 2 ^ 63"
    and "GetFreeSlotAndLock sz t d = (Some (a, r), d')" and "length (meta d') \<le> 2 ^ 32"
  shows "\<exists>h d''. GetSlotToReadAndLock (push_bit 32 t OR ucast (counter d')) n None d' =
     (if n = sz \<and> keepunlocked_ratio d N \<le> N - sz then Some a else None, h, d'')
     \<and> (n = sz \<and> keepunlocked_ratio d N \<le> N - sz \<longrightarrow> h = Some r \<and> lock_count d'' r = 2)"
proof -
  let ?id = "push_bit 32 t OR ucast (counter d')"
  have inv: "cache_inv d" and size: "cache_size d = N" and ids: "ids_inv d"
    using lock_inv_reachable [OF assms(1,2)] reachable_size_ids [OF assms(1,2)] by (simp_all add: lock_inv_def)
  have wf: "cache_wf d" using inv by (simp add: cache_inv_def)
  obtain ms m where g: "sz \<le> N" "a = cm_addr m" "r = cm_ref m" "cm_addr m = alloc_start sz d"
    "cm_size m = sz" "cm_lock m = 1" "cm_id m = ?id" "meta d' = ms @ [m]"
    "cur_pointer d' = alloc_start sz d + sz" "cache_size d' = N" "keepunlocked_ratio d' = keepunlocked_ratio d"
    using wf assms(3)
  proof (cases rule: GetFreeSlotAndLock_cases)
    case (granted m)
    then show thesis
      using size by (intro that [of m "drop (alloc_removed sz d) (meta d)"]) simp_all
  qed simp
  have "distinct (map cm_id (meta d'))"
    using ids_inv_distinct [OF ids_inv_alloc [OF wf ids assms(3)] assms(4)] .
  then have other: "\<forall>x \<in> set ms. cm_id x \<noteq> ?id" unfolding g(7) [symmetric] g(8) by (auto simp: image_iff)
  have find: "find_and_lock d' ?id n None (xs @ [m]) =
      (if n = sz \<and> \<not> SlotTooCloseToCurrentPointer d' m
       then (Some a, Some r, xs @ [m\<lparr>cm_lock := 2\<rparr>]) else (None, None, xs @ [m]))"
    if "\<forall>x \<in> set xs. cm_id x \<noteq> ?id" for xs
    using that by (induction xs) (simp_all add: g(2,3,5,6,7))
  have "\<not> alloc_start sz d > alloc_start sz d + sz"
    using alloc_start_bounds [OF wf] g(1) size by (simp add: word_less_nat_alt)
  then have "SlotTooCloseToCurrentPointer d' m \<longleftrightarrow> N - sz < keepunlocked_ratio d N"
    unfolding SlotTooCloseToCurrentPointer_def Let_def g(4,9,10,11) by simp
  moreover have "d'\<lparr>meta := meta d'\<rparr> = d'" by simp
  then have "d'\<lparr>meta := ms @ [m]\<rparr> = d'" unfolding g(8) .
  ultimately have lookup: "GetSlotToReadAndLock ?id n None d' =
      (if n = sz \<and> keepunlocked_ratio d N \<le> N - sz
       then (Some a, Some r, d'\<lparr>meta := ms @ [m\<lparr>cm_lock := 2\<rparr>]\<rparr>) else (None, None, d'))"
    unfolding GetSlotToReadAndLock_def g(8) find [OF other] by (simp add: not_less)
  have "lock_count (d'\<lparr>meta := ms @ [m\<lparr>cm_lock := 2\<rparr>]\<rparr>) r = 2"
    using relock(3) [OF lock_count_GetFreeSlotAndLock(4) [OF inv assms(3)], of ms m "[]" 2] g by simp
  then show ?thesis unfolding lookup by auto
qed

theorem cache_read_back_witness:
  "\<exists>d' h d''. GetFreeSlotAndLock 40 7 demo_cache = (Some (0, 0), d')
     \<and> GetSlotToReadAndLock (push_bit 32 7 OR 2) 40 None d' = (Some 0, h, d'') \<and> h = Some 0"
proof -
  obtain d' where get: "GetFreeSlotAndLock 40 7 demo_cache = (Some (0, 0), d')"
    and d': "length (meta d') = 1" "counter d' = 2" "keepunlocked_ratio demo_cache 100 = 10"
    by (simp add: demo_cache_def DataCache_new_def GetFreeSlotAndLock_def CheckAllocationSize_def
        AllocateSlot_def CleanOldSlots_def GetNextId_def)
  have "unat (100 :: u64) < 2 ^ 63" and "length (meta d') \<le> 2 ^ 32" using d' by simp_all
  note cache_read_back [OF demo_reachable this(1) get this(2), of 40]
  then show ?thesis using get d' by auto
qed

end
