(* ===== verification/Asapo_Logger.thy ===== *)
theory Asapo_Logger
  imports Asapo_Errors
begin

text \<open>
  Log levels and structured log messages (\<open>common/cpp/src/logger/logger.cpp\<close>).  A
  \<open>LogMessageWithFields\<close> is the text that it has collected so far.  Fields with a floating
  point value and the logger back ends are not modelled.
\<close>

datatype LogLevel = LL_None | LL_Error | LL_Info | LL_Debug | LL_Warning

definition StringToLogLevel :: "string \<Rightarrow> error option \<times> LogLevel" where
  "StringToLogLevel name =
     (if name = ''debug'' then (None, LL_Debug)
      else if name = ''info'' then (None, LL_Info)
      else if name = ''warning'' then (None, LL_Warning)
      else if name = ''none'' then (None, LL_None)
      else if name = ''error'' then (None, LL_Error)
      else (Some (gen_err kSimpleError (''wrong log level: '' @ name)), LL_None))"

type_synonym LogMessageWithFields = string

definition EncloseQuotes :: "string \<Rightarrow> string" where
  "EncloseQuotes str = [QUOTE] @ str @ [QUOTE]"

definition LogMessage_text :: "string \<Rightarrow> LogMessageWithFields" where
  "LogMessage_text val =
     (if val \<noteq> [] then EncloseQuotes ''message'' @ '':'' @ EncloseQuotes (EscapeJson val) else [])"

definition LogMessage_u64 :: "string \<Rightarrow> u64 \<Rightarrow> LogMessageWithFields" where
  "LogMessage_u64 key val = EncloseQuotes key @ '':'' @ to_string val"

definition LogMessage_string :: "string \<Rightarrow> string \<Rightarrow> LogMessageWithFields" where
  "LogMessage_string key val = EncloseQuotes key @ '':'' @ EncloseQuotes (EscapeJson val)"

definition LogMessage_error :: "error \<Rightarrow> LogMessageWithFields" where
  "LogMessage_error e = ExplainInJSON e"

definition CommaIfNeeded :: "LogMessageWithFields \<Rightarrow> string" where
  "CommaIfNeeded log = (if log = [] then [] else '','')"

definition Append_u64 :: "string \<Rightarrow> u64 \<Rightarrow> LogMessageWithFields \<Rightarrow> LogMessageWithFields" where
  "Append_u64 key val log = log @ CommaIfNeeded log @ EncloseQuotes key @ '':'' @ to_string val"

definition Append_string :: "string \<Rightarrow> string \<Rightarrow> LogMessageWithFields \<Rightarrow> LogMessageWithFields" where
  "Append_string key val log = log @ CommaIfNeeded log @ EncloseQuotes key @ '':'' @ EncloseQuotes (EscapeJson val)"

definition Append_log :: "LogMessageWithFields \<Rightarrow> LogMessageWithFields \<Rightarrow> LogMessageWithFields" where
  "Append_log log_msg log = log @ CommaIfNeeded log @ log_msg"

definition Append_nested :: "string \<Rightarrow> LogMessageWithFields \<Rightarrow> LogMessageWithFields \<Rightarrow> LogMessageWithFields" where
  "Append_nested key log_msg log = log @ CommaIfNeeded log @ EncloseQuotes key @ '':{'' @ log_msg @ ''}''"

section \<open>A message is a list of members\<close>

text \<open>
  \<open>log_fields\<close> writes the members of a flat JSON object; every message that is built by appending
  strings and numbers has this form, whatever characters the values contain.
\<close>

datatype log_value = LogString string | LogNumber u64

fun log_value_text :: "log_value \<Rightarrow> string" where
  "log_value_text (LogString s) = EncloseQuotes (EscapeJson s)"
| "log_value_text (LogNumber n) = to_string n"

definition log_fields :: "(string \<times> log_value) list \<Rightarrow> LogMessageWithFields" where
  "log_fields fs = join_with '','' (map (\<lambda>(k, v). EncloseQuotes k @ '':'' @ log_value_text v) fs)"

lemma join_with_snoc: "xs \<noteq> [] \<Longrightarrow> join_with sep (xs @ [x]) = join_with sep xs @ sep @ x"
  by (induction sep xs rule: join_with.induct) auto

lemma join_with_Nil_iff: "(\<And>x. x \<in> set xs \<Longrightarrow> x \<noteq> []) \<Longrightarrow> join_with sep xs = [] \<longleftrightarrow> xs = []"
  by (induction sep xs rule: join_with.induct) auto

lemma log_fields_Nil_iff: "log_fields fs = [] \<longleftrightarrow> fs = []"
  unfolding log_fields_def by (subst join_with_Nil_iff) (auto simp: EncloseQuotes_def)

lemma log_fields_snoc:
  "log_fields (fs @ [(k, v)]) = log_fields fs @ CommaIfNeeded (log_fields fs) @ EncloseQuotes k @ '':'' @ log_value_text v"
proof (cases "fs = []")
  case True
  then show ?thesis by (simp add: log_fields_def CommaIfNeeded_def)
next
  case False
  then show ?thesis
    using log_fields_Nil_iff [of fs] by (simp add: log_fields_def CommaIfNeeded_def join_with_snoc)
qed

lemma Append_fields:
  "Append_string k s (log_fields fs) = log_fields (fs @ [(k, LogString s)])"
  "Append_u64 k n (log_fields fs) = log_fields (fs @ [(k, LogNumber n)])"
  by (simp_all add: Append_string_def Append_u64_def log_fields_snoc)

lemma LogMessage_fields:
  "LogMessage_text s = log_fields (if s = [] then [] else [(''message'', LogString s)])"
  "LogMessage_string k s = log_fields [(k, LogString s)]" "LogMessage_u64 k n = log_fields [(k, LogNumber n)]"
  by (simp_all add: LogMessage_text_def LogMessage_string_def LogMessage_u64_def log_fields_def)

end
