(* ===== verification/Asapo_Http.thy ===== *)
theory Asapo_Http
  imports Asapo_Errors
begin

text \<open>
  The status codes of HTTP answers that the clients and the receiver look at
  (\<open>common/cpp/include/asapo/http_client/http_client.h\<close>).  The enumeration is over integers, and
  every integer can arrive.
\<close>

type_synonym HttpCode = nat

abbreviation (input) HttpOK :: HttpCode where "HttpOK \<equiv> 200"
abbreviation (input) HttpNoContent :: HttpCode where "HttpNoContent \<equiv> 204"
abbreviation (input) HttpPartialContent :: HttpCode where "HttpPartialContent \<equiv> 206"
abbreviation (input) HttpBadRequest :: HttpCode where "HttpBadRequest \<equiv> 400"
abbreviation (input) HttpUnauthorized :: HttpCode where "HttpUnauthorized \<equiv> 401"
abbreviation (input) HttpNotFound :: HttpCode where "HttpNotFound \<equiv> 404"
abbreviation (input) HttpConflict :: HttpCode where "HttpConflict \<equiv> 409"
abbreviation (input) HttpUnsupportedMediaType :: HttpCode where "HttpUnsupportedMediaType \<equiv> 415"
abbreviation (input) HttpInternalServerError :: HttpCode where "HttpInternalServerError \<equiv> 500"
abbreviation (input) HttpServiceUnavailable :: HttpCode where "HttpServiceUnavailable \<equiv> 503"

end
