(* ===== verification/Receiver_Request.thy ===== *)
theory Receiver_Request
  imports Data_Structs Data_Cache Asapo_Logger Asapo_Http
begin

text \<open>
  The request object of the receiver (\<open>receiver/src/request.{h,cpp}\<close>) and the state that its
  handlers work on: the authorization data of the connection (\<open>request_handler/structs.h\<close>), the
  shared data cache, one database client per database handler, and the outside world.

  The sockets, the file system, the HTTP client and the database are abstract classes in the
  code; here they are the fields of \<open>receiver_env\<close>, functions on an abstract world of type
  \<open>'w\<close>, so nothing is assumed about them.  Log messages are not modelled.  A socket is a number.
\<close>

record AuthorizationData =
  a_beamtime_id :: string
  a_data_source :: string
  a_beamline :: string
  a_offline_path :: string
  a_online_path :: string
  a_source_type :: SourceType
  a_last_update :: int
  a_source_credentials :: string

text \<open>The handler objects that a request factory owns.\<close>

datatype handler =
    H_SecondaryAuthorize
  | H_InitialAuthorize
  | H_ReceiveMetaData
  | H_ReceiveData
  | H_FileWrite
  | H_FileReceive
  | H_DbWrite
  | H_DbMetaWrite
  | H_DbGetMeta
  | H_DbStreamInfo
  | H_DbDeleteStream
  | H_DbLastStream
  | H_DbCheck

datatype ResponseMessageType = kWarning | kInfo

text \<open>
  \<open>rq_data\<close> are the bytes at the address that \<open>GetData\<close> returns, \<open>rq_slot\<close> is \<open>slot_meta_\<close>.
  Whether there is a cache (\<open>cache__\<close>) is a property of the connection.
\<close>

record Request =
  rq_header :: GenericRequestHeader
  rq_socket :: nat
  rq_origin_uri :: string
  rq_origin_host :: string
  rq_data :: string
  rq_handlers :: "handler list"
  rq_beamtime_id :: string
  rq_data_source :: string
  rq_beamline :: string
  rq_offline_path :: string
  rq_online_path :: string
  rq_metadata :: string
  rq_slot :: "nat option"
  rq_already_processed :: bool
  rq_response_message :: string
  rq_response_message_type :: ResponseMessageType
  rq_source_type :: SourceType

definition Request_new :: "GenericRequestHeader \<Rightarrow> nat \<Rightarrow> string \<Rightarrow> Request" where
  "Request_new h socket_fd origin_uri =
     \<lparr>rq_header = copy_header h, rq_socket = socket_fd, rq_origin_uri = origin_uri,
      rq_origin_host = HostFromUri origin_uri, rq_data = [], rq_handlers = [],
      rq_beamtime_id = [], rq_data_source = [], rq_beamline = [], rq_offline_path = [],
      rq_online_path = [], rq_metadata = [], rq_slot = None, rq_already_processed = False,
      rq_response_message = [], rq_response_message_type = kWarning, rq_source_type = kProcessed\<rparr>"

definition AddHandler :: "handler \<Rightarrow> Request \<Rightarrow> Request" where
  "AddHandler h r = r\<lparr>rq_handlers := rq_handlers r @ [h]\<rparr>"

definition GetDataSize :: "Request \<Rightarrow> u64" where
  "GetDataSize r = data_size (rq_header r)"

definition GetMetaDataSize :: "Request \<Rightarrow> u64" where
  "GetMetaDataSize r = meta_size (rq_header r)"

definition GetDataID :: "Request \<Rightarrow> u64" where
  "GetDataID r = data_id (rq_header r)"

definition GetOpCode :: "Request \<Rightarrow> u8" where
  "GetOpCode r = op_code (rq_header r)"

definition GetCustomData :: "Request \<Rightarrow> nat \<Rightarrow> u64" where
  "GetCustomData r i = custom_param i (rq_header r)"

definition GetFileName :: "Request \<Rightarrow> string" where
  "GetFileName r = replace_char BACKSLASH (CHR ''/'') (message_str (rq_header r))"

definition GetStream :: "Request \<Rightarrow> string" where
  "GetStream r = stream_str (rq_header r)"

definition GetApiVersion :: "Request \<Rightarrow> string" where
  "GetApiVersion r = api_version_str (rq_header r)"

definition SetResponseMessage :: "string \<Rightarrow> ResponseMessageType \<Rightarrow> Request \<Rightarrow> Request" where
  "SetResponseMessage m ty r = r\<lparr>rq_response_message := m, rq_response_message_type := ty\<rparr>"

definition SetAlreadyProcessedFlag :: "Request \<Rightarrow> Request" where
  "SetAlreadyProcessedFlag r = r\<lparr>rq_already_processed := True\<rparr>"

section \<open>Configuration, environment and state\<close>

record ReceiverConfig =
  performance_db_uri :: string
  performance_db_name :: string
  monitor_performance :: bool
  database_uri :: string
  listen_port :: u64
  authorization_server :: string
  authorization_interval_ms :: u64
  use_datacache :: bool
  datacache_size_gb :: u64
  datacache_reserved_share :: u64
  receive_to_disk_threshold_mb :: u64
  log_level :: LogLevel
  receiver_tag :: string
  ds_listen_port :: u64
  ds_nthreads :: u64
  ds_tag :: string
  advertise_uri :: string
  network_mode :: "string list"
  metrics_expose :: bool
  metrics_listen_port :: u64
  discovery_server :: string

record 'w receiver_env =
  config :: ReceiverConfig
  json_lib :: rapidjson_lib
  receiver_api_version :: string
  clock :: "'w \<Rightarrow> int"
  allocates :: "u64 \<Rightarrow> 'w \<Rightarrow> bool"
  stale_slot_id :: "'w \<Rightarrow> u64"
  Receive :: "nat \<Rightarrow> u64 \<Rightarrow> 'w \<Rightarrow> (string \<times> error option) \<times> 'w"
  ReceiveHeader :: "nat \<Rightarrow> 'w \<Rightarrow> (GenericRequestHeader \<times> error option) \<times> 'w"
  Send :: "nat \<Rightarrow> GenericNetworkResponse \<Rightarrow> 'w \<Rightarrow> error option \<times> 'w"
  CloseSocket :: "nat \<Rightarrow> 'w \<Rightarrow> 'w"
  WriteDataToFile :: "string \<Rightarrow> string \<Rightarrow> string \<Rightarrow> u64 \<Rightarrow> bool \<Rightarrow> bool \<Rightarrow> 'w \<Rightarrow> error option \<times> 'w"
  ReceiveDataToFile :: "nat \<Rightarrow> string \<Rightarrow> string \<Rightarrow> u64 \<Rightarrow> bool \<Rightarrow> bool \<Rightarrow> 'w \<Rightarrow> error option \<times> 'w"
  http_Post :: "string \<Rightarrow> string \<Rightarrow> string \<Rightarrow> 'w \<Rightarrow> (string \<times> HttpCode \<times> error option) \<times> 'w"
  http_Get :: "string \<Rightarrow> 'w \<Rightarrow> (string \<times> HttpCode \<times> error option) \<times> 'w"
  db_Connect :: "handler \<Rightarrow> string \<Rightarrow> string \<Rightarrow> 'w \<Rightarrow> error option \<times> 'w"
  db_Insert :: "handler \<Rightarrow> string \<Rightarrow> MessageMeta \<Rightarrow> bool \<Rightarrow> 'w \<Rightarrow> error option \<times> 'w"
  db_InsertAsDatasetMessage :: "handler \<Rightarrow> string \<Rightarrow> MessageMeta \<Rightarrow> u64 \<Rightarrow> bool \<Rightarrow> 'w \<Rightarrow> error option \<times> 'w"
  db_InsertMeta :: "handler \<Rightarrow> string \<Rightarrow> string \<Rightarrow> string \<Rightarrow> u64 \<Rightarrow> MetaIngestMode \<Rightarrow> 'w \<Rightarrow> error option \<times> 'w"
  db_GetById :: "handler \<Rightarrow> string \<Rightarrow> u64 \<Rightarrow> 'w \<Rightarrow> (error option \<times> MessageMeta) \<times> 'w"
  db_GetDataSetById :: "handler \<Rightarrow> string \<Rightarrow> u64 \<Rightarrow> u64 \<Rightarrow> 'w \<Rightarrow> (error option \<times> MessageMeta) \<times> 'w"
  db_GetStreamInfo :: "handler \<Rightarrow> string \<Rightarrow> 'w \<Rightarrow> (error option \<times> StreamInfo) \<times> 'w"
  db_GetLastStream :: "handler \<Rightarrow> 'w \<Rightarrow> (error option \<times> StreamInfo) \<times> 'w"
  db_DeleteStream :: "handler \<Rightarrow> string \<Rightarrow> 'w \<Rightarrow> error option \<times> 'w"
  db_GetMetaFromDb :: "handler \<Rightarrow> string \<Rightarrow> string \<Rightarrow> 'w \<Rightarrow> (error option \<times> string) \<times> 'w"

text \<open>\<open>db_name_\<close> and \<open>connected_to_db\<close> of a database handler.\<close>

record db_handler_state =
  db_name :: string
  connected_to_db :: bool

text \<open>
  What one connection works on.  \<open>rs_cache\<close> is \<open>None\<close> when the receiver runs without a data
  cache.
\<close>

record 'w receiver_state =
  rs_world :: 'w
  rs_cache :: "DataCache option"
  rs_auth :: AuthorizationData
  rs_db :: "handler \<Rightarrow> db_handler_state"
  rs_request :: Request

type_synonym 'w handler_step = "'w receiver_state \<Rightarrow> error option \<times> 'w receiver_state"

definition with_world :: "('w \<Rightarrow> 'a \<times> 'w) \<Rightarrow> 'w receiver_state \<Rightarrow> 'a \<times> 'w receiver_state" where
  "with_world f s = (let (x, w) = f (rs_world s) in (x, s\<lparr>rs_world := w\<rparr>))"

definition upd_request :: "(Request \<Rightarrow> Request) \<Rightarrow> 'w receiver_state \<Rightarrow> 'w receiver_state" where
  "upd_request f s = s\<lparr>rs_request := f (rs_request s)\<rparr>"

section \<open>The data buffer of a request\<close>

text \<open>
  Milliseconds of the clock, which counts nanoseconds.
\<close>

definition clock_millis :: "'w receiver_env \<Rightarrow> 'w \<Rightarrow> u64" where
  "clock_millis E w = of_int (clock E w div 1000000)"

definition PrepareDataBufferAndLockIfNeeded :: "'w receiver_env \<Rightarrow> 'w handler_step" where
  "PrepareDataBufferAndLockIfNeeded E s =
     (let sz = GetDataSize (rs_request s) in
      case rs_cache s of
        None \<Rightarrow>
          (if allocates E sz (rs_world s) then (None, s)
           else (Some (AddDetails ''size'' (to_string sz)
                   (AddDetails ''reason'' ''std::bad_alloc''
                     (gen_err kMemoryAllocationError ''cannot allocate memory for request''))), s))
      | Some c \<Rightarrow>
          (case GetFreeSlotAndLock sz (clock_millis E (rs_world s)) c of
             (Some (addr, slot), c') \<Rightarrow>
               (None, upd_request (\<lambda>r. r\<lparr>rq_slot := Some slot\<rparr>) (s\<lparr>rs_cache := Some c'\<rparr>))
           | (None, c') \<Rightarrow>
               (Some (AddDetails ''size'' (to_string sz)
                  (gen_err kMemoryAllocationError ''cannot allocate slot in cache'')), s\<lparr>rs_cache := Some c'\<rparr>)))"

text \<open>\<open>slot_meta_\<close> is only set when there is a cache; \<open>None\<close> is a use of an erased record.\<close>

definition UnlockDataBufferIfNeeded :: "'w receiver_state \<Rightarrow> 'w receiver_state option" where
  "UnlockDataBufferIfNeeded s =
     (case (rq_slot (rs_request s), rs_cache s) of
        (Some slot, Some c) \<Rightarrow> map_option (\<lambda>(b, c'). s\<lparr>rs_cache := Some c'\<rparr>) (UnlockSlot (Some slot) c)
      | _ \<Rightarrow> Some s)"

text \<open>
  Reading the identifier of a slot record that was erased in the meantime gives whatever is in
  that memory, \<open>stale_slot_id\<close>.
\<close>

definition GetSlotId :: "'w receiver_env \<Rightarrow> 'w receiver_state \<Rightarrow> u64" where
  "GetSlotId E s =
     (case (rq_slot (rs_request s), rs_cache s) of
        (Some slot, Some c) \<Rightarrow>
          (case find (\<lambda>m. cm_ref m = slot) (meta c) of
             Some m \<Rightarrow> cm_id m | None \<Rightarrow> stale_slot_id E (rs_world s))
      | _ \<Rightarrow> 0)"

section \<open>A small environment for examples\<close>

text \<open>Everything succeeds, data is made of the letter x, the database is empty.\<close>

definition demo_config :: ReceiverConfig where
  "demo_config = \<lparr>performance_db_uri = [], performance_db_name = [], monitor_performance = False,
     database_uri = ''mongo'', listen_port = 4200, authorization_server = ''auth'',
     authorization_interval_ms = 1000, use_datacache = True, datacache_size_gb = 1,
     datacache_reserved_share = 10, receive_to_disk_threshold_mb = 50, log_level = LL_Info,
     receiver_tag = ''r'', ds_listen_port = 4201, ds_nthreads = 1, ds_tag = ''r_ds'',
     advertise_uri = ''host:4201'', network_mode = [''tcp''], metrics_expose = False,
     metrics_listen_port = 0, discovery_server = ''disc''\<rparr>"

definition demo_env :: "unit receiver_env" where
  "demo_env = \<lparr>config = demo_config, json_lib = demo_lib, receiver_api_version = ''v0.6'',
     clock = (\<lambda>w. 0), allocates = (\<lambda>n w. True), stale_slot_id = (\<lambda>w. 0),
     Receive = (\<lambda>fd n w. ((replicate (unat n) (CHR ''x''), None), w)),
     ReceiveHeader = (\<lambda>fd w. ((GenericRequestHeader_new [13, 0, 0] kOpcodeTransferData 1 10 0 ''processed/a'' ''s'', None), w)),
     Send = (\<lambda>fd resp w. (None, w)), CloseSocket = (\<lambda>fd w. w),
     WriteDataToFile = (\<lambda>root f bytes n dirs over w. (None, w)),
     ReceiveDataToFile = (\<lambda>fd root f n dirs over w. (None, w)),
     http_Post = (\<lambda>uri cookie body w. (([], HttpOK, None), w)), http_Get = (\<lambda>uri w. (([], HttpOK, None), w)),
     db_Connect = (\<lambda>h uri nm w. (None, w)), db_Insert = (\<lambda>h c m i w. (None, w)),
     db_InsertAsDatasetMessage = (\<lambda>h c m n i w. (None, w)), db_InsertMeta = (\<lambda>h c i d n m w. (None, w)),
     db_GetById = (\<lambda>h c i w. ((Some (db_err DB_kNoRecord []), MessageMeta_new), w)),
     db_GetDataSetById = (\<lambda>h c i j w. ((Some (db_err DB_kNoRecord []), MessageMeta_new), w)),
     db_GetStreamInfo = (\<lambda>h c w. ((None, StreamInfo_new), w)),
     db_GetLastStream = (\<lambda>h w. ((None, StreamInfo_new), w)),
     db_DeleteStream = (\<lambda>h st w. (None, w)), db_GetMetaFromDb = (\<lambda>h c i w. ((None, []), w))\<rparr>"

definition demo_auth :: AuthorizationData where
  "demo_auth = \<lparr>a_beamtime_id = ''bt'', a_data_source = ''det'', a_beamline = ''bl'', a_offline_path = ''/core'',
     a_online_path = ''/bl'', a_source_type = kProcessed, a_last_update = 0, a_source_credentials = ''cred''\<rparr>"

definition demo_receiver_request :: Request where
  "demo_receiver_request = Request_new
     ((GenericRequestHeader_new [13, 0, 0] kOpcodeTransferData 1 10 0 ''processed/a'' ''s'')
        \<lparr>api_version := strncpy kMaxVersionSize ''v0.6''\<rparr>) 3 ''host:5''"

definition demo_state :: "unit receiver_state" where
  "demo_state = \<lparr>rs_world = (), rs_cache = Some demo_cache, rs_auth = demo_auth,
     rs_db = (\<lambda>h. \<lparr>db_name = [], connected_to_db = False\<rparr>), rs_request = demo_receiver_request\<rparr>"

lemma demo_version: "GetApiVersion (rs_request demo_state) = ''v0.6''"
proof -
  have "c_str (strncpy 10 (strncpy 10 ''v0.6'')) = ''v0.6''" by code_simp
  then show ?thesis
    by (simp add: GetApiVersion_def api_version_str_def demo_state_def demo_receiver_request_def Request_new_def
        copy_header_def kMaxVersionSize_def)
qed

end
