(* ===== verification/Receiver_Auth.thy ===== *)
theory Receiver_Auth
  imports Receiver_Request
begin

text \<open>
  Authorization in the receiver: the client of the authorization server
  (\<open>request_handler/authorization_client.cpp\<close>) and the two handlers that use it
  (\<open>request_handler_authorize.cpp\<close>, \<open>request_handler_initial_authorization.cpp\<close>,
  \<open>request_handler_secondary_authorization.cpp\<close>), with the version comparison of \<open>version.h.in\<close>.
\<close>

section \<open>Versions\<close>

definition VersionToNumber :: "string \<Rightarrow> int" where
  "VersionToNumber version =
     (case str_find (CHR ''.'') version of
        None \<Rightarrow> 0
      | Some found \<Rightarrow>
          (let maj = take found (drop 1 version);
               mi = drop (found + 1) version in
           atoi (c_str maj) * 1000 + atoi (c_str mi)))"

definition CheckVersion :: "'w receiver_env \<Rightarrow> Request \<Rightarrow> error option" where
  "CheckVersion E r =
     (let version_from_client = GetApiVersion r;
          verClient = VersionToNumber version_from_client;
          verService = VersionToNumber (receiver_api_version E) in
      if verClient > verService
      then Some (AddDetails ''server'' (receiver_api_version E)
                   (AddDetails ''client'' version_from_client (rcv_err R_kUnsupportedClient [])))
      else None)"

section \<open>The authorization client\<close>

definition GetRequestString :: "Request \<Rightarrow> string \<Rightarrow> string" where
  "GetRequestString r source_credentials =
     ''{'' @ WrapInQuotes ''SourceCredentials'' @ '':'' @ WrapInQuotes source_credentials @ '',''
     @ WrapInQuotes ''OriginHost'' @ '':'' @ WrapInQuotes (rq_origin_uri r) @ ''}''"

definition ErrorFromAuthorizationServerResponse :: "error option \<Rightarrow> string \<Rightarrow> HttpCode \<Rightarrow> error" where
  "ErrorFromAuthorizationServerResponse err response code =
     (case err of
        Some e \<Rightarrow>
          SetCause (Some e) (AddDetails ''response'' response
            (rcv_err R_kInternalServerError ''cannot authorize request''))
      | None \<Rightarrow>
          AddDetails ''errorCode'' (nat_to_string code) (AddDetails ''response'' response
            (if code \<noteq> HttpUnauthorized then rcv_err R_kInternalServerError []
             else rcv_err R_kAuthorizationFailure [])))"

definition access_type_of :: "SourceType \<Rightarrow> string" where
  "access_type_of ty = (if ty = kProcessed then ''write'' else ''writeraw'')"

definition CheckAccessType :: "SourceType \<Rightarrow> string list \<Rightarrow> error option" where
  "CheckAccessType source_type access_types =
     (if access_type_of source_type \<in> set access_types then None
      else Some (AddDetails ''have'' (join_with '','' access_types)
             (AddDetails ''expected'' (access_type_of source_type)
               (rcv_err R_kAuthorizationFailure ''wrong access types''))))"

text \<open>
  The \<open>||\<close> chain of \<open>ParseServerResponse\<close>: every getter that succeeds has assigned its field
  when a later one fails; the caller restores the old data then.
\<close>

definition ParseServerResponse ::
    "rapidjson_lib \<Rightarrow> string \<Rightarrow> HttpCode \<Rightarrow> string list \<Rightarrow> AuthorizationData
     \<Rightarrow> error option \<times> string list \<times> AuthorizationData" where
  "ParseServerResponse L response code access_types dat =
     (let parser = JsonStringParser L response;
          (e1, v1) = GetString ''beamtimeId'' (a_beamtime_id dat) parser;
          d1 = dat\<lparr>a_beamtime_id := v1\<rparr> in
      if e1 \<noteq> None then (Some (ErrorFromAuthorizationServerResponse e1 response code), access_types, d1) else
      let (e2, v2) = GetString ''dataSource'' (a_data_source dat) parser;
          d2 = d1\<lparr>a_data_source := v2\<rparr> in
      if e2 \<noteq> None then (Some (ErrorFromAuthorizationServerResponse e2 response code), access_types, d2) else
      let (e3, v3) = GetString ''corePath'' (a_offline_path dat) parser;
          d3 = d2\<lparr>a_offline_path := v3\<rparr> in
      if e3 \<noteq> None then (Some (ErrorFromAuthorizationServerResponse e3 response code), access_types, d3) else
      let (e4, v4) = GetString ''beamline-path'' (a_online_path dat) parser;
          d4 = d3\<lparr>a_online_path := v4\<rparr> in
      if e4 \<noteq> None then (Some (ErrorFromAuthorizationServerResponse e4 response code), access_types, d4) else
      let (e5, stype) = GetString ''source-type'' [] parser in
      if e5 \<noteq> None then (Some (ErrorFromAuthorizationServerResponse e5 response code), access_types, d4) else
      let (e6, v6) = GetArrayString ''access-types'' access_types parser in
      if e6 \<noteq> None then (Some (ErrorFromAuthorizationServerResponse e6 response code), v6, d4) else
      let (e7, v7) = GetSourceTypeFromString stype (a_source_type dat);
          d7 = d4\<lparr>a_source_type := v7\<rparr> in
      if e7 \<noteq> None then (Some (ErrorFromAuthorizationServerResponse e7 response code), v6, d7) else
      let (e8, v8) = GetString ''beamline'' (a_beamline dat) parser;
          d8 = d7\<lparr>a_beamline := v8\<rparr> in
      if e8 \<noteq> None then (Some (ErrorFromAuthorizationServerResponse e8 response code), v6, d8) else
      (None, v6, d8))"

definition UpdateDataFromServerResponse ::
    "rapidjson_lib \<Rightarrow> int \<Rightarrow> string \<Rightarrow> HttpCode \<Rightarrow> AuthorizationData \<Rightarrow> error option \<times> AuthorizationData" where
  "UpdateDataFromServerResponse L now response code dat =
     (let (err, access_types, new) = ParseServerResponse L response code [] dat in
      case err of Some e \<Rightarrow> (Some e, dat)
      | None \<Rightarrow>
          (case CheckAccessType (a_source_type new) access_types of
             Some e \<Rightarrow> (Some e, dat)
           | None \<Rightarrow> (None, new\<lparr>a_last_update := now\<rparr>)))"

definition DoServerRequest ::
    "'w receiver_env \<Rightarrow> string \<Rightarrow> 'w \<Rightarrow> (error option \<times> string \<times> HttpCode) \<times> 'w" where
  "DoServerRequest E request_string w =
     (let ((response, code, err), w') =
            http_Post E (authorization_server (config E) @ ''/authorize'') [] request_string w in
      if err \<noteq> None \<or> code \<noteq> HttpOK
      then ((Some (ErrorFromAuthorizationServerResponse err response code), response, code), w')
      else ((None, response, code), w'))"

definition Authorize :: "'w receiver_env \<Rightarrow> 'w handler_step" where
  "Authorize E s =
     (let request_string = GetRequestString (rs_request s) (a_source_credentials (rs_auth s));
          ((err, response, code), s1) = with_world (DoServerRequest E request_string) s in
      case err of Some e \<Rightarrow> (Some e, s1)
      | None \<Rightarrow>
          (let (err2, dat) =
             UpdateDataFromServerResponse (json_lib E) (clock E (rs_world s1)) response code (rs_auth s1) in
           (err2, s1\<lparr>rs_auth := dat\<rparr>)))"

section \<open>The handlers\<close>

definition InitialAuthorization_ProcessRequest :: "'w receiver_env \<Rightarrow> 'w handler_step" where
  "InitialAuthorization_ProcessRequest E s =
     (case CheckVersion E (rs_request s) of
        Some e \<Rightarrow> (Some e, s)
      | None \<Rightarrow>
          (if a_source_credentials (rs_auth s) \<noteq> []
           then (Some (rcv_err R_kAuthorizationFailure ''already authorized''), s)
           else Authorize E (s\<lparr>rs_auth := (rs_auth s)\<lparr>a_source_credentials := rq_metadata (rs_request s)\<rparr>\<rparr>)))"

definition SetRequestFields :: "AuthorizationData \<Rightarrow> Request \<Rightarrow> Request" where
  "SetRequestFields a r =
     r\<lparr>rq_beamtime_id := a_beamtime_id a, rq_beamline := a_beamline a, rq_data_source := a_data_source a,
       rq_offline_path := a_offline_path a, rq_online_path := a_online_path a,
       rq_source_type := a_source_type a\<rparr>"

definition CheckRequest :: "'w receiver_env \<Rightarrow> 'w receiver_state \<Rightarrow> error option" where
  "CheckRequest E s =
     (case CheckVersion E (rs_request s) of
        Some e \<Rightarrow> Some e
      | None \<Rightarrow>
          (if a_source_credentials (rs_auth s) = []
           then Some (rcv_err R_kAuthorizationFailure ''not authorized'') else None))"

text \<open>\<open>duration_cast\<close> truncates toward zero.\<close>

definition NeedReauthorize :: "'w receiver_env \<Rightarrow> 'w receiver_state \<Rightarrow> bool" where
  "NeedReauthorize E s =
     (let d = clock E (rs_world s) - a_last_update (rs_auth s);
          elapsed_ms = (of_int (sgn d * (\<bar>d\<bar> div 1000000)) :: u64) in
      elapsed_ms \<ge> authorization_interval_ms (config E))"

definition InvalidateAuthCache :: "'w receiver_state \<Rightarrow> 'w receiver_state" where
  "InvalidateAuthCache s = s\<lparr>rs_auth := (rs_auth s)\<lparr>a_source_credentials := []\<rparr>\<rparr>"

definition ProcessReAuthorization :: "'w receiver_env \<Rightarrow> 'w handler_step" where
  "ProcessReAuthorization E s =
     (let old_beamtimeId = a_beamtime_id (rs_auth s);
          (err, s1) = Authorize E s in
      if err_is err (ReceiverErrorTemplates R_kAuthorizationFailure)
         \<or> (err = None \<and> old_beamtimeId \<noteq> a_beamtime_id (rs_auth s1))
      then (Some (rcv_err R_kReAuthorizationFailure []), InvalidateAuthCache s1)
      else (err, s1))"

definition ReauthorizeIfNeeded :: "'w receiver_env \<Rightarrow> 'w handler_step" where
  "ReauthorizeIfNeeded E s = (if \<not> NeedReauthorize E s then (None, s) else ProcessReAuthorization E s)"

definition SecondaryAuthorization_ProcessRequest :: "'w receiver_env \<Rightarrow> 'w handler_step" where
  "SecondaryAuthorization_ProcessRequest E s =
     (case CheckRequest E s of
        Some e \<Rightarrow> (Some e, s)
      | None \<Rightarrow>
          (case ReauthorizeIfNeeded E s of
             (Some e, s1) \<Rightarrow> (Some e, s1)
           | (None, s1) \<Rightarrow> (None, upd_request (SetRequestFields (rs_auth s1)) s1)))"

section \<open>Version numbers\<close>

lemma digit_not_special: "is_digit c \<Longrightarrow> c \<noteq> NUL \<and> c \<noteq> CHR ''.'' \<and> c \<noteq> CHR ''-'' \<and> c \<noteq> CHR ''+'' \<and> \<not> is_space c"
  by (auto simp: is_digit_def is_space_def)

lemma atoi_digits:
  assumes "\<forall>c \<in> set ds. is_digit c" and "ds \<noteq> []" and "rest = [] \<or> \<not> is_digit (hd rest)"
  shows "atoi (ds @ rest) = int (digits_value ds)"
proof -
  obtain c cs where ds: "ds = c # cs" using assms(2) by (cases ds) auto
  then have c: "is_digit c" using assms(1) by simp
  have "takeWhile is_digit (ds @ rest) = ds"
    using assms(1,3) by (cases rest) (auto simp: takeWhile_append)
  moreover have "dropWhile is_space (ds @ rest) = ds @ rest"
    using ds digit_not_special [OF c] by simp
  ultimately show ?thesis using ds digit_not_special [OF c] by (simp add: atoi_def)
qed

lemma str_find_after: "c \<notin> set s \<Longrightarrow> str_find c (s @ c # t) = Some (length s)"
  by (induction s) auto

lemma VersionToNumber_wf:
  "VersionToNumber (''v'' @ nat_to_string a @ ''.'' @ nat_to_string b) = 1000 * int a + int b"
proof -
  let ?a = "nat_to_string a" and ?b = "nat_to_string b"
  let ?v = "(CHR ''v'' # ?a) @ CHR ''.'' # ?b"
  have a: "\<forall>c \<in> set ?a. is_digit c" and b: "\<forall>c \<in> set ?b. is_digit c"
    using nat_to_string_digits by blast+
  have "CHR ''.'' \<notin> set ?a" and nul: "NUL \<notin> set ?a" "NUL \<notin> set ?b"
    using a b digit_not_special by blast+
  then have "str_find (CHR ''.'') ?v = Some (Suc (length ?a))"
    using str_find_after [of "CHR ''.''" "CHR ''v'' # ?a" ?b] by simp
  moreover have "atoi (c_str (?a @ [CHR ''.''])) = int a"
    using atoi_digits [OF a, of "''.''"] nul(1) by (simp add: c_str_append digits_value_nat_to_string is_digit_def c_str_def [of "''.''"])
  moreover have "atoi (c_str ?b) = int b"
    using atoi_digits [OF b, of "[]"] nul(2) by (simp add: c_str_id digits_value_nat_to_string)
  ultimately show ?thesis by (simp add: VersionToNumber_def)
qed

section \<open>What the authorization operations change\<close>

lemma UpdateData_error: "UpdateDataFromServerResponse L now response code dat = (Some e, dat') \<Longrightarrow> dat' = dat"
  by (auto simp: UpdateDataFromServerResponse_def split: prod.splits option.splits)

lemma ParseServerResponse_credentials:
  "ParseServerResponse L response code tys dat = (err, tys', dat') \<Longrightarrow>
   a_source_credentials dat' = a_source_credentials dat"
  by (auto simp: ParseServerResponse_def Let_def split: prod.splits if_splits)

lemma UpdateData_credentials:
  assumes "UpdateDataFromServerResponse L now response code dat = (err, dat')"
  shows "a_source_credentials dat' = a_source_credentials dat"
proof -
  obtain e tys new where p: "ParseServerResponse L response code [] dat = (e, tys, new)" by (metis prod_cases3)
  show ?thesis
    using assms ParseServerResponse_credentials [OF p]
    by (auto simp: UpdateDataFromServerResponse_def p split: option.splits)
qed

text \<open>Only the world and the authorization data change.\<close>

definition same_but_auth :: "'w receiver_state \<Rightarrow> 'w receiver_state \<Rightarrow> bool" where
  "same_but_auth s s' \<longleftrightarrow> rs_cache s' = rs_cache s \<and> rs_db s' = rs_db s \<and> rs_request s' = rs_request s"

lemma Authorize_cases:
  assumes "Authorize E s = (err, s')"
  obtains (failed) e w where "err = Some e" and "s' = s\<lparr>rs_world := w\<rparr>"
      and "err_service e = Receiver_S"
      and "error_type e \<in> t_type ` ReceiverErrorTemplates ` {R_kAuthorizationFailure, R_kInternalServerError}"
  | (granted) response w types new where "err = None"
      and "http_Post E (authorization_server (config E) @ ''/authorize'') []
             (GetRequestString (rs_request s) (a_source_credentials (rs_auth s))) (rs_world s)
           = ((response, HttpOK, None), w)"
      and "ParseServerResponse (json_lib E) response HttpOK [] (rs_auth s) = (None, types, new)"
      and "access_type_of (a_source_type new) \<in> set types"
      and "s' = s\<lparr>rs_world := w, rs_auth := new\<lparr>a_last_update := clock E w\<rparr>\<rparr>"
proof -
  obtain response code herr w where post: "http_Post E (authorization_server (config E) @ ''/authorize'') []
      (GetRequestString (rs_request s) (a_source_credentials (rs_auth s))) (rs_world s) = ((response, code, herr), w)"
    by (metis prod.collapse)
  show thesis
  proof (cases "herr \<noteq> None \<or> code \<noteq> HttpOK")
    case True
    then have "err = Some (ErrorFromAuthorizationServerResponse herr response code)" "s' = s\<lparr>rs_world := w\<rparr>"
      using assms by (auto simp: Authorize_def with_world_def DoServerRequest_def post)
    then show thesis
      by (intro failed) (auto simp: ErrorFromAuthorizationServerResponse_def split: option.splits if_splits)
  next
    case False
    obtain e tys new where p: "ParseServerResponse (json_lib E) response HttpOK [] (rs_auth s) = (e, tys, new)"
      by (metis prod_cases3)
    have eq: "(err, s') = (let (err2, dat) =
        UpdateDataFromServerResponse (json_lib E) (clock E w) response HttpOK (rs_auth s) in
        (err2, s\<lparr>rs_world := w, rs_auth := dat\<rparr>))"
      using assms False by (simp add: Authorize_def with_world_def DoServerRequest_def post)
    show thesis
    proof (cases e)
      case (Some e1)
      then have "err = Some e1" "s' = s\<lparr>rs_world := w\<rparr>"
        using eq by (simp_all add: UpdateDataFromServerResponse_def p)
      moreover have "err_service e1 = Receiver_S \<and> error_type e1 = 3"
        using p Some by (auto simp: ParseServerResponse_def ErrorFromAuthorizationServerResponse_def Let_def
            split: prod.splits if_splits option.splits)
      ultimately show thesis by (intro failed) auto
    next
      case None
      show thesis
      proof (cases "access_type_of (a_source_type new) \<in> set tys")
        case True
        then have "err = None" "s' = s\<lparr>rs_world := w, rs_auth := new\<lparr>a_last_update := clock E w\<rparr>\<rparr>"
          using eq None by (simp_all add: UpdateDataFromServerResponse_def p CheckAccessType_def)
        then show thesis using granted post False p None True by auto
      next
        case ne: False
        then show thesis
          using eq None by (intro failed) (auto simp: UpdateDataFromServerResponse_def p CheckAccessType_def)
      qed
    qed
  qed
qed

lemma SecondaryAuthorization_frame:
  assumes "SecondaryAuthorization_ProcessRequest E s = (err, s')"
  shows "rs_cache s' = rs_cache s \<and> rs_db s' = rs_db s \<and> rq_header (rs_request s') = rq_header (rs_request s)
    \<and> rq_slot (rs_request s') = rq_slot (rs_request s)"
proof -
  have auth: "rs_cache s1 = rs_cache s \<and> rs_db s1 = rs_db s \<and> rs_request s1 = rs_request s"
    if "Authorize E s = (e, s1)" for e s1
    using that by (cases rule: Authorize_cases) auto
  have "rs_cache s1 = rs_cache s \<and> rs_db s1 = rs_db s \<and> rs_request s1 = rs_request s"
    if "ReauthorizeIfNeeded E s = (e, s1)" for e s1
    using that auth
    by (auto simp: ReauthorizeIfNeeded_def ProcessReAuthorization_def InvalidateAuthCache_def
        split: if_splits prod.splits)
  then show ?thesis
    using assms
    by (auto simp: SecondaryAuthorization_ProcessRequest_def upd_request_def SetRequestFields_def
        split: option.splits prod.splits)
qed

lemma InitialAuthorization_frame:
  assumes "InitialAuthorization_ProcessRequest E s = (err, s')"
  shows "rs_cache s' = rs_cache s \<and> rs_db s' = rs_db s \<and> rs_request s' = rs_request s"
proof -
  have "rs_cache s' = rs_cache t \<and> rs_db s' = rs_db t \<and> rs_request s' = rs_request t"
    if "Authorize E t = (err, s')" for t
    using that by (cases rule: Authorize_cases) auto
  then show ?thesis
    using assms by (fastforce simp: InitialAuthorization_ProcessRequest_def split: option.splits if_splits)
qed

section \<open>Properties\<close>

text \<open>
  C22. A request that passes the authorization handler comes from a connection that was
  authorized before, with a client that is not newer than the receiver, for the beamtime the
  connection was authorized for, and carries exactly the beamtime, paths and source type of the
  authorization data.  When the authorization interval is over, this needs a new answer of the
  authorization server with status OK that lists the write access for the source type.
\<close>
theorem secondary_authorization_sound:
  assumes "SecondaryAuthorization_ProcessRequest E s = (None, s')"
  shows "a_source_credentials (rs_auth s) \<noteq> []
    \<and> VersionToNumber (GetApiVersion (rs_request s)) \<le> VersionToNumber (receiver_api_version E)
    \<and> a_beamtime_id (rs_auth s') = a_beamtime_id (rs_auth s)
    \<and> a_source_credentials (rs_auth s') = a_source_credentials (rs_auth s)
    \<and> rs_request s' = SetRequestFields (rs_auth s') (rs_request s)
    \<and> (NeedReauthorize E s \<longrightarrow>
         (\<exists>response w types new.
            http_Post E (authorization_server (config E) @ ''/authorize'') []
              (GetRequestString (rs_request s) (a_source_credentials (rs_auth s))) (rs_world s)
            = ((response, HttpOK, None), w)
            \<and> ParseServerResponse (json_lib E) response HttpOK [] (rs_auth s) = (None, types, new)
            \<and> access_type_of (a_source_type new) \<in> set types
            \<and> rs_auth s' = new\<lparr>a_last_update := clock E w\<rparr>))"
proof -
  have check: "CheckRequest E s = None"
    using assms by (auto simp: SecondaryAuthorization_ProcessRequest_def split: option.splits)
  then have ok: "a_source_credentials (rs_auth s) \<noteq> []"
    "VersionToNumber (GetApiVersion (rs_request s)) \<le> VersionToNumber (receiver_api_version E)"
    by (auto simp: CheckRequest_def CheckVersion_def Let_def split: option.splits if_splits)
  obtain s1 where re: "ReauthorizeIfNeeded E s = (None, s1)" and s': "s' = upd_request (SetRequestFields (rs_auth s1)) s1"
    using assms check by (auto simp: SecondaryAuthorization_ProcessRequest_def split: option.splits prod.splits)
  show ?thesis
  proof (cases "NeedReauthorize E s")
    case False
    then have "s1 = s" using re by (simp add: ReauthorizeIfNeeded_def)
    then show ?thesis using ok s' False by (simp add: upd_request_def)
  next
    case True
    then have auth: "Authorize E s = (None, s1)" and bt: "a_beamtime_id (rs_auth s1) = a_beamtime_id (rs_auth s)"
      using re by (auto simp: ReauthorizeIfNeeded_def ProcessReAuthorization_def split: prod.splits if_splits)
    from auth show ?thesis
    proof (cases rule: Authorize_cases)
      case (granted response w types new)
      moreover have "a_source_credentials new = a_source_credentials (rs_auth s)"
        using ParseServerResponse_credentials [OF granted(3)] .
      ultimately show ?thesis using ok s' bt by (auto simp: upd_request_def)
    qed simp
  qed
qed

theorem secondary_authorization_sound_witness:
  "SecondaryAuthorization_ProcessRequest demo_env demo_state =
     (None, demo_state\<lparr>rs_request := SetRequestFields (rs_auth demo_state) (rs_request demo_state)\<rparr>)
   \<and> a_source_credentials (rs_auth demo_state) \<noteq> []"
proof -
  have "VersionToNumber (GetApiVersion (rs_request demo_state)) \<le> VersionToNumber (receiver_api_version demo_env)"
    by (simp add: demo_env_def demo_version)
  then have run: "SecondaryAuthorization_ProcessRequest demo_env demo_state =
     (None, demo_state\<lparr>rs_request := SetRequestFields (rs_auth demo_state) (rs_request demo_state)\<rparr>)"
    by (simp add: SecondaryAuthorization_ProcessRequest_def CheckRequest_def CheckVersion_def
        ReauthorizeIfNeeded_def NeedReauthorize_def upd_request_def demo_state_def demo_env_def demo_config_def
        demo_auth_def)
  show ?thesis using secondary_authorization_sound [OF run] run by blast
qed


text \<open>
  For versions of the form \<open>v<major>.<minor>\<close> the check compares \<open>1000 * major + minor\<close>: a
  client that is newer than the receiver is refused with a message naming both versions, every
  other client passes.
\<close>
theorem client_version_check:
  assumes "GetApiVersion r = ''v'' @ nat_to_string a @ ''.'' @ nat_to_string b"
    and "receiver_api_version E = ''v'' @ nat_to_string a' @ ''.'' @ nat_to_string b'"
  shows "CheckVersion E r =
    (if 1000 * a + b \<le> 1000 * a' + b' then None
     else Some (AddDetails ''server'' (receiver_api_version E)
            (AddDetails ''client'' (GetApiVersion r) (rcv_err R_kUnsupportedClient []))))"
proof -
  have "VersionToNumber (GetApiVersion r) = int (1000 * a + b)"
    "VersionToNumber (receiver_api_version E) = int (1000 * a' + b')"
    unfolding assms using VersionToNumber_wf by simp_all
  then show ?thesis unfolding CheckVersion_def Let_def by (auto simp: not_less)
qed

theorem client_version_check_witness:
  "CheckVersion demo_env (rs_request demo_state) = None"
proof -
  have v: "''v'' @ nat_to_string 0 @ ''.'' @ nat_to_string 6 = ''v0.6''" by code_simp
  have "GetApiVersion (rs_request demo_state) = ''v'' @ nat_to_string 0 @ ''.'' @ nat_to_string 6"
    "receiver_api_version demo_env = ''v'' @ nat_to_string 0 @ ''.'' @ nat_to_string 6"
    by (simp_all only: v demo_version) (simp add: demo_env_def)
  from client_version_check [OF this] show ?thesis by simp
qed

end
