(* ===== verification/Receiver_Db.thy ===== *)
theory Receiver_Db
  imports Receiver_Auth
begin

text \<open>
  The database handlers of the receiver (\<open>receiver/src/request_handler/request_handler_db*.cpp\<close>).
  Every handler object has its own database client, database name and connected flag, all kept
  in \<open>rs_db\<close> under the handler's name.
\<close>

definition kDBDataCollectionNamePrefix :: string where "kDBDataCollectionNamePrefix = ''data''"
definition kDBMetaCollectionName :: string where "kDBMetaCollectionName = ''meta''"

definition DBErrorToReceiverError :: "error option \<Rightarrow> error option" where
  "DBErrorToReceiverError err =
     (case err of
        None \<Rightarrow> None
      | Some e \<Rightarrow>
          Some (SetCause (Some e)
            (if err_is err (DBErrorTemplates DB_kWrongInput) \<or> err_is err (DBErrorTemplates DB_kNoRecord)
                \<or> err_is err (DBErrorTemplates DB_kJsonParseError)
             then rcv_err R_kBadRequest ''error from database''
             else rcv_err R_kInternalServerError ''error from database'')))"

definition GetDatabaseServerUri :: "'w receiver_env \<Rightarrow> 'w \<Rightarrow> (error option \<times> string) \<times> 'w" where
  "GetDatabaseServerUri E w =
     (if database_uri (config E) \<noteq> ''auto'' then ((None, database_uri (config E)), w)
      else
        (let ((uri, code, http_err), w1) = http_Get E (discovery_server (config E) @ ''/asapo-mongodb'') w in
         case http_err of
           Some e \<Rightarrow>
             ((Some (AddDetails ''discoveryEndpoint'' (discovery_server (config E))
                (GenerateWithCause (ReceiverErrorTemplates R_kInternalServerError)
                   ''http error while discovering database server'' (Some e))), uri), w1)
         | None \<Rightarrow>
             (if code \<noteq> HttpOK
              then ((Some (AddDetails ''errorCode'' (nat_to_string code)
                      (AddDetails ''discoveryEndpoint'' (discovery_server (config E))
                         (rcv_err R_kInternalServerError ''error when discover database server''))), uri), w1)
              else ((None, uri), w1))))"

definition upd_db :: "handler \<Rightarrow> (db_handler_state \<Rightarrow> db_handler_state) \<Rightarrow> 'w receiver_state \<Rightarrow> 'w receiver_state" where
  "upd_db k f s = s\<lparr>rs_db := (rs_db s)(k := f (rs_db s k))\<rparr>"

definition ConnectToDbIfNeeded :: "'w receiver_env \<Rightarrow> handler \<Rightarrow> 'w handler_step" where
  "ConnectToDbIfNeeded E k s =
     (if connected_to_db (rs_db s k) then (None, s)
      else
        (let ((err, uri), s1) = with_world (GetDatabaseServerUri E) s in
         case err of Some e \<Rightarrow> (Some e, s1)
         | None \<Rightarrow>
             (let (cerr, s2) = with_world (db_Connect E k uri (db_name (rs_db s1 k))) s1 in
              case cerr of
                Some e \<Rightarrow> (DBErrorToReceiverError (Some e), s2)
              | None \<Rightarrow> (None, upd_db k (\<lambda>d. d\<lparr>connected_to_db := True\<rparr>) s2))))"

definition RequestHandlerDb_ProcessRequest :: "'w receiver_env \<Rightarrow> handler \<Rightarrow> 'w handler_step" where
  "RequestHandlerDb_ProcessRequest E k s =
     (let s1 = (if db_name (rs_db s k) = []
                then upd_db k (\<lambda>d. d\<lparr>db_name := rq_beamtime_id (rs_request s) @ ''_''
                                       @ rq_data_source (rs_request s)\<rparr>) s
                else s) in
      ConnectToDbIfNeeded E k s1)"

section \<open>Looking for a duplicate\<close>

definition collection_of :: "Request \<Rightarrow> string" where
  "collection_of r = kDBDataCollectionNamePrefix @ ''_'' @ GetStream r"

definition GetRecordFromDb :: "'w receiver_env \<Rightarrow> 'w receiver_state \<Rightarrow> (error option \<times> MessageMeta) \<times> 'w receiver_state" where
  "GetRecordFromDb E s =
     (let r = rs_request s in
      if GetOpCode r = kOpcodeTransferData
      then with_world (db_GetById E H_DbCheck (collection_of r) (GetDataID r)) s
      else with_world (db_GetDataSetById E H_DbCheck (collection_of r) (GetCustomData r 1) (GetDataID r)) s)"

definition SameRequestInRecord :: "Request \<Rightarrow> MessageMeta \<Rightarrow> bool" where
  "SameRequestInRecord r record =
     (let meta = (if rq_metadata r = [] then ''{}'' else rq_metadata r) in
      GetDataSize r = mm_size record \<and> GetFileName r = mm_name record \<and> meta = mm_metadata record)"

definition DbCheck_ProcessRequest :: "'w receiver_env \<Rightarrow> 'w handler_step" where
  "DbCheck_ProcessRequest E s =
     (case RequestHandlerDb_ProcessRequest E H_DbCheck s of
        (Some e, s1) \<Rightarrow> (Some e, s1)
      | (None, s1) \<Rightarrow>
          (let ((err, record), s2) = GetRecordFromDb E s1 in
           case err of
             Some e \<Rightarrow>
               (DBErrorToReceiverError (if err_is err (DBErrorTemplates DB_kNoRecord) then None else Some e), s2)
           | None \<Rightarrow>
               (if SameRequestInRecord (rs_request s2) record
                then (Some (rcv_err R_kWarningDuplicatedRequest []), s2)
                else (Some (rcv_err R_kBadRequest ''already have record with same id''), s2))))"

definition CheckForDuplicates :: "'w receiver_env \<Rightarrow> 'w handler_step" where
  "CheckForDuplicates E s = DbCheck_ProcessRequest E s"

section \<open>Writing a record\<close>

definition PrepareMessageMeta :: "'w receiver_env \<Rightarrow> 'w receiver_state \<Rightarrow> MessageMeta" where
  "PrepareMessageMeta E s =
     (let r = rs_request s in
      MessageMeta_new\<lparr>mm_name := GetFileName r, mm_size := GetDataSize r, mm_id := GetDataID r,
        mm_buf_id := GetSlotId E s, mm_source := advertise_uri (config E), mm_metadata := rq_metadata r,
        mm_timestamp := of_int (clock E (rs_world s))\<rparr>)"

definition InsertRecordToDb :: "'w receiver_env \<Rightarrow> 'w handler_step" where
  "InsertRecordToDb E s =
     (let r = rs_request s;
          message_meta = PrepareMessageMeta E s in
      if GetOpCode r = kOpcodeTransferData
      then with_world (db_Insert E H_DbWrite (collection_of r) message_meta False) s
      else with_world (db_InsertAsDatasetMessage E H_DbWrite (collection_of r)
             (message_meta\<lparr>mm_dataset_substream := GetCustomData r 1\<rparr>) (GetCustomData r 2) False) s)"

definition ProcessDuplicateRecordSituation :: "'w receiver_env \<Rightarrow> 'w handler_step" where
  "ProcessDuplicateRecordSituation E s =
     (let (check_err, s1) = CheckForDuplicates E s in
      if err_is check_err (ReceiverErrorTemplates R_kWarningDuplicatedRequest)
      then (None, upd_request (SetResponseMessage
              (''ignoring duplicate record for id '' @ to_string (GetDataID (rs_request s))) kWarning) s1)
      else (check_err, s1))"

definition DbWrite_ProcessRequest :: "'w receiver_env \<Rightarrow> 'w handler_step" where
  "DbWrite_ProcessRequest E s =
     (if rq_already_processed (rs_request s) then (None, s)
      else
        (case RequestHandlerDb_ProcessRequest E H_DbWrite s of
           (Some e, s1) \<Rightarrow> (Some e, s1)
         | (None, s1) \<Rightarrow>
             (let (err, s2) = InsertRecordToDb E s1 in
              if err_is err (DBErrorTemplates DB_kDuplicateID) then ProcessDuplicateRecordSituation E s2
              else (DBErrorToReceiverError err, s2))))"

text \<open>\<open>mode\<close> is not initialised before \<open>Decode\<close>: its previous contents are \<open>mode0\<close>.\<close>

definition DbMetaWrite_ProcessRequest :: "'w receiver_env \<Rightarrow> MetaIngestMode \<Rightarrow> 'w handler_step" where
  "DbMetaWrite_ProcessRequest E mode0 s =
     (case RequestHandlerDb_ProcessRequest E H_DbMetaWrite s of
        (Some e, s1) \<Rightarrow> (Some e, s1)
      | (None, s1) \<Rightarrow>
          (let r = rs_request s1;
               ver = VersionToNumber (GetApiVersion r);
               (strm, mode) =
                 (if ver < 3 then ([], \<lparr>mi_op = MI_kReplace, upsert = True\<rparr>)
                  else (GetStream r, MetaIngestMode_Decode (GetCustomData r kPosMetaIngestMode) mode0));
               (err, s2) = with_world (db_InsertMeta E H_DbMetaWrite kDBMetaCollectionName
                  (if strm = [] then ''bt'' else ''st_'' @ strm) (rq_data r) (GetDataSize r) mode) s1 in
           (DBErrorToReceiverError err, s2)))"

section \<open>Reading and deleting\<close>

definition DbGetMeta_ProcessRequest :: "'w receiver_env \<Rightarrow> 'w handler_step" where
  "DbGetMeta_ProcessRequest E s =
     (case RequestHandlerDb_ProcessRequest E H_DbGetMeta s of
        (Some e, s1) \<Rightarrow> (Some e, s1)
      | (None, s1) \<Rightarrow>
          (let stream_name = GetStream (rs_request s1);
               metaid = (if stream_name = [] then ''bt'' else ''st_'' @ stream_name);
               ((err, meta), s2) = with_world (db_GetMetaFromDb E H_DbGetMeta kDBMetaCollectionName metaid) s1 in
           if err = None \<or> err_is err (DBErrorTemplates DB_kNoRecord)
           then (None, upd_request (SetResponseMessage meta kInfo) s2)
           else (DBErrorToReceiverError err, s2)))"

definition DbStreamInfo_ProcessRequest :: "'w receiver_env \<Rightarrow> 'w handler_step" where
  "DbStreamInfo_ProcessRequest E s =
     (case RequestHandlerDb_ProcessRequest E H_DbStreamInfo s of
        (Some e, s1) \<Rightarrow> (Some e, s1)
      | (None, s1) \<Rightarrow>
          (let r = rs_request s1;
               ((err, info), s2) = with_world (db_GetStreamInfo E H_DbStreamInfo (collection_of r)) s1 in
           case err of
             None \<Rightarrow> (None, upd_request (SetResponseMessage
                       (StreamInfo_Json (info\<lparr>si_name := GetStream r\<rparr>)) kInfo) s2)
           | Some e \<Rightarrow> (DBErrorToReceiverError err, s2)))"

definition DbLastStream_ProcessRequest :: "'w receiver_env \<Rightarrow> 'w handler_step" where
  "DbLastStream_ProcessRequest E s =
     (case RequestHandlerDb_ProcessRequest E H_DbLastStream s of
        (Some e, s1) \<Rightarrow> (Some e, s1)
      | (None, s1) \<Rightarrow>
          (let ((err, info), s2) = with_world (db_GetLastStream E H_DbLastStream) s1 in
           case err of
             None \<Rightarrow> (None, upd_request (SetResponseMessage (StreamInfo_Json info) kInfo) s2)
           | Some e \<Rightarrow> (DBErrorToReceiverError err, s2)))"

definition DbDeleteStream_ProcessRequest :: "'w receiver_env \<Rightarrow> 'w handler_step" where
  "DbDeleteStream_ProcessRequest E s =
     (case RequestHandlerDb_ProcessRequest E H_DbDeleteStream s of
        (Some e, s1) \<Rightarrow> (Some e, s1)
      | (None, s1) \<Rightarrow>
          (let options = DeleteStreamOptions_Decode (GetCustomData (rs_request s1) 0);
               stream_name = GetStream (rs_request s1) in
           if \<not> delete_meta options then (None, s1)
           else
             (let (err, s2) = with_world (db_DeleteStream E H_DbDeleteStream stream_name) s1;
                  no_error = (err = None \<or> (err_is err (DBErrorTemplates DB_kNoRecord) \<and> \<not> error_on_not_exist options)) in
              if no_error then (None, s2) else (DBErrorToReceiverError err, s2))))"

section \<open>What the database handlers change\<close>

text \<open>The cache and the authorization stay, and of the request only the response text changes.\<close>

definition db_frame :: "'w receiver_state \<Rightarrow> 'w receiver_state \<Rightarrow> bool" where
  "db_frame s s' \<longleftrightarrow> rs_cache s' = rs_cache s \<and> rs_auth s' = rs_auth s \<and>
     rq_header (rs_request s') = rq_header (rs_request s) \<and> rq_slot (rs_request s') = rq_slot (rs_request s)"

lemma db_frame_refl [simp]: "db_frame s s"
  by (simp add: db_frame_def)

lemma db_frame_trans: "db_frame s t \<Longrightarrow> db_frame t u \<Longrightarrow> db_frame s u"
  by (simp add: db_frame_def)

lemma db_frame_updates [simp]:
  "db_frame s (t\<lparr>rs_world := w\<rparr>) \<longleftrightarrow> db_frame s t"
  "db_frame s (upd_db k f t) \<longleftrightarrow> db_frame s t"
  "db_frame s (upd_request (SetResponseMessage msg ty) t) \<longleftrightarrow> db_frame s t"
  by (simp_all add: db_frame_def upd_db_def upd_request_def SetResponseMessage_def)

lemma with_world_frame [simp]: "db_frame s (snd (with_world f t)) \<longleftrightarrow> db_frame s t"
  by (simp add: with_world_def split: prod.splits)

lemma with_world_frameD: "with_world f t = (x, t') \<Longrightarrow> db_frame s t' \<longleftrightarrow> db_frame s t"
  using with_world_frame [of s f t] by simp

text \<open>An error that a database handler returns is an error of the receiver.\<close>

definition receiver_error :: "error option \<Rightarrow> bool" where
  "receiver_error err \<longleftrightarrow> (case err of None \<Rightarrow> True | Some e \<Rightarrow> err_service e = Receiver_S)"

lemma receiver_error_simps [simp]:
  "receiver_error None" "receiver_error (Some e) \<longleftrightarrow> err_service e = Receiver_S"
  "receiver_error (DBErrorToReceiverError err)"
  by (auto simp: receiver_error_def DBErrorToReceiverError_def split: option.splits)

lemma err_service_DBError: "DBErrorToReceiverError err = Some e \<Longrightarrow> err_service e = Receiver_S"
  using receiver_error_simps(3) [of err] by simp

lemma GetDatabaseServerUri_error:
  "GetDatabaseServerUri E w = ((err, uri), w') \<Longrightarrow> receiver_error err"
  by (auto simp: GetDatabaseServerUri_def split: if_splits prod.splits option.splits)

definition db_step_ok :: "'w receiver_state \<Rightarrow> error option \<times> 'w receiver_state \<Rightarrow> bool" where
  "db_step_ok s res \<longleftrightarrow> db_frame s (snd res) \<and> receiver_error (fst res)"

lemma ConnectToDbIfNeeded_ok: "db_step_ok s (ConnectToDbIfNeeded E k s)"
proof (cases "connected_to_db (rs_db s k)")
  case True
  then show ?thesis by (simp add: ConnectToDbIfNeeded_def db_step_ok_def)
next
  case False
  obtain err uri w where g: "GetDatabaseServerUri E (rs_world s) = ((err, uri), w)" by (metis prod.collapse)
  show ?thesis
    using False GetDatabaseServerUri_error [OF g]
    by (auto simp: ConnectToDbIfNeeded_def db_step_ok_def with_world_def g split: option.splits prod.splits)
qed

lemma RequestHandlerDb_ok: "db_step_ok s (RequestHandlerDb_ProcessRequest E k s)"
  using ConnectToDbIfNeeded_ok [of s E k] ConnectToDbIfNeeded_ok [of "upd_db k f s" E k for f]
  by (auto simp: RequestHandlerDb_ProcessRequest_def db_step_ok_def db_frame_def upd_db_def)

text \<open>The common prefix of all handlers.\<close>

lemma db_handler_bind:
  assumes "\<And>s1. db_step_ok s1 (f s1)"
  shows "db_step_ok s (case RequestHandlerDb_ProcessRequest E k s of
    (Some e, s1) \<Rightarrow> (Some e, s1) | (None, s1) \<Rightarrow> f s1)"
proof -
  obtain err s1 where r: "RequestHandlerDb_ProcessRequest E k s = (err, s1)" by fastforce
  have "db_step_ok s (err, s1)" using RequestHandlerDb_ok [of s E k] r by simp
  then show ?thesis
    unfolding r using assms [of s1] by (cases err) (auto simp: db_step_ok_def intro: db_frame_trans)
qed

lemma DbCheck_ok: "db_step_ok s (DbCheck_ProcessRequest E s)"
  unfolding DbCheck_ProcessRequest_def
  by (rule db_handler_bind)
    (auto simp: db_step_ok_def GetRecordFromDb_def Let_def with_world_def split: prod.splits option.splits)

lemma DbWrite_duplicate_ok: "db_step_ok s (ProcessDuplicateRecordSituation E s)"
  using DbCheck_ok [of s E]
  by (auto simp: ProcessDuplicateRecordSituation_def CheckForDuplicates_def db_step_ok_def split: prod.splits)

lemma InsertRecord_frame: "InsertRecordToDb E s = (err, s') \<Longrightarrow> db_frame s s'"
  by (auto simp: InsertRecordToDb_def with_world_def Let_def split: prod.splits if_splits)

lemma DbWrite_ok: "db_step_ok s (DbWrite_ProcessRequest E s)"
proof (cases "rq_already_processed (rs_request s)")
  case True
  then show ?thesis by (simp add: DbWrite_ProcessRequest_def db_step_ok_def)
next
  case False
  have "db_step_ok s1 (let (err, s2) = InsertRecordToDb E s1 in
      if err_is err (DBErrorTemplates DB_kDuplicateID) then ProcessDuplicateRecordSituation E s2
      else (DBErrorToReceiverError err, s2))" for s1
  proof -
    obtain err s2 where i: "InsertRecordToDb E s1 = (err, s2)" by fastforce
    show ?thesis
      using InsertRecord_frame [OF i] DbWrite_duplicate_ok [of s2 E]
      by (auto simp: i db_step_ok_def intro: db_frame_trans)
  qed
  then show ?thesis unfolding DbWrite_ProcessRequest_def using False by (simp add: db_handler_bind)
qed

lemma DbMetaWrite_ok: "db_step_ok s (DbMetaWrite_ProcessRequest E mode0 s)"
  unfolding DbMetaWrite_ProcessRequest_def
  by (rule db_handler_bind) (auto simp: db_step_ok_def Let_def with_world_def split: prod.splits)

lemma DbGetMeta_ok: "db_step_ok s (DbGetMeta_ProcessRequest E s)"
  unfolding DbGetMeta_ProcessRequest_def
  by (rule db_handler_bind) (auto simp: db_step_ok_def Let_def with_world_def split: prod.splits)

lemma DbStreamInfo_ok: "db_step_ok s (DbStreamInfo_ProcessRequest E s)"
  unfolding DbStreamInfo_ProcessRequest_def
  by (rule db_handler_bind) (auto simp: db_step_ok_def Let_def with_world_def split: prod.splits option.splits)

lemma DbLastStream_ok: "db_step_ok s (DbLastStream_ProcessRequest E s)"
  unfolding DbLastStream_ProcessRequest_def
  by (rule db_handler_bind) (auto simp: db_step_ok_def Let_def with_world_def split: prod.splits option.splits)

lemma DbDeleteStream_ok: "db_step_ok s (DbDeleteStream_ProcessRequest E s)"
  unfolding DbDeleteStream_ProcessRequest_def
  by (rule db_handler_bind) (auto simp: db_step_ok_def Let_def with_world_def split: prod.splits)

lemmas db_handlers_ok = DbCheck_ok DbWrite_ok DbMetaWrite_ok DbGetMeta_ok DbStreamInfo_ok DbLastStream_ok
  DbDeleteStream_ok

section \<open>Properties\<close>

lemma connected_handler:
  assumes "connected_to_db (rs_db s k)" and "db_name (rs_db s k) \<noteq> []"
  shows "RequestHandlerDb_ProcessRequest E k s = (None, s)"
  using assms by (simp add: RequestHandlerDb_ProcessRequest_def ConnectToDbIfNeeded_def)

text \<open>
  C40. A message whose id is already in the database, on a connection that talks to the
  database.  When the stored record has the size, name and metadata of the request, the request
  is a repetition: it succeeds with a warning.  With a different record it is rejected as a bad
  request.  When the record cannot be found any more, the request is reported as successful
  although nothing was stored for it.
\<close>
theorem db_write_duplicate:
  assumes "\<not> rq_already_processed (rs_request s)" and "GetOpCode (rs_request s) = kOpcodeTransferData"
    and "connected_to_db (rs_db s H_DbWrite)" and "db_name (rs_db s H_DbWrite) \<noteq> []"
    and "connected_to_db (rs_db s H_DbCheck)" and "db_name (rs_db s H_DbCheck) \<noteq> []"
    and "db_Insert E H_DbWrite (collection_of (rs_request s)) (PrepareMessageMeta E s) False (rs_world s)
         = (Some (db_err DB_kDuplicateID msg), w1)"
    and "db_GetById E H_DbCheck (collection_of (rs_request s)) (GetDataID (rs_request s)) w1 = ((found, rec), w2)"
    and "found = None \<or> found = Some (db_err DB_kNoRecord msg')"
  shows "DbWrite_ProcessRequest E s =
    (if found = None \<and> SameRequestInRecord (rs_request s) rec then
       (None, s\<lparr>rs_world := w2, rs_request := SetResponseMessage
          (''ignoring duplicate record for id '' @ to_string (GetDataID (rs_request s))) kWarning (rs_request s)\<rparr>)
     else if found = None then (Some (rcv_err R_kBadRequest ''already have record with same id''), s\<lparr>rs_world := w2\<rparr>)
     else (None, s\<lparr>rs_world := w2\<rparr>))"
proof -
  have ins: "InsertRecordToDb E s = (Some (db_err DB_kDuplicateID msg), s\<lparr>rs_world := w1\<rparr>)"
    using assms(2,7) by (simp add: InsertRecordToDb_def with_world_def)
  have rec: "GetRecordFromDb E (s\<lparr>rs_world := w1\<rparr>) = ((found, rec), s\<lparr>rs_world := w2\<rparr>)"
    using assms(2,8) by (simp add: GetRecordFromDb_def with_world_def)
  have conn: "RequestHandlerDb_ProcessRequest E H_DbWrite s = (None, s)"
    "RequestHandlerDb_ProcessRequest E H_DbCheck (s\<lparr>rs_world := w1\<rparr>) = (None, s\<lparr>rs_world := w1\<rparr>)"
    using assms(3-6) by (simp_all add: connected_handler)
  have "DbWrite_ProcessRequest E s = ProcessDuplicateRecordSituation E (s\<lparr>rs_world := w1\<rparr>)"
    using assms(1) by (simp add: DbWrite_ProcessRequest_def conn ins)
  then show ?thesis
    using assms(9)
    by (auto simp: ProcessDuplicateRecordSituation_def CheckForDuplicates_def DbCheck_ProcessRequest_def
        conn rec DBErrorToReceiverError_def upd_request_def)
qed

definition duplicate_env :: "unit receiver_env" where
  "duplicate_env = demo_env
     \<lparr>db_Insert := (\<lambda>h c m i w. (Some (db_err DB_kDuplicateID []), w)),
      db_GetById := (\<lambda>h c i w. ((None, MessageMeta_new
        \<lparr>mm_size := GetDataSize demo_receiver_request, mm_name := GetFileName demo_receiver_request,
         mm_metadata := ''{}''\<rparr>), w))\<rparr>"

definition connected_state :: "unit receiver_state" where
  "connected_state = demo_state\<lparr>rs_db := (\<lambda>h. \<lparr>db_name = ''bt_det'', connected_to_db = True\<rparr>)\<rparr>"

theorem db_write_duplicate_witness:
  "\<exists>s'. DbWrite_ProcessRequest duplicate_env connected_state = (None, s')
     \<and> rq_response_message_type (rs_request s') = kWarning \<and> rq_response_message (rs_request s') \<noteq> []"
proof -
  let ?r = demo_receiver_request
  let ?rec = "MessageMeta_new\<lparr>mm_size := GetDataSize ?r, mm_name := GetFileName ?r, mm_metadata := ''{}''\<rparr>"
  have r: "rs_request connected_state = ?r" by (simp add: connected_state_def demo_state_def)
  have "SameRequestInRecord ?r ?rec"
    by (simp add: SameRequestInRecord_def demo_receiver_request_def Request_new_def)
  moreover have "\<not> rq_already_processed ?r" "GetOpCode ?r = kOpcodeTransferData"
    by (simp_all add: demo_receiver_request_def Request_new_def GetOpCode_def copy_header_def
        GenericRequestHeader_new_def)
  moreover have "connected_to_db (rs_db connected_state h)" "db_name (rs_db connected_state h) \<noteq> []" for h
    by (simp_all add: connected_state_def)
  ultimately show ?thesis
    using db_write_duplicate [of connected_state duplicate_env "[]" "()" None ?rec "()"]
    by (simp add: r duplicate_env_def SetResponseMessage_def)
qed

end
