(* ===== verification/Receiver_Files.thy ===== *)
theory Receiver_Files
  imports Receiver_Db
begin

text \<open>
  Receiving and storing the data of a request: the handlers for data, metadata and files
  (\<open>request_handler_receive_data.cpp\<close>, \<open>request_handler_receive_metadata.cpp\<close>,
  \<open>request_handler_file_process.cpp\<close>) and the file processors (\<open>file_processors/*.cpp\<close>).
\<close>

section \<open>Data and metadata\<close>

definition NeedReceiveData :: "Request \<Rightarrow> bool" where
  "NeedReceiveData r \<longleftrightarrow> GetDataSize r > 0 \<and> has_flag (GetCustomData r kPosIngestMode) kTransferData"

text \<open>
  The bytes go to the buffer of the request.  Unlocking a slot that was erased is undefined in
  the code; the state is then left as it is.
\<close>

definition ReceiveData_ProcessRequest :: "'w receiver_env \<Rightarrow> 'w handler_step" where
  "ReceiveData_ProcessRequest E s =
     (if \<not> NeedReceiveData (rs_request s) then (None, s)
      else
        (case PrepareDataBufferAndLockIfNeeded E s of
           (Some e, s1) \<Rightarrow> (Some e, s1)
         | (None, s1) \<Rightarrow>
             (let ((bytes, io_err), s2) =
                    with_world (Receive E (rq_socket (rs_request s1)) (GetDataSize (rs_request s1))) s1;
                  err = (case io_err of
                           None \<Rightarrow> None
                         | Some e \<Rightarrow> Some (GenerateWithCause (ReceiverErrorTemplates R_kProcessingError)
                                          ''cannot receive data'' (Some e)));
                  s3 = upd_request (\<lambda>r. r\<lparr>rq_data := bytes\<rparr>) s2;
                  s4 = (case UnlockDataBufferIfNeeded s3 of None \<Rightarrow> s3 | Some s' \<Rightarrow> s') in
              (err, s4))))"

definition ReceiveMetaData_ProcessRequest :: "'w receiver_env \<Rightarrow> 'w handler_step" where
  "ReceiveMetaData_ProcessRequest E s =
     (let meta_size = GetMetaDataSize (rs_request s) in
      if meta_size = 0 then (None, s)
      else
        (let ((buf, err), s1) = with_world (Receive E (rq_socket (rs_request s)) meta_size) s in
         case err of
           Some e \<Rightarrow> (Some (GenerateWithCause (ReceiverErrorTemplates R_kProcessingError)
                            ''cannot receive metadata'' (Some e)), s1)
         | None \<Rightarrow> (None, upd_request (\<lambda>r. r\<lparr>rq_metadata := buf\<rparr>) s1)))"

section \<open>File processors\<close>

definition CheckFileNameIsAbsolute :: "string \<Rightarrow> error option" where
  "CheckFileNameIsAbsolute fname =
     (if contains_str ''..'' fname
      then Some (rcv_err R_kBadRequest (''cannot use relative path in path name '' @ fname)) else None)"

definition CheckFileFolderCorrespondsToRequestSourceType :: "Request \<Rightarrow> string \<Rightarrow> error option" where
  "CheckFileFolderCorrespondsToRequestSourceType r fname =
     (case str_find (CHR ''/'') fname of
        None \<Rightarrow> Some (rcv_err R_kBadRequest (''cannot extract root folder from file path '' @ fname))
      | Some pos \<Rightarrow>
          (let file_folder = take pos fname;
               folder_by_type = GetStringFromSourceType (rq_source_type r) in
           if file_folder \<noteq> folder_by_type
           then Some (rcv_err R_kBadRequest (''file '' @ fname @ '' is not in '' @ folder_by_type @ '' folder''))
           else None))"

definition GetRootFolderFromRequest :: "Request \<Rightarrow> error option \<times> string" where
  "GetRootFolderFromRequest r =
     (let rawToOffline = has_flag (GetCustomData r kPosIngestMode) kWriteRawDataToOffline in
      if rq_source_type r = kProcessed \<or> rawToOffline then (None, rq_offline_path r)
      else if rq_online_path r = []
      then (Some (rcv_err R_kBadRequest ''online path not available''), rq_online_path r)
      else (None, rq_online_path r))"

definition GetRootFolder :: "Request \<Rightarrow> error option \<times> string" where
  "GetRootFolder r =
     (let fname = GetFileName r in
      case CheckFileNameIsAbsolute fname of
        Some e \<Rightarrow> (Some e, [])
      | None \<Rightarrow>
          (case CheckFileFolderCorrespondsToRequestSourceType r fname of
             Some e \<Rightarrow> (Some e, [])
           | None \<Rightarrow> GetRootFolderFromRequest r))"

definition WriteFileProcessor_ProcessFile :: "'w receiver_env \<Rightarrow> bool \<Rightarrow> 'w handler_step" where
  "WriteFileProcessor_ProcessFile E overwrite s =
     (let r = rs_request s; fsize = GetDataSize r in
      if fsize \<le> 0
      then (Some (AddDetails ''size'' (to_string fsize) (rcv_err R_kBadRequest ''wrong file size'')), s)
      else
        (case GetRootFolder r of
           (Some e, root) \<Rightarrow> (Some e, s)
         | (None, root) \<Rightarrow>
             with_world (WriteDataToFile E root (GetFileName r) (rq_data r) fsize True overwrite) s))"

definition ReceiveFileProcessor_ProcessFile :: "'w receiver_env \<Rightarrow> bool \<Rightarrow> 'w handler_step" where
  "ReceiveFileProcessor_ProcessFile E overwrite s =
     (let r = rs_request s in
      case GetRootFolder r of
        (Some e, root) \<Rightarrow> (Some e, s)
      | (None, root) \<Rightarrow>
          with_world (ReceiveDataToFile E (rq_socket r) root (GetFileName r) (GetDataSize r) True overwrite) s)"

section \<open>The file handler\<close>

text \<open>\<open>processor\<close> is the virtual method of the file processor that the handler was built with.\<close>

definition ProcessFileExistSituation :: "'w receiver_env \<Rightarrow> (bool \<Rightarrow> 'w handler_step) \<Rightarrow> 'w handler_step" where
  "ProcessFileExistSituation E processor s =
     (let (err_duplicate, s1) = CheckForDuplicates E s in
      if err_duplicate = None
      then processor True (upd_request (SetResponseMessage ''file has been overwritten'' kWarning) s1)
      else if err_is err_duplicate (ReceiverErrorTemplates R_kWarningDuplicatedRequest)
      then (None, upd_request (SetResponseMessage ''duplicated request, ignored'' kWarning \<circ> SetAlreadyProcessedFlag) s1)
      else (err_duplicate, s1))"

definition FileProcess_ProcessRequest :: "'w receiver_env \<Rightarrow> (bool \<Rightarrow> 'w handler_step) \<Rightarrow> 'w handler_step" where
  "FileProcess_ProcessRequest E processor s =
     (let (err, s1) = processor False s in
      if err_is err (IOErrorTemplates IO_kFileAlreadyExists) then ProcessFileExistSituation E processor s1
      else (err, s1))"

section \<open>Lemmas\<close>

text \<open>The slot that is taken for the data is given back, whatever the network does.\<close>

definition cache_locks :: "'w receiver_state \<Rightarrow> nat \<Rightarrow> int" where
  "cache_locks s r = (case rs_cache s of None \<Rightarrow> 0 | Some c \<Rightarrow> lock_count c r)"

definition state_inv :: "'w receiver_state \<Rightarrow> bool" where
  "state_inv s \<longleftrightarrow> (case rs_cache s of None \<Rightarrow> rq_slot (rs_request s) = None | Some c \<Rightarrow> cache_inv c)"

definition handler_ok :: "'w receiver_state \<Rightarrow> error option \<times> 'w receiver_state \<Rightarrow> bool" where
  "handler_ok s res \<longleftrightarrow> state_inv (snd res) \<and> cache_locks (snd res) = cache_locks s
     \<and> rq_header (rs_request (snd res)) = rq_header (rs_request s)"

lemma handler_ok_frame:
  assumes "state_inv s" and "rs_cache (snd res) = rs_cache s"
    and "rq_header (rs_request (snd res)) = rq_header (rs_request s)"
    and "rq_slot (rs_request (snd res)) = rq_slot (rs_request s)"
  shows "handler_ok s res"
  using assms by (auto simp: handler_ok_def state_inv_def cache_locks_def fun_eq_iff split: option.splits)

lemma db_step_handler_ok: "state_inv s \<Longrightarrow> db_step_ok s res \<Longrightarrow> handler_ok s res"
  by (rule handler_ok_frame) (simp_all add: db_step_ok_def db_frame_def)

lemma ReceiveData_ok:
  assumes inv: "state_inv s"
  shows "handler_ok s (ReceiveData_ProcessRequest E s)"
proof (cases "NeedReceiveData (rs_request s)")
  case False
  then show ?thesis
    using inv by (intro handler_ok_frame) (simp_all add: ReceiveData_ProcessRequest_def)
next
  case True
  let ?sz = "GetDataSize (rs_request s)"
  obtain bytes io_err w where rcv: "Receive E (rq_socket (rs_request s)) ?sz (rs_world s) = ((bytes, io_err), w)"
    by (metis prod.collapse)
  show ?thesis
  proof (cases "rs_cache s")
    case None
    then have "rq_slot (rs_request s) = None" using inv by (simp add: state_inv_def)
    then show ?thesis
      using True None inv rcv
      by (intro handler_ok_frame)
        (auto simp: ReceiveData_ProcessRequest_def PrepareDataBufferAndLockIfNeeded_def UnlockDataBufferIfNeeded_def
          with_world_def upd_request_def Let_def)
  next
    case (Some c)
    then have cinv: "cache_inv c" using inv by (simp add: state_inv_def)
    obtain res c' where get: "GetFreeSlotAndLock ?sz (clock_millis E (rs_world s)) c = (res, c')" by fastforce
    show ?thesis
    proof (cases res)
      case None
      then have "c' = c" using dc.alloc_refused [OF cinv] get by simp
      then show ?thesis
        using True Some None inv get
        by (intro handler_ok_frame)
          (auto simp: ReceiveData_ProcessRequest_def PrepareDataBufferAndLockIfNeeded_def Let_def)
    next
      case (Some ar)
      obtain addr slot where ar: "ar = (addr, slot)" by fastforce
      obtain c2 where unlock: "UnlockSlot (Some slot) c' = Some (True, c2)" "cache_inv c2" "lock_count c2 = lock_count c"
        using dc.alloc_unlock [OF cinv get [unfolded Some ar]] by blast
      show ?thesis
        using True \<open>rs_cache s = Some c\<close> get Some ar rcv unlock
        by (simp add: ReceiveData_ProcessRequest_def PrepareDataBufferAndLockIfNeeded_def
            UnlockDataBufferIfNeeded_def with_world_def upd_request_def GetDataSize_def handler_ok_def
            state_inv_def cache_locks_def fun_eq_iff Let_def)
    qed
  qed
qed

lemma ReceiveMetaData_ok: "state_inv s \<Longrightarrow> handler_ok s (ReceiveMetaData_ProcessRequest E s)"
  by (rule handler_ok_frame)
    (auto simp: ReceiveMetaData_ProcessRequest_def with_world_def upd_request_def Let_def
      split: prod.splits option.splits)

section \<open>The interface of the file processors\<close>

text \<open>
  A file processor touches nothing but the outside world, and that only for a request whose file
  name passed all checks.
\<close>

locale file_processor =
  fixes processor :: "bool \<Rightarrow> 'w handler_step"
  assumes only_world: "processor overwrite s = (err, s') \<Longrightarrow> s' = s\<lparr>rs_world := rs_world s'\<rparr>"
    and checked: "GetRootFolder (rs_request s) = (Some e, root) \<Longrightarrow> processor overwrite s = (err, s') \<Longrightarrow>
      err \<noteq> None \<and> s' = s"
begin

lemma processor_frame:
  assumes "processor overwrite s = (err, s')"
  shows "rs_cache s' = rs_cache s" "rs_auth s' = rs_auth s" "rs_db s' = rs_db s" "rs_request s' = rs_request s"
  using only_world [OF assms] by (metis receiver_state.select_convs receiver_state.surjective
      receiver_state.update_convs(1))+

lemma exist_situation_ok:
  assumes inv: "state_inv s"
  shows "handler_ok s (ProcessFileExistSituation E processor s)"
proof -
  obtain err s1 where check: "CheckForDuplicates E s = (err, s1)" by fastforce
  then have frame: "db_frame s s1"
    using DbCheck_ok [of s E] by (simp add: CheckForDuplicates_def db_step_ok_def)
  define t where "t = upd_request (SetResponseMessage ''file has been overwritten'' kWarning) s1"
  obtain err2 s2 where proc: "processor True t = (err2, s2)" by fastforce
  have t: "rs_cache t = rs_cache s1" "rs_auth t = rs_auth s1" "rq_header (rs_request t) = rq_header (rs_request s1)"
    "rq_slot (rs_request t) = rq_slot (rs_request s1)"
    by (simp_all add: t_def upd_request_def SetResponseMessage_def)
  show ?thesis
    using inv frame processor_frame [OF proc] t
    by (intro handler_ok_frame)
      (auto simp: ProcessFileExistSituation_def check t_def [symmetric] proc db_frame_def
        upd_request_def [of "SetAlreadyProcessedFlag"] upd_request_def [of "SetResponseMessage _ _ \<circ> _"]
        SetResponseMessage_def SetAlreadyProcessedFlag_def)
qed

lemma file_handler_ok:
  assumes inv: "state_inv s"
  shows "handler_ok s (FileProcess_ProcessRequest E processor s)"
proof -
  obtain err s1 where proc: "processor False s = (err, s1)" by fastforce
  note f = processor_frame [OF proc]
  have "state_inv s1" using inv f by (simp add: state_inv_def split: option.splits)
  then have "handler_ok s1 (ProcessFileExistSituation E processor s1)" by (rule exist_situation_ok)
  moreover have "cache_locks s1 = cache_locks s" using f by (simp add: cache_locks_def fun_eq_iff)
  ultimately show ?thesis
    using f \<open>state_inv s1\<close> by (simp add: FileProcess_ProcessRequest_def proc handler_ok_def)
qed

end

interpretation wf: file_processor "WriteFileProcessor_ProcessFile E" for E
  by unfold_locales
    (auto simp: WriteFileProcessor_ProcessFile_def with_world_def Let_def split: if_splits prod.splits option.splits)

interpretation rf: file_processor "ReceiveFileProcessor_ProcessFile E" for E
  by unfold_locales
    (auto simp: ReceiveFileProcessor_ProcessFile_def with_world_def Let_def split: if_splits prod.splits option.splits)

lemma GetFileName_no_backslash: "BACKSLASH \<notin> set (GetFileName r)"
  unfolding GetFileName_def by (rule replace_char_notin) (simp add: BACKSLASH_def)

lemma GetRootFolder_ok:
  assumes "GetRootFolder r = (None, root)"
  shows "\<not> contains_str ''..'' (GetFileName r)"
    and "\<exists>rest. GetFileName r = GetStringFromSourceType (rq_source_type r) @ ''/'' @ rest"
    and "root = (if rq_source_type r = kProcessed \<or> has_flag (GetCustomData r kPosIngestMode) kWriteRawDataToOffline
                 then rq_offline_path r else rq_online_path r)"
    and "root = rq_offline_path r \<or> root \<noteq> []"
proof -
  have abs: "CheckFileNameIsAbsolute (GetFileName r) = None"
    and fold: "CheckFileFolderCorrespondsToRequestSourceType r (GetFileName r) = None"
    and root: "GetRootFolderFromRequest r = (None, root)"
    using assms by (auto simp: GetRootFolder_def Let_def split: option.splits)
  show "\<not> contains_str ''..'' (GetFileName r)"
    using abs by (simp add: CheckFileNameIsAbsolute_def split: if_splits)
  obtain pos where pos: "str_find (CHR ''/'') (GetFileName r) = Some pos"
    and folder: "take pos (GetFileName r) = GetStringFromSourceType (rq_source_type r)"
    using fold by (auto simp: CheckFileFolderCorrespondsToRequestSourceType_def Let_def split: option.splits if_splits)
  have "GetFileName r = take pos (GetFileName r) @ CHR ''/'' # drop (Suc pos) (GetFileName r)"
    using str_find_Some_split [OF pos] by blast
  then show "\<exists>rest. GetFileName r = GetStringFromSourceType (rq_source_type r) @ ''/'' @ rest"
    unfolding folder by (metis append_Cons append_Nil)
  show "root = (if rq_source_type r = kProcessed \<or> has_flag (GetCustomData r kPosIngestMode) kWriteRawDataToOffline
                 then rq_offline_path r else rq_online_path r)" and "root = rq_offline_path r \<or> root \<noteq> []"
    using root by (auto simp: GetRootFolderFromRequest_def Let_def split: if_splits)
qed

section \<open>Properties\<close>

text \<open>
  C21. Files are written only below the folder of the beamtime that the request was authorized
  for.  If a file processor does anything outside the receiver, then the file name has no
  parent-directory part and no backslash, lies in the folder of the request's source type, and
  the call was the one to write exactly this file in the offline path, or in a non-empty online
  path for raw data.
\<close>
theorem files_stay_in_beamtime_folder:
  assumes "processor = WriteFileProcessor_ProcessFile E \<or> processor = ReceiveFileProcessor_ProcessFile E"
    and "processor overwrite s = (err, s')" and "err = None \<or> rs_world s' \<noteq> rs_world s"
  shows "\<exists>root rest. GetRootFolder (rs_request s) = (None, root)
      \<and> \<not> contains_str ''..'' (GetFileName (rs_request s)) \<and> BACKSLASH \<notin> set (GetFileName (rs_request s))
      \<and> GetFileName (rs_request s) = GetStringFromSourceType (rq_source_type (rs_request s)) @ ''/'' @ rest
      \<and> (root = rq_offline_path (rs_request s) \<or> (root = rq_online_path (rs_request s) \<and> root \<noteq> []
            \<and> rq_source_type (rs_request s) = kRaw))
      \<and> (err, rs_world s') \<in>
          {WriteDataToFile E root (GetFileName (rs_request s)) (rq_data (rs_request s))
             (GetDataSize (rs_request s)) True overwrite (rs_world s),
           ReceiveDataToFile E (rq_socket (rs_request s)) root (GetFileName (rs_request s))
             (GetDataSize (rs_request s)) True overwrite (rs_world s)}"
proof -
  let ?r = "rs_request s"
  obtain e root where root: "GetRootFolder ?r = (e, root)" by fastforce
  have e: "e = None"
  proof (cases e)
    case (Some x)
    then show ?thesis
      using wf.checked [of s x root E overwrite err s'] rf.checked [of s x root E overwrite err s'] assms root by auto
  qed
  have "(err, rs_world s') = WriteDataToFile E root (GetFileName ?r) (rq_data ?r) (GetDataSize ?r) True overwrite (rs_world s)
      \<or> (err, rs_world s') = ReceiveDataToFile E (rq_socket ?r) root (GetFileName ?r) (GetDataSize ?r) True overwrite (rs_world s)"
    using assms root e
    by (auto simp: WriteFileProcessor_ProcessFile_def ReceiveFileProcessor_ProcessFile_def with_world_def Let_def
        split: if_splits prod.splits)
  moreover obtain rest where "GetFileName ?r = GetStringFromSourceType (rq_source_type ?r) @ ''/'' @ rest"
    using GetRootFolder_ok(2) root e by blast
  moreover have "root = rq_offline_path ?r \<or> (root = rq_online_path ?r \<and> root \<noteq> [] \<and> rq_source_type ?r = kRaw)"
    using GetRootFolder_ok(3,4) [of ?r root] root e SourceType.exhaust by (auto split: if_splits)
  ultimately show ?thesis
    using root e GetRootFolder_ok(1) [of ?r root] GetFileName_no_backslash [of ?r] by blast
qed

lemma demo_file_name: "GetFileName demo_receiver_request = ''processed/a''"
proof -
  have "message_str (rq_header demo_receiver_request) = ''processed/a''"
    using c_str_strncpy_short [of "''processed/a''" 1024]
    by (simp add: message_str_def demo_receiver_request_def Request_new_def copy_header_def kMaxMessageSize_def
        GenericRequestHeader_new_def)
  then show ?thesis by (simp add: GetFileName_def replace_char_def BACKSLASH_def)
qed

definition demo_file_exists :: "unit receiver_env" where
  "demo_file_exists = duplicate_env
     \<lparr>WriteDataToFile := (\<lambda>root f bytes n dirs over w. (Some (io_err IO_kFileAlreadyExists []), w))\<rparr>"

lemma demo_request_facts:
  "GetDataSize demo_receiver_request = 10" "rq_source_type demo_receiver_request = kProcessed"
  "GetOpCode demo_receiver_request = kOpcodeTransferData"
  by (simp_all add: demo_receiver_request_def Request_new_def GetDataSize_def GetOpCode_def copy_header_def
        GenericRequestHeader_new_def)

lemma demo_root_folder: "GetRootFolder demo_receiver_request = (None, rq_offline_path demo_receiver_request)"
  by (simp add: GetRootFolder_def CheckFileNameIsAbsolute_def CheckFileFolderCorrespondsToRequestSourceType_def
      GetRootFolderFromRequest_def demo_file_name demo_request_facts GetStringFromSourceType_def Let_def)

theorem files_stay_in_beamtime_folder_witness:
  "\<exists>root rest. GetFileName demo_receiver_request = ''processed'' @ ''/'' @ rest
     \<and> GetRootFolder demo_receiver_request = (None, root)"
proof -
  let ?r = demo_receiver_request
  have req: "rs_request demo_state = ?r" by (simp add: demo_state_def)
  have "WriteFileProcessor_ProcessFile demo_env False demo_state = (None, demo_state)"
    by (simp add: WriteFileProcessor_ProcessFile_def req demo_request_facts demo_root_folder with_world_def
        demo_env_def Let_def)
  from files_stay_in_beamtime_folder [OF disjI1 [OF refl] this]
  show ?thesis by (auto simp: req demo_request_facts GetStringFromSourceType_def)
qed

text \<open>
  Sending a file again changes nothing.  When the file exists already and the database holds
  a record with the same size, name and metadata, the file handler succeeds with a warning,
  nothing is written to the file, and the handler that writes to the database leaves everything
  as it is.
\<close>
theorem repeated_upload_is_ignored:
  assumes "processor False s = (Some (io_err IO_kFileAlreadyExists msg), s\<lparr>rs_world := w1\<rparr>)"
    and "GetOpCode (rs_request s) = kOpcodeTransferData"
    and "connected_to_db (rs_db s H_DbCheck)" and "db_name (rs_db s H_DbCheck) \<noteq> []"
    and "db_GetById E H_DbCheck (collection_of (rs_request s)) (GetDataID (rs_request s)) w1 = ((None, rec), w2)"
    and "SameRequestInRecord (rs_request s) rec"
  shows "\<exists>s'. FileProcess_ProcessRequest E processor s = (None, s') \<and> rs_world s' = w2
      \<and> rs_cache s' = rs_cache s \<and> rq_header (rs_request s') = rq_header (rs_request s)
      \<and> rq_response_message_type (rs_request s') = kWarning
      \<and> rq_response_message (rs_request s') = ''duplicated request, ignored''
      \<and> DbWrite_ProcessRequest E s' = (None, s')"
proof -
  have conn: "RequestHandlerDb_ProcessRequest E H_DbCheck (s\<lparr>rs_world := w1\<rparr>) = (None, s\<lparr>rs_world := w1\<rparr>)"
    using assms(3,4) by (simp add: connected_handler)
  have "CheckForDuplicates E (s\<lparr>rs_world := w1\<rparr>) =
      (Some (rcv_err R_kWarningDuplicatedRequest []), s\<lparr>rs_world := w2\<rparr>)"
    using assms(2,5,6)
    by (simp add: CheckForDuplicates_def DbCheck_ProcessRequest_def conn GetRecordFromDb_def with_world_def)
  then show ?thesis
    by (simp add: FileProcess_ProcessRequest_def assms(1) ProcessFileExistSituation_def upd_request_def
        SetResponseMessage_def SetAlreadyProcessedFlag_def DbWrite_ProcessRequest_def)
qed

theorem repeated_upload_is_ignored_witness:
  "\<exists>s'. FileProcess_ProcessRequest demo_file_exists (WriteFileProcessor_ProcessFile demo_file_exists) connected_state
       = (None, s') \<and> rq_response_message (rs_request s') = ''duplicated request, ignored''"
proof -
  let ?r = demo_receiver_request
  let ?rec = "MessageMeta_new\<lparr>mm_size := GetDataSize ?r, mm_name := GetFileName ?r, mm_metadata := ''{}''\<rparr>"
  have r: "rs_request connected_state = ?r" by (simp add: connected_state_def demo_state_def)
  have "WriteFileProcessor_ProcessFile demo_file_exists False connected_state =
      (Some (io_err IO_kFileAlreadyExists []), connected_state\<lparr>rs_world := ()\<rparr>)"
    by (simp add: WriteFileProcessor_ProcessFile_def r demo_request_facts demo_root_folder with_world_def
        demo_file_exists_def Let_def)
  moreover have "SameRequestInRecord ?r ?rec"
    by (simp add: SameRequestInRecord_def demo_receiver_request_def Request_new_def)
  moreover have "db_GetById demo_file_exists h c i () = ((None, ?rec), ())" for h c i
    by (simp add: demo_file_exists_def duplicate_env_def)
  moreover have "connected_to_db (rs_db connected_state h)" "db_name (rs_db connected_state h) \<noteq> []" for h
    by (simp_all add: connected_state_def)
  ultimately show ?thesis
    using repeated_upload_is_ignored [of "WriteFileProcessor_ProcessFile demo_file_exists" connected_state "[]" "()"
        demo_file_exists ?rec "()"] demo_request_facts(3)
    unfolding r by blast
qed

end
