(* ===== verification/Receiver_Config.thy ===== *)
theory Receiver_Config
  imports Receiver_Request
begin

text \<open>
  Reading the receiver's configuration (\<open>receiver/src/receiver_config.cpp\<close>) and the log messages
  about a request (\<open>receiver_logger.cpp\<close>).

  The code reads twenty members with a chain of \<open>(err = ...) || ...\<close> that writes into one
  global variable.  The chain is a list of steps here, each of which returns the error and the
  configuration with one member assigned.
\<close>

type_synonym config_step = "ReceiverConfig \<Rightarrow> error option \<times> ReceiverConfig"

fun read_members :: "('c \<Rightarrow> error option \<times> 'c) list \<Rightarrow> 'c \<Rightarrow> error option \<times> 'c" where
  "read_members [] c = (None, c)"
| "read_members (f # fs) c = (case f c of (Some e, c') \<Rightarrow> (Some e, c') | (None, c') \<Rightarrow> read_members fs c')"

definition config_chain :: "RapidJson \<Rightarrow> config_step list" where
  "config_chain p =
     [\<lambda>c. map_prod id (\<lambda>v. c\<lparr>performance_db_uri := v\<rparr>) (GetString ''PerformanceDbServer'' (performance_db_uri c) p),
      \<lambda>c. map_prod id (\<lambda>v. c\<lparr>monitor_performance := v\<rparr>) (GetBool ''MonitorPerformance'' (monitor_performance c) p),
      \<lambda>c. map_prod id (\<lambda>v. c\<lparr>listen_port := v\<rparr>) (GetUInt64 ''ListenPort'' (listen_port c) p),
      \<lambda>c. map_prod id (\<lambda>v. c\<lparr>receive_to_disk_threshold_mb := v\<rparr>)
            (GetUInt64 ''ReceiveToDiskThresholdMB'' (receive_to_disk_threshold_mb c) p),
      \<lambda>c. map_prod id (\<lambda>v. c\<lparr>ds_listen_port := v\<rparr>) (GetUInt64 ''ListenPort'' (ds_listen_port c) (Embedded ''DataServer'' p)),
      \<lambda>c. map_prod id (\<lambda>v. c\<lparr>ds_nthreads := v\<rparr>) (GetUInt64 ''NThreads'' (ds_nthreads c) (Embedded ''DataServer'' p)),
      \<lambda>c. map_prod id (\<lambda>v. c\<lparr>use_datacache := v\<rparr>) (GetBool ''Use'' (use_datacache c) (Embedded ''DataCache'' p)),
      \<lambda>c. map_prod id (\<lambda>v. c\<lparr>datacache_size_gb := v\<rparr>) (GetUInt64 ''SizeGB'' (datacache_size_gb c) (Embedded ''DataCache'' p)),
      \<lambda>c. map_prod id (\<lambda>v. c\<lparr>datacache_reserved_share := v\<rparr>)
            (GetUInt64 ''ReservedShare'' (datacache_reserved_share c) (Embedded ''DataCache'' p)),
      \<lambda>c. map_prod id (\<lambda>v. c\<lparr>database_uri := v\<rparr>) (GetString ''DatabaseServer'' (database_uri c) p),
      \<lambda>c. map_prod id (\<lambda>v. c\<lparr>discovery_server := v\<rparr>) (GetString ''DiscoveryServer'' (discovery_server c) p),
      \<lambda>c. map_prod id (\<lambda>v. c\<lparr>receiver_tag := v\<rparr>) (GetString ''Tag'' (receiver_tag c) p),
      \<lambda>c. map_prod id (\<lambda>v. c\<lparr>authorization_server := v\<rparr>) (GetString ''AuthorizationServer'' (authorization_server c) p),
      \<lambda>c. map_prod id (\<lambda>v. c\<lparr>authorization_interval_ms := v\<rparr>)
            (GetUInt64 ''AuthorizationInterval'' (authorization_interval_ms c) p),
      \<lambda>c. map_prod id (\<lambda>v. c\<lparr>performance_db_name := v\<rparr>) (GetString ''PerformanceDbName'' (performance_db_name c) p),
      \<lambda>c. map_prod id (\<lambda>v. c\<lparr>advertise_uri := v\<rparr>) (GetString ''AdvertiseURI'' (advertise_uri c) (Embedded ''DataServer'' p)),
      \<lambda>c. map_prod id (\<lambda>v. c\<lparr>network_mode := v\<rparr>) (GetArrayString ''NetworkMode'' (network_mode c) (Embedded ''DataServer'' p)),
      \<lambda>c. map_prod id (\<lambda>v. c\<lparr>metrics_expose := v\<rparr>) (GetBool ''Expose'' (metrics_expose c) (Embedded ''Metrics'' p)),
      \<lambda>c. map_prod id (\<lambda>v. c\<lparr>metrics_listen_port := v\<rparr>)
            (GetUInt64 ''ListenPort'' (metrics_listen_port c) (Embedded ''Metrics'' p))]"

definition ReadConfigFromFile ::
    "rapidjson_lib \<Rightarrow> (string \<Rightarrow> string \<times> error option) \<Rightarrow> string \<Rightarrow> ReceiverConfig \<Rightarrow> error option \<times> ReceiverConfig" where
  "ReadConfigFromFile L io file_name c0 =
     (let p = JsonFileParser L io file_name in
      case read_members (config_chain p) c0 of
        (Some e, c) \<Rightarrow> (Some e, c)
      | (None, c) \<Rightarrow>
          (case GetString ''LogLevel'' [] p of
             (Some e, v) \<Rightarrow> (Some e, c)
           | (None, level) \<Rightarrow>
               (let (err, l) = StringToLogLevel level in
                (err, c\<lparr>ds_tag := receiver_tag c @ ''_ds'', log_level := l\<rparr>))))"

section \<open>Log messages\<close>

definition AppendIdToLogMessageIfNeeded :: "Request \<Rightarrow> LogMessageWithFields \<Rightarrow> LogMessageWithFields" where
  "AppendIdToLogMessageIfNeeded r msg =
     (if GetOpCode r = kOpcodeTransferData then Append_u64 ''id'' (GetDataID r) msg
      else if GetOpCode r = kOpcodeTransferDatasetData
      then Append_u64 ''substream'' (GetCustomData r 1) (Append_u64 ''id'' (GetDataID r) msg)
      else msg)"

definition AuthorizationLog :: "string \<Rightarrow> Request \<Rightarrow> AuthorizationData \<Rightarrow> LogMessageWithFields" where
  "AuthorizationLog msg r dat =
     (let log = Append_string ''origin'' (rq_origin_host r)
            (Append_string ''beamline'' (a_beamline dat)
              (Append_string ''dataSource'' (a_data_source dat)
                (Append_string ''beamtime'' (a_beamtime_id dat) (LogMessage_text msg)))) in
      if GetOpCode r \<noteq> kOpcodeAuthorize
      then AppendIdToLogMessageIfNeeded r (Append_string ''stream'' (GetStream r) log)
      else log)"

definition RequestLog :: "string \<Rightarrow> Request \<Rightarrow> LogMessageWithFields" where
  "RequestLog msg r =
     AppendIdToLogMessageIfNeeded r
       (Append_string ''operation'' (OpcodeToString (GetOpCode r))
         (Append_string ''origin'' (rq_origin_host r)
           (Append_string ''stream'' (GetStream r)
             (Append_string ''dataSource'' (rq_data_source r)
               (Append_string ''beamline'' (rq_beamline r)
                 (Append_string ''beamtime'' (rq_beamtime_id r) (LogMessage_text msg)))))))"

section \<open>Lemmas\<close>

lemma read_members_append:
  "read_members (fs @ gs) c =
     (case read_members fs c of (Some e, c') \<Rightarrow> (Some e, c') | (None, c') \<Rightarrow> read_members gs c')"
  by (induction fs arbitrary: c) (auto split: prod.splits option.splits)

text \<open>A member is read when every step before it succeeds.\<close>

lemma read_members_step:
  assumes "f c = (None, c')"
  shows "read_members (f # fs) c = read_members fs c'"
  using assms by simp

text \<open>Every request message is a flat list of escaped fields.\<close>

lemma RequestLog_fields:
  "\<exists>fs. RequestLog msg r = log_fields fs \<and> (''stream'', LogString (GetStream r)) \<in> set fs
     \<and> (''beamtime'', LogString (rq_beamtime_id r)) \<in> set fs"
  by (auto simp: RequestLog_def AppendIdToLogMessageIfNeeded_def LogMessage_fields Append_fields)

lemma AuthorizationLog_fields:
  "\<exists>fs. AuthorizationLog msg r dat = log_fields fs \<and> (''beamtime'', LogString (a_beamtime_id dat)) \<in> set fs"
  by (auto simp: AuthorizationLog_def AppendIdToLogMessageIfNeeded_def LogMessage_fields Append_fields Let_def)

text \<open>The data of the configuration, as a JSON document.\<close>

definition config_json :: "ReceiverConfig \<Rightarrow> string \<Rightarrow> (string \<times> json) list" where
  "config_json c level =
     [(''PerformanceDbServer'', JString (performance_db_uri c)), (''MonitorPerformance'', JBool (monitor_performance c)),
      (''ListenPort'', JInt (uint (listen_port c))),
      (''ReceiveToDiskThresholdMB'', JInt (uint (receive_to_disk_threshold_mb c))),
      (''DataServer'', JObject [(''ListenPort'', JInt (uint (ds_listen_port c))), (''NThreads'', JInt (uint (ds_nthreads c))),
         (''AdvertiseURI'', JString (advertise_uri c)), (''NetworkMode'', JArray (map JString (network_mode c)))]),
      (''DataCache'', JObject [(''Use'', JBool (use_datacache c)), (''SizeGB'', JInt (uint (datacache_size_gb c))),
         (''ReservedShare'', JInt (uint (datacache_reserved_share c)))]),
      (''DatabaseServer'', JString (database_uri c)), (''DiscoveryServer'', JString (discovery_server c)),
      (''Tag'', JString (receiver_tag c)), (''AuthorizationServer'', JString (authorization_server c)),
      (''AuthorizationInterval'', JInt (uint (authorization_interval_ms c))),
      (''PerformanceDbName'', JString (performance_db_name c)),
      (''Metrics'', JObject [(''Expose'', JBool (metrics_expose c)), (''ListenPort'', JInt (uint (metrics_listen_port c)))]),
      (''LogLevel'', JString level)]"

text \<open>No text of a configuration contains a terminator.\<close>

definition config_texts :: "ReceiverConfig \<Rightarrow> string list" where
  "config_texts c = [performance_db_uri c, performance_db_name c, database_uri c, authorization_server c,
     receiver_tag c, advertise_uri c, discovery_server c] @ network_mode c"

lemma read_string_array:
  assumes "list_all (\<lambda>t. NUL \<notin> set t) xs"
  shows "push_elements string_element name (map JString xs) [] = (None, xs)"
  using assms by (subst push_elements_ok) (auto simp: list_all_iff c_str_id)

lemma config_members_read:
  assumes init: "LazyInitialize p = Inr (config_json c level)"
    and texts: "list_all (\<lambda>t. NUL \<notin> set t) (config_texts c)"
  shows "read_members (config_chain p) c0 = (None, c\<lparr>ds_tag := ds_tag c0, log_level := log_level c0\<rparr>)"
proof -
  note found = getters_found [OF init]
  have sub: "LazyInitialize (Embedded ''DataServer'' p) = Inr [(''ListenPort'', JInt (uint (ds_listen_port c))),
        (''NThreads'', JInt (uint (ds_nthreads c))), (''AdvertiseURI'', JString (advertise_uri c)),
        (''NetworkMode'', JArray (map JString (network_mode c)))]"
    "LazyInitialize (Embedded ''DataCache'' p) = Inr [(''Use'', JBool (use_datacache c)),
        (''SizeGB'', JInt (uint (datacache_size_gb c))), (''ReservedShare'', JInt (uint (datacache_reserved_share c)))]"
    "LazyInitialize (Embedded ''Metrics'' p) = Inr [(''Expose'', JBool (metrics_expose c)),
        (''ListenPort'', JInt (uint (metrics_listen_port c)))]"
    by (rule found(5); simp add: config_json_def)+
  have u64: "uint (v :: u64) < 2 ^ 64" for v using uint_lt2p [of v] by simp
  have plain: "c_str (performance_db_uri c) = performance_db_uri c" "c_str (database_uri c) = database_uri c"
    "c_str (performance_db_name c) = performance_db_name c" "c_str (receiver_tag c) = receiver_tag c"
    "c_str (authorization_server c) = authorization_server c" "c_str (advertise_uri c) = advertise_uri c"
    "c_str (discovery_server c) = discovery_server c"
    using texts by (simp_all add: config_texts_def c_str_id)
  have modes: "list_all (\<lambda>t. NUL \<notin> set t) (network_mode c)"
    using texts by (simp add: config_texts_def)
  have arr: "GetArrayString ''NetworkMode'' xs (Embedded ''DataServer'' p) = (None, network_mode c)" for xs
    using getters_found(6) [OF sub(1), of "''NetworkMode''" "map JString (network_mode c)" string_element xs]
    by (simp add: GetArrayString_def read_string_array [OF modes])
  show ?thesis
    using u64
    by (simp add: config_chain_def found(1,3,4) getters_found(1,3,4) [OF sub(1)] getters_found(1,3,4) [OF sub(2)]
        getters_found(1,3,4) [OF sub(3)] config_json_def plain arr)
qed

section \<open>Properties\<close>

text \<open>
  Reading a configuration file returns the configuration it describes: for a file with all
  members, every field has the value of its member, the tag of the data server is the tag of the
  receiver with the suffix \<open>_ds\<close>, and the level is the one that is named.  Nothing is kept of the
  previous configuration.
\<close>
theorem config_round_trip:
  assumes "io file_name = (contents, None)" and "rj_parse L (c_str contents) = Some (JObject (config_json c level))"
    and "list_all (\<lambda>t. NUL \<notin> set t) (level # config_texts c)"
    and "StringToLogLevel level = (None, log_level c)" and "ds_tag c = receiver_tag c @ ''_ds''"
  shows "ReadConfigFromFile L io file_name c0 = (None, c)"
proof -
  let ?p = "JsonFileParser L io file_name"
  have init: "LazyInitialize ?p = Inr (config_json c level)"
    using assms(1,2) by (simp add: LazyInitialize_def JsonFileParser_def)
  have "GetString ''LogLevel'' [] ?p = (None, level)"
    using getters_found(3) [OF init, of "''LogLevel''" level] assms(3) by (simp add: config_json_def c_str_id)
  moreover have "read_members (config_chain ?p) c0 = (None, c\<lparr>ds_tag := ds_tag c0, log_level := log_level c0\<rparr>)"
    using config_members_read [OF init] assms(3) by simp
  ultimately show ?thesis
    using assms(4,5) by (simp add: ReadConfigFromFile_def Let_def)
qed

theorem config_round_trip_witness:
  "ReadConfigFromFile \<lparr>rj_parse = (\<lambda>t. Some (JObject (config_json demo_config ''info''))), rj_write = (\<lambda>j. [])\<rparr>
     (\<lambda>f. (''{}'', None)) ''receiver.json'' (demo_config\<lparr>receiver_tag := ''old''\<rparr>) = (None, demo_config)"
  by (rule config_round_trip [where contents = "''{}''" and level = "''info''"])
    (simp_all add: demo_config_def config_texts_def StringToLogLevel_def)

end
