(* ===== verification/Receiver_Statistics.thy ===== *)
theory Receiver_Statistics
  imports Receiver_Request
begin

text \<open>
  Performance statistics of a connection (\<open>receiver/src/statistics/*.{h,cpp}\<close>).  Times are
  nanoseconds of the clock; \<open>now\<close> is the reading that the code takes in the operation.  The
  shares are quotients of two integers in the code, kept as the pair of them; their text comes
  from \<open>snprintf\<close>, the argument \<open>fmt\<close> of the sender.
\<close>

datatype StatisticEntity = kDatabase | kDisk | kNetwork

fun entity_name :: "StatisticEntity \<Rightarrow> string" where
  "entity_name kDatabase = ''db_share''"
| "entity_name kDisk = ''disk_share''"
| "entity_name kNetwork = ''network_share''"

definition statistic_entities :: "StatisticEntity list" where
  "statistic_entities = [kDatabase, kDisk, kNetwork]"

record StatisticsToSend =
  extra_entities :: "(string \<times> u64 \<times> u64) list"
  elapsed_ms :: u64
  data_volume :: u64
  n_requests :: u64
  stat_tags :: "(string \<times> string) list"

record Statistics =
  nrequests :: u64
  last_timepoint :: int
  volume_counter :: u64
  write_interval :: u32
  tags :: "(string \<times> string) list"

record ReceiverStatistics = Statistics +
  current_timer_last_timepoint :: int
  current_statistic_entity :: StatisticEntity
  time_counters :: "StatisticEntity \<Rightarrow> int"

definition kDefaultStatisticWriteIntervalMs :: u32 where "kDefaultStatisticWriteIntervalMs = 10000"

section \<open>Counting\<close>

definition ms_between :: "int \<Rightarrow> int \<Rightarrow> u64" where
  "ms_between t0 t1 = of_int (if t0 \<le> t1 then (t1 - t0) div 1000000 else - ((t0 - t1) div 1000000))"

definition GetTotalElapsedMs :: "int \<Rightarrow> 'a Statistics_scheme \<Rightarrow> u64" where
  "GetTotalElapsedMs now st = ms_between (last_timepoint st) now"

definition SetWriteInterval :: "u64 \<Rightarrow> 'a Statistics_scheme \<Rightarrow> 'a Statistics_scheme" where
  "SetWriteInterval interval_ms st = st\<lparr>write_interval := ucast interval_ms\<rparr>"

definition IncreaseRequestCounter :: "'a Statistics_scheme \<Rightarrow> 'a Statistics_scheme" where
  "IncreaseRequestCounter st = st\<lparr>nrequests := nrequests st + 1\<rparr>"

definition IncreaseRequestDataVolume :: "u64 \<Rightarrow> 'a Statistics_scheme \<Rightarrow> 'a Statistics_scheme" where
  "IncreaseRequestDataVolume v st = st\<lparr>volume_counter := volume_counter st + v\<rparr>"

definition AddTag :: "string \<Rightarrow> string \<Rightarrow> 'a Statistics_scheme \<Rightarrow> 'a Statistics_scheme" where
  "AddTag name val st = st\<lparr>tags := tags st @ [(name, val)]\<rparr>"

definition GetElapsedMs :: "StatisticEntity \<Rightarrow> ReceiverStatistics \<Rightarrow> u64" where
  "GetElapsedMs entity st = ms_between 0 (time_counters st entity)"

definition Statistics_PrepareStatisticsToSend :: "int \<Rightarrow> 'a Statistics_scheme \<Rightarrow> StatisticsToSend" where
  "Statistics_PrepareStatisticsToSend now st =
     \<lparr>extra_entities = [], elapsed_ms = max 1 (GetTotalElapsedMs now st), data_volume = volume_counter st,
      n_requests = nrequests st, stat_tags = tags st\<rparr>"

definition PrepareStatisticsToSend :: "int \<Rightarrow> ReceiverStatistics \<Rightarrow> StatisticsToSend" where
  "PrepareStatisticsToSend now st =
     (let stat = Statistics_PrepareStatisticsToSend now st in
      stat\<lparr>extra_entities := map (\<lambda>e. (entity_name e, GetElapsedMs e st, elapsed_ms stat)) statistic_entities\<rparr>)"

definition Statistics_ResetStatistics :: "int \<Rightarrow> 'a Statistics_scheme \<Rightarrow> 'a Statistics_scheme" where
  "Statistics_ResetStatistics now st = st\<lparr>last_timepoint := now, nrequests := 0, volume_counter := 0\<rparr>"

definition ResetStatistics :: "int \<Rightarrow> ReceiverStatistics \<Rightarrow> ReceiverStatistics" where
  "ResetStatistics now st = (Statistics_ResetStatistics now st)\<lparr>time_counters := (\<lambda>e. 0)\<rparr>"

definition StartTimer :: "StatisticEntity \<Rightarrow> int \<Rightarrow> ReceiverStatistics \<Rightarrow> ReceiverStatistics" where
  "StartTimer entity now st = st\<lparr>current_statistic_entity := entity, current_timer_last_timepoint := now\<rparr>"

definition StopTimer :: "int \<Rightarrow> ReceiverStatistics \<Rightarrow> ReceiverStatistics" where
  "StopTimer now st =
     (let elapsed = now - current_timer_last_timepoint st; e = current_statistic_entity st in
      st\<lparr>time_counters := (time_counters st)(e := time_counters st e + elapsed)\<rparr>)"

definition Statistics_new :: "int \<Rightarrow> u32 \<Rightarrow> Statistics" where
  "Statistics_new now interval =
     \<lparr>nrequests = 0, last_timepoint = now, volume_counter = 0, write_interval = interval, tags = []\<rparr>"

text \<open>\<open>current_timer_last_timepoint_\<close> starts at the epoch.\<close>

definition ReceiverStatistics_new :: "int \<Rightarrow> u32 \<Rightarrow> ReceiverStatistics" where
  "ReceiverStatistics_new now interval =
     \<lparr>nrequests = 0, last_timepoint = now, volume_counter = 0, write_interval = interval, tags = [],
      current_timer_last_timepoint = 0, current_statistic_entity = kDatabase, time_counters = (\<lambda>e. 0)\<rparr>"

section \<open>Sending\<close>

text \<open>\<open>%ld\<close> prints the bits of an unsigned number as a signed one.\<close>

definition format_ld :: "u64 \<Rightarrow> string" where
  "format_ld v = int_to_string (sint v)"

definition StatisticsToString :: "(u64 \<times> u64 \<Rightarrow> string) \<Rightarrow> StatisticsToSend \<Rightarrow> string" where
  "StatisticsToString fmt statistic =
     ''statistics'' @ concat (map (\<lambda>(k, v). '','' @ k @ ''='' @ v) (stat_tags statistic))
     @ '' elapsed_ms='' @ format_ld (elapsed_ms statistic)
     @ '',data_volume='' @ format_ld (data_volume statistic)
     @ '',n_requests='' @ format_ld (n_requests statistic)
     @ concat (map (\<lambda>(k, q). '','' @ k @ ''='' @ fmt q) (extra_entities statistic))"

text \<open>The answer of the performance database only decides what is logged.\<close>

definition SendStatistics :: "'w receiver_env \<Rightarrow> (u64 \<times> u64 \<Rightarrow> string) \<Rightarrow> StatisticsToSend \<Rightarrow> 'w \<Rightarrow> 'w" where
  "SendStatistics E fmt statistic w =
     snd (http_Post E (performance_db_uri (config E) @ ''/write?db='' @ performance_db_name (config E)) []
            (StatisticsToString fmt statistic) w)"

definition StatisticsSenderInfluxDb_new :: "'w receiver_env \<Rightarrow> 'w \<Rightarrow> 'w" where
  "StatisticsSenderInfluxDb_new E w =
     snd (http_Post E (performance_db_uri (config E) @ ''/query'') []
            (''q=create database '' @ performance_db_name (config E)) w)"

text \<open>
  There is one sender, the one that the constructor adds.  \<open>prep\<close> and \<open>reset\<close> are the virtual
  methods that a derived class overrides.
\<close>

definition Statistics_Send ::
    "(int \<Rightarrow> 'a Statistics_scheme \<Rightarrow> StatisticsToSend) \<Rightarrow> (int \<Rightarrow> 'a Statistics_scheme \<Rightarrow> 'a Statistics_scheme)
      \<Rightarrow> 'w receiver_env \<Rightarrow> (u64 \<times> u64 \<Rightarrow> string) \<Rightarrow> 'a Statistics_scheme \<Rightarrow> 'w \<Rightarrow> 'a Statistics_scheme \<times> 'w" where
  "Statistics_Send prep reset E fmt st w =
     (let w1 = SendStatistics E fmt (prep (clock E w) st) w in (reset (clock E w1) st, w1))"

definition send_now :: "'w receiver_env \<Rightarrow> bool \<Rightarrow> 'a Statistics_scheme \<Rightarrow> 'w \<Rightarrow> bool" where
  "send_now E send_always st w \<longleftrightarrow> monitor_performance (config E) \<and>
     (send_always \<or> GetTotalElapsedMs (clock E w) st > ucast (write_interval st))"

definition Statistics_SendIfNeeded ::
    "(int \<Rightarrow> 'a Statistics_scheme \<Rightarrow> StatisticsToSend) \<Rightarrow> (int \<Rightarrow> 'a Statistics_scheme \<Rightarrow> 'a Statistics_scheme)
      \<Rightarrow> 'w receiver_env \<Rightarrow> (u64 \<times> u64 \<Rightarrow> string) \<Rightarrow> bool \<Rightarrow> 'a Statistics_scheme \<Rightarrow> 'w \<Rightarrow> 'a Statistics_scheme \<times> 'w" where
  "Statistics_SendIfNeeded prep reset E fmt send_always st w =
     (if send_now E send_always st w then Statistics_Send prep reset E fmt st w else (st, w))"

text \<open>For the statistics of a connection.\<close>

definition SendIfNeeded ::
    "'w receiver_env \<Rightarrow> (u64 \<times> u64 \<Rightarrow> string) \<Rightarrow> bool \<Rightarrow> ReceiverStatistics \<Rightarrow> 'w \<Rightarrow> ReceiverStatistics \<times> 'w" where
  "SendIfNeeded = Statistics_SendIfNeeded PrepareStatisticsToSend ResetStatistics"

section \<open>Every request is reported once\<close>

text \<open>
  A run of a connection's statistics: requests of given volumes, each followed by an attempt to
  send, and the final forced sending.  \<open>reports\<close> collects what \<open>SendIfNeeded\<close> sends.
\<close>

fun reports ::
    "'w receiver_env \<Rightarrow> (u64 \<times> u64 \<Rightarrow> string) \<Rightarrow> u64 list \<Rightarrow> ReceiverStatistics \<Rightarrow> 'w \<Rightarrow> StatisticsToSend list" where
  "reports E fmt [] st w = (if send_now E True st w then [PrepareStatisticsToSend (clock E w) st] else [])"
| "reports E fmt (v # vs) st w =
     (let st1 = IncreaseRequestDataVolume v (IncreaseRequestCounter st);
          (st2, w2) = SendIfNeeded E fmt False st1 w in
      (if send_now E False st1 w then [PrepareStatisticsToSend (clock E w) st1] else []) @ reports E fmt vs st2 w2)"

lemma Prepare_fields [simp]:
  "n_requests (PrepareStatisticsToSend now st) = nrequests st"
  "data_volume (PrepareStatisticsToSend now st) = volume_counter st"
  "stat_tags (PrepareStatisticsToSend now st) = tags st"
  "elapsed_ms (PrepareStatisticsToSend now st) = max 1 (GetTotalElapsedMs now st)"
  by (simp_all add: PrepareStatisticsToSend_def Statistics_PrepareStatisticsToSend_def Let_def)

lemma Increase_fields [simp]:
  "nrequests (IncreaseRequestCounter st) = nrequests st + 1"
  "volume_counter (IncreaseRequestCounter st) = volume_counter st"
  "nrequests (IncreaseRequestDataVolume v st) = nrequests st"
  "volume_counter (IncreaseRequestDataVolume v st) = volume_counter st + v"
  by (simp_all add: IncreaseRequestCounter_def IncreaseRequestDataVolume_def)

lemma Reset_fields [simp]:
  "nrequests (ResetStatistics now st) = 0" "volume_counter (ResetStatistics now st) = 0"
  by (simp_all add: ResetStatistics_def Statistics_ResetStatistics_def)

lemma reports_sum:
  assumes "monitor_performance (config E)"
  shows "sum_list (map n_requests (reports E fmt vs st w)) = nrequests st + of_nat (length vs)
    \<and> sum_list (map data_volume (reports E fmt vs st w)) = volume_counter st + sum_list vs"
proof (induction vs arbitrary: st w)
  case Nil
  then show ?case using assms by (simp add: send_now_def)
next
  case (Cons v vs)
  let ?st = "IncreaseRequestDataVolume v (IncreaseRequestCounter st)"
  show ?case
    using Cons.IH [of "fst (SendIfNeeded E fmt False ?st w)" "snd (SendIfNeeded E fmt False ?st w)"]
    by (cases "send_now E False ?st w") (simp_all add: SendIfNeeded_def Statistics_SendIfNeeded_def Statistics_Send_def Let_def add_ac)
qed

definition report_ok :: "StatisticsToSend \<Rightarrow> bool" where
  "report_ok r \<longleftrightarrow> elapsed_ms r > 0 \<and> list_all (\<lambda>(k, a, b). b = elapsed_ms r) (extra_entities r)"

lemma Prepare_report_ok: "report_ok (PrepareStatisticsToSend now st)"
  using less_le_trans [of 0 1 "max 1 (GetTotalElapsedMs now st)"]
  by (simp add: report_ok_def PrepareStatisticsToSend_def Statistics_PrepareStatisticsToSend_def Let_def list_all_iff)

lemma reports_ok: "list_all report_ok (reports E fmt vs st w)"
  by (induction vs arbitrary: st w) (auto simp: Prepare_report_ok Let_def split: prod.splits)

section \<open>Properties\<close>

text \<open>
  When performance is monitored, every request of a connection is reported exactly once:
  the request counts and the data volumes of all reports add up, modulo the 64 bits of the
  counters, to the number and the volume of the requests.  No report has an elapsed time of
  zero, which is the divisor of the shares.
\<close>
theorem statistics_reported_once:
  assumes "monitor_performance (config E)"
  shows "sum_list (map n_requests (reports E fmt vs (ReceiverStatistics_new t i) w)) = of_nat (length vs)
    \<and> sum_list (map data_volume (reports E fmt vs (ReceiverStatistics_new t i) w)) = sum_list vs
    \<and> list_all report_ok (reports E fmt vs (ReceiverStatistics_new t i) w)"
  using reports_sum [OF assms, of fmt vs "ReceiverStatistics_new t i" w] reports_ok
  by (simp add: ReceiverStatistics_new_def)

theorem statistics_reported_once_witness:
  "monitor_performance (config (demo_env\<lparr>config := demo_config\<lparr>monitor_performance := True\<rparr>\<rparr>))
   \<and> sum_list (map n_requests (reports (demo_env\<lparr>config := demo_config\<lparr>monitor_performance := True\<rparr>\<rparr>) (\<lambda>q. [])
        [7, 8] (ReceiverStatistics_new 0 10000) ())) = 2"
  using statistics_reported_once [of "demo_env\<lparr>config := demo_config\<lparr>monitor_performance := True\<rparr>\<rparr>" "\<lambda>q. []" "[7, 8]" 0 10000 "()"]
  by simp

end
