(* ===== verification/Receiver_Dispatch.thy ===== *)
theory Receiver_Dispatch
  imports Receiver_Files Receiver_Config Receiver_Statistics
begin

text \<open>
  From the socket to the response: the request factory that chooses the handlers of a request
  (\<open>request_factory.cpp\<close>), \<open>Request::Handle\<close>, the dispatcher that answers it
  (\<open>requests_dispatcher.cpp\<close>) and the loop of a connection (\<open>connection.cpp\<close>).
\<close>

section \<open>The request factory\<close>

definition NeedFileWriteHandler :: "GenericRequestHeader \<Rightarrow> bool" where
  "NeedFileWriteHandler h \<longleftrightarrow> has_flag (custom_param kPosIngestMode h) kStoreInFilesystem"

definition NeedDbHandler :: "GenericRequestHeader \<Rightarrow> bool" where
  "NeedDbHandler h \<longleftrightarrow> has_flag (custom_param kPosIngestMode h) kStoreInDatabase
     \<or> custom_param kPosIngestMode h = kTransferMetaDataOnly"

definition ReceiveDirectToFile :: "ReceiverConfig \<Rightarrow> GenericRequestHeader \<Rightarrow> bool" where
  "ReceiveDirectToFile cfg h \<longleftrightarrow> data_size h > receive_to_disk_threshold_mb cfg * 1024 * 1024"

definition AddReceiveViaBufferHandlers :: "GenericRequestHeader \<Rightarrow> Request \<Rightarrow> Request" where
  "AddReceiveViaBufferHandlers h r =
     (let r1 = AddHandler H_ReceiveData r in
      if NeedFileWriteHandler h then AddHandler H_FileWrite r1 else r1)"

definition AddReceiveDirectToFileHandler :: "GenericRequestHeader \<Rightarrow> Request \<Rightarrow> error option \<times> Request" where
  "AddReceiveDirectToFileHandler h r =
     (if \<not> has_flag (custom_param kPosIngestMode h) kStoreInFilesystem
      then (Some (rcv_err R_kBadRequest ''ingest mode should include kStoreInFilesystem for large files ''), r)
      else (None, AddHandler H_FileReceive r))"

definition AddReceiveWriteHandlers :: "ReceiverConfig \<Rightarrow> GenericRequestHeader \<Rightarrow> Request \<Rightarrow> error option \<times> Request" where
  "AddReceiveWriteHandlers cfg h r =
     (if ReceiveDirectToFile cfg h then AddReceiveDirectToFileHandler h r
      else (None, AddReceiveViaBufferHandlers h r))"

definition AddHandlersToRequest :: "ReceiverConfig \<Rightarrow> GenericRequestHeader \<Rightarrow> Request \<Rightarrow> error option \<times> Request" where
  "AddHandlersToRequest cfg h r0 =
     (let r = (if op_code h \<noteq> kOpcodeAuthorize then AddHandler H_SecondaryAuthorize r0 else r0) in
      if op_code h = kOpcodeTransferData \<or> op_code h = kOpcodeTransferDatasetData then
        (case AddReceiveWriteHandlers cfg h (AddHandler H_ReceiveMetaData r) of
           (Some e, r1) \<Rightarrow> (Some e, r1)
         | (None, r1) \<Rightarrow> (None, if NeedDbHandler h then AddHandler H_DbWrite r1 else r1))
      else if op_code h = kOpcodeTransferMetaData then
        (if NeedDbHandler h then (None, AddHandler H_DbMetaWrite (AddHandler H_ReceiveData r))
         else (Some (rcv_err R_kInternalServerError ''reciever does not support writing to database''), r))
      else if op_code h = kOpcodeAuthorize then (None, AddHandler H_InitialAuthorize (AddHandler H_ReceiveMetaData r))
      else if op_code h = kOpcodeStreamInfo then (None, AddHandler H_DbStreamInfo r)
      else if op_code h = kOpcodeDeleteStream then (None, AddHandler H_DbDeleteStream r)
      else if op_code h = kOpcodeLastStream then (None, AddHandler H_DbLastStream r)
      else if op_code h = kOpcodeGetMeta then (None, AddHandler H_DbGetMeta r)
      else (Some (rcv_err R_kInvalidOpCode []), r))"

definition GenerateRequest :: "ReceiverConfig \<Rightarrow> GenericRequestHeader \<Rightarrow> nat \<Rightarrow> string \<Rightarrow> error option \<times> Request option" where
  "GenerateRequest cfg h socket_fd origin_uri =
     (case AddHandlersToRequest cfg h (Request_new h socket_fd origin_uri) of
        (Some e, r) \<Rightarrow> (Some e, None)
      | (None, r) \<Rightarrow> (None, Some r))"

section \<open>Handling a request\<close>

text \<open>
  Memory that the code reads without having assigned it: the ingest mode of the metadata handler
  and the rest of the message buffer of a response.
\<close>

record uninitialised =
  u_mode :: MetaIngestMode
  u_message :: string

definition process_handler :: "'w receiver_env \<Rightarrow> uninitialised \<Rightarrow> handler \<Rightarrow> 'w handler_step" where
  "process_handler E u h s =
     (case h of
        H_SecondaryAuthorize \<Rightarrow> SecondaryAuthorization_ProcessRequest E s
      | H_InitialAuthorize \<Rightarrow> InitialAuthorization_ProcessRequest E s
      | H_ReceiveMetaData \<Rightarrow> ReceiveMetaData_ProcessRequest E s
      | H_ReceiveData \<Rightarrow> ReceiveData_ProcessRequest E s
      | H_FileWrite \<Rightarrow> FileProcess_ProcessRequest E (WriteFileProcessor_ProcessFile E) s
      | H_FileReceive \<Rightarrow> FileProcess_ProcessRequest E (ReceiveFileProcessor_ProcessFile E) s
      | H_DbWrite \<Rightarrow> DbWrite_ProcessRequest E s
      | H_DbMetaWrite \<Rightarrow> DbMetaWrite_ProcessRequest E (u_mode u) s
      | H_DbGetMeta \<Rightarrow> DbGetMeta_ProcessRequest E s
      | H_DbStreamInfo \<Rightarrow> DbStreamInfo_ProcessRequest E s
      | H_DbDeleteStream \<Rightarrow> DbDeleteStream_ProcessRequest E s
      | H_DbLastStream \<Rightarrow> DbLastStream_ProcessRequest E s
      | H_DbCheck \<Rightarrow> DbCheck_ProcessRequest E s)"

fun GetStatisticEntity :: "handler \<Rightarrow> StatisticEntity" where
  "GetStatisticEntity H_SecondaryAuthorize = kNetwork"
| "GetStatisticEntity H_InitialAuthorize = kNetwork"
| "GetStatisticEntity H_ReceiveMetaData = kNetwork"
| "GetStatisticEntity H_ReceiveData = kNetwork"
| "GetStatisticEntity H_FileWrite = kDisk"
| "GetStatisticEntity H_FileReceive = kDisk"
| "GetStatisticEntity h = kDatabase"

text \<open>The loop of \<open>Request::Handle\<close> over the handlers, for any virtual \<open>ProcessRequest\<close>.\<close>

fun run_handlers ::
    "('w \<Rightarrow> int) \<Rightarrow> (handler \<Rightarrow> 'w handler_step) \<Rightarrow> handler list \<Rightarrow> ReceiverStatistics \<Rightarrow> 'w receiver_state
      \<Rightarrow> error option \<times> ReceiverStatistics \<times> 'w receiver_state" where
  "run_handlers now process [] st s = (None, st, s)"
| "run_handlers now process (h # hs) st s =
     (let st1 = StartTimer (GetStatisticEntity h) (now (rs_world s)) st in
      case process h s of
        (Some e, s1) \<Rightarrow> (Some e, st1, s1)
      | (None, s1) \<Rightarrow> run_handlers now process hs (StopTimer (now (rs_world s1)) st1) s1)"

definition Handle ::
    "'w receiver_env \<Rightarrow> uninitialised \<Rightarrow> ReceiverStatistics \<Rightarrow> 'w receiver_state
      \<Rightarrow> error option \<times> ReceiverStatistics \<times> 'w receiver_state" where
  "Handle E u st s = run_handlers (clock E) (process_handler E u) (rq_handlers (rs_request s)) st s"

section \<open>The dispatcher\<close>

definition GetNetworkCodeFromError :: "error option \<Rightarrow> u16" where
  "GetNetworkCodeFromError err =
     (if err \<noteq> None then
        (if err_is err (ReceiverErrorTemplates R_kAuthorizationFailure) then kNetAuthorizationError
         else if err_is err (ReceiverErrorTemplates R_kUnsupportedClient) then kNetErrorNotSupported
         else if err_is err (ReceiverErrorTemplates R_kReAuthorizationFailure) then kNetErrorReauthorize
         else if err_is err (ReceiverErrorTemplates R_kBadRequest) then kNetErrorWrongRequest
         else kNetErrorInternalServerError)
      else kNetErrorNoError)"

definition CreateResponseToRequest :: "uninitialised \<Rightarrow> Request \<Rightarrow> error option \<Rightarrow> GenericNetworkResponse" where
  "CreateResponseToRequest u r handle_error =
     (let r0 = \<lparr>resp_op_code = GetOpCode r, error_code = GetNetworkCodeFromError handle_error,
                resp_message = (u_message u)[0 := NUL]\<rparr>;
          r1 = (case handle_error of
                  Some e \<Rightarrow> r0\<lparr>resp_message := strncpy kMaxMessageSize (Explain e)\<rparr>
                | None \<Rightarrow> r0) in
      if rq_response_message r \<noteq> []
      then (if rq_response_message_type r = kWarning then r1\<lparr>error_code := kNetErrorWarning\<rparr> else r1)
             \<lparr>resp_message := strncpy kMaxMessageSize (rq_response_message r)\<rparr>
      else r1)"

definition HandleRequest ::
    "'w receiver_env \<Rightarrow> uninitialised \<Rightarrow> ReceiverStatistics \<Rightarrow> 'w receiver_state
      \<Rightarrow> error option \<times> ReceiverStatistics \<times> 'w receiver_state" where
  "HandleRequest E u st s = Handle E u st s"

definition Dispatcher_SendResponse ::
    "'w receiver_env \<Rightarrow> uninitialised \<Rightarrow> nat \<Rightarrow> error option \<Rightarrow> 'w handler_step" where
  "Dispatcher_SendResponse E u socket_fd handle_error s =
     (let (io_err, s1) = with_world (Send E socket_fd (CreateResponseToRequest u (rs_request s) handle_error)) s in
      case io_err of
        Some e \<Rightarrow> (Some (GenerateWithCause (ReceiverErrorTemplates R_kProcessingError) ''cannot send response'' (Some e)), s1)
      | None \<Rightarrow> (None, s1))"

definition Dispatcher_ProcessRequest ::
    "'w receiver_env \<Rightarrow> uninitialised \<Rightarrow> nat \<Rightarrow> ReceiverStatistics \<Rightarrow> 'w receiver_state
      \<Rightarrow> error option \<times> ReceiverStatistics \<times> 'w receiver_state" where
  "Dispatcher_ProcessRequest E u socket_fd st s =
     (let (handle_err, st1, s1) = HandleRequest E u st s;
          (send_err, s2) = Dispatcher_SendResponse E u socket_fd handle_err s1 in
      (if handle_err = None then send_err else handle_err, st1, s2))"

definition GetNextRequest ::
    "'w receiver_env \<Rightarrow> nat \<Rightarrow> string \<Rightarrow> ReceiverStatistics \<Rightarrow> 'w receiver_state
      \<Rightarrow> error option \<times> ReceiverStatistics \<times> 'w receiver_state" where
  "GetNextRequest E socket_fd producer_uri st s =
     (let st1 = StartTimer kNetwork (clock E (rs_world s)) st;
          ((h, io_err), s1) = with_world (ReceiveHeader E socket_fd) s in
      case io_err of
        Some e \<Rightarrow>
          (Some (GenerateWithCause (ReceiverErrorTemplates R_kProcessingError) ''cannot get next request'' (Some e)), st1, s1)
      | None \<Rightarrow>
          (let st2 = StopTimer (clock E (rs_world s1)) st1 in
           case GenerateRequest (config E) h socket_fd producer_uri of
             (Some e, r) \<Rightarrow> (Some e, st2, s1)
           | (None, None) \<Rightarrow> (None, st2, s1)
           | (None, Some r) \<Rightarrow> (None, st2, s1\<lparr>rs_request := r\<rparr>)))"

section \<open>The connection\<close>

text \<open>Sizes of the two wire structures with the alignment of a 64-bit platform.\<close>

definition sizeof_GenericRequestHeader :: u64 where "sizeof_GenericRequestHeader = 2120"
definition sizeof_GenericNetworkResponse :: u64 where "sizeof_GenericNetworkResponse = 1028"

definition ProcessStatisticsAfterRequest ::
    "'w receiver_env \<Rightarrow> (u64 \<times> u64 \<Rightarrow> string) \<Rightarrow> ReceiverStatistics \<Rightarrow> 'w receiver_state
      \<Rightarrow> ReceiverStatistics \<times> 'w receiver_state" where
  "ProcessStatisticsAfterRequest E fmt st s =
     (let st1 = IncreaseRequestDataVolume (GetDataSize (rs_request s) + sizeof_GenericRequestHeader
                  + sizeof_GenericNetworkResponse) (IncreaseRequestCounter st);
          (st2, w) = SendIfNeeded E fmt False st1 (rs_world s) in
      (st2, s\<lparr>rs_world := w\<rparr>))"

text \<open>One round of the loop; an error leaves the loop.\<close>

definition serve_one ::
    "'w receiver_env \<Rightarrow> uninitialised \<Rightarrow> (u64 \<times> u64 \<Rightarrow> string) \<Rightarrow> nat \<Rightarrow> string \<Rightarrow> ReceiverStatistics \<Rightarrow> 'w receiver_state
      \<Rightarrow> error option \<times> ReceiverStatistics \<times> 'w receiver_state" where
  "serve_one E u fmt socket_fd address st s =
     (case GetNextRequest E socket_fd address st s of
        (Some e, st1, s1) \<Rightarrow> (Some e, st1, s1)
      | (None, st1, s1) \<Rightarrow>
          (case Dispatcher_ProcessRequest E u socket_fd st1 s1 of
             (Some e, st2, s2) \<Rightarrow> (Some e, st2, s2)
           | (None, st2, s2) \<Rightarrow>
               (let (st3, s3) = ProcessStatisticsAfterRequest E fmt st2 s2 in (None, st3, s3))))"

partial_function (option) listen_loop ::
    "'w receiver_env \<Rightarrow> uninitialised \<Rightarrow> (u64 \<times> u64 \<Rightarrow> string) \<Rightarrow> nat \<Rightarrow> string \<Rightarrow> ReceiverStatistics \<Rightarrow> 'w receiver_state
      \<Rightarrow> (ReceiverStatistics \<times> 'w receiver_state) option" where
  "listen_loop E u fmt socket_fd address st s =
     (case serve_one E u fmt socket_fd address st s of
        (err, st1, s1) \<Rightarrow>
          if err \<noteq> None then Some (st1, s1) else listen_loop E u fmt socket_fd address st1 s1)"

definition Connection_Listen ::
    "'w receiver_env \<Rightarrow> uninitialised \<Rightarrow> (u64 \<times> u64 \<Rightarrow> string) \<Rightarrow> nat \<Rightarrow> string \<Rightarrow> ReceiverStatistics \<Rightarrow> 'w receiver_state
      \<Rightarrow> (ReceiverStatistics \<times> 'w receiver_state) option" where
  "Connection_Listen E u fmt socket_fd address st s =
     (case listen_loop E u fmt socket_fd address st s of
        None \<Rightarrow> None
      | Some (st1, s1) \<Rightarrow>
          (let (st2, w) = SendIfNeeded E fmt True st1 (CloseSocket E socket_fd (rs_world s1)) in
           Some (st2, s1\<lparr>rs_world := w\<rparr>)))"

text \<open>The tags and timers of a new connection.\<close>

definition Connection_statistics :: "int \<Rightarrow> string \<Rightarrow> string \<Rightarrow> ReceiverStatistics" where
  "Connection_statistics now address tag =
     AddTag ''receiver_tag'' tag
       (AddTag ''connection_from'' address (ReceiverStatistics_new now kDefaultStatisticWriteIntervalMs))"

section \<open>The contract of the handlers\<close>

text \<open>
  What the loop relies on: a handler keeps the data cache consistent, gives back the locks it
  takes and does not touch the header of the request.
\<close>

locale request_handlers =
  fixes now :: "'w \<Rightarrow> int" and process :: "handler \<Rightarrow> 'w handler_step"
  assumes keeps: "state_inv s \<Longrightarrow> handler_ok s (process h s)"
begin

lemma handlers_ok:
  "state_inv s \<Longrightarrow> run_handlers now process hs st s = (err, st', s') \<Longrightarrow> handler_ok s (err, s')"
proof (induction hs arbitrary: st s)
  case Nil
  then show ?case by (auto simp: handler_ok_def)
next
  case (Cons h hs)
  obtain e s1 where h: "process h s = (e, s1)" by fastforce
  have ok: "handler_ok s (e, s1)" using keeps [OF Cons.prems(1), of h] h by simp
  show ?case
  proof (cases e)
    case None
    then have "handler_ok s1 (err, s')"
      using Cons.prems(2) ok Cons.IH [of s1] by (simp add: h handler_ok_def Let_def)
    then show ?thesis using ok by (simp add: handler_ok_def)
  next
    case (Some x)
    then show ?thesis using Cons.prems(2) ok by (simp add: h handler_ok_def Let_def)
  qed
qed

end

lemma run_handlers_append:
  "run_handlers now process (hs @ gs) st s =
     (case run_handlers now process hs st s of
        (Some e, st1, s1) \<Rightarrow> (Some e, st1, s1)
      | (None, st1, s1) \<Rightarrow> run_handlers now process gs st1 s1)"
proof (induction hs arbitrary: st s)
  case (Cons h hs)
  then show ?case by (cases "process h s" rule: prod.exhaust; cases "fst (process h s)") (auto simp: Let_def)
qed simp

lemma process_handler_ok:
  assumes inv: "state_inv s"
  shows "handler_ok s (process_handler E u h s)"
proof -
  have "handler_ok s (SecondaryAuthorization_ProcessRequest E s)"
    using SecondaryAuthorization_frame [of E s] inv
    by (cases "SecondaryAuthorization_ProcessRequest E s") (auto intro: handler_ok_frame)
  moreover have "handler_ok s (InitialAuthorization_ProcessRequest E s)"
    using InitialAuthorization_frame [of E s] inv
    by (cases "InitialAuthorization_ProcessRequest E s") (auto intro: handler_ok_frame)
  ultimately show ?thesis
    using db_handlers_ok [of s E] DbMetaWrite_ok [of s E "u_mode u"] inv
    by (cases h)
      (simp_all add: process_handler_def ReceiveData_ok ReceiveMetaData_ok wf.file_handler_ok rf.file_handler_ok
        db_step_handler_ok)
qed

interpretation rh: request_handlers "clock E" "process_handler E u" for E u
  by unfold_locales (rule process_handler_ok)

section \<open>The handlers that are chosen\<close>

lemma AddHandler_fields [simp]:
  "rq_handlers (AddHandler h r) = rq_handlers r @ [h]" "rq_header (AddHandler h r) = rq_header r"
  "rq_slot (AddHandler h r) = rq_slot r"
  by (simp_all add: AddHandler_def)

lemma Request_new_fields [simp]:
  "rq_handlers (Request_new h fd uri) = []" "rq_slot (Request_new h fd uri) = None"
  "rq_header (Request_new h fd uri) = copy_header h"
  by (simp_all add: Request_new_def)

lemmas factory_defs = AddHandlersToRequest_def AddReceiveWriteHandlers_def AddReceiveDirectToFileHandler_def
  AddReceiveViaBufferHandlers_def

lemma AddHandlers_frame:
  assumes "AddHandlersToRequest cfg h r0 = (err, r)"
  shows "rq_header r = rq_header r0 \<and> rq_slot r = rq_slot r0"
  using assms by (auto simp: factory_defs Let_def split: if_splits)

lemma GenerateRequest_frame:
  assumes "GenerateRequest cfg h fd uri = (err, Some r)"
  shows "err = None \<and> rq_header r = copy_header h \<and> rq_slot r = None
    \<and> AddHandlersToRequest cfg h (Request_new h fd uri) = (None, r)"
proof -
  obtain e r1 where add: "AddHandlersToRequest cfg h (Request_new h fd uri) = (e, r1)" by fastforce
  then have "e = None \<and> err = None \<and> r1 = r"
    using assms by (cases e) (simp_all add: GenerateRequest_def)
  then show ?thesis using add AddHandlers_frame [OF add] by simp
qed

lemma authorization_first:
  assumes "AddHandlersToRequest cfg h (Request_new h fd uri) = (None, r)" and "op_code h \<noteq> kOpcodeAuthorize"
  shows "\<exists>hs. rq_handlers r = H_SecondaryAuthorize # hs \<and> H_InitialAuthorize \<notin> set hs"
  using assms by (auto simp: factory_defs Let_def split: if_splits)

lemma record_handler_last:
  assumes "AddHandlersToRequest cfg h (Request_new h fd uri) = (None, r)"
    and "op_code h = kOpcodeTransferData \<or> op_code h = kOpcodeTransferDatasetData"
  shows "\<exists>hs. rq_handlers r = hs @ (if NeedDbHandler h then [H_DbWrite] else []) \<and> H_DbWrite \<notin> set hs
     \<and> (ReceiveDirectToFile cfg h \<longrightarrow> H_FileReceive \<in> set hs)
     \<and> (\<not> ReceiveDirectToFile cfg h \<longrightarrow> H_ReceiveData \<in> set hs)
     \<and> (\<not> ReceiveDirectToFile cfg h \<and> NeedFileWriteHandler h \<longrightarrow> H_FileWrite \<in> set hs)"
  using assms by (auto simp: factory_defs Let_def split: if_splits)

section \<open>The loop of a connection\<close>

lemma GetNextRequest_ok:
  assumes "state_inv s" and "GetNextRequest E fd uri st s = (err, st', s')"
  shows "state_inv s' \<and> cache_locks s' = cache_locks s"
proof -
  obtain h io_err w where rcv: "ReceiveHeader E fd (rs_world s) = ((h, io_err), w)" by (metis prod.collapse)
  obtain e r where gen: "GenerateRequest (config E) h fd uri = (e, r)" by fastforce
  have "rs_cache s' = rs_cache s \<and> (rq_slot (rs_request s') = rq_slot (rs_request s) \<or> rq_slot (rs_request s') = None)"
    using assms(2) GenerateRequest_frame [of "config E" h fd uri e]
    by (auto simp: GetNextRequest_def rcv gen with_world_def Let_def split: option.splits)
  then show ?thesis
    using assms(1) by (auto simp: state_inv_def cache_locks_def fun_eq_iff split: option.splits)
qed

lemma Dispatcher_ProcessRequest_ok:
  assumes "state_inv s" and "Dispatcher_ProcessRequest E u fd st s = (err, st', s')"
  shows "state_inv s' \<and> cache_locks s' = cache_locks s"
proof -
  obtain e st1 s1 where h: "Handle E u st s = (e, st1, s1)" by (metis prod_cases3)
  have "handler_ok s (e, s1)"
    using rh.handlers_ok [OF assms(1)] h by (simp add: Handle_def)
  moreover have "rs_cache s' = rs_cache s1 \<and> rs_request s' = rs_request s1"
    using assms(2)
    by (auto simp: Dispatcher_ProcessRequest_def HandleRequest_def h Dispatcher_SendResponse_def with_world_def Let_def
        split: prod.splits option.splits)
  ultimately show ?thesis
    by (auto simp: handler_ok_def state_inv_def cache_locks_def fun_eq_iff split: option.splits)
qed

lemma serve_one_ok:
  assumes inv: "state_inv s" and run: "serve_one E u fmt fd uri st s = (err, st', s')"
  shows "state_inv s' \<and> cache_locks s' = cache_locks s"
proof -
  obtain e1 st1 s1 where next_eq: "GetNextRequest E fd uri st s = (e1, st1, s1)" by (metis prod_cases3)
  obtain e2 st2 s2 where proc: "Dispatcher_ProcessRequest E u fd st1 s1 = (e2, st2, s2)" by (metis prod_cases3)
  note n = GetNextRequest_ok [OF inv next_eq]
  note p = Dispatcher_ProcessRequest_ok [OF conjunct1 [OF n] proc]
  have "rs_cache s' = rs_cache s2 \<and> rs_request s' = rs_request s2 \<or> s' = s1"
    using run
    by (auto simp: serve_one_def next_eq proc ProcessStatisticsAfterRequest_def Let_def
        split: option.splits prod.splits)
  then show ?thesis
    using n p by (auto simp: state_inv_def cache_locks_def fun_eq_iff split: option.splits)
qed

text \<open>At most \<open>n\<close> rounds.\<close>

fun serve ::
    "nat \<Rightarrow> 'w receiver_env \<Rightarrow> uninitialised \<Rightarrow> (u64 \<times> u64 \<Rightarrow> string) \<Rightarrow> nat \<Rightarrow> string \<Rightarrow> ReceiverStatistics
      \<Rightarrow> 'w receiver_state \<Rightarrow> error option \<times> ReceiverStatistics \<times> 'w receiver_state" where
  "serve 0 E u fmt fd uri st s = (None, st, s)"
| "serve (Suc n) E u fmt fd uri st s =
     (case serve_one E u fmt fd uri st s of
        (Some e, st1, s1) \<Rightarrow> (Some e, st1, s1)
      | (None, st1, s1) \<Rightarrow> serve n E u fmt fd uri st1 s1)"

lemma listen_loop_serve:
  "serve n E u fmt fd uri st s = (Some e, st', s') \<Longrightarrow> listen_loop E u fmt fd uri st s = Some (st', s')"
proof (induction n arbitrary: st s)
  case (Suc n)
  obtain e1 st1 s1 where one: "serve_one E u fmt fd uri st s = (e1, st1, s1)" by (metis prod_cases3)
  show ?case
    using Suc one by (cases e1) (simp_all add: listen_loop.simps [of E u fmt fd uri st s])
qed simp

lemma listen_loop_rounds:
  "listen_loop E u fmt fd uri st s = Some r \<Longrightarrow> \<exists>n e. serve n E u fmt fd uri st s = (Some e, r)"
proof (erule listen_loop.raw_induct [where P = "\<lambda>E u fmt fd uri st s r. \<exists>n e. serve n E u fmt fd uri st s = (Some e, r)", rotated])
  fix listen :: "'a receiver_env \<Rightarrow> uninitialised \<Rightarrow> (u64 \<times> u64 \<Rightarrow> string) \<Rightarrow> nat \<Rightarrow> string \<Rightarrow> ReceiverStatistics
      \<Rightarrow> 'a receiver_state \<Rightarrow> (ReceiverStatistics \<times> 'a receiver_state) option"
  fix E :: "'a receiver_env" and u fmt fd uri st s r
  assume IH: "\<And>E u fmt fd uri st s r. listen E u fmt fd uri st s = Some r \<Longrightarrow> \<exists>n e. serve n E u fmt fd uri st s = (Some e, r)"
    and step: "(case serve_one E u fmt fd uri st s of (err, st1, s1) \<Rightarrow>
      if err \<noteq> None then Some (st1, s1) else listen E u fmt fd uri st1 s1) = Some r"
  obtain e1 st1 s1 where one: "serve_one E u fmt fd uri st s = (e1, st1, s1)" by (metis prod_cases3)
  show "\<exists>n e. serve n E u fmt fd uri st s = (Some e, r)"
  proof (cases e1)
    case None
    then obtain n e where "serve n E u fmt fd uri st1 s1 = (Some e, r)"
      using IH [of E u fmt fd uri st1 s1 r] step one by auto
    then have "serve (Suc n) E u fmt fd uri st s = (Some e, r)" using None one by simp
    then show ?thesis by blast
  next
    case (Some e)
    then have "serve 1 E u fmt fd uri st s = (Some e, r)" using step one by simp
    then show ?thesis by blast
  qed
qed

section \<open>A concrete request\<close>

definition demo_header :: GenericRequestHeader where
  "demo_header = (GenericRequestHeader_new [13, 0, 0] kOpcodeTransferData 1 10 0 ''processed/a'' ''s'')
     \<lparr>api_version := strncpy kMaxVersionSize ''v0.6''\<rparr>"

definition demo_generated :: Request where
  "demo_generated = AddHandler H_DbWrite (AddHandler H_FileWrite (AddHandler H_ReceiveData
     (AddHandler H_ReceiveMetaData (AddHandler H_SecondaryAuthorize (Request_new demo_header 3 ''host:5'')))))"

definition demo_uninitialised :: uninitialised where
  "demo_uninitialised = \<lparr>u_mode = \<lparr>mi_op = MI_kReplace, upsert = True\<rparr>, u_message = replicate 1024 (CHR ''x'')\<rparr>"

lemma demo_header_facts:
  "op_code demo_header = kOpcodeTransferData" "NeedDbHandler demo_header" "NeedFileWriteHandler demo_header"
  "\<not> ReceiveDirectToFile demo_config demo_header"
  by (simp_all add: demo_header_def GenericRequestHeader_new_def NeedDbHandler_def NeedFileWriteHandler_def
      ReceiveDirectToFile_def custom_param_def has_flag_def ingest_flags demo_config_def)

lemma demo_generated_eq: "GenerateRequest demo_config demo_header 3 ''host:5'' = (None, Some demo_generated)"
  using demo_header_facts by (simp add: GenerateRequest_def factory_defs demo_generated_def Let_def)

lemma demo_config_eq [simp]: "config demo_env = demo_config"
  by (simp add: demo_env_def)

section \<open>Properties\<close>

text \<open>
  C2. No request other than an authorization request gets past a failed authorization.  The
  factory puts the authorization handler first, so when it fails, handling the request has no
  other effect than the attempt to authorize: no data is received, no file and no record is
  written.  A request that was handled without an error did pass the authorization.
\<close>
theorem only_authorized_requests_are_handled:
  assumes "GenerateRequest (config E) h fd uri = (None, Some r)" and "op_code h \<noteq> kOpcodeAuthorize"
    and "SecondaryAuthorization_ProcessRequest E (s\<lparr>rs_request := r\<rparr>) = (auth_err, s1)"
    and "Handle E u st (s\<lparr>rs_request := r\<rparr>) = (err, st', s')"
  shows "(auth_err \<noteq> None \<longrightarrow> err = auth_err \<and> s' = s1) \<and> (err = None \<longrightarrow> auth_err = None)"
proof -
  obtain hs where "rq_handlers r = H_SecondaryAuthorize # hs"
    using GenerateRequest_frame [OF assms(1)] authorization_first [of "config E" h fd uri r] assms(2) by blast
  then show ?thesis
    using assms(3,4) by (cases auth_err) (simp_all add: Handle_def process_handler_def Let_def)
qed

theorem only_authorized_requests_are_handled_witness:
  "\<exists>e. fst (Handle demo_env demo_uninitialised (ReceiverStatistics_new 0 0) (demo_state\<lparr>rs_request := demo_generated,
     rs_auth := demo_auth\<lparr>a_source_credentials := []\<rparr>\<rparr>)) = Some e"
proof -
  let ?t = "demo_state\<lparr>rs_auth := demo_auth\<lparr>a_source_credentials := []\<rparr>, rs_request := demo_generated\<rparr>"
  have "CheckRequest demo_env ?t \<noteq> None"
    by (simp add: CheckRequest_def demo_state_def Let_def split: option.splits)
  then obtain e s1 where auth: "SecondaryAuthorization_ProcessRequest demo_env ?t = (Some e, s1)"
    by (auto simp: SecondaryAuthorization_ProcessRequest_def)
  obtain err st' s' where h: "Handle demo_env demo_uninitialised (ReceiverStatistics_new 0 0) ?t = (err, st', s')"
    by (metis prod_cases3)
  have gen: "GenerateRequest (config demo_env) demo_header 3 ''host:5'' = (None, Some demo_generated)"
    and op: "op_code demo_header \<noteq> kOpcodeAuthorize"
    using demo_generated_eq by (simp_all add: demo_header_facts)
  show ?thesis
    using only_authorized_requests_are_handled [OF gen op auth h] h by (simp add: demo_state_def)
qed

text \<open>
  C18. The record of a message is written last.  When one of the handlers before it fails, in
  particular the one that stores the data in a file, the database is not asked to insert anything
  for this message; and large messages go directly to a file, all others through the buffer.
\<close>
theorem data_stored_before_record:
  assumes "GenerateRequest (config E) h fd uri = (None, Some r)"
    and "op_code h = kOpcodeTransferData \<or> op_code h = kOpcodeTransferDatasetData" and "NeedDbHandler h"
  shows "\<exists>hs. rq_handlers r = hs @ [H_DbWrite] \<and> H_DbWrite \<notin> set hs
    \<and> (if ReceiveDirectToFile (config E) h then H_FileReceive \<in> set hs
       else H_ReceiveData \<in> set hs \<and> (NeedFileWriteHandler h \<longrightarrow> H_FileWrite \<in> set hs))
    \<and> Handle E u st (s\<lparr>rs_request := r\<rparr>) =
        (case run_handlers (clock E) (process_handler E u) hs st (s\<lparr>rs_request := r\<rparr>) of
           (Some e, st1, s1) \<Rightarrow> (Some e, st1, s1)
         | (None, st1, s1) \<Rightarrow> run_handlers (clock E) (process_handler E u) [H_DbWrite] st1 s1)"
proof -
  obtain hs where "rq_handlers r = hs @ [H_DbWrite]" "H_DbWrite \<notin> set hs"
    "ReceiveDirectToFile (config E) h \<longrightarrow> H_FileReceive \<in> set hs"
    "\<not> ReceiveDirectToFile (config E) h \<longrightarrow> H_ReceiveData \<in> set hs"
    "\<not> ReceiveDirectToFile (config E) h \<and> NeedFileWriteHandler h \<longrightarrow> H_FileWrite \<in> set hs"
    using record_handler_last [of "config E" h fd uri r] GenerateRequest_frame [OF assms(1)] assms(2,3) by auto
  then show ?thesis
    by (intro exI [of _ hs]) (simp add: Handle_def run_handlers_append)
qed

theorem data_stored_before_record_witness:
  "\<exists>hs. rq_handlers demo_generated = hs @ [H_DbWrite] \<and> H_FileWrite \<in> set hs"
  using data_stored_before_record [of demo_env demo_header 3 "''host:5''" demo_generated demo_uninitialised
      "ReceiverStatistics_new 0 0" demo_state] demo_generated_eq demo_header_facts
  by auto

text \<open>
  C5. A connection keeps the data cache consistent and leaves no slot locked: after any number
  of requests, whatever the producer sends, every slot has as many locks as before.
\<close>
theorem connection_leaves_no_locks:
  assumes "state_inv s" and "serve n E u fmt fd uri st s = (err, st', s')"
  shows "state_inv s' \<and> cache_locks s' = cache_locks s"
  using assms
proof (induction n arbitrary: st s)
  case (Suc n)
  obtain e1 st1 s1 where one: "serve_one E u fmt fd uri st s = (e1, st1, s1)" by (metis prod_cases3)
  note ok = serve_one_ok [OF Suc.prems(1) one]
  show ?case
    using Suc.prems(2) Suc.IH [of s1 st1] one ok by (cases e1) auto
qed simp

theorem connection_leaves_no_locks_witness:
  "state_inv (snd (snd (serve 3 demo_env demo_uninitialised (\<lambda>q. []) 3 ''host:5'' (ReceiverStatistics_new 0 10000) demo_state)))"
proof -
  let ?r = "serve 3 demo_env demo_uninitialised (\<lambda>q. []) 3 ''host:5'' (ReceiverStatistics_new 0 10000) demo_state"
  have "state_inv demo_state" by (simp add: state_inv_def demo_state_def demo_cache_def cache_inv_new)
  from connection_leaves_no_locks [OF this, of 3 demo_env demo_uninitialised "\<lambda>q. []" 3 "''host:5''"
      "ReceiverStatistics_new 0 10000" "fst ?r" "fst (snd ?r)" "snd (snd ?r)"]
  show ?thesis by simp
qed


text \<open>
  What a producer learns from the error code of a response.  A request that failed is never
  answered as a success, and one that succeeded is answered as a success or with a warning.  The
  four kinds of receiver errors that have a code of their own get it, all other receiver errors
  are internal errors.  But an error of the file system that a file processor passes on is taken
  for one of them when its number is the same: a full disk is an internal error, a bad file
  number a wrong request, and a temporarily unavailable resource a failed authorization.
\<close>
theorem response_codes:
  "error_code (CreateResponseToRequest u r (Some e)) \<noteq> kNetErrorNoError
   \<and> error_code (CreateResponseToRequest u r None) \<in> {kNetErrorNoError, kNetErrorWarning}
   \<and> GetNetworkCodeFromError (Some (rcv_err t m)) =
       (case t of R_kAuthorizationFailure \<Rightarrow> kNetAuthorizationError | R_kUnsupportedClient \<Rightarrow> kNetErrorNotSupported
        | R_kReAuthorizationFailure \<Rightarrow> kNetErrorReauthorize | R_kBadRequest \<Rightarrow> kNetErrorWrongRequest
        | _ \<Rightarrow> kNetErrorInternalServerError)
   \<and> GetNetworkCodeFromError (Some (io_err IO_kNoSpaceLeft m)) = kNetErrorInternalServerError
   \<and> GetNetworkCodeFromError (Some (io_err IO_kBadFileNumber m)) = kNetErrorWrongRequest
   \<and> GetNetworkCodeFromError (Some (io_err IO_kResourceTemporarilyUnavailable m)) = kNetAuthorizationError"
proof -
  have nonzero: "(if a then 6 else if b then 4 else if c then 1 else if d then 3 else 65535) \<noteq> (0 :: u16)" for a b c d
    by simp
  have "GetNetworkCodeFromError (Some e) \<noteq> 0"
    unfolding GetNetworkCodeFromError_def
    by (simp only: option.distinct not_False_eq_True if_True nonzero)
  then have "error_code (CreateResponseToRequest u r (Some e)) \<noteq> kNetErrorNoError"
    by (simp add: CreateResponseToRequest_def Let_def)
  moreover have "error_code (CreateResponseToRequest u r None) \<in> {kNetErrorNoError, kNetErrorWarning}"
    by (simp add: CreateResponseToRequest_def GetNetworkCodeFromError_def Let_def)
  moreover have "GetNetworkCodeFromError (Some (rcv_err t m)) =
       (case t of R_kAuthorizationFailure \<Rightarrow> kNetAuthorizationError | R_kUnsupportedClient \<Rightarrow> kNetErrorNotSupported
        | R_kReAuthorizationFailure \<Rightarrow> kNetErrorReauthorize | R_kBadRequest \<Rightarrow> kNetErrorWrongRequest
        | _ \<Rightarrow> kNetErrorInternalServerError)"
    by (cases t) (simp_all add: GetNetworkCodeFromError_def)
  ultimately show ?thesis by (simp add: GetNetworkCodeFromError_def)
qed

text \<open>
  A failed overwrite is answered as a warning.  When the file exists, no record of the
  message is found and writing the file again fails, the handler fails, but the response carries
  the warning code and the text that the file has been overwritten.
\<close>
theorem failed_overwrite_answered_as_warning:
  assumes "processor = WriteFileProcessor_ProcessFile E \<or> processor = ReceiveFileProcessor_ProcessFile E"
    and "processor False s = (Some (io_err IO_kFileAlreadyExists msg), s1)"
    and "CheckForDuplicates E s1 = (None, s2)"
    and "processor True (upd_request (SetResponseMessage ''file has been overwritten'' kWarning) s2) = (Some e, s3)"
  shows "FileProcess_ProcessRequest E processor s = (Some e, s3)
    \<and> error_code (CreateResponseToRequest u (rs_request s3) (Some e)) = kNetErrorWarning
    \<and> resp_message (CreateResponseToRequest u (rs_request s3) (Some e)) = strncpy kMaxMessageSize ''file has been overwritten''"
proof -
  have "rs_request s3 = SetResponseMessage ''file has been overwritten'' kWarning (rs_request s2)"
    using assms(1,4) wf.processor_frame(4) rf.processor_frame(4) by (fastforce simp: upd_request_def)
  then show ?thesis
    by (simp add: FileProcess_ProcessRequest_def ProcessFileExistSituation_def assms(2-4) CreateResponseToRequest_def
        SetResponseMessage_def Let_def)
qed

definition demo_full_disk :: "unit receiver_env" where
  "demo_full_disk = demo_env
     \<lparr>WriteDataToFile := (\<lambda>root f bytes n dirs over w.
        (Some (if over then io_err IO_kNoSpaceLeft [] else io_err IO_kFileAlreadyExists []), w))\<rparr>"

theorem failed_overwrite_answered_as_warning_witness:
  "\<exists>s3. FileProcess_ProcessRequest demo_full_disk (WriteFileProcessor_ProcessFile demo_full_disk) connected_state
       = (Some (io_err IO_kNoSpaceLeft []), s3)
     \<and> error_code (CreateResponseToRequest demo_uninitialised (rs_request s3) (Some (io_err IO_kNoSpaceLeft []))) = kNetErrorWarning"
proof -
  let ?E = demo_full_disk and ?P = "WriteFileProcessor_ProcessFile demo_full_disk"
  let ?s2 = "upd_request (SetResponseMessage ''file has been overwritten'' kWarning) connected_state"
  have r: "rs_request connected_state = demo_receiver_request" by (simp add: connected_state_def demo_state_def)
  have names: "GetDataSize (rs_request ?s2) = 10" "GetFileName (rs_request ?s2) = ''processed/a''"
    "rq_source_type (rs_request ?s2) = kProcessed"
    using demo_request_facts demo_file_name
    by (simp_all add: upd_request_def SetResponseMessage_def r GetDataSize_def GetFileName_def)
  then have "GetRootFolder (rs_request ?s2) = (None, rq_offline_path (rs_request ?s2))"
    by (simp add: GetRootFolder_def CheckFileNameIsAbsolute_def CheckFileFolderCorrespondsToRequestSourceType_def
      GetRootFolderFromRequest_def GetStringFromSourceType_def Let_def)
  then have two: "?P True ?s2 = (Some (io_err IO_kNoSpaceLeft []), ?s2)"
    by (simp add: WriteFileProcessor_ProcessFile_def names with_world_def demo_full_disk_def Let_def)
  have one: "?P False connected_state = (Some (io_err IO_kFileAlreadyExists []), connected_state)"
    by (simp add: WriteFileProcessor_ProcessFile_def r demo_request_facts demo_root_folder with_world_def
        demo_full_disk_def Let_def)
  have "connected_to_db (rs_db connected_state h)" "db_name (rs_db connected_state h) \<noteq> []" for h
    by (simp_all add: connected_state_def)
  then have check: "CheckForDuplicates ?E connected_state = (None, connected_state)"
    by (simp add: CheckForDuplicates_def DbCheck_ProcessRequest_def connected_handler GetRecordFromDb_def
        with_world_def demo_full_disk_def demo_env_def DBErrorToReceiverError_def Let_def)
  show ?thesis
    using failed_overwrite_answered_as_warning [of ?P ?E connected_state "[]" connected_state connected_state
        "io_err IO_kNoSpaceLeft []" ?s2 demo_uninitialised] one check two by blast
qed

text \<open>
  A request that the factory refuses gets no response at all: for an unknown operation, or a
  large message whose ingest mode does not include the file system, the round ends right after
  the header was read, and the connection is closed.
\<close>
theorem refused_request_gets_no_response:
  assumes "ReceiveHeader E fd (rs_world s) = ((h, None), w)"
    and "op_code h \<in> {kOpcodeUnknownOp, kOpcodeGetBufferData} \<or>
         (op_code h = kOpcodeTransferData \<and> ReceiveDirectToFile (config E) h \<and> \<not> NeedFileWriteHandler h)"
  shows "\<exists>e st'. serve_one E u fmt fd uri st s = (Some e, st', s\<lparr>rs_world := w\<rparr>)
    \<and> (op_code h = kOpcodeTransferData \<longrightarrow> err_is (Some e) (ReceiverErrorTemplates R_kBadRequest))"
  using assms
  by (auto simp: serve_one_def GetNextRequest_def with_world_def GenerateRequest_def factory_defs
      NeedFileWriteHandler_def Let_def)

theorem refused_request_gets_no_response_witness:
  "\<exists>e st'. serve_one (demo_env\<lparr>ReceiveHeader := (\<lambda>fd w. ((demo_header\<lparr>op_code := kOpcodeUnknownOp\<rparr>, None), w))\<rparr>)
     demo_uninitialised (\<lambda>q. []) 3 ''host:5'' (ReceiverStatistics_new 0 0) demo_state = (Some e, st', demo_state\<lparr>rs_world := ()\<rparr>)"
  using refused_request_gets_no_response [of
      "demo_env\<lparr>ReceiveHeader := (\<lambda>fd w. ((demo_header\<lparr>op_code := kOpcodeUnknownOp\<rparr>, None), w))\<rparr>" 3 demo_state
      "demo_header\<lparr>op_code := kOpcodeUnknownOp\<rparr>" "()" demo_uninitialised "\<lambda>q. []" "''host:5''" "ReceiverStatistics_new 0 0"]
  by auto

end
