(* ===== verification/Message_Transfer.thy ===== *)
theory Message_Transfer
  imports Producer_Client Receiver_Dispatch
begin

text \<open>
  A producer and a receiver on the two ends of a connection.  The connection is a sequence of
  headers and bytes.  The theory shows that the receiver takes from it exactly what the producer
  puts there for one request, so that the next header is read where the next header begins.
\<close>

section \<open>The connection\<close>

datatype wire_item = WHeader GenericRequestHeader | WByte char

abbreviation wire_bytes :: "string \<Rightarrow> wire_item list" where
  "wire_bytes bs \<equiv> map WByte bs"

fun take_bytes :: "nat \<Rightarrow> wire_item list \<Rightarrow> (string \<times> wire_item list) option" where
  "take_bytes 0 q = Some ([], q)"
| "take_bytes (Suc n) (WByte c # q) = map_option (\<lambda>(bs, r). (c # bs, r)) (take_bytes n q)"
| "take_bytes (Suc n) q = None"

lemma take_bytes_Some: "take_bytes n q = Some (bs, r) \<longleftrightarrow> q = wire_bytes bs @ r \<and> length bs = n"
proof (induction n q arbitrary: bs r rule: take_bytes.induct)
  case (2 n c q)
  then show ?case by (cases bs) auto
qed (auto simp: length_Suc_conv)

text \<open>A message as it goes over the connection.\<close>

definition wire_message :: "GenericRequestHeader \<Rightarrow> string \<Rightarrow> string \<Rightarrow> wire_item list" where
  "wire_message h md d = WHeader h # wire_bytes md @ wire_bytes d"

lemma wire_split:
  assumes "wire_bytes xs @ q = wire_bytes bs @ r" and "length bs = length xs"
  shows "bs = xs \<and> r = q"
proof -
  have "map WByte bs = map WByte xs" "r = q" using assms append_eq_append_conv [of "wire_bytes xs" "wire_bytes bs" q r] by auto
  moreover have "inj WByte" by (simp add: inj_def)
  ultimately show ?thesis by simp
qed

text \<open>
  What follows the header of a request, by the kind of request: the producer's part of the
  protocol.
\<close>

definition carries :: "GenericRequestHeader \<Rightarrow> string \<Rightarrow> string \<Rightarrow> bool" where
  "carries h md d \<longleftrightarrow> length md = unat (meta_size h)
     \<and> (if op_code h = kOpcodeTransferData \<or> op_code h = kOpcodeTransferDatasetData
        then CheckIngestMode (custom_param kPosIngestMode h) = None
             \<and> length d = (if has_flag (custom_param kPosIngestMode h) kTransferData then unat (data_size h) else 0)
        else if op_code h = kOpcodeTransferMetaData
        then md = [] \<and> has_flag (custom_param kPosIngestMode h) kTransferData \<and> length d = unat (data_size h)
        else if op_code h = kOpcodeAuthorize then d = []
        else md = [] \<and> d = [])"

definition reading_handlers :: "handler set" where
  "reading_handlers = {H_ReceiveMetaData, H_ReceiveData, H_FileReceive}"

lemma run_handlers_Cons:
  assumes "run_handlers now process (h # hs) st s = (None, st', s')"
  shows "\<exists>st1 s1. process h s = (None, s1) \<and> run_handlers now process hs st1 s1 = (None, st', s')"
  using assms by (auto simp: Let_def split: prod.splits option.splits)

text \<open>The handlers of a request and when they read.\<close>

lemma chosen_handlers:
  assumes "AddHandlersToRequest cfg h (Request_new h fd uri) = (None, r)"
  shows "rq_metadata r = [] \<and> rq_header r = copy_header h
    \<and> (\<exists>tail. set tail \<inter> reading_handlers = {} \<and>
        rq_handlers r =
          (if op_code h = kOpcodeTransferData \<or> op_code h = kOpcodeTransferDatasetData
           then H_SecondaryAuthorize # H_ReceiveMetaData
                # (if ReceiveDirectToFile cfg h then H_FileReceive else H_ReceiveData) # tail
           else if op_code h = kOpcodeTransferMetaData then H_SecondaryAuthorize # H_ReceiveData # tail
           else if op_code h = kOpcodeAuthorize then H_ReceiveMetaData # tail
           else tail))
    \<and> (ReceiveDirectToFile cfg h \<and> (op_code h = kOpcodeTransferData \<or> op_code h = kOpcodeTransferDatasetData)
        \<longrightarrow> has_flag (custom_param kPosIngestMode h) kStoreInFilesystem)"
  using assms
  by (simp add: factory_defs reading_handlers_def Request_new_def AddHandler_def Let_def split: if_splits; (elim disjE)?; clarsimp)

lemma copy_header_fields [simp]:
  "op_code (copy_header h) = op_code h" "data_id (copy_header h) = data_id h" "data_size (copy_header h) = data_size h"
  "meta_size (copy_header h) = meta_size h" "i < kNCustomParams \<Longrightarrow> custom_param i (copy_header h) = custom_param i h"
  by (simp_all add: copy_header_def custom_param_def)

lemma stored_file_has_data:
  "CheckIngestMode mode = None \<Longrightarrow> has_flag mode kStoreInFilesystem \<Longrightarrow> has_flag mode kTransferData"
  by (auto simp: CheckIngestMode_def wrong_input_def split: if_splits)

section \<open>Steps that do not read\<close>

text \<open>Nothing was read and the request is still about the same message.\<close>

definition quiet :: "('w \<Rightarrow> wire_item list) \<Rightarrow> 'w receiver_state \<Rightarrow> 'w receiver_state \<Rightarrow> bool" where
  "quiet inc s s' \<longleftrightarrow> inc (rs_world s') = inc (rs_world s) \<and> rq_header (rs_request s') = rq_header (rs_request s)
     \<and> rq_metadata (rs_request s') = rq_metadata (rs_request s) \<and> rq_data (rs_request s') = rq_data (rs_request s)
     \<and> rq_socket (rs_request s') = rq_socket (rs_request s)"

lemma quiet_refl [simp]: "quiet inc s s"
  by (simp add: quiet_def)

lemma quiet_trans: "quiet inc s t \<Longrightarrow> quiet inc t u \<Longrightarrow> quiet inc s u"
  by (simp add: quiet_def)

lemma quiet_updates [simp]:
  "quiet inc s (t\<lparr>rs_auth := a\<rparr>) \<longleftrightarrow> quiet inc s t" "quiet inc s (upd_db k f t) \<longleftrightarrow> quiet inc s t"
  "quiet inc s (upd_request (SetResponseMessage m ty) t) \<longleftrightarrow> quiet inc s t"
  "quiet inc s (upd_request (SetResponseMessage m ty \<circ> SetAlreadyProcessedFlag) t) \<longleftrightarrow> quiet inc s t"
  "quiet inc s (upd_request (SetRequestFields a) t) \<longleftrightarrow> quiet inc s t" "quiet inc s (InvalidateAuthCache t) \<longleftrightarrow> quiet inc s t"
  by (simp_all add: quiet_def upd_db_def upd_request_def SetResponseMessage_def SetRequestFields_def
      SetAlreadyProcessedFlag_def InvalidateAuthCache_def)

text \<open>What is left when a request has been handled.\<close>

definition consumed ::
    "('w \<Rightarrow> wire_item list) \<Rightarrow> ReceiverConfig \<Rightarrow> GenericRequestHeader \<Rightarrow> string \<Rightarrow> string \<Rightarrow> wire_item list \<Rightarrow> 'w receiver_state \<Rightarrow> bool" where
  "consumed inc cfg h md d rest s \<longleftrightarrow> rq_header (rs_request s) = copy_header h \<and> rq_metadata (rs_request s) = md
     \<and> (inc (rs_world s) = rest \<or> ReceiveDirectToFile cfg h \<and> inc (rs_world s) = wire_bytes d @ rest)"

lemma consumed_quiet: "consumed inc cfg h md d rest s \<Longrightarrow> quiet inc s t \<Longrightarrow> consumed inc cfg h md d rest t"
  by (simp add: consumed_def quiet_def)

section \<open>The interface of the receiving end\<close>

text \<open>
  What the receiver relies on: a successful read returns the next bytes and removes them, a file
  that cannot be opened because it exists takes nothing from the connection, and no other
  operation reads from it.
\<close>

locale byte_stream =
  fixes E :: "'w receiver_env" and inc :: "'w \<Rightarrow> wire_item list"
  assumes receive: "Receive E fd n w = ((bs, None), w') \<Longrightarrow> inc w = wire_bytes bs @ inc w' \<and> length bs = unat n"
    and receive_header: "ReceiveHeader E fd w = ((h, None), w') \<Longrightarrow> inc w = WHeader h # inc w'"
    and receive_file: "ReceiveDataToFile E fd root f n dirs over w = (None, w') \<Longrightarrow>
      \<exists>bs. inc w = wire_bytes bs @ inc w' \<and> length bs = unat n"
    and receive_file_exists: "ReceiveDataToFile E fd root f n dirs over w = (err, w') \<Longrightarrow>
      err_is err (IOErrorTemplates IO_kFileAlreadyExists) \<Longrightarrow> inc w' = inc w"
    and quiet_io: "inc (snd (WriteDataToFile E root f bs n dirs over w)) = inc w"
      "inc (snd (Receiver_Request.Send E fd resp w)) = inc w"
    and quiet_http: "inc (snd (http_Post E uri cookie body w)) = inc w" "inc (snd (http_Get E uri w)) = inc w"
    and quiet_db: "inc (snd (db_Connect E k uri nm w)) = inc w" "inc (snd (db_Insert E k c m ig w)) = inc w"
      "inc (snd (db_InsertAsDatasetMessage E k c m n ig w)) = inc w"
      "inc (snd (db_InsertMeta E k c i bs n mode w)) = inc w" "inc (snd (db_GetById E k c n w)) = inc w"
      "inc (snd (db_GetDataSetById E k c n n' w)) = inc w" "inc (snd (db_GetStreamInfo E k c w)) = inc w"
      "inc (snd (db_GetLastStream E k w)) = inc w" "inc (snd (db_DeleteStream E k c w)) = inc w"
      "inc (snd (db_GetMetaFromDb E k c i w)) = inc w"
begin

lemma quiet_with_world:
  assumes "with_world f s = (x, s')" and "\<And>w. inc (snd (f w)) = inc w"
  shows "quiet inc s s'"
  using assms(1) assms(2) [of "rs_world s"]
  by (auto simp: with_world_def quiet_def Let_def split: prod.splits)

lemma quiet_uri: "inc (snd (GetDatabaseServerUri E w)) = inc w"
  using quiet_http(2) [of "discovery_server (config E) @ ''/asapo-mongodb''" w]
  by (auto simp: GetDatabaseServerUri_def Let_def split: prod.splits option.splits)

lemma quiet_server_request: "inc (snd (DoServerRequest E body w)) = inc w"
  using quiet_http(1) [of "authorization_server (config E) @ ''/authorize''" "[]" body w]
  by (auto simp: DoServerRequest_def Let_def split: prod.splits)

lemma quiet_connect:
  assumes "ConnectToDbIfNeeded E k s = (err, s')"
  shows "quiet inc s s'"
proof (cases "connected_to_db (rs_db s k)")
  case True
  then show ?thesis using assms by (simp add: ConnectToDbIfNeeded_def)
next
  case False
  obtain e uri s1 where u: "with_world (GetDatabaseServerUri E) s = ((e, uri), s1)" by (metis prod.collapse)
  have q1: "quiet inc s s1" using quiet_with_world [OF u quiet_uri] .
  obtain e2 s2 where c: "with_world (db_Connect E k uri (db_name (rs_db s1 k))) s1 = (e2, s2)" by fastforce
  have q2: "quiet inc s1 s2" using quiet_with_world [OF c quiet_db(1)] .
  show ?thesis
    using assms False q1 quiet_trans [OF q1 q2]
    by (cases e; cases e2) (auto simp: ConnectToDbIfNeeded_def u c)
qed

lemma quiet_handler_db:
  assumes "RequestHandlerDb_ProcessRequest E k s = (err, s')"
  shows "quiet inc s s'"
proof -
  let ?s1 = "if db_name (rs_db s k) = [] then upd_db k (\<lambda>d. d\<lparr>db_name := rq_beamtime_id (rs_request s) @ ''_''
      @ rq_data_source (rs_request s)\<rparr>) s else s"
  have "quiet inc s ?s1" by simp
  moreover have "ConnectToDbIfNeeded E k ?s1 = (err, s')"
    using assms by (simp only: RequestHandlerDb_ProcessRequest_def Let_def)
  ultimately show ?thesis using quiet_connect quiet_trans by blast
qed

lemma quiet_db_step:
  assumes "(case RequestHandlerDb_ProcessRequest E k s of (Some e, s1) \<Rightarrow> (Some e, s1) | (None, s1) \<Rightarrow> f s1) = (err, s')"
    and "\<And>s1 e s2. f s1 = (e, s2) \<Longrightarrow> quiet inc s1 s2"
  shows "quiet inc s s'"
proof -
  obtain e s1 where r: "RequestHandlerDb_ProcessRequest E k s = (e, s1)" by fastforce
  then have "quiet inc s s1" by (rule quiet_handler_db)
  then show ?thesis using assms(1) assms(2) [of s1] quiet_trans by (cases e) (auto simp: r)
qed

lemma quiet_check:
  assumes "DbCheck_ProcessRequest E s = (err, s')"
  shows "quiet inc s s'"
proof (rule quiet_db_step [OF assms [unfolded DbCheck_ProcessRequest_def]])
  fix s1 e s2
  assume step: "(let ((err, record), s2) = GetRecordFromDb E s1 in
      case err of Some e \<Rightarrow> (DBErrorToReceiverError (if err_is err (DBErrorTemplates DB_kNoRecord) then None else Some e), s2)
      | None \<Rightarrow> (if SameRequestInRecord (rs_request s2) record
                 then (Some (rcv_err R_kWarningDuplicatedRequest []), s2)
                 else (Some (rcv_err R_kBadRequest ''already have record with same id''), s2))) = (e, s2)"
  obtain er rec s3 where g: "GetRecordFromDb E s1 = ((er, rec), s3)" by (metis prod.collapse)
  then have "s2 = s3" using step by (auto split: option.splits if_splits)
  moreover have "quiet inc s1 s3"
    using g by (auto simp: GetRecordFromDb_def Let_def quiet_db split: if_splits elim!: quiet_with_world)
  ultimately show "quiet inc s1 s2" by simp
qed

lemma quiet_duplicate:
  assumes "ProcessDuplicateRecordSituation E s = (err, s')"
  shows "quiet inc s s'"
proof -
  obtain e s1 where c: "DbCheck_ProcessRequest E s = (e, s1)" by fastforce
  then show ?thesis
    using assms quiet_check [OF c] by (auto simp: ProcessDuplicateRecordSituation_def CheckForDuplicates_def split: if_splits)
qed

lemma quiet_write:
  assumes "DbWrite_ProcessRequest E s = (err, s')"
  shows "quiet inc s s'"
proof (cases "rq_already_processed (rs_request s)")
  case True
  then show ?thesis using assms by (simp add: DbWrite_ProcessRequest_def)
next
  case False
  then have "(case RequestHandlerDb_ProcessRequest E H_DbWrite s of (Some e, s1) \<Rightarrow> (Some e, s1)
      | (None, s1) \<Rightarrow> (let (err, s2) = InsertRecordToDb E s1 in
           if err_is err (DBErrorTemplates DB_kDuplicateID) then ProcessDuplicateRecordSituation E s2
           else (DBErrorToReceiverError err, s2))) = (err, s')"
    using assms by (simp add: DbWrite_ProcessRequest_def)
  then show ?thesis
  proof (rule quiet_db_step)
    fix s1 e s2
    assume step: "(let (err, s2) = InsertRecordToDb E s1 in
           if err_is err (DBErrorTemplates DB_kDuplicateID) then ProcessDuplicateRecordSituation E s2
           else (DBErrorToReceiverError err, s2)) = (e, s2)"
    obtain er s3 where i: "InsertRecordToDb E s1 = (er, s3)" by fastforce
    have "quiet inc s1 s3"
      using i by (auto simp: InsertRecordToDb_def Let_def quiet_db split: if_splits elim!: quiet_with_world)
    then show "quiet inc s1 s2"
      using step quiet_duplicate [of s3 e s2] quiet_trans by (auto simp: i split: if_splits)
  qed
qed

lemma quiet_meta_write:
  assumes "DbMetaWrite_ProcessRequest E m s = (err, s')"
  shows "quiet inc s s'"
  by (rule quiet_db_step [OF assms [unfolded DbMetaWrite_ProcessRequest_def]])
    (auto simp: Let_def quiet_db split: prod.splits if_splits elim!: quiet_with_world)

lemma quiet_get_meta: "DbGetMeta_ProcessRequest E s = (err, s') \<Longrightarrow> quiet inc s s'"
  unfolding DbGetMeta_ProcessRequest_def
  by (erule quiet_db_step) (auto simp: Let_def quiet_db split: prod.splits if_splits elim!: quiet_with_world)

lemma quiet_stream_info: "DbStreamInfo_ProcessRequest E s = (err, s') \<Longrightarrow> quiet inc s s'"
  unfolding DbStreamInfo_ProcessRequest_def
  by (erule quiet_db_step) (auto simp: Let_def quiet_db split: prod.splits option.splits elim!: quiet_with_world)

lemma quiet_last_stream: "DbLastStream_ProcessRequest E s = (err, s') \<Longrightarrow> quiet inc s s'"
  unfolding DbLastStream_ProcessRequest_def
  by (erule quiet_db_step) (auto simp: Let_def quiet_db split: prod.splits option.splits elim!: quiet_with_world)

lemma quiet_delete_stream: "DbDeleteStream_ProcessRequest E s = (err, s') \<Longrightarrow> quiet inc s s'"
  unfolding DbDeleteStream_ProcessRequest_def
  by (erule quiet_db_step) (auto simp: Let_def quiet_db split: prod.splits if_splits elim!: quiet_with_world)

lemma quiet_authorize:
  assumes "Authorize E s = (err, s')"
  shows "quiet inc s s'"
proof -
  obtain e resp code s1 where d: "with_world (DoServerRequest E (GetRequestString (rs_request s)
      (a_source_credentials (rs_auth s)))) s = ((e, resp, code), s1)" by (metis prod.collapse)
  have "quiet inc s s1" using quiet_with_world [OF d quiet_server_request] .
  then show ?thesis using assms by (cases e) (auto simp: Authorize_def d Let_def split: prod.splits)
qed

lemma quiet_secondary:
  assumes "SecondaryAuthorization_ProcessRequest E s = (err, s')"
  shows "quiet inc s s'"
proof -
  obtain e s1 where a: "Authorize E s = (e, s1)" by fastforce
  show ?thesis
    using assms quiet_authorize [OF a]
    by (auto simp: SecondaryAuthorization_ProcessRequest_def ReauthorizeIfNeeded_def ProcessReAuthorization_def a Let_def
        split: option.splits if_splits)
qed

lemma quiet_initial:
  assumes "InitialAuthorization_ProcessRequest E s = (err, s')"
  shows "quiet inc s s'"
proof -
  let ?s = "s\<lparr>rs_auth := (rs_auth s)\<lparr>a_source_credentials := rq_metadata (rs_request s)\<rparr>\<rparr>"
  have "quiet inc s ?s" by simp
  from quiet_trans [OF this] show ?thesis
    using assms quiet_authorize [of ?s err s']
    by (auto simp: InitialAuthorization_ProcessRequest_def split: option.splits if_splits)
qed

section \<open>Handlers that read\<close>

lemma metadata_read:
  assumes "ReceiveMetaData_ProcessRequest E s = (None, s')"
  shows "\<exists>bs. inc (rs_world s) = wire_bytes bs @ inc (rs_world s') \<and> length bs = unat (GetMetaDataSize (rs_request s))
    \<and> rs_request s' = (rs_request s)\<lparr>rq_metadata := if bs = [] then rq_metadata (rs_request s) else bs\<rparr>"
proof (cases "GetMetaDataSize (rs_request s) = 0")
  case True
  then show ?thesis using assms by (intro exI [of _ "[]"]) (simp add: ReceiveMetaData_ProcessRequest_def)
next
  case False
  then have pos: "unat (GetMetaDataSize (rs_request s)) \<noteq> 0" by (simp add: unat_eq_0)
  obtain bs err w where r: "Receive E (rq_socket (rs_request s)) (GetMetaDataSize (rs_request s)) (rs_world s) = ((bs, err), w)"
    by (metis prod.collapse)
  then have "err = None" using assms False by (auto simp: ReceiveMetaData_ProcessRequest_def with_world_def split: option.splits)
  moreover from this have "inc (rs_world s) = wire_bytes bs @ inc w \<and> length bs = unat (GetMetaDataSize (rs_request s))"
    using receive [OF r [unfolded \<open>err = None\<close>]] by simp
  ultimately show ?thesis
    using assms False r pos by (intro exI [of _ bs]) (auto simp: ReceiveMetaData_ProcessRequest_def with_world_def upd_request_def)
qed

lemma data_read:
  assumes "ReceiveData_ProcessRequest E s = (None, s')"
  shows "\<exists>bs. inc (rs_world s) = wire_bytes bs @ inc (rs_world s')
    \<and> length bs = (if NeedReceiveData (rs_request s) then unat (GetDataSize (rs_request s)) else 0)
    \<and> (NeedReceiveData (rs_request s) \<longrightarrow> rq_data (rs_request s') = bs)
    \<and> rq_metadata (rs_request s') = rq_metadata (rs_request s) \<and> rq_header (rs_request s') = rq_header (rs_request s)
    \<and> rq_socket (rs_request s') = rq_socket (rs_request s)"
proof (cases "NeedReceiveData (rs_request s)")
  case False
  then show ?thesis using assms by (intro exI [of _ "[]"]) (simp add: ReceiveData_ProcessRequest_def)
next
  case True
  obtain e1 s1 where p: "PrepareDataBufferAndLockIfNeeded E s = (e1, s1)" by fastforce
  then have "e1 = None" using assms True by (cases e1) (simp_all add: ReceiveData_ProcessRequest_def)
  have s1: "rs_world s1 = rs_world s" "rq_metadata (rs_request s1) = rq_metadata (rs_request s)"
    "rq_header (rs_request s1) = rq_header (rs_request s)" "rq_socket (rs_request s1) = rq_socket (rs_request s)"
    using p by (auto simp: PrepareDataBufferAndLockIfNeeded_def upd_request_def Let_def
        split: option.splits if_splits prod.splits)
  obtain bs err w where r: "Receive E (rq_socket (rs_request s)) (GetDataSize (rs_request s)) (rs_world s) = ((bs, err), w)"
    by (metis prod.collapse)
  let ?s3 = "upd_request (\<lambda>r. r\<lparr>rq_data := bs\<rparr>) (s1\<lparr>rs_world := w\<rparr>)"
  have eq: "err = None" "s' = (case UnlockDataBufferIfNeeded ?s3 of None \<Rightarrow> ?s3 | Some t \<Rightarrow> t)"
    using assms True p \<open>e1 = None\<close> r s1
    by (auto simp: ReceiveData_ProcessRequest_def with_world_def GetDataSize_def Let_def split: option.splits)
  have "rs_world s' = w \<and> rs_request s' = rs_request ?s3"
    unfolding eq(2) by (auto simp: UnlockDataBufferIfNeeded_def upd_request_def split: option.splits prod.splits)
  moreover have "inc (rs_world s) = wire_bytes bs @ inc w \<and> length bs = unat (GetDataSize (rs_request s))"
    using receive [OF r [unfolded eq(1)]] by simp
  ultimately show ?thesis using True s1 by (intro exI [of _ bs]) (simp add: upd_request_def)
qed

lemma write_quiet:
  assumes "WriteFileProcessor_ProcessFile E over s = (err, s')"
  shows "quiet inc s s'"
  using assms by (auto simp: WriteFileProcessor_ProcessFile_def Let_def quiet_io split: if_splits option.splits prod.splits
      elim!: quiet_with_world)

lemma receive_processor:
  assumes "ReceiveFileProcessor_ProcessFile E over s = (err, s')"
  shows "rs_request s' = rs_request s
    \<and> (err = None \<longrightarrow> (\<exists>bs. inc (rs_world s) = wire_bytes bs @ inc (rs_world s')
                        \<and> length bs = unat (GetDataSize (rs_request s))))
    \<and> (err_is err (IOErrorTemplates IO_kFileAlreadyExists) \<longrightarrow> inc (rs_world s') = inc (rs_world s))"
proof (cases "GetRootFolder (rs_request s)")
  case (Pair e root)
  show ?thesis
  proof (cases e)
    case (Some x)
    then show ?thesis using assms Pair by (auto simp: ReceiveFileProcessor_ProcessFile_def)
  next
    case None
    obtain e2 w where r: "ReceiveDataToFile E (rq_socket (rs_request s)) root (GetFileName (rs_request s))
        (GetDataSize (rs_request s)) True over (rs_world s) = (e2, w)" by fastforce
    then have "err = e2" "s' = s\<lparr>rs_world := w\<rparr>"
      using assms Pair None by (simp_all add: ReceiveFileProcessor_ProcessFile_def with_world_def Let_def)
    then show ?thesis using receive_file r receive_file_exists [OF r] by auto
  qed
qed

lemma file_handler_quiet:
  assumes "FileProcess_ProcessRequest E (WriteFileProcessor_ProcessFile E) s = (err, s')"
  shows "quiet inc s s'"
proof -
  obtain e s1 where p: "WriteFileProcessor_ProcessFile E False s = (e, s1)" by fastforce
  have q1: "quiet inc s s1" using p by (rule write_quiet)
  obtain d s2 where c: "CheckForDuplicates E s1 = (d, s2)" by fastforce
  have q2: "quiet inc s s2" using quiet_trans [OF q1] quiet_check c by (simp add: CheckForDuplicates_def)
  have "quiet inc (upd_request (SetResponseMessage m ty) s2) t \<Longrightarrow> quiet inc s t" for m ty t
    using quiet_trans [OF q2] by (simp add: quiet_def upd_request_def SetResponseMessage_def)
  then show ?thesis
    using assms q1 q2 write_quiet
    by (fastforce simp: FileProcess_ProcessRequest_def ProcessFileExistSituation_def p c split: if_splits)
qed

lemma file_received:
  assumes "FileProcess_ProcessRequest E (ReceiveFileProcessor_ProcessFile E) s = (None, s')"
  shows "rq_header (rs_request s') = rq_header (rs_request s) \<and> rq_metadata (rs_request s') = rq_metadata (rs_request s)
    \<and> rq_socket (rs_request s') = rq_socket (rs_request s)
    \<and> ((\<exists>bs. inc (rs_world s) = wire_bytes bs @ inc (rs_world s') \<and> length bs = unat (GetDataSize (rs_request s)))
       \<or> rq_already_processed (rs_request s') \<and> rq_response_message (rs_request s') = ''duplicated request, ignored''
         \<and> inc (rs_world s') = inc (rs_world s))"
proof -
  obtain e s1 where p: "ReceiveFileProcessor_ProcessFile E False s = (e, s1)" by fastforce
  note r = receive_processor [OF p]
  show ?thesis
  proof (cases "err_is e (IOErrorTemplates IO_kFileAlreadyExists)")
    case False
    then have "e = None" "s' = s1" using assms by (simp_all add: FileProcess_ProcessRequest_def p)
    then show ?thesis using r by simp
  next
    case True
    then have pf: "ProcessFileExistSituation E (ReceiveFileProcessor_ProcessFile E) s1 = (None, s')"
      using assms by (simp add: FileProcess_ProcessRequest_def p)
    have same: "rs_request s1 = rs_request s" "inc (rs_world s1) = inc (rs_world s)" using r True by auto
    obtain d s2 where c: "CheckForDuplicates E s1 = (d, s2)" by fastforce
    have q2: "quiet inc s1 s2" using quiet_check c by (simp add: CheckForDuplicates_def)
    show ?thesis
    proof (cases d)
      case None
      let ?s2 = "upd_request (SetResponseMessage ''file has been overwritten'' kWarning) s2"
      have "ReceiveFileProcessor_ProcessFile E True ?s2 = (None, s')"
        using pf None by (simp add: ProcessFileExistSituation_def c)
      from receive_processor [OF this] show ?thesis
        using q2 same by (auto simp: quiet_def upd_request_def SetResponseMessage_def GetDataSize_def)
    next
      case (Some x)
      then have "s' = upd_request (SetResponseMessage ''duplicated request, ignored'' kWarning \<circ> SetAlreadyProcessedFlag) s2"
        using pf by (auto simp: ProcessFileExistSituation_def c split: if_splits)
      then show ?thesis
        using q2 same by (simp add: quiet_def upd_request_def SetResponseMessage_def SetAlreadyProcessedFlag_def)
    qed
  qed
qed

lemma process_quiet:
  assumes "process_handler E u h s = (err, s')" and "h \<notin> reading_handlers"
  shows "quiet inc s s'"
  using assms quiet_secondary [of s err s'] quiet_initial [of s err s'] file_handler_quiet [of s err s']
    quiet_write [of s err s'] quiet_meta_write [of "u_mode u" s err s'] quiet_get_meta [of s err s']
    quiet_stream_info [of s err s'] quiet_last_stream [of s err s'] quiet_delete_stream [of s err s']
    quiet_check [of s err s']
  by (cases h) (simp_all add: process_handler_def reading_handlers_def)

lemma run_quiet:
  assumes "run_handlers now (process_handler E u) hs st s = (None, st', s')" and "set hs \<inter> reading_handlers = {}"
  shows "quiet inc s s'"
  using assms
proof (induction hs arbitrary: st s)
  case (Cons h hs)
  from run_handlers_Cons [OF Cons.prems(1)] obtain st1 s1 where
    h: "process_handler E u h s = (None, s1)" and rest: "run_handlers now (process_handler E u) hs st1 s1 = (None, st', s')"
    by blast
  have "quiet inc s s1" using process_quiet [OF h] Cons.prems(2) by simp
  moreover have "quiet inc s1 s'" using Cons.IH [OF rest] Cons.prems(2) by simp
  ultimately show ?case by (rule quiet_trans)
qed simp

lemma run_metadata:
  assumes run: "run_handlers now (process_handler E u) (H_ReceiveMetaData # hs) st s = (None, st', s')"
    and wire: "inc (rs_world s) = wire_bytes md @ q" and len: "length md = unat (GetMetaDataSize (rs_request s))"
    and empty: "rq_metadata (rs_request s) = []"
  shows "\<exists>st1 s1. run_handlers now (process_handler E u) hs st1 s1 = (None, st', s') \<and> inc (rs_world s1) = q
    \<and> rs_request s1 = (rs_request s)\<lparr>rq_metadata := md\<rparr>"
proof -
  from run_handlers_Cons [OF run] obtain st1 s1 where
    h: "process_handler E u H_ReceiveMetaData s = (None, s1)" and rest: "run_handlers now (process_handler E u) hs st1 s1 = (None, st', s')"
    by blast
  have h: "ReceiveMetaData_ProcessRequest E s = (None, s1)" using h by (simp add: process_handler_def)
  from metadata_read [OF h] obtain bs where bs: "inc (rs_world s) = wire_bytes bs @ inc (rs_world s1)" "length bs = length md"
    "rs_request s1 = (rs_request s)\<lparr>rq_metadata := if bs = [] then rq_metadata (rs_request s) else bs\<rparr>"
    unfolding len [symmetric] by blast
  then have "bs = md \<and> inc (rs_world s1) = q" using wire_split [of md q bs "inc (rs_world s1)"] wire by argo
  moreover from this have "rs_request s1 = (rs_request s)\<lparr>rq_metadata := md\<rparr>" using bs(3) empty by simp
  ultimately show ?thesis using rest by blast
qed

lemma run_data:
  assumes run: "run_handlers now (process_handler E u) (H_ReceiveData # hs) st s = (None, st', s')"
    and wire: "inc (rs_world s) = wire_bytes d @ q"
    and len: "length d = (if NeedReceiveData (rs_request s) then unat (GetDataSize (rs_request s)) else 0)"
  shows "\<exists>st1 s1. run_handlers now (process_handler E u) hs st1 s1 = (None, st', s') \<and> inc (rs_world s1) = q
    \<and> rq_header (rs_request s1) = rq_header (rs_request s) \<and> rq_metadata (rs_request s1) = rq_metadata (rs_request s)
    \<and> (NeedReceiveData (rs_request s) \<longrightarrow> rq_data (rs_request s1) = d)"
proof -
  from run_handlers_Cons [OF run] obtain st1 s1 where
    h: "process_handler E u H_ReceiveData s = (None, s1)" and rest: "run_handlers now (process_handler E u) hs st1 s1 = (None, st', s')"
    by blast
  have h: "ReceiveData_ProcessRequest E s = (None, s1)" using h by (simp add: process_handler_def)
  from data_read [OF h] obtain bs where bs: "inc (rs_world s) = wire_bytes bs @ inc (rs_world s1)" "length bs = length d"
    "NeedReceiveData (rs_request s) \<longrightarrow> rq_data (rs_request s1) = bs"
    "rq_metadata (rs_request s1) = rq_metadata (rs_request s)" "rq_header (rs_request s1) = rq_header (rs_request s)"
    unfolding len [symmetric] by blast
  then have "bs = d \<and> inc (rs_world s1) = q" using wire_split [of d q bs "inc (rs_world s1)"] wire by argo
  then show ?thesis using rest bs(3-5) by blast
qed

lemma run_file:
  assumes run: "run_handlers now (process_handler E u) (H_FileReceive # hs) st s = (None, st', s')"
    and wire: "inc (rs_world s) = wire_bytes d @ q" and len: "length d = unat (GetDataSize (rs_request s))"
  shows "\<exists>st1 s1. run_handlers now (process_handler E u) hs st1 s1 = (None, st', s')
    \<and> rq_header (rs_request s1) = rq_header (rs_request s) \<and> rq_metadata (rs_request s1) = rq_metadata (rs_request s)
    \<and> (inc (rs_world s1) = q \<or> inc (rs_world s1) = wire_bytes d @ q \<and> rq_already_processed (rs_request s1))"
proof -
  from run_handlers_Cons [OF run] obtain st1 s1 where
    h: "process_handler E u H_FileReceive s = (None, s1)" and rest: "run_handlers now (process_handler E u) hs st1 s1 = (None, st', s')"
    by blast
  have h: "FileProcess_ProcessRequest E (ReceiveFileProcessor_ProcessFile E) s = (None, s1)"
    using h by (simp add: process_handler_def)
  note f = file_received [OF h]
  have q: "inc (rs_world s1) = q" if "inc (rs_world s) = wire_bytes bs @ inc (rs_world s1)"
    "length bs = unat (GetDataSize (rs_request s))" for bs
    using wire_split [of d q bs "inc (rs_world s1)"] wire len that by argo
  have "inc (rs_world s1) = q \<or> inc (rs_world s1) = wire_bytes d @ q \<and> rq_already_processed (rs_request s1)"
    using f q unfolding wire by metis
  then show ?thesis using rest f by blast
qed

lemma next_request:
  assumes "GetNextRequest E fd uri st s = (None, st1, s1)"
    and "inc (rs_world s) = WHeader h # q"
  shows "inc (rs_world s1) = q \<and> AddHandlersToRequest (config E) h (Request_new h fd uri) = (None, rs_request s1)"
proof -
  obtain h' err w where r: "ReceiveHeader E fd (rs_world s) = ((h', err), w)" by (metis prod.collapse)
  have "err = None" using assms(1) by (auto simp: GetNextRequest_def with_world_def r Let_def split: option.splits)
  from receive_header [OF r [unfolded this]] have h: "h' = h" "inc w = q" using assms(2) by simp_all
  obtain e r' where a: "AddHandlersToRequest (config E) h (Request_new h fd uri) = (e, r')" by fastforce
  have "e = None \<and> s1 = s\<lparr>rs_world := w, rs_request := r'\<rparr>"
    using assms(1) a by (cases e) (simp_all add: GetNextRequest_def with_world_def r \<open>err = None\<close> h GenerateRequest_def Let_def)
  then show ?thesis using a h by simp
qed

lemma consume_data:
  assumes run: "run_handlers (clock E) (process_handler E u)
      ((if ReceiveDirectToFile (config E) h then H_FileReceive else H_ReceiveData) # tail) st t = (None, st2, s2)"
    and tail: "set tail \<inter> reading_handlers = {}"
    and wire: "inc (rs_world t) = wire_bytes d @ rest" and hdr: "rq_header (rs_request t) = copy_header h"
    and len: "length d = (if has_flag (custom_param kPosIngestMode h) kTransferData then unat (data_size h) else 0)"
    and direct: "ReceiveDirectToFile (config E) h \<longrightarrow> has_flag (custom_param kPosIngestMode h) kTransferData"
  shows "consumed inc (config E) h (rq_metadata (rs_request t)) d rest s2"
proof -
  let ?run = "run_handlers (clock E) (process_handler E u)"
  have need: "NeedReceiveData (rs_request t) \<longleftrightarrow> data_size h > 0 \<and> has_flag (custom_param kPosIngestMode h) kTransferData"
    "GetDataSize (rs_request t) = data_size h"
    by (simp_all add: NeedReceiveData_def GetDataSize_def GetCustomData_def hdr)
  have "\<exists>st5 t3. ?run tail st5 t3 = (None, st2, s2) \<and> consumed inc (config E) h (rq_metadata (rs_request t)) d rest t3"
  proof (cases "ReceiveDirectToFile (config E) h")
    case True
    then have r: "?run (H_FileReceive # tail) st t = (None, st2, s2)" using run by (simp only: if_True)
    show ?thesis
      using run_file [OF r wire] direct len need hdr True unfolding consumed_def by (simp only: simp_thms if_True) blast
  next
    case False
    then have r: "?run (H_ReceiveData # tail) st t = (None, st2, s2)" using run by (simp only: if_False)
    have "length d = (if NeedReceiveData (rs_request t) then unat (GetDataSize (rs_request t)) else 0)"
      using need len by (auto simp: word_gt_0)
    from run_data [OF r wire this] show ?thesis using hdr unfolding consumed_def by (metis (no_types))
  qed
  then show ?thesis using run_quiet [OF _ tail] consumed_quiet by blast
qed

lemma request_consumed:
  assumes nxt: "GetNextRequest E fd uri st s = (None, st1, s1)" and handle: "HandleRequest E u st1 s1 = (None, st2, s2)"
    and wire: "inc (rs_world s) = wire_message h md d @ rest" and carries: "carries h md d"
  shows "consumed inc (config E) h md d rest s2"
proof -
  note run_handlers.simps [simp del]
  let ?r = "rs_request s1" and ?run = "run_handlers (clock E) (process_handler E u)"
  have q1: "inc (rs_world s1) = wire_bytes md @ wire_bytes d @ rest"
    and add: "AddHandlersToRequest (config E) h (Request_new h fd uri) = (None, ?r)"
    using next_request [OF nxt, of h "wire_bytes md @ wire_bytes d @ rest"] wire by (simp_all add: wire_message_def)
  have r: "rq_metadata ?r = []" "rq_header ?r = copy_header h" using chosen_handlers [OF add] by simp_all
  have run: "?run (rq_handlers ?r) st1 s1 = (None, st2, s2)" using handle by (simp add: HandleRequest_def Handle_def)
  obtain tail where tail: "set tail \<inter> reading_handlers = {}" and hs: "rq_handlers ?r =
          (if op_code h = kOpcodeTransferData \<or> op_code h = kOpcodeTransferDatasetData
           then H_SecondaryAuthorize # H_ReceiveMetaData
                # (if ReceiveDirectToFile (config E) h then H_FileReceive else H_ReceiveData) # tail
           else if op_code h = kOpcodeTransferMetaData then H_SecondaryAuthorize # H_ReceiveData # tail
           else if op_code h = kOpcodeAuthorize then H_ReceiveMetaData # tail
           else tail)" using chosen_handlers [OF add] by blast
  have authorized: "\<exists>st' t. ?run hs st' t = (None, st2, s2) \<and> quiet inc s1 t"
    if "?run (H_SecondaryAuthorize # hs) st1 s1 = (None, st2, s2)" for hs
    using run_handlers_Cons [OF that] process_quiet [of u H_SecondaryAuthorize s1 None]
    by (auto simp: reading_handlers_def)
  consider (data) "op_code h = kOpcodeTransferData \<or> op_code h = kOpcodeTransferDatasetData"
    | (meta) "op_code h = kOpcodeTransferMetaData" | (auth) "op_code h = kOpcodeAuthorize"
    | (other) "op_code h \<notin> {kOpcodeTransferData, kOpcodeTransferDatasetData, kOpcodeTransferMetaData, kOpcodeAuthorize}"
    by blast
  then show ?thesis
  proof cases
    case data
    have len: "length md = unat (meta_size h)" "CheckIngestMode (custom_param kPosIngestMode h) = None"
      "length d = (if has_flag (custom_param kPosIngestMode h) kTransferData then unat (data_size h) else 0)"
      using carries data by (simp_all add: carries_def)
    have "?run (H_SecondaryAuthorize # H_ReceiveMetaData
        # (if ReceiveDirectToFile (config E) h then H_FileReceive else H_ReceiveData) # tail) st1 s1 = (None, st2, s2)"
      using run data unfolding hs by (simp only: if_True)
    from authorized [OF this] obtain st3 t where t: "?run (H_ReceiveMetaData
        # (if ReceiveDirectToFile (config E) h then H_FileReceive else H_ReceiveData) # tail) st3 t = (None, st2, s2)"
      "quiet inc s1 t" by blast
    obtain st4 t2 where t2: "?run ((if ReceiveDirectToFile (config E) h then H_FileReceive else H_ReceiveData) # tail) st4 t2
        = (None, st2, s2)" "inc (rs_world t2) = wire_bytes d @ rest" "rs_request t2 = (rs_request t)\<lparr>rq_metadata := md\<rparr>"
      using run_metadata [OF t(1), of md "wire_bytes d @ rest"] t(2) q1 r len(1)
      by (auto simp: quiet_def GetMetaDataSize_def)
    have "ReceiveDirectToFile (config E) h \<longrightarrow> has_flag (custom_param kPosIngestMode h) kTransferData"
      using chosen_handlers [OF add] data stored_file_has_data [OF len(2)] by blast
    then show ?thesis
      using consume_data [OF t2(1) tail t2(2) _ len(3)] t2(3) t(2) r by (simp add: quiet_def)
  next
    case meta
    have len: "md = []" "has_flag (custom_param kPosIngestMode h) kTransferData" "length d = unat (data_size h)"
      using carries meta by (simp_all add: carries_def)
    have "?run (H_SecondaryAuthorize # H_ReceiveData # tail) st1 s1 = (None, st2, s2)"
      using run meta unfolding hs by simp
    from authorized [OF this] obtain st3 t where t: "?run (H_ReceiveData # tail) st3 t = (None, st2, s2)" "quiet inc s1 t" by blast
    have need: "length d = (if NeedReceiveData (rs_request t) then unat (GetDataSize (rs_request t)) else 0)"
      using t(2) r len by (auto simp: NeedReceiveData_def GetDataSize_def GetCustomData_def quiet_def word_gt_0)
    obtain st5 t3 where "?run tail st5 t3 = (None, st2, s2)" "consumed inc (config E) h md d rest t3"
      using run_data [OF t(1), of d rest] need t(2) q1 r len by (auto simp: quiet_def consumed_def)
    then show ?thesis using run_quiet [OF _ tail] consumed_quiet by blast
  next
    case auth
    have len: "length md = unat (meta_size h)" "d = []" using carries auth by (simp_all add: carries_def)
    have "?run (H_ReceiveMetaData # tail) st1 s1 = (None, st2, s2)" using run hs auth by simp
    then obtain st5 t3 where "?run tail st5 t3 = (None, st2, s2)" "consumed inc (config E) h md d rest t3"
      using run_metadata [of "clock E" u tail st1 s1 st2 s2 md rest] q1 r len
      by (auto simp: consumed_def GetMetaDataSize_def)
    then show ?thesis using run_quiet [OF _ tail] consumed_quiet by blast
  next
    case other
    have "consumed inc (config E) h md d rest s1" using carries other q1 r by (simp add: carries_def consumed_def)
    moreover have "?run tail st1 s1 = (None, st2, s2)" using run hs other by simp
    ultimately show ?thesis using run_quiet [OF _ tail] consumed_quiet by blast
  qed
qed

end

section \<open>A connection that loses nothing\<close>

text \<open>
  The receiving end of a reliable connection on top of any environment: reads come from the
  connection, everything else happens in the environment.  A file is created before anything is
  read for it, and a read fails when the connection has no bytes left for it.
\<close>

definition elsewhere :: "('v \<Rightarrow> 'a \<times> 'v) \<Rightarrow> wire_item list \<times> 'v \<Rightarrow> 'a \<times> wire_item list \<times> 'v" where
  "elsewhere f w = (let (x, v) = f (snd w) in (x, fst w, v))"

lemma elsewhere_fst [simp]: "fst (snd (elsewhere f w)) = fst w"
  by (simp add: elsewhere_def split: prod.splits)

definition end_of_stream :: error where
  "end_of_stream = gen_err kEndOfFile []"

definition wire_Receive :: "u64 \<Rightarrow> wire_item list \<times> 'v \<Rightarrow> (string \<times> error option) \<times> wire_item list \<times> 'v" where
  "wire_Receive n w =
     (case take_bytes (unat n) (fst w) of
        Some (bs, q) \<Rightarrow> ((bs, None), q, snd w)
      | None \<Rightarrow> (([], Some end_of_stream), w))"

definition wire_ReceiveHeader :: "wire_item list \<times> 'v \<Rightarrow> (GenericRequestHeader \<times> error option) \<times> wire_item list \<times> 'v" where
  "wire_ReceiveHeader w =
     (case fst w of
        WHeader h # q \<Rightarrow> ((h, None), q, snd w)
      | _ \<Rightarrow> ((GenericRequestHeader_new [0, 0, 0] kOpcodeUnknownOp 0 0 0 [] [], Some end_of_stream), w))"

definition wire_ReceiveDataToFile ::
    "'v receiver_env \<Rightarrow> string \<Rightarrow> string \<Rightarrow> u64 \<Rightarrow> bool \<Rightarrow> bool \<Rightarrow> wire_item list \<times> 'v \<Rightarrow> error option \<times> wire_item list \<times> 'v" where
  "wire_ReceiveDataToFile E root f n dirs over w =
     (case take_bytes (unat n) (fst w) of
        Some (bs, q) \<Rightarrow>
          (case WriteDataToFile E root f bs n dirs over (snd w) of
             (None, v) \<Rightarrow> (None, q, v)
           | (Some e, v) \<Rightarrow> (Some e, fst w, v))
      | None \<Rightarrow> (Some end_of_stream, w))"

definition wire_env :: "'v receiver_env \<Rightarrow> (wire_item list \<times> 'v) receiver_env" where
  "wire_env E = \<lparr>config = config E, json_lib = json_lib E, receiver_api_version = receiver_api_version E,
     clock = (\<lambda>w. clock E (snd w)), allocates = (\<lambda>n w. allocates E n (snd w)), stale_slot_id = (\<lambda>w. stale_slot_id E (snd w)),
     Receive = (\<lambda>fd. wire_Receive), ReceiveHeader = (\<lambda>fd. wire_ReceiveHeader),
     Send = (\<lambda>fd resp. elsewhere (Receiver_Request.Send E fd resp)),
     CloseSocket = (\<lambda>fd w. (fst w, CloseSocket E fd (snd w))),
     WriteDataToFile = (\<lambda>root f bs n dirs over. elsewhere (WriteDataToFile E root f bs n dirs over)),
     ReceiveDataToFile = (\<lambda>fd. wire_ReceiveDataToFile E),
     http_Post = (\<lambda>uri cookie body. elsewhere (http_Post E uri cookie body)),
     http_Get = (\<lambda>uri. elsewhere (http_Get E uri)),
     db_Connect = (\<lambda>k uri nm. elsewhere (db_Connect E k uri nm)),
     db_Insert = (\<lambda>k c m ig. elsewhere (db_Insert E k c m ig)),
     db_InsertAsDatasetMessage = (\<lambda>k c m n ig. elsewhere (db_InsertAsDatasetMessage E k c m n ig)),
     db_InsertMeta = (\<lambda>k c i bs n mode. elsewhere (db_InsertMeta E k c i bs n mode)),
     db_GetById = (\<lambda>k c n. elsewhere (db_GetById E k c n)),
     db_GetDataSetById = (\<lambda>k c n n'. elsewhere (db_GetDataSetById E k c n n')),
     db_GetStreamInfo = (\<lambda>k c. elsewhere (db_GetStreamInfo E k c)),
     db_GetLastStream = (\<lambda>k. elsewhere (db_GetLastStream E k)),
     db_DeleteStream = (\<lambda>k c. elsewhere (db_DeleteStream E k c)),
     db_GetMetaFromDb = (\<lambda>k c i. elsewhere (db_GetMetaFromDb E k c i))\<rparr>"

interpretation wire: byte_stream "wire_env E" fst for E
proof
  fix fd n and w w' :: "wire_item list \<times> 'a" and bs
  assume "Receive (wire_env E) fd n w = ((bs, None), w')"
  then show "fst w = wire_bytes bs @ fst w' \<and> length bs = unat n"
    by (auto simp: wire_env_def wire_Receive_def take_bytes_Some split: option.splits)
next
  fix fd and w w' :: "wire_item list \<times> 'a" and h
  assume "ReceiveHeader (wire_env E) fd w = ((h, None), w')"
  then show "fst w = WHeader h # fst w'"
    by (auto simp: wire_env_def wire_ReceiveHeader_def split: list.splits wire_item.splits)
next
  fix fd root f n dirs over and w w' :: "wire_item list \<times> 'a"
  assume "ReceiveDataToFile (wire_env E) fd root f n dirs over w = (None, w')"
  then show "\<exists>bs. fst w = wire_bytes bs @ fst w' \<and> length bs = unat n"
    by (auto simp: wire_env_def wire_ReceiveDataToFile_def take_bytes_Some split: option.splits prod.splits)
next
  fix fd root f n dirs over and w w' :: "wire_item list \<times> 'a" and err
  assume "ReceiveDataToFile (wire_env E) fd root f n dirs over w = (err, w')"
    and "err_is err (IOErrorTemplates IO_kFileAlreadyExists)"
  then show "fst w' = fst w"
    by (auto simp: wire_env_def wire_ReceiveDataToFile_def err_is_def split: option.splits prod.splits)
qed (simp_all add: wire_env_def)

section \<open>The sending end\<close>

text \<open>
  The sockets of a producer on a reliable connection.  \<open>files\<close> are the contents of its files and
  \<open>answer\<close> is what it receives.
\<close>

definition wire_io ::
    "(string \<Rightarrow> string) \<Rightarrow> (wire_item list \<Rightarrow> GenericNetworkResponse \<times> error option) \<Rightarrow> u64 list \<Rightarrow> wire_item list producer_io" where
  "wire_io files answer params = \<lparr>
     pio_CreateAndConnectIPTCPSocket = (\<lambda>uri q. ((5, None), q)),
     pio_SendHeader = (\<lambda>fd h q. (None, q @ [WHeader h])),
     pio_SendBytes = (\<lambda>fd bs n q. (None, q @ wire_bytes (case bs of None \<Rightarrow> [] | Some x \<Rightarrow> take (unat n) x))),
     pio_SendFile = (\<lambda>fd f n q. (None, q @ wire_bytes (take (unat n) (files f)))),
     pio_ReceiveResponse = (\<lambda>fd q. (answer q, q)),
     pio_CloseSocket = (\<lambda>fd q. q),
     pio_GetMessageMeta = (\<lambda>f q. ((of_nat (length (files f)), None), q)),
     pio_now = (\<lambda>q. 0), pio_custom_data = params\<rparr>"

definition sent_metadata :: "ProducerRequest \<Rightarrow> string" where
  "sent_metadata r = (if NeedSendMetaData r then take (unat (meta_size (header r))) (user_metadata r) else [])"

definition sent_data :: "(string \<Rightarrow> string) \<Rightarrow> ProducerRequest \<Rightarrow> string" where
  "sent_data files r =
     (if \<not> NeedSend r then []
      else take (unat (data_size (header r)))
        (if DataFromFile r then files (original_filepath r) else case msg_data r of None \<Rightarrow> [] | Some d \<Rightarrow> d))"

lemma producer_sends:
  "SendRequestContent (wire_io files answer params) r t =
     (None, t\<lparr>tw := tw t @ wire_message (header r) (sent_metadata r) (sent_data files r)\<rparr>)"
  by (simp add: SendRequestContent_def on_world_def wire_io_def wire_message_def sent_metadata_def sent_data_def Let_def
      split: option.splits)

lemma request_header_terminated:
  assumes "header_wf h" and "NUL \<in> set (stream h)" and "NUL \<in> set (message h)"
  shows "NUL \<in> set (message (header (ProducerRequest_new v c h d md path cb mng tmo now)))"
    and "NUL \<in> set (stream (header (ProducerRequest_new v c h d md path cb mng tmo now)))"
    and "NUL \<in> set (api_version (header (ProducerRequest_new v c h d md path cb mng tmo now)))"
proof -
  let ?h = "header (ProducerRequest_new v c h d md path cb mng tmo now)"
  have "message ?h = message h"
    using assms(1) by (simp add: ProducerRequest_new_def copy_header_def header_wf_def Let_def)
  then show "NUL \<in> set (message ?h)" using assms(3) by simp
  have len: "length (c_str (stream h @ api_version h)) < kMaxMessageSize"
    using c_str_short [OF assms(2)] assms(1) by (simp add: c_str_append_terminated [OF assms(2)] header_wf_def)
  then have "stream ?h = c_str (stream h @ api_version h) @ replicate (kMaxMessageSize - length (c_str (stream h @ api_version h))) NUL"
    by (simp add: ProducerRequest_new_def copy_header_def strncpy_def Let_def)
  then show "NUL \<in> set (stream ?h)" using len by simp
  show "NUL \<in> set (api_version ?h)" by (simp add: ProducerRequest_new_def strcpy_into_def Let_def)
qed

text \<open>The request that an accepted message becomes, and what of it goes over the connection.\<close>

lemma accepted_request:
  assumes "Producer_Client.Send B now mh d mode strm cb p = (None, p')"
  shows "last (request_queue (request_pool p')) = send_request B now mh strm d [] mode cb True p
    \<and> CheckProducerRequest mh mode strm = None \<and> CheckData mode mh d = None"
proof -
  have check: "CheckData mode mh d = None"
    using assms by (auto simp: Producer_Client.Send_def HandleInputError_def split: option.splits if_splits)
  then show ?thesis
    using assms send_impl_outcome [OF refl, of B now mh strm d "[]" mode cb True p]
    by (auto simp: Producer_Client.Send_def)
qed

lemma accepted_request_carries:
  assumes "length (stack_params B) = kNCustomParams" and "CheckProducerRequest mh mode strm = None"
    and "CheckData mode mh (Some d) = None" and "length d = unat (mh_data_size mh)" and "length (mh_user_metadata mh) < 2 ^ 64"
    and r_def: "r = send_request B now mh strm (Some d) [] mode cb True p"
  shows "sent_metadata r = mh_user_metadata mh" and "sent_data files r = (if has_flag mode kTransferData then d else [])"
    and "carries (header r) (sent_metadata r) (sent_data files r)" and "custom_param kPosIngestMode (header r) = mode"
proof -
  have size: "unat (meta_size (header r)) = length (mh_user_metadata mh)" "data_size (header r) = mh_data_size mh"
    using assms(5) by (simp_all add: r_def send_request_def unat_of_nat64)
  have opc: "op_code (header r) = kOpcodeTransferData \<or> op_code (header r) = kOpcodeTransferDatasetData"
    by (simp add: r_def send_request_def)
  show mode: "custom_param kPosIngestMode (header r) = mode"
    using generated_header_params [OF assms(1), of mh strm mode] by (simp add: r_def send_request_def custom_param_def)
  have need: "NeedSend r \<longleftrightarrow> has_flag mode kTransferData" using opc mode by (auto simp: NeedSend_def)
  have data: "DataFromFile r \<longleftrightarrow> False" "msg_data r = Some d" "user_metadata r = mh_user_metadata mh"
    by (simp_all add: r_def send_request_def DataFromFile_def)
  show md: "sent_metadata r = mh_user_metadata mh"
    using size(1) data(3) by (auto simp: sent_metadata_def NeedSendMetaData_def word_gt_0 unat_eq_0 [symmetric])
  show d: "sent_data files r = (if has_flag mode kTransferData then d else [])"
    using need data size(2) assms(4) by (simp add: sent_data_def)
  have "CheckIngestMode mode = None" using assms(2) by (simp add: check_request_accepts)
  then show "carries (header r) (sent_metadata r) (sent_data files r)"
    using opc mode md d size assms(4) by (auto simp: carries_def)
qed

section \<open>Properties\<close>


definition demo_sent :: ProducerRequest where
  "demo_sent = send_request demo_build 0 demo_message_header ''s'' (Some ''abc'') [] (kTransferData OR kStoreInDatabase) (Some 1) True
     demo_producer"

definition demo_wire_state :: "(wire_item list \<times> unit) receiver_state" where
  "demo_wire_state = \<lparr>rs_world = (wire_message (header demo_sent) ''{}'' ''abc'', ()), rs_cache = None, rs_auth = demo_auth,
     rs_db = (\<lambda>h. \<lparr>db_name = [], connected_to_db = False\<rparr>), rs_request = demo_receiver_request\<rparr>"

lemma demo_sent_fields:
  "op_code (header demo_sent) = 2" "data_size (header demo_sent) = 3" "meta_size (header demo_sent) = 2"
  "custom_param 0 (header demo_sent) = 9" "data_id (header demo_sent) = 7" "api_version_str (header demo_sent) = ''v0.6''"
  "header_wf (header demo_sent)" "NUL \<in> set (message (header demo_sent))" "NUL \<in> set (stream (header demo_sent))"
  "NUL \<in> set (api_version (header demo_sent))"
proof -
  let ?h = "GenerateNextSendRequest demo_build demo_message_header ''s'' (kTransferData OR kStoreInDatabase)"
  have wf: "header_wf ?h" by (rule generated_header_wf) (simp add: demo_build_def)
  have short: "length (mh_file_name demo_message_header) < kMaxMessageSize" "length ''s'' < kMaxMessageSize"
    by (simp_all add: demo_message_header_def kMaxMessageSize_def)
  have nul: "NUL \<in> set (message ?h)" "NUL \<in> set (stream ?h)"
    using header_new_terminated [of "mh_file_name demo_message_header" "''s''"] short by (simp_all add: GenericRequestHeader_new_def)
  have params: "custom_params ?h = [9, 22, 33]"
    using generated_header_params [of demo_build demo_message_header "''s''" "kTransferData OR kStoreInDatabase"]
    by (simp add: demo_build_def demo_message_header_def MessageHeader_new_def ingest_flags)
  show "op_code (header demo_sent) = 2" "data_size (header demo_sent) = 3" "meta_size (header demo_sent) = 2"
    "custom_param 0 (header demo_sent) = 9" "data_id (header demo_sent) = 7"
    using params by (simp_all add: demo_sent_def send_request_def custom_param_def demo_message_header_def MessageHeader_new_def)
  have v: "length (pp_receiver_version (protocol demo_build)) < kMaxVersionSize" "NUL \<notin> set (pp_receiver_version (protocol demo_build))"
    by (simp_all add: demo_build_def kMaxVersionSize_def)
  show "api_version_str (header demo_sent) = ''v0.6''"
    unfolding demo_sent_def send_request_def by (subst request_header_texts(3) [OF wf nul v]) (simp add: demo_build_def)
  show "header_wf (header demo_sent)"
    unfolding demo_sent_def send_request_def by (rule request_header_wf [OF wf])
  show "NUL \<in> set (message (header demo_sent))" "NUL \<in> set (stream (header demo_sent))"
    "NUL \<in> set (api_version (header demo_sent))"
    unfolding demo_sent_def send_request_def by (rule request_header_terminated [OF wf nul(2,1)])+
qed

lemma demo_wire_request:
  "\<exists>st1 r. GetNextRequest (wire_env demo_env) 3 ''host:5'' st demo_wire_state = (None, st1, demo_wire_state\<lparr>rs_world :=
       (wire_bytes ''{}abc'', ()), rs_request := r\<rparr>)
     \<and> rq_handlers r = [H_SecondaryAuthorize, H_ReceiveMetaData, H_ReceiveData, H_DbWrite]
     \<and> rq_header r = copy_header (header demo_sent) \<and> \<not> rq_already_processed r \<and> rq_slot r = None"
proof -
  have "\<not> ReceiveDirectToFile demo_config (header demo_sent)" "NeedDbHandler (header demo_sent)"
    "\<not> NeedFileWriteHandler (header demo_sent)"
    by (simp_all add: ReceiveDirectToFile_def NeedDbHandler_def NeedFileWriteHandler_def demo_sent_fields demo_config_def
        has_flag_def ingest_flags)
  then show ?thesis
    by (simp add: GetNextRequest_def with_world_def wire_env_def wire_ReceiveHeader_def demo_wire_state_def wire_message_def
        GenerateRequest_def factory_defs demo_env_def demo_sent_fields Request_new_def AddHandler_def Let_def)
qed

lemma demo_wire_handled:
  assumes r: "rq_handlers r = [H_SecondaryAuthorize, H_ReceiveMetaData, H_ReceiveData, H_DbWrite]"
    "rq_header r = copy_header (header demo_sent)" "\<not> rq_already_processed r" "rq_slot r = None"
  shows "\<exists>st2 s2. HandleRequest (wire_env demo_env) demo_uninitialised st1
      (demo_wire_state\<lparr>rs_world := (wire_bytes ''{}abc'', ()), rs_request := r\<rparr>) = (None, st2, s2)"
proof -
  let ?E = "wire_env demo_env" and ?s = "demo_wire_state\<lparr>rs_world := (wire_bytes ''{}abc'', ()), rs_request := r\<rparr>"
  let ?r1 = "SetRequestFields demo_auth r"
  let ?s1 = "?s\<lparr>rs_request := ?r1\<rparr>"
  let ?s2 = "?s1\<lparr>rs_world := (wire_bytes ''abc'', ()), rs_request := ?r1\<lparr>rq_metadata := ''{}''\<rparr>\<rparr>"
  let ?s3 = "?s1\<lparr>rs_world := ([], ()), rs_request := ?r1\<lparr>rq_metadata := ''{}'', rq_data := ''abc''\<rparr>\<rparr>"
  have hdr: "rq_header ?r1 = copy_header (header demo_sent)" "rq_slot ?r1 = None" "\<not> rq_already_processed ?r1"
    using r by (simp_all add: SetRequestFields_def)
  have reads: "take_bytes 2 (wire_bytes ''{}abc'') = Some (''{}'', wire_bytes ''abc'')"
    "take_bytes 3 (wire_bytes ''abc'') = Some (''abc'', [])" by (simp_all only: take_bytes_Some) simp_all
  have "GetApiVersion r = ''v0.6''"
    using copy_header_texts(3) [OF demo_sent_fields(7-10)] demo_sent_fields(6) by (simp add: GetApiVersion_def r)
  then have "SecondaryAuthorization_ProcessRequest ?E ?s = (None, ?s1)"
    by (simp add: SecondaryAuthorization_ProcessRequest_def CheckRequest_def CheckVersion_def ReauthorizeIfNeeded_def
        NeedReauthorize_def wire_env_def demo_env_def demo_wire_state_def demo_auth_def demo_config_def upd_request_def
        SetRequestFields_def Let_def)
  moreover have "ReceiveMetaData_ProcessRequest ?E ?s1 = (None, ?s2)"
    using demo_sent_fields(3) reads(1)
    by (simp add: ReceiveMetaData_ProcessRequest_def GetMetaDataSize_def hdr with_world_def wire_env_def wire_Receive_def
        upd_request_def Let_def)
  moreover have "ReceiveData_ProcessRequest ?E ?s2 = (None, ?s3)"
    using demo_sent_fields(2,4) hdr reads(2)
    by (simp add: ReceiveData_ProcessRequest_def NeedReceiveData_def GetDataSize_def GetCustomData_def
        PrepareDataBufferAndLockIfNeeded_def UnlockDataBufferIfNeeded_def demo_wire_state_def has_flag_def ingest_flags
        with_world_def wire_env_def demo_env_def wire_Receive_def upd_request_def Let_def)
  moreover have "\<exists>s'. DbWrite_ProcessRequest ?E ?s3 = (None, s')"
    using demo_sent_fields(1) hdr
    by (simp add: DbWrite_ProcessRequest_def RequestHandlerDb_ProcessRequest_def ConnectToDbIfNeeded_def demo_wire_state_def
        GetDatabaseServerUri_def InsertRecordToDb_def GetOpCode_def DBErrorToReceiverError_def err_is_def elsewhere_def upd_db_def
        with_world_def wire_env_def demo_env_def demo_config_def Let_def)
  ultimately show ?thesis
    by (auto simp: HandleRequest_def Handle_def r process_handler_def Let_def)
qed




end
