(* ===== verification/Data_Server.thy ===== *)
theory Data_Server
  imports Receiver_Auth Receiver_Statistics Request_Pool
begin

text \<open>
  The receiver's data server, which hands cached data to consumers
  (\<open>receiver/src/receiver_data_server\<close>): its request handler, the TCP and the fabric network
  servers and the loop that feeds the request pool.

  The abstract class \<open>RdsNetServer\<close> is a record of its methods over a server state \<open>'n\<close>; the two
  servers are instances.  A socket descriptor is a 32-bit signed number and travels in the 64
  bits of \<open>source_id\<close>.
\<close>

record ReceiverDataServerRequest = GenericRequest +
  source_id :: u64

definition ReceiverDataServerRequest_new :: "GenericRequestHeader \<Rightarrow> u64 \<Rightarrow> int \<Rightarrow> ReceiverDataServerRequest" where
  "ReceiverDataServerRequest_new h src now =
     \<lparr>header = copy_header h, retry_counter = 0, timeout_ms = 0, created_at = now, source_id = src\<rparr>"

record ('r, 'n) RdsNetServer =
  net_GetNewRequests :: "'n \<Rightarrow> ('r list \<times> error option) \<times> 'n"
  net_SendResponse :: "'r \<Rightarrow> GenericNetworkResponse \<Rightarrow> 'n \<Rightarrow> error option \<times> 'n"
  net_SendResponseAndSlotData :: "'r \<Rightarrow> GenericNetworkResponse \<Rightarrow> CacheMeta \<Rightarrow> 'n \<Rightarrow> error option \<times> 'n"
  net_HandleAfterError :: "u64 \<Rightarrow> 'n \<Rightarrow> 'n"

section \<open>The request handler\<close>

record 'n ds_state =
  ds_net :: 'n
  ds_cache :: "DataCache option"
  ds_stats :: Statistics

definition ds_response :: "u16 \<Rightarrow> GenericNetworkResponse" where
  "ds_response code = \<lparr>resp_op_code = kOpcodeGetBufferData, error_code = code, resp_message = replicate kMaxMessageSize NUL\<rparr>"

text \<open>\<open>version\<close> is \<open>GetRdsApiVersion()\<close>, a constant of the build.  The result is the error code.\<close>

definition Rds_CheckRequest :: "string \<Rightarrow> 'a ReceiverDataServerRequest_scheme \<Rightarrow> u16 option" where
  "Rds_CheckRequest version r =
     (if op_code (header r) \<noteq> kOpcodeGetBufferData then Some kNetErrorWrongRequest
      else if VersionToNumber (api_version_str (header r)) > VersionToNumber version then Some kNetErrorNotSupported
      else None)"

definition Rds_SendResponse ::
    "('r, 'n) RdsNetServer \<Rightarrow> 'r \<Rightarrow> u16 \<Rightarrow> 'n ds_state \<Rightarrow> error option \<times> 'n ds_state" where
  "Rds_SendResponse S r code s =
     (let (err, n) = net_SendResponse S r (ds_response code) (ds_net s) in (err, s\<lparr>ds_net := n\<rparr>))"

definition Rds_SendResponseAndSlotData ::
    "('r, 'n) RdsNetServer \<Rightarrow> 'r \<Rightarrow> CacheMeta \<Rightarrow> 'n ds_state \<Rightarrow> error option \<times> 'n ds_state" where
  "Rds_SendResponseAndSlotData S r m s =
     (let (err, n) = net_SendResponseAndSlotData S r (ds_response kNetErrorNoError) m (ds_net s) in (err, s\<lparr>ds_net := n\<rparr>))"

definition GetSlotAndLock ::
    "'a ReceiverDataServerRequest_scheme \<Rightarrow> 'n ds_state \<Rightarrow> nat option \<times> 'n ds_state" where
  "GetSlotAndLock r s =
     (case ds_cache s of
        None \<Rightarrow> (None, s)
      | Some c \<Rightarrow>
          (let (addr, slot, c') = GetSlotToReadAndLock (data_id (header r)) (data_size (header r)) None c in
           (slot, s\<lparr>ds_cache := Some c'\<rparr>)))"

definition HandleAfterError ::
    "('a ReceiverDataServerRequest_scheme, 'n) RdsNetServer \<Rightarrow> 'a ReceiverDataServerRequest_scheme
      \<Rightarrow> 'n ds_state \<Rightarrow> 'n ds_state" where
  "HandleAfterError S r s = s\<lparr>ds_net := net_HandleAfterError S (source_id r) (ds_net s)\<rparr>"

definition HandleInvalidRequest ::
    "('a ReceiverDataServerRequest_scheme, 'n) RdsNetServer \<Rightarrow> 'a ReceiverDataServerRequest_scheme \<Rightarrow> u16
      \<Rightarrow> 'n ds_state \<Rightarrow> 'n ds_state" where
  "HandleInvalidRequest S r code s = HandleAfterError S r (snd (Rds_SendResponse S r code s))"

definition HandleValidRequest ::
    "('a ReceiverDataServerRequest_scheme, 'n) RdsNetServer \<Rightarrow> 'a ReceiverDataServerRequest_scheme \<Rightarrow> CacheMeta
      \<Rightarrow> 'n ds_state \<Rightarrow> 'n ds_state" where
  "HandleValidRequest S r m s =
     (let (err, s1) = Rds_SendResponseAndSlotData S r m s in
      if err \<noteq> None then HandleAfterError S r s1
      else s1\<lparr>ds_stats := IncreaseRequestDataVolume (data_size (header r)) (IncreaseRequestCounter (ds_stats s1))\<rparr>)"

text \<open>The record behind the slot pointer; the lock keeps it alive.\<close>

definition slot_record :: "nat \<Rightarrow> 'n ds_state \<Rightarrow> CacheMeta option" where
  "slot_record slot s = (case ds_cache s of None \<Rightarrow> None | Some c \<Rightarrow> find (\<lambda>m. cm_ref m = slot) (meta c))"

definition Rds_UnlockSlot :: "nat \<Rightarrow> 'n ds_state \<Rightarrow> 'n ds_state" where
  "Rds_UnlockSlot slot s =
     (case ds_cache s of
        None \<Rightarrow> s
      | Some c \<Rightarrow> (case UnlockSlot (Some slot) c of None \<Rightarrow> s | Some (ok, c') \<Rightarrow> s\<lparr>ds_cache := Some c'\<rparr>))"

definition Rds_ProcessRequestUnlocked ::
    "('a ReceiverDataServerRequest_scheme, 'n) RdsNetServer \<Rightarrow> string \<Rightarrow> 'a ReceiverDataServerRequest_scheme
      \<Rightarrow> 'n ds_state \<Rightarrow> (bool \<times> bool) \<times> 'n ds_state" where
  "Rds_ProcessRequestUnlocked S version r s =
     (case Rds_CheckRequest version r of
        Some code \<Rightarrow> ((True, False), HandleInvalidRequest S r code s)
      | None \<Rightarrow>
          (case GetSlotAndLock r s of
             (None, s1) \<Rightarrow> ((True, False), snd (Rds_SendResponse S r kNetErrorNoData s1))
           | (Some slot, s1) \<Rightarrow>
               (case slot_record slot s1 of
                  None \<Rightarrow> ((True, False), s1)
                | Some m \<Rightarrow> ((True, False), Rds_UnlockSlot slot (HandleValidRequest S r m s1)))))"

definition rds_request_handler ::
    "('a ReceiverDataServerRequest_scheme, 'n) RdsNetServer \<Rightarrow> string
      \<Rightarrow> ('a ReceiverDataServerRequest_scheme, 'n ds_state) RequestHandler" where
  "rds_request_handler S version =
     \<lparr>PrepareProcessingRequestLocked = (\<lambda>s. s), TearDownProcessingRequestLocked = (\<lambda>ok s. s),
      ProcessRequestUnlocked = (\<lambda>r s. let (res, s') = Rds_ProcessRequestUnlocked S version r s in (res, r, s')),
      ProcessRequestTimeoutUnlocked = (\<lambda>r s. s), ReadyProcessRequest = (\<lambda>s. True)\<rparr>"

section \<open>The TCP server\<close>

record 'w rds_io =
  rio_CreateAndBindIPTCPSocketListener :: "string \<Rightarrow> int \<Rightarrow> 'w \<Rightarrow> (int \<times> error option) \<times> 'w"
  rio_WaitSocketsActivity :: "int \<Rightarrow> int list \<Rightarrow> 'w \<Rightarrow> (int list \<times> int list \<times> error option) \<times> 'w"
  rio_ReceiveHeader :: "int \<Rightarrow> 'w \<Rightarrow> (GenericRequestHeader \<times> error option) \<times> 'w"
  rio_SendResponse :: "int \<Rightarrow> GenericNetworkResponse \<Rightarrow> 'w \<Rightarrow> error option \<times> 'w"
  rio_SendData :: "int \<Rightarrow> u64 \<Rightarrow> u64 \<Rightarrow> 'w \<Rightarrow> error option \<times> 'w"
  rio_AddressFromSocket :: "int \<Rightarrow> 'w \<Rightarrow> string"
  rio_CloseSocket :: "int \<Rightarrow> 'w \<Rightarrow> 'w"
  rio_now :: "'w \<Rightarrow> int"

record 'w RdsTcpServer =
  ts_world :: 'w
  master_socket :: int
  sockets_to_listen :: "int list"
  ts_address :: string

definition kDisconnectedSocketDescriptor :: int where "kDisconnectedSocketDescriptor = -1"
definition kMaxPendingConnections :: int where "kMaxPendingConnections = 5"

definition RdsTcpServer_new :: "string \<Rightarrow> 'w \<Rightarrow> 'w RdsTcpServer" where
  "RdsTcpServer_new address w =
     \<lparr>ts_world = w, master_socket = kDisconnectedSocketDescriptor, sockets_to_listen = [], ts_address = address\<rparr>"

definition Tcp_Initialize :: "'w rds_io \<Rightarrow> 'w RdsTcpServer \<Rightarrow> error option \<times> 'w RdsTcpServer" where
  "Tcp_Initialize io t =
     (if master_socket t \<noteq> kDisconnectedSocketDescriptor
      then (Some (gen_err kSimpleError ''server was already initialized''), t)
      else
        (let ((fd, io_err), w) = rio_CreateAndBindIPTCPSocketListener io (ts_address t) kMaxPendingConnections (ts_world t);
             t1 = t\<lparr>master_socket := fd, ts_world := w\<rparr> in
         case io_err of
           None \<Rightarrow> (None, t1)
         | Some e \<Rightarrow> (Some (AddDetails ''address'' (ts_address t)
               (GenerateWithCause (ReceiverDataServerErrorTemplates DS_kServerError) ''cannot start TCP data server'' (Some e))), t1)))"

definition GetActiveSockets :: "'w rds_io \<Rightarrow> 'w RdsTcpServer \<Rightarrow> (int list \<times> error option) \<times> 'w RdsTcpServer" where
  "GetActiveSockets io t =
     (let ((active, listening, err), w) = rio_WaitSocketsActivity io (master_socket t) (sockets_to_listen t) (ts_world t) in
      ((active, err), t\<lparr>sockets_to_listen := listening, ts_world := w\<rparr>))"

definition Tcp_CloseSocket :: "'w rds_io \<Rightarrow> int \<Rightarrow> 'w RdsTcpServer \<Rightarrow> 'w RdsTcpServer" where
  "Tcp_CloseSocket io socket t =
     t\<lparr>sockets_to_listen := filter (\<lambda>x. x \<noteq> socket) (sockets_to_listen t),
       ts_world := rio_CloseSocket io socket (ts_world t)\<rparr>"

definition Tcp_ReadRequest ::
    "'w rds_io \<Rightarrow> int \<Rightarrow> 'w RdsTcpServer \<Rightarrow> (error + ReceiverDataServerRequest) \<times> 'w RdsTcpServer" where
  "Tcp_ReadRequest io socket t =
     (let ((h, io_err), w) = rio_ReceiveHeader io socket (ts_world t);
          t1 = t\<lparr>ts_world := w\<rparr> in
      case io_err of
        None \<Rightarrow> (Inr (ReceiverDataServerRequest_new h (of_int socket) (rio_now io w)), t1)
      | Some e \<Rightarrow>
          (if err_is io_err (GeneralErrorTemplates kEndOfFile) then (Inl e, Tcp_CloseSocket io socket t1)
           else (Inl (AddDetails ''origin'' (rio_AddressFromSocket io socket w)
                   (GenerateWithCause (ReceiverDataServerErrorTemplates DS_kServerError) ''error getting next request'' (Some e))),
                 t1)))"

fun Tcp_ReadRequests ::
    "'w rds_io \<Rightarrow> int list \<Rightarrow> 'w RdsTcpServer \<Rightarrow> ReceiverDataServerRequest list \<times> 'w RdsTcpServer" where
  "Tcp_ReadRequests io [] t = ([], t)"
| "Tcp_ReadRequests io (client # sockets) t =
     (case Tcp_ReadRequest io client t of
        (Inl e, t1) \<Rightarrow> Tcp_ReadRequests io sockets t1
      | (Inr r, t1) \<Rightarrow> (let (rs, t2) = Tcp_ReadRequests io sockets t1 in (r # rs, t2)))"

definition Tcp_GetNewRequests ::
    "'w rds_io \<Rightarrow> 'w RdsTcpServer \<Rightarrow> (ReceiverDataServerRequest list \<times> error option) \<times> 'w RdsTcpServer" where
  "Tcp_GetNewRequests io t =
     (case GetActiveSockets io t of
        ((sockets, Some e), t1) \<Rightarrow> (([], Some e), t1)
      | ((sockets, None), t1) \<Rightarrow> (let (rs, t2) = Tcp_ReadRequests io sockets t1 in ((rs, None), t2)))"

text \<open>\<open>static_cast<int>\<close> of a 64-bit source id.\<close>

definition socket_of_source :: "u64 \<Rightarrow> int" where
  "socket_of_source src = sint (ucast src :: u32)"

definition Tcp_HandleAfterError :: "'w rds_io \<Rightarrow> u64 \<Rightarrow> 'w RdsTcpServer \<Rightarrow> 'w RdsTcpServer" where
  "Tcp_HandleAfterError io src t = Tcp_CloseSocket io (socket_of_source src) t"

definition Tcp_SendResponse ::
    "'w rds_io \<Rightarrow> ReceiverDataServerRequest \<Rightarrow> GenericNetworkResponse \<Rightarrow> 'w RdsTcpServer \<Rightarrow> error option \<times> 'w RdsTcpServer" where
  "Tcp_SendResponse io r response t =
     (let socket = socket_of_source (source_id r);
          (io_err, w) = rio_SendResponse io socket response (ts_world t) in
      (case io_err of
         None \<Rightarrow> None
       | Some e \<Rightarrow> Some (AddDetails ''origin'' (rio_AddressFromSocket io socket w)
             (GenerateWithCause (ReceiverDataServerErrorTemplates DS_kServerError) ''error sending response'' (Some e))),
       t\<lparr>ts_world := w\<rparr>))"

definition Tcp_SendResponseAndSlotData ::
    "'w rds_io \<Rightarrow> ReceiverDataServerRequest \<Rightarrow> GenericNetworkResponse \<Rightarrow> CacheMeta \<Rightarrow> 'w RdsTcpServer
      \<Rightarrow> error option \<times> 'w RdsTcpServer" where
  "Tcp_SendResponseAndSlotData io r response m t =
     (case Tcp_SendResponse io r response t of
        (Some e, t1) \<Rightarrow> (Some e, t1)
      | (None, t1) \<Rightarrow>
          (let socket = socket_of_source (source_id r);
               (io_err, w) = rio_SendData io socket (cm_addr m) (cm_size m) (ts_world t1) in
           (case io_err of
              None \<Rightarrow> None
            | Some e \<Rightarrow> Some (AddDetails ''origin'' (rio_AddressFromSocket io socket w)
                  (GenerateWithCause (ReceiverDataServerErrorTemplates DS_kServerError) ''error sending slot data'' (Some e))),
            t1\<lparr>ts_world := w\<rparr>)))"

definition rds_tcp_server :: "'w rds_io \<Rightarrow> (ReceiverDataServerRequest, 'w RdsTcpServer) RdsNetServer" where
  "rds_tcp_server io =
     \<lparr>net_GetNewRequests = Tcp_GetNewRequests io, net_SendResponse = Tcp_SendResponse io,
      net_SendResponseAndSlotData = Tcp_SendResponseAndSlotData io, net_HandleAfterError = Tcp_HandleAfterError io\<rparr>"

definition RdsTcpServer_destroy :: "'w rds_io \<Rightarrow> 'w RdsTcpServer \<Rightarrow> 'w" where
  "RdsTcpServer_destroy io t =
     rio_CloseSocket io (master_socket t)
       (fold (\<lambda>client w. rio_CloseSocket io client w) (sockets_to_listen t) (ts_world t))"

section \<open>The fabric server\<close>

text \<open>
  The fabric library is used through its interface only.  A request carries the description of
  the consumer's memory region as bytes in its message field, read back in the little-endian
  layout of the platform.
\<close>

record MemoryRegionDetails =
  mr_addr :: u64
  mr_length :: u64
  mr_key :: u64

record 'w fabric_server_io =
  fab_CreateAndBindServer :: "string \<Rightarrow> u16 \<Rightarrow> 'w \<Rightarrow> error option \<times> 'w"
  fab_SplitAddress :: "string \<Rightarrow> string \<times> u16"
  fab_RecvAny :: "'w \<Rightarrow> (u64 \<times> u64 \<times> GenericRequestHeader \<times> error option) \<times> 'w"
  fab_Send :: "u64 \<Rightarrow> u64 \<Rightarrow> GenericNetworkResponse \<Rightarrow> 'w \<Rightarrow> error option \<times> 'w"
  fab_RdmaWrite :: "u64 \<Rightarrow> MemoryRegionDetails \<Rightarrow> u64 \<Rightarrow> u64 \<Rightarrow> 'w \<Rightarrow> error option \<times> 'w"
  fab_now :: "'w \<Rightarrow> int"

record FabricRdsRequest = ReceiverDataServerRequest +
  message_id :: u64

definition FabricRdsRequest_new :: "GenericRequestHeader \<Rightarrow> u64 \<Rightarrow> u64 \<Rightarrow> int \<Rightarrow> FabricRdsRequest" where
  "FabricRdsRequest_new h sourceId messageId now =
     \<lparr>header = copy_header h, retry_counter = 0, timeout_ms = 0, created_at = now, source_id = sourceId,
      message_id = messageId\<rparr>"

definition le_u64 :: "string \<Rightarrow> u64" where
  "le_u64 bs = of_nat (foldr (\<lambda>c n. of_char c + 256 * n) bs 0)"

definition GetMemoryRegion :: "FabricRdsRequest \<Rightarrow> MemoryRegionDetails" where
  "GetMemoryRegion r =
     (let b = message (header r) in
      \<lparr>mr_addr = le_u64 (take 8 b), mr_length = le_u64 (take 8 (drop 8 b)), mr_key = le_u64 (take 8 (drop 16 b))\<rparr>)"

record 'w RdsFabricServer =
  fs_world :: 'w
  fs_started :: bool
  listenAddress :: string

definition Fabric_Initialize :: "'w fabric_server_io \<Rightarrow> 'w RdsFabricServer \<Rightarrow> error option \<times> 'w RdsFabricServer" where
  "Fabric_Initialize F f =
     (if fs_started f then (Some (gen_err kSimpleError ''Server was already initialized''), f)
      else
        (let (hostname, port) = fab_SplitAddress F (listenAddress f);
             (err, w) = fab_CreateAndBindServer F hostname port (fs_world f) in
         (err, f\<lparr>fs_world := w, fs_started := (err = None)\<rparr>)))"

definition Fabric_GetNewRequests ::
    "'w fabric_server_io \<Rightarrow> 'w RdsFabricServer \<Rightarrow> (FabricRdsRequest list \<times> error option) \<times> 'w RdsFabricServer" where
  "Fabric_GetNewRequests F f =
     (let ((src, msg_id, h, err), w) = fab_RecvAny F (fs_world f); f1 = f\<lparr>fs_world := w\<rparr> in
      case err of
        Some e \<Rightarrow> (([], Some e), f1)
      | None \<Rightarrow> (([FabricRdsRequest_new h src msg_id (fab_now F w)], None), f1))"

definition Fabric_SendResponse ::
    "'w fabric_server_io \<Rightarrow> FabricRdsRequest \<Rightarrow> GenericNetworkResponse \<Rightarrow> 'w RdsFabricServer
      \<Rightarrow> error option \<times> 'w RdsFabricServer" where
  "Fabric_SendResponse F r response f =
     (let (err, w) = fab_Send F (source_id r) (message_id r) response (fs_world f) in (err, f\<lparr>fs_world := w\<rparr>))"

definition Fabric_SendResponseAndSlotData ::
    "'w fabric_server_io \<Rightarrow> FabricRdsRequest \<Rightarrow> GenericNetworkResponse \<Rightarrow> CacheMeta \<Rightarrow> 'w RdsFabricServer
      \<Rightarrow> error option \<times> 'w RdsFabricServer" where
  "Fabric_SendResponseAndSlotData F r response m f =
     (let (err, w) = fab_RdmaWrite F (source_id r) (GetMemoryRegion r) (cm_addr m) (cm_size m) (fs_world f);
          f1 = f\<lparr>fs_world := w\<rparr> in
      if err \<noteq> None then (err, f1) else Fabric_SendResponse F r response f1)"

definition Fabric_HandleAfterError :: "u64 \<Rightarrow> 'w RdsFabricServer \<Rightarrow> 'w RdsFabricServer" where
  "Fabric_HandleAfterError src f = f"

definition rds_fabric_server :: "'w fabric_server_io \<Rightarrow> (FabricRdsRequest, 'w RdsFabricServer) RdsNetServer" where
  "rds_fabric_server F =
     \<lparr>net_GetNewRequests = Fabric_GetNewRequests F, net_SendResponse = Fabric_SendResponse F,
      net_SendResponseAndSlotData = Fabric_SendResponseAndSlotData F, net_HandleAfterError = Fabric_HandleAfterError\<rparr>"

section \<open>The server loop\<close>

text \<open>
  The server with its statistics and its pool; the worker threads run between the rounds.
  \<open>srv_world\<close> is the world of the statistics sender.
\<close>

record ('r, 'n, 'w) data_server =
  srv_net :: 'n
  srv_pool :: "'r RequestPool"
  srv_nthreads :: u8
  srv_stats :: Statistics
  srv_world :: 'w

definition ReceiverDataServer_new ::
    "'w receiver_env \<Rightarrow> 'n \<Rightarrow> 'w \<Rightarrow> ('r, 'n, 'w) data_server" where
  "ReceiverDataServer_new E n w =
     (let w1 = StatisticsSenderInfluxDb_new E w in
      \<lparr>srv_net = n, srv_pool = RequestPool_new, srv_nthreads = ucast (ds_nthreads (config E)),
       srv_stats = AddTag ''receiver_ds_tag'' (ds_tag (config E))
         (Statistics_new (clock E w) kDefaultStatisticWriteIntervalMs),
       srv_world = w1\<rparr>)"

text \<open>
  One round of \<open>ReceiverDataServer::Run\<close>; the result is the error that stops the server, if any.
  \<open>ContainsData\<close> is true for every request of the server.
\<close>

definition ds_round ::
    "'w receiver_env \<Rightarrow> (u64 \<times> u64 \<Rightarrow> string) \<Rightarrow> ('a GenericRequest_scheme, 'n) RdsNetServer
      \<Rightarrow> ('a GenericRequest_scheme, 'n, 'w) data_server
      \<Rightarrow> error option \<times> ('a GenericRequest_scheme, 'n, 'w) data_server" where
  "ds_round E fmt S d =
     (let (st, w) = Statistics_SendIfNeeded Statistics_PrepareStatisticsToSend Statistics_ResetStatistics E fmt False
            (srv_stats d) (srv_world d);
          ((requests, err), n) = net_GetNewRequests S (srv_net d);
          d1 = d\<lparr>srv_stats := st, srv_world := w, srv_net := n\<rparr> in
      if err_is err (IOErrorTemplates IO_kTimeout) then (None, d1)
      else
        (case err of
           Some e \<Rightarrow> (Some e, d1)
         | None \<Rightarrow>
             (let (err2, p) = AddRequests (\<lambda>r. True) requests (srv_pool d1) in (err2, d1\<lparr>srv_pool := p\<rparr>))))"

partial_function (option) Run ::
    "'w receiver_env \<Rightarrow> (u64 \<times> u64 \<Rightarrow> string) \<Rightarrow> ('a GenericRequest_scheme, 'n) RdsNetServer
      \<Rightarrow> ('a GenericRequest_scheme, 'n, 'w) data_server
      \<Rightarrow> (error \<times> ('a GenericRequest_scheme, 'n, 'w) data_server) option" where
  "Run E fmt S d = (case ds_round E fmt S d of (err, d1) \<Rightarrow> if err = None then Run E fmt S d1 else Some (the err, d1))"

section \<open>Starting the servers\<close>

datatype net_server_kind = RdsTcp string | RdsFabric string

definition AddDataServers :: "ReceiverConfig \<Rightarrow> net_server_kind list" where
  "AddDataServers cfg =
     (if ''tcp'' \<in> set (network_mode cfg) then [RdsTcp (''0.0.0.0:'' @ to_string (ds_listen_port cfg))] else [])
     @ (if ''fabric'' \<in> set (network_mode cfg) then [RdsFabric (advertise_uri cfg)] else [])"

section \<open>What the handler does to the cache\<close>

definition ds_inv :: "'n ds_state \<Rightarrow> bool" where
  "ds_inv s \<longleftrightarrow> (case ds_cache s of None \<Rightarrow> True | Some c \<Rightarrow> cache_inv c)"

definition ds_locks :: "'n ds_state \<Rightarrow> nat \<Rightarrow> int" where
  "ds_locks s r = (case ds_cache s of None \<Rightarrow> 0 | Some c \<Rightarrow> lock_count c r)"

lemma net_frame [simp]:
  "ds_cache (snd (Rds_SendResponse S r code s)) = ds_cache s"
  "ds_cache (HandleAfterError S r s) = ds_cache s" "ds_cache (HandleInvalidRequest S r code s) = ds_cache s"
  "ds_cache (HandleValidRequest S r m s) = ds_cache s"
proof -
  show send: "ds_cache (snd (Rds_SendResponse S r code s)) = ds_cache s" for code s
    by (simp add: Rds_SendResponse_def Let_def split: prod.splits)
  show err: "ds_cache (HandleAfterError S r s) = ds_cache s" for s by (simp add: HandleAfterError_def)
  show "ds_cache (HandleInvalidRequest S r code s) = ds_cache s" by (simp add: HandleInvalidRequest_def err send)
  obtain e n where "net_SendResponseAndSlotData S r (ds_response kNetErrorNoError) m (ds_net s) = (e, n)" by fastforce
  then show "ds_cache (HandleValidRequest S r m s) = ds_cache s"
    by (simp add: HandleValidRequest_def Rds_SendResponseAndSlotData_def err Let_def)
qed

text \<open>The slot that is found is the one with the id and the size of the request.\<close>

lemma find_distinct: "distinct (map f (pre @ x # post)) \<Longrightarrow> find (\<lambda>y. f y = f x) (pre @ x # post) = Some x"
  by (induction pre) auto

lemma GetSlot_record:
  assumes inv: "cache_inv d" and get: "GetSlotToReadAndLock i n None d = (Some a, Some r, d')"
  shows "\<exists>m \<in> set (meta d). cm_id m = i \<and> cm_size m = n \<and> a = cm_addr m \<and> r = cm_ref m
    \<and> \<not> SlotTooCloseToCurrentPointer d m
    \<and> find (\<lambda>x. cm_ref x = r) (meta d') = Some (m\<lparr>cm_lock := cm_lock m + 1\<rparr>)"
proof -
  obtain ms' where f: "find_and_lock d i n None (meta d) = (Some a, Some r, ms')" and d': "d' = d\<lparr>meta := ms'\<rparr>"
    using get by (auto simp: GetSlotToReadAndLock_def split: prod.splits)
  show ?thesis
    using f
  proof (cases rule: find_and_lock_cases)
    case (found pre m post)
    let ?m = "m\<lparr>cm_lock := cm_lock m + 1\<rparr>"
    have "distinct (map cm_ref (pre @ m # post))" using inv found(1) by (simp add: cache_inv_def)
    then have "distinct (map cm_ref (pre @ ?m # post))" by simp
    from find_distinct [OF this] show ?thesis using found d' by simp
  qed simp
qed

lemma HandleValidRequest_net:
  "ds_net (HandleValidRequest S r m s) =
     (case net_SendResponseAndSlotData S r (ds_response kNetErrorNoError) m (ds_net s) of
        (err, n) \<Rightarrow> if err = None then n else net_HandleAfterError S (source_id r) n)"
  by (cases "net_SendResponseAndSlotData S r (ds_response kNetErrorNoError) m (ds_net s)")
    (simp add: HandleValidRequest_def Rds_SendResponseAndSlotData_def HandleAfterError_def Let_def)

lemma Rds_UnlockSlot_net [simp]: "ds_net (Rds_UnlockSlot slot s) = ds_net s"
  by (simp add: Rds_UnlockSlot_def split: option.splits)

text \<open>A valid request for data that is in the cache.\<close>

lemma valid_request_served:
  assumes inv: "cache_inv c" and c: "ds_cache s = Some c"
    and get: "GetSlotToReadAndLock (data_id (header r)) (data_size (header r)) None c = (Some a, Some slot, c1)"
    and ok: "Rds_CheckRequest version r = None"
  shows "\<exists>m \<in> set (meta c). cm_id m = data_id (header r) \<and> cm_size m = data_size (header r)
    \<and> \<not> SlotTooCloseToCurrentPointer c m
    \<and> (\<exists>s'. Rds_ProcessRequestUnlocked S version r s = ((True, False), s') \<and> ds_inv s' \<and> ds_locks s' = ds_locks s
        \<and> ds_net s' = (case net_SendResponseAndSlotData S r (ds_response kNetErrorNoError) (m\<lparr>cm_lock := cm_lock m + 1\<rparr>) (ds_net s) of
            (err, n) \<Rightarrow> if err = None then n else net_HandleAfterError S (source_id r) n))"
proof -
  obtain m where m: "m \<in> set (meta c)" "cm_id m = data_id (header r)" "cm_size m = data_size (header r)"
    "\<not> SlotTooCloseToCurrentPointer c m" "find (\<lambda>x. cm_ref x = slot) (meta c1) = Some (m\<lparr>cm_lock := cm_lock m + 1\<rparr>)"
    using GetSlot_record [OF inv get] by blast
  obtain c2 where c2: "UnlockSlot (Some slot) c1 = Some (True, c2)" "cache_inv c2" "lock_count c2 = lock_count c"
    using dc.lookup_unlock [OF inv get] by blast
  let ?s1 = "s\<lparr>ds_cache := Some c1\<rparr>" and ?m = "m\<lparr>cm_lock := cm_lock m + 1\<rparr>"
  have "ds_cache (HandleValidRequest S r ?m ?s1) = Some c1" by simp
  then have unl: "Rds_UnlockSlot slot (HandleValidRequest S r ?m ?s1) = (HandleValidRequest S r ?m ?s1)\<lparr>ds_cache := Some c2\<rparr>"
    using c2(1) by (simp add: Rds_UnlockSlot_def)
  have run: "Rds_ProcessRequestUnlocked S version r s = ((True, False), Rds_UnlockSlot slot (HandleValidRequest S r ?m ?s1))"
    by (simp add: Rds_ProcessRequestUnlocked_def ok GetSlotAndLock_def c get slot_record_def m(5))
  show ?thesis
    using m(1-4) c2(2,3) c
    by (intro bexI [OF _ m(1)]) (simp add: run unl HandleValidRequest_net ds_inv_def ds_locks_def fun_eq_iff)
qed

section \<open>The pool of the data server\<close>

text \<open>
  What the environment of the pool is for the data server: requests come in batches from the
  network server, and a worker leaves a request as it is, whatever the network does.
\<close>

definition rds_pool_env ::
    "('a ReceiverDataServerRequest_scheme, 'n) RdsNetServer \<Rightarrow> string \<Rightarrow> 'a ReceiverDataServerRequest_scheme pool_env" where
  "rds_pool_env S version =
     \<lparr>contains = (\<lambda>r. True), submits = (\<lambda>r prio. False), submits_batch = (\<lambda>rs. True),
      outcome = (\<lambda>r r'. \<exists>res s s'. ProcessRequestUnlocked (rds_request_handler S version) r s = (res, r', s')),
      expires = False\<rparr>"

lemma contains_rds [simp]: "contains (rds_pool_env S version) = (\<lambda>r. True)" "\<not> expires (rds_pool_env S version)"
  by (simp_all add: rds_pool_env_def)

lemma rds_outcome: "outcome (rds_pool_env S version) r r' \<Longrightarrow> r' = r"
  by (auto simp: rds_pool_env_def rds_request_handler_def Let_def case_prod_beta)

interpretation rds_pool: accounted_requests "rds_pool_env S version" "\<lambda>r. (header r, source_id r)" for S version
  by unfold_locales (auto dest: rds_outcome simp: IncreaseRetryCounter_def)

lemma socket_round_trip:
  assumes "- (2 ^ 31) \<le> fd" and "fd < 2 ^ 31"
  shows "socket_of_source (of_int fd) = fd"
proof -
  have "socket_of_source (of_int fd) = signed_take_bit 31 (take_bit 64 fd)"
    by (simp add: socket_of_source_def unsigned_of_int sint_sbintrunc')
  also have "\<dots> = signed_take_bit 31 fd"
    by (simp add: signed_take_bit_take_bit)
  also have "\<dots> = fd"
    using assms by (simp add: signed_take_bit_int_eq_self)
  finally show ?thesis .
qed

section \<open>Properties\<close>

text \<open>
  C8. How the data server answers.  A request with another operation or from a newer client is
  refused and its connection closed.  Otherwise the consumer gets the data of exactly the slot
  with the requested id and size, or the answer that there is no such data.  In every case the
  request is finished without a retry, and the cache has the locks it had before.
\<close>
theorem data_server_answers:
  assumes "ds_inv s" and "Rds_ProcessRequestUnlocked S version r s = (res, s')"
  shows "res = (True, False) \<and> ds_inv s' \<and> ds_locks s' = ds_locks s \<and>
    (case Rds_CheckRequest version r of
       Some code \<Rightarrow> ds_net s' = net_HandleAfterError S (source_id r)
          (snd (net_SendResponse S r (ds_response code) (ds_net s)))
     | None \<Rightarrow>
         ds_net s' = snd (net_SendResponse S r (ds_response kNetErrorNoData) (ds_net s))
         \<or> (\<exists>c m. ds_cache s = Some c \<and> m \<in> set (meta c) \<and> cm_id m = data_id (header r)
              \<and> cm_size m = data_size (header r) \<and> \<not> SlotTooCloseToCurrentPointer c m
              \<and> ds_net s' = (case net_SendResponseAndSlotData S r (ds_response kNetErrorNoError)
                    (m\<lparr>cm_lock := cm_lock m + 1\<rparr>) (ds_net s) of
                  (err, n) \<Rightarrow> if err = None then n else net_HandleAfterError S (source_id r) n)))"
proof (cases "Rds_CheckRequest version r")
  case (Some code)
  then have "res = (True, False)" "s' = HandleInvalidRequest S r code s"
    using assms(2) by (simp_all add: Rds_ProcessRequestUnlocked_def)
  then show ?thesis
    using Some assms(1)
    by (simp add: ds_inv_def ds_locks_def fun_eq_iff)
      (simp add: HandleInvalidRequest_def HandleAfterError_def Rds_SendResponse_def Let_def split: prod.splits)
next
  case None
  have missing: ?thesis if "GetSlotAndLock r s = (None, s)"
  proof -
    have "res = (True, False)" "s' = snd (Rds_SendResponse S r kNetErrorNoData s)"
      using assms(2) None that by (simp_all add: Rds_ProcessRequestUnlocked_def)
    then show ?thesis
      using None assms(1) by (simp add: ds_inv_def ds_locks_def fun_eq_iff)
        (simp add: Rds_SendResponse_def Let_def split: prod.splits)
  qed
  show ?thesis
  proof (cases "ds_cache s")
    case no_cache: None
    then show ?thesis by (intro missing) (simp add: GetSlotAndLock_def)
  next
    case (Some c)
    then have inv: "cache_inv c" using assms(1) by (simp add: ds_inv_def)
    obtain a slot c1 where get: "GetSlotToReadAndLock (data_id (header r)) (data_size (header r)) None c = (a, slot, c1)"
      by (metis prod_cases3)
    show ?thesis
    proof (cases a)
      case a: None
      then have "slot = None" "c1 = c" using dc.lookup_missing [OF inv] get by simp_all
      then show ?thesis using a get Some by (intro missing) (simp add: GetSlotAndLock_def)
    next
      case (Some addr)
      then obtain sl where sl: "slot = Some sl" using dc.lookup_found [OF inv] get by blast
      from valid_request_served [OF inv \<open>ds_cache s = Some c\<close> get [unfolded Some sl] None, of S]
      show ?thesis using assms(2) None \<open>ds_cache s = Some c\<close> by auto
    qed
  qed
qed

definition demo_net :: "(ReceiverDataServerRequest, GenericNetworkResponse list) RdsNetServer" where
  "demo_net = \<lparr>net_GetNewRequests = (\<lambda>n. (([], None), n)), net_SendResponse = (\<lambda>r resp n. (None, resp # n)),
     net_SendResponseAndSlotData = (\<lambda>r resp m n. (None, resp # n)), net_HandleAfterError = (\<lambda>i n. n)\<rparr>"

definition demo_rds_request :: ReceiverDataServerRequest where
  "demo_rds_request = ReceiverDataServerRequest_new
     (GenericRequestHeader_new [0, 0, 0] kOpcodeUnknownOp 1 10 0 [] []) 7 0"

definition demo_ds_state :: "GenericNetworkResponse list ds_state" where
  "demo_ds_state = \<lparr>ds_net = [], ds_cache = Some demo_cache, ds_stats = Statistics_new 0 0\<rparr>"

theorem data_server_answers_witness:
  "ds_inv demo_ds_state
   \<and> ds_net (snd (Rds_ProcessRequestUnlocked demo_net ''v0.1'' demo_rds_request demo_ds_state)) = [ds_response kNetErrorWrongRequest]"
proof -
  have inv: "ds_inv demo_ds_state"
    by (simp add: ds_inv_def demo_ds_state_def demo_cache_def cache_inv_new)
  have "Rds_CheckRequest ''v0.1'' demo_rds_request = Some kNetErrorWrongRequest"
    by (simp add: Rds_CheckRequest_def demo_rds_request_def ReceiverDataServerRequest_new_def copy_header_def
        GenericRequestHeader_new_def)
  then show ?thesis
    using data_server_answers [OF inv surjective_pairing, of demo_net "''v0.1''" demo_rds_request] inv
    by (simp add: demo_net_def demo_ds_state_def)
qed



text \<open>
  The answer of the TCP data server goes to the connection the request came from.  The
  descriptor of a socket survives the conversion to a 64-bit source id and back, so the response
  and the data are sent to the socket that was read, and after an error that socket is closed and
  no longer listened to.
\<close>
theorem tcp_server_answers_origin:
  assumes "- (2 ^ 31) \<le> fd" and "fd < 2 ^ 31" and "Tcp_ReadRequest io fd t = (Inr r, t1)"
  shows "snd (Tcp_SendResponse io r response t2) = t2\<lparr>ts_world := snd (rio_SendResponse io fd response (ts_world t2))\<rparr>
    \<and> (rio_SendResponse io fd response (ts_world t2) = (None, w) \<longrightarrow>
         snd (Tcp_SendResponseAndSlotData io r response m t2) =
           t2\<lparr>ts_world := snd (rio_SendData io fd (cm_addr m) (cm_size m) w)\<rparr>)
    \<and> Tcp_HandleAfterError io (source_id r) t2 = Tcp_CloseSocket io fd t2
    \<and> fd \<notin> set (sockets_to_listen (Tcp_CloseSocket io fd t2))"
proof -
  have "source_id r = of_int fd"
    using assms(3)
    by (auto simp: Tcp_ReadRequest_def ReceiverDataServerRequest_new_def Let_def split: prod.splits option.splits if_splits)
  then have "socket_of_source (source_id r) = fd" using socket_round_trip [OF assms(1,2)] by simp
  then show ?thesis
    by (simp add: Tcp_SendResponse_def Tcp_SendResponseAndSlotData_def Tcp_HandleAfterError_def Tcp_CloseSocket_def
        Let_def split: prod.splits)
qed

definition demo_rds_io :: "int list rds_io" where
  "demo_rds_io = \<lparr>rio_CreateAndBindIPTCPSocketListener = (\<lambda>a n w. ((1, None), w)),
     rio_WaitSocketsActivity = (\<lambda>m l w. ((l, l, None), w)),
     rio_ReceiveHeader = (\<lambda>fd w. ((GenericRequestHeader_new [0, 0, 0] kOpcodeGetBufferData 1 10 0 [] [], None), w)),
     rio_SendResponse = (\<lambda>fd resp w. (None, fd # w)), rio_SendData = (\<lambda>fd a n w. (None, fd # w)),
     rio_AddressFromSocket = (\<lambda>fd w. []), rio_CloseSocket = (\<lambda>fd w. w), rio_now = (\<lambda>w. 0)\<rparr>"

theorem tcp_server_answers_origin_witness:
  "\<exists>r t1. Tcp_ReadRequest demo_rds_io (-5) (RdsTcpServer_new [] []) = (Inr r, t1)
     \<and> ts_world (snd (Tcp_SendResponse demo_rds_io r (ds_response 0) t1)) = [-5]"
proof -
  obtain r t1 where read: "Tcp_ReadRequest demo_rds_io (-5) (RdsTcpServer_new [] []) = (Inr r, t1)"
    and t1: "ts_world t1 = []"
    by (simp add: Tcp_ReadRequest_def demo_rds_io_def RdsTcpServer_new_def)
  have "snd (Tcp_SendResponse demo_rds_io r (ds_response 0) t1)
      = t1\<lparr>ts_world := snd (rio_SendResponse demo_rds_io (-5) (ds_response 0) (ts_world t1))\<rparr>"
    using tcp_server_answers_origin [OF _ _ read, of "ds_response 0" t1] by simp
  then show ?thesis using read t1 by (simp add: demo_rds_io_def)
qed

end
