(* ===== verification/Db_Encoding.thy ===== *)
theory Db_Encoding
  imports Asapo_Errors
begin

text \<open>
  Database and collection names (\<open>common/cpp/src/database/encoding.cpp\<close>): characters that
  MongoDB does not accept in a name are percent-encoded, and names read from the database are
  decoded again.
\<close>

definition ShouldEscape :: "char \<Rightarrow> bool \<Rightarrow> bool" where
  "ShouldEscape c db =
     (if c = CHR ''$'' \<or> c = CHR '' '' \<or> c = CHR ''%'' then True
      else if \<not> db then False
      else c = CHR ''/'' \<or> c = BACKSLASH \<or> c = CHR ''.'' \<or> c = QUOTE)"

definition upperhex :: string where
  "upperhex = ''0123456789ABCDEF''"

definition escape_char :: "bool \<Rightarrow> char \<Rightarrow> string" where
  "escape_char db c =
     (if ShouldEscape c db
      then [CHR ''%'', upperhex ! (of_char c div 16), upperhex ! (of_char c mod 16)] else [c])"

definition Escape :: "string \<Rightarrow> bool \<Rightarrow> string" where
  "Escape s db =
     (let hexCount = length (filter (\<lambda>c. ShouldEscape c db) s) in
      if hexCount = 0 then s else concat (map (escape_char db) s))"

definition ishex :: "char \<Rightarrow> bool" where
  "ishex x \<longleftrightarrow> (let n = (of_char x :: nat) in
     (48 \<le> n \<and> n \<le> 57) \<or> (97 \<le> n \<and> n \<le> 102) \<or> (65 \<le> n \<and> n \<le> 70))"

text \<open>The value that \<open>sscanf\<close> with \<open>%2x\<close> gives to a hexadecimal digit.\<close>

definition hexval :: "char \<Rightarrow> nat" where
  "hexval x = (let n = (of_char x :: nat) in
     if n \<le> 57 then n - 48 else if n \<le> 70 then n - 55 else n - 87)"

text \<open>\<open>decode\<close> on the characters before the terminator; \<open>None\<close> is the result \<open>-1\<close>.\<close>

fun decode :: "string \<Rightarrow> string option" where
  "decode [] = Some []"
| "decode (c # s) =
     (if c = CHR ''%'' then
        (case s of
           a # b # r \<Rightarrow> (if ishex a \<and> ishex b
                         then map_option (Cons (char_of (16 * hexval a + hexval b))) (decode r) else None)
         | _ \<Rightarrow> None)
      else map_option (Cons c) (decode s))"

definition EncodeDbName :: "string \<Rightarrow> string" where
  "EncodeDbName dbname = Escape dbname True"

definition EncodeColName :: "string \<Rightarrow> string" where
  "EncodeColName colname = Escape colname False"

definition DecodeName :: "string \<Rightarrow> string" where
  "DecodeName name = (case decode (c_str name) of None \<Rightarrow> [] | Some d \<Rightarrow> c_str d)"

definition ShouldEscapeQuery :: "char \<Rightarrow> bool" where
  "ShouldEscapeQuery c \<longleftrightarrow> c \<in> set (''-[]{}()*+?'' @ [BACKSLASH] @ ''.,^$|#'')"

definition EscapeQuery :: "string \<Rightarrow> string" where
  "EscapeQuery s =
     (let cnt = length (filter ShouldEscapeQuery s) in
      if cnt = 0 then s
      else concat (map (\<lambda>c. if ShouldEscapeQuery c then [BACKSLASH, c] else [c]) s))"

section \<open>Lemmas\<close>

text \<open>The shortcut for names without special characters computes the same.\<close>

lemma Escape_concat: "Escape s db = concat (map (escape_char db) s)"
proof -
  have "concat (map (escape_char db) s) = s" if "filter (\<lambda>c. ShouldEscape c db) s = []"
    using that by (induction s) (auto simp: escape_char_def split: if_splits)
  then show ?thesis by (simp add: Escape_def Let_def)
qed

lemma upperhex_digit: "d < 16 \<Longrightarrow> ishex (upperhex ! d) \<and> hexval (upperhex ! d) = d \<and> upperhex ! d \<noteq> NUL"
proof -
  have "\<forall>d \<in> set [0..<16]. ishex (upperhex ! d) \<and> hexval (upperhex ! d) = d \<and> upperhex ! d \<noteq> NUL"
    by code_simp
  then show "d < 16 \<Longrightarrow> ?thesis" by simp
qed

lemma of_char_nibbles:
  "(of_char (c :: char) :: nat) div 16 < 16" "(of_char (c :: char) :: nat) mod 16 < 16"
proof -
  have "(of_char c :: nat) < 16 * 16" by simp
  then show "(of_char c :: nat) div 16 < 16" by (rule less_mult_imp_div_less)
qed simp

lemma decode_escape_char: "decode (escape_char db c @ t) = map_option (Cons c) (decode t)"
proof (cases "ShouldEscape c db")
  case True
  have "char_of (16 * (of_char c div 16) + of_char c mod 16 :: nat) = c" by simp
  then show ?thesis
    using True upperhex_digit [OF of_char_nibbles(1) [of c]] upperhex_digit [OF of_char_nibbles(2) [of c]]
    by (simp add: escape_char_def)
next
  case False
  then have "c \<noteq> CHR ''%''" by (auto simp: ShouldEscape_def)
  then show ?thesis using False by (simp add: escape_char_def)
qed

lemma decode_Escape: "decode (Escape s db) = Some s"
proof -
  have "decode (concat (map (escape_char db) s)) = Some s"
    by (induction s) (simp_all add: decode_escape_char del: decode.simps(2))
  then show ?thesis by (simp add: Escape_concat)
qed

lemma NUL_notin_escape_char: "c \<noteq> NUL \<Longrightarrow> NUL \<notin> set (escape_char db c)"
  using upperhex_digit [OF of_char_nibbles(1) [of c], THEN conjunct2, THEN conjunct2]
    upperhex_digit [OF of_char_nibbles(2) [of c], THEN conjunct2, THEN conjunct2]
  by (simp add: escape_char_def not_sym)

lemma DecodeName_Escape:
  assumes "NUL \<notin> set s"
  shows "DecodeName (Escape s db) = s"
proof -
  have "NUL \<notin> set (escape_char db c)" if "c \<in> set s" for c
    using that assms by (intro NUL_notin_escape_char) auto
  then have "NUL \<notin> set (Escape s db)" by (simp add: Escape_concat)
  then show ?thesis unfolding DecodeName_def by (simp add: c_str_id [OF assms] c_str_id decode_Escape)
qed

definition forbidden :: "char set" where
  "forbidden = set (''/.$ '' @ [BACKSLASH, QUOTE])"

lemma upperhex_not_forbidden: "d < 16 \<Longrightarrow> upperhex ! d \<notin> forbidden"
proof -
  have "\<forall>d \<in> set [0..<16]. upperhex ! d \<notin> forbidden" by code_simp
  then show "d < 16 \<Longrightarrow> ?thesis" by simp
qed

lemma forbidden_escaped: "c \<in> forbidden \<Longrightarrow> ShouldEscape c True"
proof -
  have "\<forall>c \<in> set (''/.$ '' @ [BACKSLASH, QUOTE]). ShouldEscape c True" by code_simp
  then show "c \<in> forbidden \<Longrightarrow> ?thesis" unfolding forbidden_def by blast
qed

lemma EncodeDbName_chars: "set (EncodeDbName s) \<inter> forbidden = {}"
proof -
  have pct: "CHR ''%'' \<notin> forbidden" by code_simp
  have "x \<notin> forbidden" if "x \<in> set (escape_char True c)" for x c
  proof (cases "ShouldEscape c True")
    case True
    then have "x = CHR ''%'' \<or> x = upperhex ! (of_char c div 16) \<or> x = upperhex ! (of_char c mod 16)"
      using that by (simp add: escape_char_def)
    then show ?thesis using pct upperhex_not_forbidden of_char_nibbles by blast
  next
    case False
    then have "x = c" using that by (simp add: escape_char_def)
    then show ?thesis using False forbidden_escaped by blast
  qed
  then show ?thesis unfolding EncodeDbName_def Escape_concat by auto
qed

section \<open>Properties\<close>

text \<open>
  C36. A database name and a collection name are recovered from their encoded form, so two
  different streams or data sources never share a collection or a database; and the encoded
  database name has none of the characters that MongoDB forbids.
\<close>
theorem name_encoding_round_trip:
  assumes "NUL \<notin> set s"
  shows "DecodeName (EncodeDbName s) = s \<and> DecodeName (EncodeColName s) = s
    \<and> set (EncodeDbName s) \<inter> forbidden = {}"
  using DecodeName_Escape [OF assms] EncodeDbName_chars
  by (simp add: EncodeDbName_def EncodeColName_def)

theorem name_encoding_round_trip_witness:
  "EncodeDbName ''beam 1/raw.x'' = ''beam%201%2Fraw%2Ex'' \<and> DecodeName (EncodeDbName ''beam 1/raw.x'') = ''beam 1/raw.x''"
proof -
  have "EncodeDbName ''beam 1/raw.x'' = ''beam%201%2Fraw%2Ex''" by code_simp
  then show ?thesis using name_encoding_round_trip [of "''beam 1/raw.x''"] by simp
qed

end
