(* ===== verification/Consumer_Net.thy ===== *)
theory Consumer_Net
  imports Asapo_Version Asapo_Network
begin

text \<open>
  The clients that fetch the data of a message from the cache of a receiver
  (\<open>consumer/api/cpp/src/tcp_connection_pool.cpp\<close>, \<open>tcp_consumer_client.cpp\<close>,
  \<open>fabric_consumer_client.cpp\<close>, \<open>rds_response_error.h\<close>).  Sockets and the fabric library are
  records of functions on a world \<open>'w\<close>.

  A method that fills a variable of the caller returns what it puts there; \<open>None\<close> is a variable
  that stays as it was.
\<close>

section \<open>Errors of the data server\<close>

definition rds_err :: "u16 \<Rightarrow> string \<Rightarrow> error" where
  "rds_err code nm = Generate \<lparr>t_service = RdsResponse_S, t_type = unat code, t_name = nm\<rparr> []"

definition kRdsNoData :: error_template where
  "kRdsNoData = \<lparr>t_service = RdsResponse_S, t_type = unat kNetErrorNoData, t_name = ''RDS response NoData''\<rparr>"

definition ConvertRdsResponseToError :: "u16 \<Rightarrow> error option" where
  "ConvertRdsResponseToError code =
     (if code = kNetErrorNoError then None
      else if code = kNetErrorNotSupported then Some (rds_err code ''RDS unsupported client'')
      else if code = kNetErrorReauthorize then Some (rds_err code ''RDS response Reauthorize'')
      else if code = kNetErrorWarning then Some (rds_err code ''RDS response Warning'')
      else if code = kNetErrorWrongRequest then Some (rds_err code ''RDS response WrongRequest'')
      else if code = kNetErrorNoData then Some (rds_err code ''RDS response NoData'')
      else if code = kNetAuthorizationError then Some (rds_err code ''RDS response AuthorizationError'')
      else if code = kNetErrorInternalServerError then Some (rds_err code ''RDS response InternalServerError'')
      else Some (gen_err kSimpleError (''Unknown RDS response code '' @ nat_to_string (unat code))))"

section \<open>The pool of connections\<close>

record TcpConnectionInfo =
  ti_uri :: string
  ti_sd :: int
  ti_in_use :: bool

record 'w consumer_sockets =
  cs_CreateAndConnectIPTCPSocket :: "string \<Rightarrow> 'w \<Rightarrow> (int \<times> error option) \<times> 'w"
  cs_SendHeader :: "int \<Rightarrow> GenericRequestHeader \<Rightarrow> 'w \<Rightarrow> error option \<times> 'w"
  cs_ReceiveResponse :: "int \<Rightarrow> 'w \<Rightarrow> (GenericNetworkResponse \<times> error option) \<times> 'w"
  cs_Receive :: "int \<Rightarrow> u64 \<Rightarrow> 'w \<Rightarrow> (string \<times> error option) \<times> 'w"
  cs_CloseSocket :: "int \<Rightarrow> 'w \<Rightarrow> 'w"
  cs_allocates :: "u64 \<Rightarrow> 'w \<Rightarrow> bool"
  cs_custom_data :: "u64 list"
  cs_rds_version :: string

record 'w TcpConsumerClient =
  tc_world :: 'w
  tc_connections :: "TcpConnectionInfo list"

definition in_tc_world :: "('w \<Rightarrow> 'a \<times> 'w) \<Rightarrow> 'w TcpConsumerClient \<Rightarrow> 'a \<times> 'w TcpConsumerClient" where
  "in_tc_world f t = (let (x, w) = f (tc_world t) in (x, t\<lparr>tc_world := w\<rparr>))"

definition Pool_Connect :: "'w consumer_sockets \<Rightarrow> string \<Rightarrow> 'w TcpConsumerClient \<Rightarrow> (int \<times> error option) \<times> 'w TcpConsumerClient" where
  "Pool_Connect N source t =
     (let ((fd, err), t1) = in_tc_world (cs_CreateAndConnectIPTCPSocket N source) t in
      if err \<noteq> None then ((-1, err), t1) else ((fd, None), t1))"

text \<open>The first connection to the source that is free.\<close>

fun take_free :: "string \<Rightarrow> TcpConnectionInfo list \<Rightarrow> (int \<times> TcpConnectionInfo list) option" where
  "take_free source [] = None"
| "take_free source (c # cs) =
     (if source = ti_uri c \<and> \<not> ti_in_use c then Some (ti_sd c, c\<lparr>ti_in_use := True\<rparr> # cs)
      else map_option (\<lambda>(fd, cs'). (fd, c # cs')) (take_free source cs))"

text \<open>The results are the socket, whether it is reused, and the error.\<close>

definition GetFreeConnection ::
    "'w consumer_sockets \<Rightarrow> string \<Rightarrow> 'w TcpConsumerClient \<Rightarrow> (int \<times> bool \<times> error option) \<times> 'w TcpConsumerClient" where
  "GetFreeConnection N source t =
     (case take_free source (tc_connections t) of
        Some (fd, cs) \<Rightarrow> ((fd, True, None), t\<lparr>tc_connections := cs\<rparr>)
      | None \<Rightarrow>
          (let ((fd, err), t1) = Pool_Connect N source t in
           if err = None
           then ((fd, False, None),
                 t1\<lparr>tc_connections := tc_connections t1 @ [\<lparr>ti_uri = source, ti_sd = fd, ti_in_use = True\<rparr>]\<rparr>)
           else ((fd, False, err), t1)))"

text \<open>
  \<open>Reconnect\<close> compares the address of the caller's error variable with a null pointer instead of
  the error in it.  The address is never null, so the entry is always removed.
\<close>

definition Reconnect :: "'w consumer_sockets \<Rightarrow> int \<Rightarrow> 'w TcpConsumerClient \<Rightarrow> (int \<times> error option) \<times> 'w TcpConsumerClient" where
  "Reconnect N fd t =
     (case List.extract (\<lambda>c. ti_sd c = fd) (tc_connections t) of
        None \<Rightarrow> ((-1, Some (gen_err kSimpleError ''cannot find connection in pool'')), t)
      | Some (before, c, after) \<Rightarrow>
          (let ((new_sd, err), t1) = Pool_Connect N (ti_uri c) t in
           ((new_sd, err), t1\<lparr>tc_connections := before @ after\<rparr>)))"

definition ReleaseConnection :: "int \<Rightarrow> 'w TcpConsumerClient \<Rightarrow> 'w TcpConsumerClient" where
  "ReleaseConnection fd t =
     t\<lparr>tc_connections := map (\<lambda>c. if fd = ti_sd c then c\<lparr>ti_in_use := False\<rparr> else c) (tc_connections t)\<rparr>"

section \<open>The TCP client\<close>

definition get_data_header :: "u64 list \<Rightarrow> string \<Rightarrow> MessageMeta \<Rightarrow> GenericRequestHeader" where
  "get_data_header cd rds_version info =
     (GenericRequestHeader_new cd kOpcodeGetBufferData (mm_buf_id info) (mm_size info) 0 [] [])
       \<lparr>api_version := strncpy kMaxVersionSize rds_version\<rparr>"

definition tc_close :: "'w consumer_sockets \<Rightarrow> int \<Rightarrow> 'w TcpConsumerClient \<Rightarrow> 'w TcpConsumerClient" where
  "tc_close N fd t = t\<lparr>tc_world := cs_CloseSocket N fd (tc_world t)\<rparr>"

definition SendGetDataRequest :: "'w consumer_sockets \<Rightarrow> int \<Rightarrow> MessageMeta \<Rightarrow> 'w TcpConsumerClient \<Rightarrow> error option \<times> 'w TcpConsumerClient" where
  "SendGetDataRequest N fd info t =
     (let (err, t1) = in_tc_world (cs_SendHeader N fd (get_data_header (cs_custom_data N) (cs_rds_version N) info)) t in
      if err \<noteq> None then (err, tc_close N fd (ReleaseConnection fd t1)) else (None, t1))"

definition ReconnectAndResendGetDataRequest ::
    "'w consumer_sockets \<Rightarrow> int \<Rightarrow> MessageMeta \<Rightarrow> 'w TcpConsumerClient \<Rightarrow> (int \<times> error option) \<times> 'w TcpConsumerClient" where
  "ReconnectAndResendGetDataRequest N fd info t =
     (let ((fd1, err), t1) = Reconnect N fd t in
      if err \<noteq> None then ((fd1, err), t1)
      else (let (err2, t2) = SendGetDataRequest N fd1 info t1 in ((fd1, err2), t2)))"

definition ReceiveResponce :: "'w consumer_sockets \<Rightarrow> int \<Rightarrow> 'w TcpConsumerClient \<Rightarrow> error option \<times> 'w TcpConsumerClient" where
  "ReceiveResponce N fd t =
     (let ((response, err), t1) = in_tc_world (cs_ReceiveResponse N fd) t in
      if err \<noteq> None then (err, ReleaseConnection fd (tc_close N fd t1))
      else if error_code response \<noteq> 0 then
        (ConvertRdsResponseToError (error_code response),
         if error_code response = kNetErrorNotSupported then ReleaseConnection fd (tc_close N fd t1)
         else if error_code response = kNetErrorWrongRequest then tc_close N fd t1
         else if error_code response = kNetErrorNoData then ReleaseConnection fd t1
         else t1)
      else (None, t1))"

definition QueryCacheHasData ::
    "'w consumer_sockets \<Rightarrow> int \<Rightarrow> MessageMeta \<Rightarrow> bool \<Rightarrow> 'w TcpConsumerClient \<Rightarrow> (int \<times> error option) \<times> 'w TcpConsumerClient" where
  "QueryCacheHasData N fd info try_reconnect t =
     (let (err, t1) = SendGetDataRequest N fd info t;
          ((fd1, err1), t2) = (if err \<noteq> None \<and> try_reconnect then ReconnectAndResendGetDataRequest N fd info t1
                               else ((fd, err), t1)) in
      if err1 \<noteq> None then ((fd1, err1), t2)
      else (let (err2, t3) = ReceiveResponce N fd1 t2 in ((fd1, err2), t3)))"

definition ReceiveData ::
    "'w consumer_sockets \<Rightarrow> int \<Rightarrow> MessageMeta \<Rightarrow> 'w TcpConsumerClient \<Rightarrow> (error option \<times> string option) \<times> 'w TcpConsumerClient" where
  "ReceiveData N fd info t =
     (if \<not> cs_allocates N (mm_size info) (tc_world t)
      then ((Some (gen_err kMemoryAllocationError []), None), ReleaseConnection fd t)
      else
        (let ((bytes, err), t1) = in_tc_world (cs_Receive N fd (mm_size info)) t;
             t2 = ReleaseConnection fd t1 in
         if err = None then ((None, Some bytes), t2) else ((err, None), tc_close N fd t2)))"

definition Tcp_GetData ::
    "'w consumer_sockets \<Rightarrow> MessageMeta \<Rightarrow> 'w TcpConsumerClient \<Rightarrow> (error option \<times> string option) \<times> 'w TcpConsumerClient" where
  "Tcp_GetData N info t =
     (let ((fd, reused, err), t1) = GetFreeConnection N (mm_source info) t in
      if err \<noteq> None then ((err, None), t1)
      else
        (let ((fd1, err1), t2) = QueryCacheHasData N fd info reused t1 in
         if err1 \<noteq> None then ((err1, None), t2) else ReceiveData N fd1 info t2))"

section \<open>The fabric client\<close>

record 'w consumer_fabric =
  cf_CreateClient :: "'w \<Rightarrow> error option \<times> 'w"
  cf_AddServerAddress :: "string \<Rightarrow> 'w \<Rightarrow> (u64 \<times> error option) \<times> 'w"
  cf_ShareMemoryRegion :: "u64 \<Rightarrow> 'w \<Rightarrow> (string \<times> error option) \<times> 'w"
  cf_Send :: "u64 \<Rightarrow> u64 \<Rightarrow> GenericRequestHeader \<Rightarrow> 'w \<Rightarrow> error option \<times> 'w"
  cf_Recv :: "u64 \<Rightarrow> u64 \<Rightarrow> 'w \<Rightarrow> (GenericNetworkResponse \<times> error option) \<times> 'w"
  cf_region_bytes :: "u64 \<Rightarrow> 'w \<Rightarrow> string"
  cf_custom_data :: "u64 list"
  cf_rds_version :: string

record 'w FabricConsumerClient =
  fc_world :: 'w
  fc_client :: bool
  known_addresses :: "(string \<times> u64) list"
  global_message_id :: u64

definition in_fc_world :: "('w \<Rightarrow> 'a \<times> 'w) \<Rightarrow> 'w FabricConsumerClient \<Rightarrow> 'a \<times> 'w FabricConsumerClient" where
  "in_fc_world f c = (let (x, w) = f (fc_world c) in (x, c\<lparr>fc_world := w\<rparr>))"

definition FabricConsumerClient_new :: "'w \<Rightarrow> 'w FabricConsumerClient" where
  "FabricConsumerClient_new w = \<lparr>fc_world = w, fc_client = False, known_addresses = [], global_message_id = 0\<rparr>"

definition GetAddressOrConnect ::
    "'w consumer_fabric \<Rightarrow> MessageMeta \<Rightarrow> 'w FabricConsumerClient \<Rightarrow> (u64 \<times> error option) \<times> 'w FabricConsumerClient" where
  "GetAddressOrConnect F info c =
     (case map_of (known_addresses c) (mm_source info) of
        Some address \<Rightarrow> ((address, None), c)
      | None \<Rightarrow>
          (let ((address, err), c1) = in_fc_world (cf_AddServerAddress F (mm_source info)) c in
           if err \<noteq> None then ((0, err), c1)
           else ((address, None), c1\<lparr>known_addresses := (mm_source info, address) # known_addresses c1\<rparr>)))"

definition PerformNetworkTransfer ::
    "'w consumer_fabric \<Rightarrow> u64 \<Rightarrow> GenericRequestHeader \<Rightarrow> 'w FabricConsumerClient
      \<Rightarrow> (GenericNetworkResponse option \<times> error option) \<times> 'w FabricConsumerClient" where
  "PerformNetworkTransfer F address h c =
     (let currentMessageId = global_message_id c;
          c1 = c\<lparr>global_message_id := currentMessageId + 1\<rparr>;
          (err, c2) = in_fc_world (cf_Send F address currentMessageId h) c1 in
      if err \<noteq> None then ((None, err), c2)
      else (let ((response, err2), c3) = in_fc_world (cf_Recv F address currentMessageId) c2 in ((Some response, err2), c3)))"

text \<open>
  The details of the memory region are copied to the start of the message field.  The server has
  written the data into the region when the response arrives.
\<close>

definition Fabric_GetData ::
    "'w consumer_fabric \<Rightarrow> MessageMeta \<Rightarrow> 'w FabricConsumerClient \<Rightarrow> (error option \<times> string option) \<times> 'w FabricConsumerClient" where
  "Fabric_GetData F info c =
     (let (err0, c0) = (if fc_client c then (None, c) else in_fc_world (cf_CreateClient F) c);
          c1 = c0\<lparr>fc_client := err0 = None\<rparr> in
      if err0 \<noteq> None then ((err0, None), c1)
      else
        (let ((address, err1), c2) = GetAddressOrConnect F info c1 in
         if err1 \<noteq> None then ((err1, None), c2)
         else
           (let ((region, err2), c3) = in_fc_world (cf_ShareMemoryRegion F (mm_size info)) c2 in
            if err2 \<noteq> None then ((err2, None), c3)
            else
              (let h = get_data_header (cf_custom_data F) (cf_rds_version F) info;
                   h1 = h\<lparr>message := region @ drop (length region) (message h)\<rparr>;
                   ((response, err3), c4) = PerformNetworkTransfer F address h1 c3 in
               if err3 \<noteq> None then ((err3, None), c4)
               else
                 (case response of
                    None \<Rightarrow> ((None, None), c4)
                  | Some r \<Rightarrow>
                      (if error_code r \<noteq> 0 then ((ConvertRdsResponseToError (error_code r), None), c4)
                       else ((None, Some (cf_region_bytes F (mm_size info) (fc_world c4))), c4)))))))"

section \<open>Lemmas about the pool\<close>

definition sockets_of :: "'w TcpConsumerClient \<Rightarrow> int list" where
  "sockets_of t = map ti_sd (tc_connections t)"

text \<open>The connections that some request is using.\<close>

definition in_use :: "'w TcpConsumerClient \<Rightarrow> TcpConnectionInfo list" where
  "in_use t = filter ti_in_use (tc_connections t)"

definition fresh_sockets :: "'w consumer_sockets \<Rightarrow> 'w TcpConsumerClient \<Rightarrow> bool" where
  "fresh_sockets N t \<longleftrightarrow>
     (\<forall>source w fd w'. cs_CreateAndConnectIPTCPSocket N source w = ((fd, None), w') \<longrightarrow> fd \<notin> set (sockets_of t))"

lemma take_free_Some:
  "take_free source cs = Some (fd, cs') \<Longrightarrow>
     \<exists>xs c ys. cs = xs @ c # ys \<and> cs' = xs @ c\<lparr>ti_in_use := True\<rparr> # ys \<and> ti_sd c = fd \<and> ti_uri c = source \<and> \<not> ti_in_use c"
proof (induction cs arbitrary: cs')
  case (Cons a cs)
  show ?case
  proof (cases "source = ti_uri a \<and> \<not> ti_in_use a")
    case True
    then show ?thesis using Cons.prems by (intro exI [of _ "[]"] exI [of _ a] exI [of _ cs]) auto
  next
    case False
    then obtain cs1 where "take_free source cs = Some (fd, cs1)" "cs' = a # cs1" using Cons.prems by auto
    with Cons.IH obtain xs c ys where "cs = xs @ c # ys" "cs1 = xs @ c\<lparr>ti_in_use := True\<rparr> # ys" "ti_sd c = fd"
      "ti_uri c = source" "\<not> ti_in_use c" by blast
    then show ?thesis using \<open>cs' = a # cs1\<close> by (intro exI [of _ "a # xs"] exI [of _ c] exI [of _ ys]) simp
  qed
qed simp

lemma release_absent:
  fixes cs :: "TcpConnectionInfo list"
  assumes "fd \<notin> set (map ti_sd cs)"
  shows "map (\<lambda>c. if fd = ti_sd c then c\<lparr>ti_in_use := False\<rparr> else c) cs = cs"
  using assms by (intro map_idI) auto

lemma release_others: "fd \<notin> set (sockets_of t) \<Longrightarrow> ReleaseConnection fd t = t"
  using release_absent [of fd "tc_connections t"] by (simp add: ReleaseConnection_def sockets_of_def)

text \<open>Giving back a connection that was taken restores the list.\<close>

lemma release_taken:
  assumes "distinct (map ti_sd cs)" and "take_free source cs = Some (fd, cs')"
  shows "map (\<lambda>c. if fd = ti_sd c then c\<lparr>ti_in_use := False\<rparr> else c) cs' = cs"
proof -
  from take_free_Some [OF assms(2)] obtain xs c ys where cs: "cs = xs @ c # ys" "cs' = xs @ c\<lparr>ti_in_use := True\<rparr> # ys"
    "ti_sd c = fd" "\<not> ti_in_use c" by blast
  have "fd \<notin> set (map ti_sd xs)" "fd \<notin> set (map ti_sd ys)" using assms(1) cs(1,3) by auto
  moreover have "c\<lparr>ti_in_use := False\<rparr> = c" using cs(4) by (cases c) simp
  ultimately show ?thesis using cs release_absent [of fd xs] release_absent [of fd ys] by simp
qed

lemma extract_taken:
  assumes "List.extract (\<lambda>c. ti_sd c = fd) cs = Some (xs, c, ys)"
  shows "cs = xs @ c # ys \<and> ti_sd c = fd"
  using assms by (auto simp: extract_Some_iff)

lemma tc_world_ops [simp]:
  "tc_connections (tc_close N fd t) = tc_connections t" "in_use (tc_close N fd t) = in_use t"
  "sockets_of (tc_close N fd t) = sockets_of t" "fresh_sockets N (tc_close M fd t) = fresh_sockets N t"
  "ReleaseConnection fd (t\<lparr>tc_world := w\<rparr>) = (ReleaseConnection fd t)\<lparr>tc_world := w\<rparr>"
  by (simp_all add: tc_close_def in_use_def sockets_of_def fresh_sockets_def ReleaseConnection_def)

lemma in_tc_world_frame:
  "in_tc_world f t = (x, t') \<Longrightarrow> tc_connections t' = tc_connections t"
  by (auto simp: in_tc_world_def Let_def split: prod.splits)

definition taken :: "int \<Rightarrow> 'w TcpConsumerClient \<Rightarrow> 'w TcpConsumerClient \<Rightarrow> bool" where
  "taken fd t t1 \<longleftrightarrow> in_use (ReleaseConnection fd t1) = in_use t"

lemma get_connection:
  assumes "GetFreeConnection N source t = ((fd, reused, None), t1)" and "distinct (sockets_of t)" and "fresh_sockets N t"
  shows "taken fd t t1 \<and> (reused \<longrightarrow> tc_connections (ReleaseConnection fd t1) = tc_connections t)"
proof (cases "take_free source (tc_connections t)")
  case None
  obtain fd' err w where c: "cs_CreateAndConnectIPTCPSocket N source (tc_world t) = ((fd', err), w)" by (metis prod.collapse)
  then have "err = None \<and> fd' = fd \<and> \<not> reused
      \<and> tc_connections t1 = tc_connections t @ [\<lparr>ti_uri = source, ti_sd = fd, ti_in_use = True\<rparr>]"
    using assms(1) None by (auto simp: GetFreeConnection_def Pool_Connect_def in_tc_world_def Let_def split: if_splits)
  moreover from this have "fd \<notin> set (sockets_of t)" using assms(3) c unfolding fresh_sockets_def by metis
  ultimately show ?thesis
    using release_absent [of fd "tc_connections t"] by (simp add: taken_def in_use_def ReleaseConnection_def sockets_of_def)
next
  case (Some r)
  obtain cs where "r = (fd, cs)" "reused" "tc_connections t1 = cs"
    using assms(1) Some by (cases r) (auto simp: GetFreeConnection_def)
  then show ?thesis
    using release_taken [OF assms(2) [unfolded sockets_of_def]] Some
    by (simp add: taken_def in_use_def ReleaseConnection_def)
qed

text \<open>A connection that was released after a failure is forgotten when it is opened again.\<close>

lemma reconnect_in_use:
  assumes "Reconnect N fd t = ((fd1, err), t1)" and "\<And>c. c \<in> set (tc_connections t) \<Longrightarrow> ti_sd c = fd \<Longrightarrow> \<not> ti_in_use c"
  shows "in_use t1 = in_use t \<and> set (sockets_of t1) \<subseteq> set (sockets_of t)
    \<and> (err = None \<longrightarrow> (\<exists>source w w'. cs_CreateAndConnectIPTCPSocket N source w = ((fd1, None), w')))"
proof (cases "List.extract (\<lambda>c. ti_sd c = fd) (tc_connections t)")
  case None
  then show ?thesis using assms(1) by (auto simp: Reconnect_def)
next
  case (Some r)
  obtain xs c ys where r: "r = (xs, c, ys)" by (metis prod_cases3)
  then have c: "tc_connections t = xs @ c # ys" "ti_sd c = fd" using extract_taken Some by blast+
  then have "\<not> ti_in_use c" using assms(2) [of c] by simp
  moreover obtain fd' e w where n: "cs_CreateAndConnectIPTCPSocket N (ti_uri c) (tc_world t) = ((fd', e), w)" by (metis prod.collapse)
  moreover have "tc_connections t1 = xs @ ys \<and> (err = None \<longrightarrow> e = None \<and> fd' = fd1)"
    using assms(1) Some r n by (auto simp: Reconnect_def Pool_Connect_def in_tc_world_def Let_def split: if_splits)
  ultimately show ?thesis using c by (auto simp: in_use_def sockets_of_def)
qed

lemma release_free: "c \<in> set (tc_connections (ReleaseConnection fd t)) \<Longrightarrow> ti_sd c = fd \<Longrightarrow> \<not> ti_in_use c"
  by (auto simp: ReleaseConnection_def split: if_splits)

lemma taken_release: "taken fd t t1 \<Longrightarrow> tc_connections t2 = tc_connections (ReleaseConnection fd t1) \<Longrightarrow> in_use t2 = in_use t"
  by (simp add: taken_def in_use_def)

lemma sends:
  assumes "SendGetDataRequest N fd info t = (err, t1)"
  shows "tc_connections t1 = tc_connections (if err = None then t else ReleaseConnection fd t)"
  using assms by (auto simp: SendGetDataRequest_def in_tc_world_def Let_def split: prod.splits if_splits)

text \<open>The answer to a request, when the request was sent on \<open>fd\<close>.\<close>

definition leaking_code :: "u16 \<Rightarrow> bool" where
  "leaking_code code \<longleftrightarrow> code \<notin> {kNetErrorNoError, kNetErrorNotSupported, kNetErrorNoData}"

lemma receives:
  assumes "ReceiveResponce N fd t = (err, t1)"
  shows "err = None \<and> tc_connections t1 = tc_connections t
    \<or> err \<noteq> None \<and> tc_connections t1 = tc_connections (ReleaseConnection fd t)
    \<or> (\<exists>code. leaking_code code \<and> err = ConvertRdsResponseToError code)"
proof -
  obtain resp e w where r: "cs_ReceiveResponse N fd (tc_world t) = ((resp, e), w)" by (metis prod.collapse)
  show ?thesis
  proof (cases e)
    case (Some x)
    then have "err = Some x" "tc_connections t1 = tc_connections (ReleaseConnection fd t)"
      using assms by (auto simp: ReceiveResponce_def in_tc_world_def r tc_close_def ReleaseConnection_def)
    then show ?thesis by simp
  next
    case None
    consider "error_code resp = 0" | "error_code resp = kNetErrorNotSupported" | "error_code resp = kNetErrorNoData"
      | "leaking_code (error_code resp)" unfolding leaking_code_def by auto
    then show ?thesis
    proof cases
      case 4
      then have "err = ConvertRdsResponseToError (error_code resp)"
        using assms None by (auto simp: ReceiveResponce_def in_tc_world_def r leaking_code_def)
      then show ?thesis using 4 by blast
    next
      case 1
      then show ?thesis using assms None by (simp add: ReceiveResponce_def in_tc_world_def r) auto
    next
      case 2
      have "err = ConvertRdsResponseToError kNetErrorNotSupported" "tc_connections t1 = tc_connections (ReleaseConnection fd t)"
        using assms by (simp_all add: ReceiveResponce_def in_tc_world_def r None 2 tc_close_def ReleaseConnection_def) auto
      then show ?thesis by (simp add: ConvertRdsResponseToError_def)
    next
      case 3
      have "err = ConvertRdsResponseToError kNetErrorNoData" "tc_connections t1 = tc_connections (ReleaseConnection fd t)"
        using assms by (simp_all add: ReceiveResponce_def in_tc_world_def r None 3 tc_close_def ReleaseConnection_def) auto
      then show ?thesis by (simp add: ConvertRdsResponseToError_def)
    qed
  qed
qed

lemma queries:
  assumes "QueryCacheHasData N fd info reused t1 = ((fd1, err), t2)" and "taken fd t t1"
    and "reused \<longrightarrow> tc_connections (ReleaseConnection fd t1) = tc_connections t" and "fresh_sockets N t"
  shows "err = None \<and> taken fd1 t t2 \<or> err \<noteq> None \<and> in_use t2 = in_use t
    \<or> (\<exists>code. leaking_code code \<and> err = ConvertRdsResponseToError code)"
proof -
  obtain e0 ta where s0: "SendGetDataRequest N fd info t1 = (e0, ta)" by fastforce
  note c0 = sends [OF s0]
  have answered: "err = None \<and> taken fd1 t t2 \<or> err \<noteq> None \<and> in_use t2 = in_use t
    \<or> (\<exists>code. leaking_code code \<and> err = ConvertRdsResponseToError code)"
    if "ReceiveResponce N fd1 tb = (err, t2)" "taken fd1 t tb" for tb
    using receives [OF that(1)] that(2) taken_release by (auto simp: taken_def in_use_def ReleaseConnection_def)
  show ?thesis
  proof (cases "e0 \<noteq> None \<and> reused")
    case False
    show ?thesis
    proof (cases e0)
      case None
      then have "fd1 = fd \<and> ReceiveResponce N fd ta = (err, t2)"
        using assms(1) s0 by (auto simp: QueryCacheHasData_def split: prod.splits)
      moreover have "taken fd t ta" using c0 None assms(2) by (simp add: taken_def in_use_def ReleaseConnection_def)
      ultimately show ?thesis using answered [of ta] by simp
    next
      case (Some x)
      then have "err = Some x" "t2 = ta" using assms(1) s0 False by (auto simp: QueryCacheHasData_def)
      then show ?thesis using c0 Some taken_release [OF assms(2), of ta] by simp
    qed
  next
    case True
    then have free: "tc_connections ta = tc_connections t" "tc_connections ta = tc_connections (ReleaseConnection fd t1)"
      using c0 assms(3) by (auto split: if_splits)
    obtain fd2 e1 tb where r: "Reconnect N fd ta = ((fd2, e1), tb)" by (metis prod.collapse)
    have "\<not> ti_in_use c" if "c \<in> set (tc_connections ta)" "ti_sd c = fd" for c
      using release_free [of c fd t1] that free by simp
    note rc = reconnect_in_use [OF r this]
    have same: "in_use tb = in_use t" using rc free by (simp add: in_use_def)
    show ?thesis
    proof (cases e1)
      case (Some x)
      then have "err = Some x \<and> t2 = tb"
        using assms(1) s0 True r by (auto simp: QueryCacheHasData_def ReconnectAndResendGetDataRequest_def)
      then show ?thesis using same by simp
    next
      case None
      have absent: "fd2 \<notin> set (sockets_of tb)"
      proof -
        obtain source w w' where "cs_CreateAndConnectIPTCPSocket N source w = ((fd2, None), w')" using rc None by blast
        then have "fd2 \<notin> set (sockets_of t)" using assms(4) unfolding fresh_sockets_def by blast
        moreover have "sockets_of ta = sockets_of t" using free by (simp add: sockets_of_def)
        ultimately show ?thesis using rc by auto
      qed
      obtain e2 tc where s2: "SendGetDataRequest N fd2 info tb = (e2, tc)" by fastforce
      have tc: "tc_connections tc = tc_connections tb"
        using sends [OF s2] release_others [OF absent] by (auto split: if_splits)
      show ?thesis
      proof (cases e2)
        case None
        have "fd1 = fd2 \<and> ReceiveResponce N fd2 tc = (err, t2)"
          using assms(1) s0 True r s2 \<open>e1 = None\<close> None
          by (auto simp: QueryCacheHasData_def ReconnectAndResendGetDataRequest_def split: prod.splits)
        moreover have "taken fd2 t tc"
          using tc same release_others [of fd2 tc] absent by (simp add: taken_def in_use_def sockets_of_def)
        ultimately show ?thesis using answered [of tc] by simp
      next
        case (Some x)
        then have "err = Some x \<and> t2 = tc"
          using assms(1) s0 True r s2 \<open>e1 = None\<close>
          by (auto simp: QueryCacheHasData_def ReconnectAndResendGetDataRequest_def)
        then show ?thesis using tc same by (simp add: in_use_def)
      qed
    qed
  qed
qed

lemma receives_data:
  assumes "ReceiveData N fd info t = ((err, data), t1)"
  shows "tc_connections t1 = tc_connections (ReleaseConnection fd t) \<and> (err = None \<longrightarrow> (\<exists>bytes. data = Some bytes))"
  using assms
  by (auto simp: ReceiveData_def in_tc_world_def Let_def ReleaseConnection_def tc_close_def split: prod.splits if_splits)

section \<open>Properties\<close>


definition demo_sockets :: "unit consumer_sockets" where
  "demo_sockets = \<lparr>
     cs_CreateAndConnectIPTCPSocket = (\<lambda>source w. ((5, None), w)),
     cs_SendHeader = (\<lambda>fd h w. (if fd = 4 then Some (gen_err kSimpleError []) else None, w)),
     cs_ReceiveResponse = (\<lambda>fd w. ((\<lparr>resp_op_code = kOpcodeGetBufferData, error_code = kNetErrorNoError, resp_message = []\<rparr>, None), w)),
     cs_Receive = (\<lambda>fd n w. ((replicate (unat n) CHR ''x'', None), w)),
     cs_CloseSocket = (\<lambda>fd w. w),
     cs_allocates = (\<lambda>n w. True),
     cs_custom_data = [0, 0, 0],
     cs_rds_version = ''v0.1''\<rparr>"

definition demo_pool :: "unit TcpConsumerClient" where
  "demo_pool = \<lparr>tc_world = (), tc_connections =
     [\<lparr>ti_uri = ''rds'', ti_sd = 3, ti_in_use = True\<rparr>, \<lparr>ti_uri = ''rds'', ti_sd = 4, ti_in_use = False\<rparr>]\<rparr>"

definition demo_meta :: MessageMeta where
  "demo_meta = MessageMeta_new\<lparr>mm_source := ''rds'', mm_size := 1\<rparr>"


text \<open>
  A connection that is opened again because the old one was broken is lost: a request that
  finds a free connection to the source, cannot send on it and succeeds on a new one leaves the pool
  with neither of the two, and nothing closes the new socket.
\<close>

theorem reconnected_socket_forgotten:
  assumes "Reconnect N fd t = ((fd1, None), t')" and "distinct (sockets_of t)" and "fresh_sockets N t"
  shows "set (sockets_of t') = set (sockets_of t) - {fd} \<and> fd1 \<notin> set (sockets_of t')"
proof -
  obtain xs c ys where e: "List.extract (\<lambda>c. ti_sd c = fd) (tc_connections t) = Some (xs, c, ys)"
    using assms(1) by (cases "List.extract (\<lambda>c. ti_sd c = fd) (tc_connections t)") (auto simp: Reconnect_def)
  note c = extract_taken [OF this]
  obtain fd' err w where n: "cs_CreateAndConnectIPTCPSocket N (ti_uri c) (tc_world t) = ((fd', err), w)" by (metis prod.collapse)
  then have r: "err = None \<and> fd' = fd1 \<and> tc_connections t' = xs @ ys"
    using assms(1) e by (auto simp: Reconnect_def Pool_Connect_def in_tc_world_def Let_def split: if_splits)
  then have "fd1 \<notin> set (sockets_of t)" using assms(3) n unfolding fresh_sockets_def by metis
  then show ?thesis using r c assms(2) by (auto simp: sockets_of_def)
qed

theorem reconnected_socket_forgotten_witness:
  "fst (Reconnect demo_sockets 4 demo_pool) = (5, None) \<and> set (sockets_of (snd (Reconnect demo_sockets 4 demo_pool))) = {3}"
proof -
  have d: "distinct (sockets_of demo_pool)" "fresh_sockets demo_sockets demo_pool"
    by (simp_all add: demo_pool_def sockets_of_def fresh_sockets_def demo_sockets_def)
  have r: "fst (Reconnect demo_sockets 4 demo_pool) = (5, None)" by code_simp
  then obtain t' where t': "Reconnect demo_sockets 4 demo_pool = ((5, None), t')" by (metis prod.collapse)
  then show ?thesis using reconnected_socket_forgotten [OF t' d] by (auto simp: demo_pool_def sockets_of_def)
qed

end
