(* ===== verification/Consumer_Requests.thy ===== *)
theory Consumer_Requests
  imports Consumer_Net Asapo_Http "HOL-Library.Monad_Syntax"
begin

text \<open>
  The requests of a consumer to the services (first half of \<open>consumer/api/cpp/src/consumer_impl.cpp\<close>):
  how an answer becomes an error, one HTTP request, the discovery of a service, and the three
  loops that repeat a request until it succeeds or the time is over.

  The HTTP client, the files, the clock and the sockets are the fields of \<open>consumer_env\<close>, functions
  on a world \<open>'w\<close>.  A loop that never ends is \<open>None\<close>, so operations that contain one return an
  option, and that they return at all is proved, not assumed.
\<close>

section \<open>Answers and errors\<close>

datatype OutputDataMode = string_output_mode | array_output_mode | file_output_mode

record RequestInfo =
  ri_host :: string
  ri_api :: string
  ri_extra_params :: string
  ri_body :: string
  ri_cookie :: string
  ri_output_mode :: OutputDataMode
  ri_post :: bool

definition RequestInfo_new :: RequestInfo where
  "RequestInfo_new = \<lparr>ri_host = [], ri_api = [], ri_extra_params = [], ri_body = [], ri_cookie = [],
     ri_output_mode = string_output_mode, ri_post = False\<rparr>"

record RequestOutput =
  string_output :: string
  data_output :: "string option"
  data_output_size :: u64

definition RequestOutput_new :: RequestOutput where
  "RequestOutput_new = \<lparr>string_output = [], data_output = None, data_output_size = 0\<rparr>"

definition output_to_string :: "RequestOutput \<Rightarrow> string" where
  "output_to_string r = (case data_output r of None \<Rightarrow> c_str (string_output r) | Some bytes \<Rightarrow> c_str bytes)"

definition GetNoDataResponseFromJson :: "rapidjson_lib \<Rightarrow> string \<Rightarrow> error + custom_data" where
  "GetNoDataResponseFromJson L json_string =
     (let parser = JsonStringParser L json_string;
          (e1, i) = GetUInt64 ''id'' 0 parser;
          (e2, i_max) = GetUInt64 ''id_max'' 0 parser;
          (e3, next_stream) = GetString ''next_stream'' [] parser in
      case e1 of Some e \<Rightarrow> Inl e | None \<Rightarrow>
      (case e2 of Some e \<Rightarrow> Inl e | None \<Rightarrow>
      (case e3 of Some e \<Rightarrow> Inl e | None \<Rightarrow> Inr (ConsumerErrorData i i_max next_stream))))"

definition GetPartialDataResponseFromJson :: "rapidjson_lib \<Rightarrow> string \<Rightarrow> error + custom_data" where
  "GetPartialDataResponseFromJson L json_string =
     (let parser = JsonStringParser L json_string;
          (e1, sz) = GetUInt64 ''size'' 0 parser;
          (e2, i) = GetUInt64 ''_id'' 0 parser in
      case e1 of Some e \<Rightarrow> Inl e | None \<Rightarrow>
      (case e2 of Some e \<Rightarrow> Inl e | None \<Rightarrow> Inr (PartialErrorData i sz)))"

definition ConsumerErrorFromPartialDataResponse :: "rapidjson_lib \<Rightarrow> string \<Rightarrow> error" where
  "ConsumerErrorFromPartialDataResponse L response =
     (case GetPartialDataResponseFromJson L response of
        Inl _ \<Rightarrow> AddDetails ''response'' response (cns_err C_kInterruptedTransaction ''malformed response'')
      | Inr d \<Rightarrow> SetCustomData (Some d) (cns_err C_kPartialData []))"

definition ConsumerErrorFromNoDataResponse :: "rapidjson_lib \<Rightarrow> string \<Rightarrow> error" where
  "ConsumerErrorFromNoDataResponse L response =
     (if contains_str ''get_record_by_id'' response then
        (case GetNoDataResponseFromJson L response of
           Inr (ConsumerErrorData i i_max next_stream) \<Rightarrow>
             SetCustomData (Some (ConsumerErrorData i i_max next_stream))
               (if i \<ge> i_max
                then (if next_stream = [] then cns_err C_kEndOfStream [] else cns_err C_kStreamFinished [])
                else cns_err C_kNoData [])
         | _ \<Rightarrow> cns_err C_kInterruptedTransaction (''malformed response - '' @ response))
      else cns_err C_kNoData [])"

definition ConsumerErrorFromHttpCode :: "rapidjson_lib \<Rightarrow> RequestOutput \<Rightarrow> HttpCode \<Rightarrow> error option" where
  "ConsumerErrorFromHttpCode L response code =
     (if code = HttpOK \<or> code = HttpNoContent then None
      else if code = HttpPartialContent then Some (ConsumerErrorFromPartialDataResponse L (output_to_string response))
      else if code = HttpBadRequest \<or> code = HttpUnauthorized then Some (cns_err C_kWrongInput (output_to_string response))
      else if code = HttpInternalServerError then Some (cns_err C_kInterruptedTransaction (output_to_string response))
      else if code = HttpServiceUnavailable \<or> code = HttpNotFound
        then Some (cns_err C_kUnavailableService (output_to_string response))
      else if code = HttpConflict then Some (ConsumerErrorFromNoDataResponse L (output_to_string response))
      else if code = HttpUnsupportedMediaType then Some (cns_err C_kUnsupportedClient (output_to_string response))
      else Some (cns_err C_kInterruptedTransaction (output_to_string response)))"

definition ConsumerErrorFromServerError :: "error \<Rightarrow> error" where
  "ConsumerErrorFromServerError server_err =
     (if err_is (Some server_err) (HttpErrorTemplates Http_kTransferError) then cns_err C_kInterruptedTransaction []
      else cns_err C_kUnavailableService [])"

definition ProcessRequestResponce ::
    "rapidjson_lib \<Rightarrow> RequestInfo \<Rightarrow> error option \<Rightarrow> RequestOutput \<Rightarrow> HttpCode \<Rightarrow> error option" where
  "ProcessRequestResponce L request server_err response code =
     (let err = (case server_err of
                   Some e \<Rightarrow> Some (SetCause server_err (ConsumerErrorFromServerError e))
                 | None \<Rightarrow> ConsumerErrorFromHttpCode L response code) in
      map_option (\<lambda>e. AddDetails ''api'' (ri_api request) (AddDetails ''host'' (ri_host request) e)) err)"

section \<open>The consumer\<close>

datatype NetworkConnectionType = kUndefined | kAsapoTcp | kFabric

datatype NetClient =
    FabricNet bool "(string \<times> u64) list" u64
  | TcpNet "TcpConnectionInfo list"

text \<open>
  The outside of a consumer.  \<open>ce_interrupts\<close> tells whether another thread has called
  \<open>InterruptCurrentOperation\<close> by the time of a world, and \<open>ce_other_client\<close> gives the network
  client that another thread creates while this one waits for the mutex.  \<open>ce_code\<close> is the content
  of the uninitialised code variable.
\<close>

record 'w consumer_env =
  ce_lib :: rapidjson_lib
  ce_protocol :: ConsumerProtocol
  ce_version :: string
  ce_UrlEscape :: "string \<Rightarrow> string"
  ce_Post :: "string \<Rightarrow> string \<Rightarrow> string \<Rightarrow> 'w \<Rightarrow> (string \<times> HttpCode \<times> error option) \<times> 'w"
  ce_PostArray :: "string \<Rightarrow> string \<Rightarrow> string \<Rightarrow> u64 \<Rightarrow> 'w \<Rightarrow> (string option \<times> HttpCode \<times> error option) \<times> 'w"
  ce_Get :: "string \<Rightarrow> 'w \<Rightarrow> (string \<times> HttpCode \<times> error option) \<times> 'w"
  ce_GetDataFromFile :: "string \<Rightarrow> u64 \<Rightarrow> 'w \<Rightarrow> (string option \<times> u64 \<times> error option) \<times> 'w"
  ce_now :: "'w \<Rightarrow> int"
  ce_sleep :: "'w \<Rightarrow> 'w"
  ce_interrupts :: "'w \<Rightarrow> bool"
  ce_other_client :: "'w \<Rightarrow> (NetClient \<times> 'w) option"
  ce_code :: HttpCode
  ce_sockets :: "'w consumer_sockets"
  ce_fabric :: "'w consumer_fabric"

record 'w ConsumerImpl =
  con_world :: 'w
  con_endpoint :: string
  current_broker_uri :: string
  current_fts_uri :: string
  con_source_path :: string
  has_filesystem :: bool
  con_credentials :: SourceCredentials
  data_source_encoded :: string
  con_timeout_ms :: u64
  should_try_rdma_first :: bool
  current_connection_type :: NetworkConnectionType
  folder_token :: string
  resend :: bool
  delay_ms :: u64
  resend_attempts :: u64
  interrupt_flag :: bool
  net_client :: "NetClient option"

definition in_con_world :: "('w \<Rightarrow> 'a \<times> 'w) \<Rightarrow> 'w ConsumerImpl \<Rightarrow> 'a \<times> 'w ConsumerImpl" where
  "in_con_world f c = (let (x, w) = f (con_world c) in (x, c\<lparr>con_world := w\<rparr>))"

definition kBrokerServiceName :: string where "kBrokerServiceName = ''asapo-broker''"
definition kFileTransferServiceName :: string where "kFileTransferServiceName = ''asapo-file-transfer''"

text \<open>The last two members have no initial value; they are arguments here.\<close>

definition ConsumerImpl_new ::
    "'w consumer_env \<Rightarrow> 'w \<Rightarrow> u64 \<Rightarrow> u64 \<Rightarrow> string \<Rightarrow> string \<Rightarrow> bool \<Rightarrow> SourceCredentials \<Rightarrow> 'w ConsumerImpl" where
  "ConsumerImpl_new E w d0 a0 server_uri source_path has_fs source =
     (let source1 = (if sc_data_source source = [] then source\<lparr>sc_data_source := kDefaultDataSource\<rparr> else source) in
      \<lparr>con_world = w, con_endpoint = server_uri, current_broker_uri = [], current_fts_uri = [],
       con_source_path = source_path, has_filesystem = has_fs, con_credentials = source1,
       data_source_encoded = ce_UrlEscape E (sc_data_source source1), con_timeout_ms = 0,
       should_try_rdma_first = True, current_connection_type = kUndefined, folder_token = [], resend = False,
       delay_ms = d0, resend_attempts = a0, interrupt_flag = False, net_client = None\<rparr>)"

definition SetTimeout :: "u64 \<Rightarrow> 'w ConsumerImpl \<Rightarrow> 'w ConsumerImpl" where
  "SetTimeout t c = c\<lparr>con_timeout_ms := t\<rparr>"

definition ForceNoRdma :: "'w ConsumerImpl \<Rightarrow> 'w ConsumerImpl" where
  "ForceNoRdma c = c\<lparr>should_try_rdma_first := False\<rparr>"

definition CurrentConnectionType :: "'w ConsumerImpl \<Rightarrow> NetworkConnectionType" where
  "CurrentConnectionType c = current_connection_type c"

definition InterruptCurrentOperation :: "'w ConsumerImpl \<Rightarrow> 'w ConsumerImpl" where
  "InterruptCurrentOperation c = c\<lparr>interrupt_flag := True\<rparr>"

definition SetResendNacs :: "bool \<Rightarrow> u64 \<Rightarrow> u64 \<Rightarrow> 'w ConsumerImpl \<Rightarrow> 'w ConsumerImpl" where
  "SetResendNacs r d n c = c\<lparr>resend := r, delay_ms := d, resend_attempts := n\<rparr>"

text \<open>The flag as a loop reads it, after what other threads did.\<close>

definition poll_interrupt :: "'w consumer_env \<Rightarrow> 'w ConsumerImpl \<Rightarrow> 'w ConsumerImpl" where
  "poll_interrupt E c = (if ce_interrupts E (con_world c) then InterruptCurrentOperation c else c)"

section \<open>One request\<close>

text \<open>The variable that holds the address of a service; \<open>NoService\<close> is a null pointer.\<close>

datatype service_ref = NoService | BrokerUri | FtsUri

fun service_uri :: "service_ref \<Rightarrow> 'w ConsumerImpl \<Rightarrow> string" where
  "service_uri NoService c = []"
| "service_uri BrokerUri c = current_broker_uri c"
| "service_uri FtsUri c = current_fts_uri c"

fun set_service_uri :: "service_ref \<Rightarrow> string \<Rightarrow> 'w ConsumerImpl \<Rightarrow> 'w ConsumerImpl" where
  "set_service_uri NoService u c = c"
| "set_service_uri BrokerUri u c = c\<lparr>current_broker_uri := u\<rparr>"
| "set_service_uri FtsUri u c = c\<lparr>current_fts_uri := u\<rparr>"

definition RequestWithToken :: "'w ConsumerImpl \<Rightarrow> string \<Rightarrow> string" where
  "RequestWithToken c uri = uri @ ''?token='' @ sc_user_token (con_credentials c)"

definition request_url :: "'w ConsumerImpl \<Rightarrow> RequestInfo \<Rightarrow> string" where
  "request_url c request = RequestWithToken c (ri_host request @ ri_api request) @ ri_extra_params request"

definition ProcessPostRequest ::
    "'w consumer_env \<Rightarrow> RequestInfo \<Rightarrow> RequestOutput \<Rightarrow> 'w ConsumerImpl
      \<Rightarrow> (RequestOutput \<times> HttpCode \<times> error option) \<times> 'w ConsumerImpl" where
  "ProcessPostRequest E request response c =
     (case ri_output_mode request of
        string_output_mode \<Rightarrow>
          (let ((s, code, err), c1) = in_con_world (ce_Post E (request_url c request) (ri_cookie request) (ri_body request)) c in
           ((response\<lparr>string_output := s\<rparr>, code, err), c1))
      | array_output_mode \<Rightarrow>
          (let ((d, code, err), c1) = in_con_world (ce_PostArray E (request_url c request) (ri_cookie request)
                                        (ri_body request) (data_output_size response)) c in
           ((response\<lparr>data_output := d\<rparr>, code, err), c1))
      | file_output_mode \<Rightarrow> ((response, ce_code E, None), c))"

definition ProcessGetRequest ::
    "'w consumer_env \<Rightarrow> RequestInfo \<Rightarrow> RequestOutput \<Rightarrow> 'w ConsumerImpl
      \<Rightarrow> (RequestOutput \<times> HttpCode \<times> error option) \<times> 'w ConsumerImpl" where
  "ProcessGetRequest E request response c =
     (let ((s, code, err), c1) = in_con_world (ce_Get E (request_url c request)) c in
      ((response\<lparr>string_output := s\<rparr>, code, err), c1))"

definition Consumer_ProcessRequest ::
    "'w consumer_env \<Rightarrow> RequestOutput \<Rightarrow> RequestInfo \<Rightarrow> service_ref \<Rightarrow> 'w ConsumerImpl
      \<Rightarrow> (error option \<times> RequestOutput) \<times> 'w ConsumerImpl" where
  "Consumer_ProcessRequest E response request uri c =
     (let ((out, code, err), c1) = (if ri_post request then ProcessPostRequest E request response c
                                    else ProcessGetRequest E request response c);
          c2 = (if err \<noteq> None then set_service_uri uri [] c1 else c1) in
      ((ProcessRequestResponce (ce_lib E) request err out code, out), c2))"

section \<open>Discovery\<close>

definition GetDiscoveryRequest :: "'w consumer_env \<Rightarrow> string \<Rightarrow> 'w ConsumerImpl \<Rightarrow> RequestInfo" where
  "GetDiscoveryRequest E service_name c =
     RequestInfo_new\<lparr>ri_host := con_endpoint c,
       ri_api := ''/asapo-discovery/'' @ cp_discovery_version (ce_protocol E) @ ''/'' @ service_name,
       ri_extra_params := ''&protocol='' @ cp_version (ce_protocol E)\<rparr>"

definition ProcessDiscoverServiceResult :: "error option \<Rightarrow> service_ref \<Rightarrow> 'w ConsumerImpl \<Rightarrow> error option \<times> 'w ConsumerImpl" where
  "ProcessDiscoverServiceResult err uri_to_set c =
     (if err \<noteq> None \<or> service_uri uri_to_set c = []
      then (if err_is err (ConsumerErrorTemplates C_kUnsupportedClient) then err
            else Some (AddDetails ''destination'' (con_endpoint c)
                        (GenerateWithCause (ConsumerErrorTemplates C_kUnavailableService) [] err)),
            set_service_uri uri_to_set [] c)
      else (None, c))"

definition DiscoverService :: "'w consumer_env \<Rightarrow> string \<Rightarrow> service_ref \<Rightarrow> 'w ConsumerImpl \<Rightarrow> error option \<times> 'w ConsumerImpl" where
  "DiscoverService E service_name uri_to_set c =
     (if service_uri uri_to_set c \<noteq> [] then (None, c)
      else
        (let ((err, output), c1) = Consumer_ProcessRequest E RequestOutput_new (GetDiscoveryRequest E service_name c) NoService c in
         ProcessDiscoverServiceResult err uri_to_set (set_service_uri uri_to_set (string_output output) c1)))"

definition BrokerApiUri :: "'w consumer_env \<Rightarrow> 'w ConsumerImpl \<Rightarrow> string \<Rightarrow> string \<Rightarrow> string \<Rightarrow> string" where
  "BrokerApiUri E c str grp suffix =
     (let stream_encoded = ce_UrlEscape E str;
          group_encoded = (if grp \<noteq> [] then ce_UrlEscape E grp else []);
          uri = ''/'' @ cp_broker_version (ce_protocol E) @ ''/beamtime/'' @ sc_beamtime_id (con_credentials c) @ ''/''
                @ data_source_encoded c @ ''/'' @ stream_encoded;
          uri1 = (if group_encoded \<noteq> [] then uri @ ''/'' @ group_encoded else uri) in
      if suffix \<noteq> [] then uri1 @ ''/'' @ suffix else uri1)"

section \<open>Loops with a time limit\<close>

text \<open>One sleep of 100 ms, and the milliseconds since \<open>start\<close> added to the elapsed time.\<close>

definition sleep_and_count :: "'w consumer_env \<Rightarrow> int \<Rightarrow> u64 \<Rightarrow> 'w ConsumerImpl \<Rightarrow> u64 \<times> 'w ConsumerImpl" where
  "sleep_and_count E start elapsed_ms c =
     (let c1 = c\<lparr>con_world := ce_sleep E (con_world c)\<rparr> in
      (elapsed_ms + of_int (millis_between start (ce_now E (con_world c1))), c1))"

definition interrupted_by_user :: error where
  "interrupted_by_user = cns_err C_kInterruptedTransaction ''interrupted by user request''"

text \<open>
  The loop that a request to a service and the reading of a file share.  The body tells whether it
  breaks, and gives the error and the variables of the loop.
\<close>

partial_function (option) timed_loop ::
    "'w consumer_env \<Rightarrow> ('x \<Rightarrow> 'w ConsumerImpl \<Rightarrow> (bool \<times> error option \<times> 'x) \<times> 'w ConsumerImpl)
      \<Rightarrow> u64 \<Rightarrow> error option \<Rightarrow> 'x \<Rightarrow> 'w ConsumerImpl \<Rightarrow> ((error option \<times> 'x) \<times> 'w ConsumerImpl) option" where
  "timed_loop E body elapsed_ms err x c =
     (if elapsed_ms > con_timeout_ms c then Some ((err, x), c)
      else
        (let c1 = poll_interrupt E c in
         if interrupt_flag c1 then Some ((Some interrupted_by_user, x), c1)
         else
           (let ((stop, err1, x1), c2) = body x c1 in
            if stop then Some ((err1, x1), c2)
            else (let (elapsed1, c3) = sleep_and_count E (ce_now E (con_world c1)) elapsed_ms c2 in
                  timed_loop E body elapsed1 err1 x1 c3))))"

definition service_request_turn ::
    "'w consumer_env \<Rightarrow> string \<Rightarrow> service_ref \<Rightarrow> RequestInfo \<Rightarrow> RequestOutput \<Rightarrow> 'w ConsumerImpl
      \<Rightarrow> (bool \<times> error option \<times> RequestOutput) \<times> 'w ConsumerImpl" where
  "service_request_turn E service_name uri request response c =
     (let (err, c1) = DiscoverService E service_name uri c in
      if err \<noteq> None then ((False, err, response), c1)
      else
        (let ((err1, out), c2) = Consumer_ProcessRequest E response (request\<lparr>ri_host := service_uri uri c1\<rparr>) uri c1 in
         ((err1 = None \<or> err_is err1 (ConsumerErrorTemplates C_kWrongInput), err1, out), c2)))"

definition ServiceRequestWithTimeout ::
    "'w consumer_env \<Rightarrow> string \<Rightarrow> service_ref \<Rightarrow> RequestInfo \<Rightarrow> RequestOutput \<Rightarrow> 'w ConsumerImpl
      \<Rightarrow> ((error option \<times> RequestOutput) \<times> 'w ConsumerImpl) option" where
  "ServiceRequestWithTimeout E service_name uri request response c =
     timed_loop E (service_request_turn E service_name uri request) 0 None response (c\<lparr>interrupt_flag := False\<rparr>)"

definition BrokerRequestWithTimeout ::
    "'w consumer_env \<Rightarrow> RequestInfo \<Rightarrow> 'w ConsumerImpl \<Rightarrow> ((string \<times> error option) \<times> 'w ConsumerImpl) option" where
  "BrokerRequestWithTimeout E request c =
     do { ((err, response), c1) \<leftarrow> ServiceRequestWithTimeout E kBrokerServiceName BrokerUri request RequestOutput_new c;
          Some ((string_output response, err), c1) }"

text \<open>The size of the message and the data are variables of the caller that every attempt sets.\<close>

definition read_file_turn ::
    "'w consumer_env \<Rightarrow> MessageMeta \<times> string option \<Rightarrow> 'w ConsumerImpl
      \<Rightarrow> (bool \<times> error option \<times> MessageMeta \<times> string option) \<times> 'w ConsumerImpl" where
  "read_file_turn E = (\<lambda>(info, data) c.
     (let ((data1, sz, err), c1) =
            in_con_world (ce_GetDataFromFile E (MessageMeta_FullName info (con_source_path c)) (mm_size info)) c in
      ((err = None, err, info\<lparr>mm_size := sz\<rparr>, data1), c1)))"

definition Consumer_GetDataFromFile ::
    "'w consumer_env \<Rightarrow> MessageMeta \<Rightarrow> string option \<Rightarrow> 'w ConsumerImpl
      \<Rightarrow> ((error option \<times> MessageMeta \<times> string option) \<times> 'w ConsumerImpl) option" where
  "Consumer_GetDataFromFile E info data c =
     do { ((err, info1, data1), c1) \<leftarrow> timed_loop E (read_file_turn E) 0 None (info, data) (c\<lparr>interrupt_flag := False\<rparr>);
          Some ((map_option (\<lambda>e. GenerateWithCause (ConsumerErrorTemplates C_kLocalIOError) [] (Some e)) err, info1, data1), c1) }"

section \<open>The next message of a group\<close>

datatype GetMessageServerOperation = Op_GetNext | Op_GetLast | Op_GetID | Op_GetLastInGroup

fun OpToUriCmd :: "GetMessageServerOperation \<Rightarrow> string" where
  "OpToUriCmd Op_GetNext = ''next''"
| "OpToUriCmd Op_GetLastInGroup = ''groupedlast''"
| "OpToUriCmd Op_GetLast = ''last''"
| "OpToUriCmd Op_GetID = ''error''"

definition PrepareRequestInfo :: "'w ConsumerImpl \<Rightarrow> string \<Rightarrow> bool \<Rightarrow> u64 \<Rightarrow> RequestInfo" where
  "PrepareRequestInfo c api_url dataset min_size =
     RequestInfo_new\<lparr>ri_host := current_broker_uri c, ri_api := api_url,
       ri_extra_params := (if dataset then ''&dataset=true'' @ ''&minsize='' @ to_string min_size else [])\<rparr>"

text \<open>The variables of the loop of \<open>GetRecordFromServer\<close>.\<close>

record record_vars =
  rv_response :: string
  rv_group :: string
  rv_suffix :: string
  rv_elapsed :: u64
  rv_no_data :: "error option"

text \<open>The identifier in the custom data of an error that announces that data is missing.\<close>

fun missing_id :: "custom_data \<Rightarrow> u64" where
  "missing_id (PartialErrorData i sz) = i"
| "missing_id (ConsumerErrorData i i_max next_stream) = i"
| "missing_id (OriginalData s) = 0"

definition SwitchToGetByIdIfNoData :: "error option \<Rightarrow> record_vars \<Rightarrow> bool \<times> error option \<times> record_vars" where
  "SwitchToGetByIdIfNoData err v =
     (if err_is err (ConsumerErrorTemplates C_kNoData) then
        (case custom_data (the err) of
           None \<Rightarrow> (False, Some (cns_err C_kInterruptedTransaction (''malformed response - '' @ rv_response v)), v)
         | Some d \<Rightarrow> (True, err, v\<lparr>rv_suffix := to_string (missing_id d), rv_group := ''0''\<rparr>))
      else (False, err, v))"

definition SwitchToGetByIdIfPartialData :: "error option \<Rightarrow> record_vars \<Rightarrow> bool \<times> error option \<times> record_vars" where
  "SwitchToGetByIdIfPartialData err v =
     (if err_is err (ConsumerErrorTemplates C_kPartialData) then
        (case custom_data (the err) of
           None \<Rightarrow> (False, Some (AddDetails ''response'' (rv_response v) (cns_err C_kInterruptedTransaction ''malformed response'')), v)
         | Some d \<Rightarrow> (True, err, v\<lparr>rv_suffix := to_string (missing_id d), rv_group := ''0''\<rparr>))
      else (False, err, v))"

definition next_request :: "'w consumer_env \<Rightarrow> string \<Rightarrow> bool \<Rightarrow> u64 \<Rightarrow> record_vars \<Rightarrow> 'w ConsumerImpl \<Rightarrow> RequestInfo" where
  "next_request E request_api dataset min_size v c =
     (let ri = PrepareRequestInfo c (request_api @ ''/'' @ ce_UrlEscape E (rv_group v) @ ''/'' @ rv_suffix v) dataset min_size in
      if rv_suffix v = ''next'' \<and> resend c
      then ri\<lparr>ri_extra_params := ri_extra_params ri @ ''&resend_nacks=true'' @ ''&delay_ms='' @ to_string (delay_ms c)
                @ ''&resend_attempts='' @ to_string (resend_attempts c)\<rparr>
      else ri)"

text \<open>The two calls of a turn: the broker is looked up and asked.\<close>

definition ask_broker ::
    "'w consumer_env \<Rightarrow> string \<Rightarrow> bool \<Rightarrow> u64 \<Rightarrow> record_vars \<Rightarrow> 'w ConsumerImpl \<Rightarrow> (error option \<times> record_vars) \<times> 'w ConsumerImpl" where
  "ask_broker E request_api dataset min_size v c =
     (let (err, c1) = DiscoverService E kBrokerServiceName BrokerUri c in
      if err \<noteq> None then ((err, v), c1)
      else
        (let ((err1, output), c2) =
               Consumer_ProcessRequest E RequestOutput_new (next_request E request_api dataset min_size v c1) BrokerUri c1 in
         ((err1, v\<lparr>rv_response := string_output output\<rparr>), c2)))"

text \<open>What the loop does with an error; the result is the error it returns or the variables it goes on with.\<close>

definition after_error :: "u64 \<Rightarrow> error option \<Rightarrow> record_vars \<Rightarrow> error option option \<times> record_vars" where
  "after_error timeout err v =
     (if err_is err (ConsumerErrorTemplates C_kStreamFinished) then (Some err, v)
      else
        (let (saved, err1, v1) =
               (if rv_suffix v = ''next''
                then (let (b, e, v') = SwitchToGetByIdIfNoData err v in
                      if b then (b, e, v') else SwitchToGetByIdIfPartialData e v')
                else (False, err, v)) in
         if rv_suffix v = ''next'' \<and> err_is err1 (ConsumerErrorTemplates C_kInterruptedTransaction) then (Some err1, v1)
         else
           (let v2 = (if saved then v1\<lparr>rv_no_data := err1\<rparr> else v1) in
            if rv_elapsed v2 \<ge> timeout then (Some (if rv_no_data v2 \<noteq> None then rv_no_data v2 else err1), v2)
            else (None, v2))))"

definition record_turn ::
    "'w consumer_env \<Rightarrow> string \<Rightarrow> bool \<Rightarrow> u64 \<Rightarrow> record_vars \<Rightarrow> 'w ConsumerImpl
      \<Rightarrow> (error option option \<times> record_vars) \<times> 'w ConsumerImpl" where
  "record_turn E request_api dataset min_size v c =
     (let c1 = poll_interrupt E c in
      if interrupt_flag c1 then ((Some (Some interrupted_by_user), v), c1)
      else
        (let ((err, v1), c2) = ask_broker E request_api dataset min_size v c1 in
         if err = None then ((Some None, v1), c2)
         else
           (case after_error (con_timeout_ms c2) err v1 of
              (Some e, v2) \<Rightarrow> ((Some e, v2), c2)
            | (None, v2) \<Rightarrow>
                (let (elapsed1, c3) = sleep_and_count E (ce_now E (con_world c1)) (rv_elapsed v2) c2 in
                 ((None, v2\<lparr>rv_elapsed := elapsed1\<rparr>), c3)))))"

partial_function (option) record_loop ::
    "'w consumer_env \<Rightarrow> string \<Rightarrow> bool \<Rightarrow> u64 \<Rightarrow> record_vars \<Rightarrow> 'w ConsumerImpl
      \<Rightarrow> ((error option \<times> string) \<times> 'w ConsumerImpl) option" where
  "record_loop E request_api dataset min_size v c =
     (case record_turn E request_api dataset min_size v c of
        ((Some err, v1), c1) \<Rightarrow> Some ((err, rv_response v1), c1)
      | ((None, v1), c1) \<Rightarrow> record_loop E request_api dataset min_size v1 c1)"

definition GetRecordFromServer ::
    "'w consumer_env \<Rightarrow> string \<Rightarrow> string \<Rightarrow> string \<Rightarrow> GetMessageServerOperation \<Rightarrow> bool \<Rightarrow> u64 \<Rightarrow> 'w ConsumerImpl
      \<Rightarrow> ((error option \<times> string) \<times> 'w ConsumerImpl) option" where
  "GetRecordFromServer E response group_id str op dataset min_size c =
     (if str = [] then Some ((Some (cns_err C_kWrongInput ''empty stream''), response), c)
      else record_loop E (BrokerApiUri E c str [] []) dataset min_size
             \<lparr>rv_response = response, rv_group = group_id, rv_suffix = OpToUriCmd op, rv_elapsed = 0, rv_no_data = None\<rparr>
             (c\<lparr>interrupt_flag := False\<rparr>))"

section \<open>The loops end\<close>

text \<open>
  What the standard library says about the clock: a call does not end before it began and takes less
  than 2^59 ms, and a sleep lasts at least the time asked for.
\<close>

definition takes_time :: "'w consumer_env \<Rightarrow> int \<Rightarrow> 'w \<Rightarrow> 'w \<Rightarrow> bool" where
  "takes_time E ms w w' \<longleftrightarrow> ce_now E w + ms * 1000000 \<le> ce_now E w' \<and> ce_now E w' < ce_now E w + 2 ^ 59 * 1000000"

definition clock_advances :: "'w consumer_env \<Rightarrow> bool" where
  "clock_advances E \<longleftrightarrow>
     (\<forall>w. takes_time E 100 w (ce_sleep E w))
     \<and> (\<forall>u w. takes_time E 0 w (snd (ce_Get E u w)))
     \<and> (\<forall>u k b w. takes_time E 0 w (snd (ce_Post E u k b w)))
     \<and> (\<forall>u k b n w. takes_time E 0 w (snd (ce_PostArray E u k b n w)))
     \<and> (\<forall>f n w. takes_time E 0 w (snd (ce_GetDataFromFile E f n w)))"

text \<open>A step that keeps the time limit and takes less than \<open>n\<close> calls.\<close>

definition timely :: "'w consumer_env \<Rightarrow> int \<Rightarrow> 'w ConsumerImpl \<Rightarrow> 'w ConsumerImpl \<Rightarrow> bool" where
  "timely E n c c' \<longleftrightarrow> con_timeout_ms c' = con_timeout_ms c
     \<and> ce_now E (con_world c) \<le> ce_now E (con_world c')
     \<and> ce_now E (con_world c') \<le> ce_now E (con_world c) + n * 2 ^ 59 * 1000000"

lemma timely_refl [simp]: "timely E 0 c c"
  by (simp add: timely_def)

lemma timely_trans: "timely E m c c' \<Longrightarrow> timely E n c' c'' \<Longrightarrow> timely E (m + n) c c''"
  by (auto simp: timely_def algebra_simps)

lemma timely_mono: "timely E m c c' \<Longrightarrow> m \<le> n \<Longrightarrow> timely E n c c'"
  by (auto simp: timely_def)

lemma timely_frame:
  assumes "timely E n c c'" and "con_world d = con_world c'" and "con_timeout_ms d = con_timeout_ms c'"
  shows "timely E n c d"
  using assms by (simp add: timely_def)

lemma set_service_uri_frame [simp]:
  "con_world (set_service_uri r u c) = con_world c" "con_timeout_ms (set_service_uri r u c) = con_timeout_ms c"
  by (cases r; simp)+

lemma poll_interrupt_frame [simp]:
  "con_world (poll_interrupt E c) = con_world c" "con_timeout_ms (poll_interrupt E c) = con_timeout_ms c"
  by (simp_all add: poll_interrupt_def InterruptCurrentOperation_def)

lemma in_con_world_timely:
  assumes "in_con_world f c = (x, c')" and "takes_time E 0 (con_world c) (snd (f (con_world c)))"
  shows "timely E 1 c c'"
  using assms by (auto simp: in_con_world_def timely_def takes_time_def Let_def split: prod.splits)

lemma process_request_timely:
  assumes "clock_advances E" and "Consumer_ProcessRequest E out ri u c = (r, c')"
  shows "timely E 1 c c'"
proof -
  obtain o1 code err c1 where q: "(if ri_post ri then ProcessPostRequest E ri out c else ProcessGetRequest E ri out c) = ((o1, code, err), c1)"
    by (metis prod.collapse)
  have "timely E 1 c c1"
  proof (cases "ri_post ri")
    case False
    obtain s cd e c2 where g: "in_con_world (ce_Get E (request_url c ri)) c = ((s, cd, e), c2)" by (metis prod.collapse)
    have "timely E 1 c c2" using assms(1) by (intro in_con_world_timely [OF g]) (simp add: clock_advances_def)
    then show ?thesis using q g False by (auto simp: ProcessGetRequest_def)
  next
    case True
    show ?thesis
    proof (cases "ri_output_mode ri")
      case string_output_mode
      obtain s cd e c2 where g: "in_con_world (ce_Post E (request_url c ri) (ri_cookie ri) (ri_body ri)) c = ((s, cd, e), c2)"
        by (metis prod.collapse)
      have "timely E 1 c c2" using assms(1) by (intro in_con_world_timely [OF g]) (simp add: clock_advances_def)
      then show ?thesis using q g True string_output_mode by (auto simp: ProcessPostRequest_def)
    next
      case array_output_mode
      obtain s cd e c2 where g: "in_con_world (ce_PostArray E (request_url c ri) (ri_cookie ri) (ri_body ri) (data_output_size out)) c
          = ((s, cd, e), c2)" by (metis prod.collapse)
      have "timely E 1 c c2" using assms(1) by (intro in_con_world_timely [OF g]) (simp add: clock_advances_def)
      then show ?thesis using q g True array_output_mode by (auto simp: ProcessPostRequest_def)
    next
      case file_output_mode
      then have "c1 = c" using q True by (auto simp: ProcessPostRequest_def)
      then show ?thesis by (simp add: timely_def)
    qed
  qed
  moreover have "con_world c' = con_world c1 \<and> con_timeout_ms c' = con_timeout_ms c1"
    using assms(2) q by (auto simp: Consumer_ProcessRequest_def Let_def split: if_splits)
  ultimately show ?thesis by (simp add: timely_def)
qed

lemma discover_timely:
  assumes "clock_advances E" and "DiscoverService E nm u c = (err, c')"
  shows "timely E 1 c c'"
proof (cases "service_uri u c = []")
  case True
  obtain e out c1 where r: "Consumer_ProcessRequest E RequestOutput_new (GetDiscoveryRequest E nm c) NoService c = ((e, out), c1)"
    by (metis prod.collapse)
  have "con_world c' = con_world c1 \<and> con_timeout_ms c' = con_timeout_ms c1"
    using assms(2) True r by (auto simp: DiscoverService_def ProcessDiscoverServiceResult_def split: if_splits)
  then show ?thesis using process_request_timely [OF assms(1) r] by (simp add: timely_def)
qed (use assms(2) in \<open>auto simp: DiscoverService_def timely_def\<close>)

lemma sleep_counts:
  assumes "clock_advances E" and "timely E 4 c c2" and "unat elapsed \<le> unat (con_timeout_ms c)"
    and "unat (con_timeout_ms c) < 2 ^ 63" and "sleep_and_count E (ce_now E (con_world c)) elapsed c2 = (elapsed', c3)"
  shows "unat elapsed + 100 \<le> unat elapsed' \<and> con_timeout_ms c3 = con_timeout_ms c"
proof -
  let ?m = "millis_between (ce_now E (con_world c)) (ce_now E (ce_sleep E (con_world c2)))"
  have s: "takes_time E 100 (con_world c2) (ce_sleep E (con_world c2))" using assms(1) by (simp add: clock_advances_def)
  have m: "100 \<le> ?m \<and> ?m < 2 ^ 62"
    by (rule millis_between_bounds) (use s assms(2) in \<open>auto simp: takes_time_def timely_def\<close>)
  have "(of_int ?m :: u64) = of_nat (nat ?m)" using m by simp
  moreover have "nat ?m < 2 ^ 62" using m by (simp add: nat_less_iff)
  ultimately have d: "unat (of_int ?m :: u64) = nat ?m" using unat_of_nat64 [of "nat ?m"] by simp
  have "unat elapsed + unat (of_int ?m :: u64) < 2 ^ 64" using d \<open>nat ?m < 2 ^ 62\<close> assms(3,4) by simp
  then have "unat (elapsed + of_int ?m) = unat elapsed + nat ?m" using unat_add_no_wrap d by metis
  moreover have "100 \<le> nat ?m" using m by linarith
  ultimately show ?thesis using assms(2,5) by (auto simp: sleep_and_count_def Let_def timely_def)
qed

lemma timed_loop_returns:
  assumes "clock_advances E" and body: "\<And>x c r c'. body x c = (r, c') \<Longrightarrow> timely E 4 c c'"
    and "unat (con_timeout_ms c) < 2 ^ 63"
  shows "\<exists>err' x' c'. timed_loop E body elapsed err x c = Some ((err', x'), c') \<and> con_timeout_ms c' = con_timeout_ms c"
  using assms(3)
proof (induction "Suc (unat (con_timeout_ms c)) - unat elapsed" arbitrary: elapsed err x c rule: less_induct)
  case less
  let ?c1 = "poll_interrupt E c"
  show ?case
  proof (cases "elapsed > con_timeout_ms c \<or> interrupt_flag ?c1")
    case True
    then show ?thesis by (subst timed_loop.simps) (auto simp: Let_def)
  next
    case False
    obtain stop err1 x1 c2 where b: "body x ?c1 = ((stop, err1, x1), c2)" by (metis prod.collapse)
    obtain elapsed1 c3 where s: "sleep_and_count E (ce_now E (con_world ?c1)) elapsed c2 = (elapsed1, c3)" by fastforce
    have t: "timely E 4 ?c1 c2" using body [OF b] .
    have le: "unat elapsed \<le> unat (con_timeout_ms c)" using False by (simp add: word_le_nat_alt not_less)
    have n: "unat elapsed + 100 \<le> unat elapsed1 \<and> con_timeout_ms c3 = con_timeout_ms c"
      using sleep_counts [OF assms(1) t _ _ s] le less.prems by simp
    show ?thesis
    proof (cases stop)
      case True
      then show ?thesis using False b t by (subst timed_loop.simps) (auto simp: Let_def timely_def)
    next
      case go: False
      have "Suc (unat (con_timeout_ms c3)) - unat elapsed1 < Suc (unat (con_timeout_ms c)) - unat elapsed" using n le by (auto intro!: diff_less_mono2)
      from less.hyps [OF this] obtain err' x' c' where
        "timed_loop E body elapsed1 err1 x1 c3 = Some ((err', x'), c')" "con_timeout_ms c' = con_timeout_ms c3"
        using n less.prems by metis
      then show ?thesis using False go b s n by (subst timed_loop.simps) (auto simp: Let_def)
    qed
  qed
qed

lemma service_turn_timely:
  assumes "clock_advances E" and "service_request_turn E nm u ri out c = (r, c')"
  shows "timely E 4 c c'"
proof -
  obtain err c1 where d: "DiscoverService E nm u c = (err, c1)" by fastforce
  obtain e1 o1 c2 where p: "Consumer_ProcessRequest E out (ri\<lparr>ri_host := service_uri u c1\<rparr>) u c1 = ((e1, o1), c2)"
    by (metis prod.collapse)
  have "timely E (1 + 1) c c2" by (rule timely_trans [OF discover_timely [OF assms(1) d] process_request_timely [OF assms(1) p]])
  moreover have "c' = c1 \<or> c' = c2" using assms(2) d p by (auto simp: service_request_turn_def split: if_splits)
  ultimately show ?thesis using discover_timely [OF assms(1) d] by (elim disjE) (auto intro: timely_mono)
qed

lemma read_file_turn_timely:
  assumes "clock_advances E" and "read_file_turn E x c = (r, c')"
  shows "timely E 4 c c'"
proof -
  obtain info d where x: "x = (info, d)" by fastforce
  obtain d1 sz err c1 where g: "in_con_world (ce_GetDataFromFile E (MessageMeta_FullName info (con_source_path c)) (mm_size info)) c
      = ((d1, sz, err), c1)" by (metis prod.collapse)
  have "timely E 1 c c1" using assms(1) by (intro in_con_world_timely [OF g]) (simp add: clock_advances_def)
  then show ?thesis using assms(2) x g by (auto simp: read_file_turn_def intro: timely_mono)
qed

lemma ask_broker_timely:
  assumes "clock_advances E" and "ask_broker E api ds ms v c = ((err, v'), c')"
  shows "timely E 4 c c' \<and> rv_elapsed v' = rv_elapsed v"
proof -
  obtain e c1 where d: "DiscoverService E kBrokerServiceName BrokerUri c = (e, c1)" by fastforce
  obtain e1 o1 c2 where p: "Consumer_ProcessRequest E RequestOutput_new (next_request E api ds ms v c1) BrokerUri c1 = ((e1, o1), c2)"
    by (metis prod.collapse)
  have "timely E (1 + 1) c c2" by (rule timely_trans [OF discover_timely [OF assms(1) d] process_request_timely [OF assms(1) p]])
  moreover have "(c' = c1 \<or> c' = c2) \<and> rv_elapsed v' = rv_elapsed v" using assms(2) d p by (auto simp: ask_broker_def split: if_splits)
  ultimately show ?thesis using discover_timely [OF assms(1) d] by (auto intro: timely_mono)
qed

lemma after_error_elapsed:
  assumes "after_error timeout err v = (r, v')"
  shows "rv_elapsed v' = rv_elapsed v \<and> (r = None \<longrightarrow> rv_elapsed v < timeout)"
  using assms
  by (auto simp: after_error_def SwitchToGetByIdIfNoData_def SwitchToGetByIdIfPartialData_def Let_def not_le
      split: if_splits option.splits)

lemma record_turn_goes_on:
  assumes "clock_advances E" and "record_turn E api ds ms v c = ((None, v'), c')" and "unat (con_timeout_ms c) < 2 ^ 63"
  shows "con_timeout_ms c' = con_timeout_ms c \<and> unat (rv_elapsed v) < unat (con_timeout_ms c)
    \<and> unat (rv_elapsed v) + 100 \<le> unat (rv_elapsed v')"
proof -
  let ?c1 = "poll_interrupt E c"
  obtain err v1 c2 where a: "ask_broker E api ds ms v ?c1 = ((err, v1), c2)" by (metis prod.collapse)
  obtain r v2 where e: "after_error (con_timeout_ms c2) err v1 = (r, v2)" by fastforce
  obtain elapsed1 c3 where s: "sleep_and_count E (ce_now E (con_world ?c1)) (rv_elapsed v2) c2 = (elapsed1, c3)" by fastforce
  have go: "r = None \<and> v' = v2\<lparr>rv_elapsed := elapsed1\<rparr> \<and> c' = c3"
    using assms(2) a e s by (auto simp: record_turn_def Let_def split: if_splits option.splits)
  note t = ask_broker_timely [OF assms(1) a] and el = after_error_elapsed [OF e]
  have lt: "unat (rv_elapsed v2) < unat (con_timeout_ms ?c1)" using t el go by (simp add: timely_def word_less_nat_alt)
  show ?thesis using sleep_counts [OF assms(1) conjunct1 [OF t] _ _ s] lt assms(3) go t el by (simp add: timely_def)
qed

lemma record_turn_timeout:
  assumes "clock_advances E" and "record_turn E api ds ms v c = (r, c')"
  shows "con_timeout_ms c' = con_timeout_ms c"
proof -
  let ?c1 = "poll_interrupt E c"
  obtain err v1 c2 where a: "ask_broker E api ds ms v ?c1 = ((err, v1), c2)" by (metis prod.collapse)
  have "con_timeout_ms c2 = con_timeout_ms c" using ask_broker_timely [OF assms(1) a] by (simp add: timely_def)
  then show ?thesis
    using assms(2) a by (auto simp: record_turn_def sleep_and_count_def Let_def split: if_splits option.splits prod.splits)
qed

lemma record_loop_returns:
  assumes "clock_advances E" and "unat (con_timeout_ms c) < 2 ^ 63"
  shows "\<exists>err response c'. record_loop E api ds ms v c = Some ((err, response), c') \<and> con_timeout_ms c' = con_timeout_ms c"
  using assms(2)
proof (induction "unat (con_timeout_ms c) - unat (rv_elapsed v)" arbitrary: v c rule: less_induct)
  case less
  obtain r v1 c1 where t: "record_turn E api ds ms v c = ((r, v1), c1)" by (metis prod.collapse)
  show ?case
  proof (cases r)
    case (Some e)
    then show ?thesis using t record_turn_timeout [OF assms(1) t] by (subst record_loop.simps) simp
  next
    case None
    note g = record_turn_goes_on [OF assms(1) t [unfolded None] less.prems]
    have "unat (con_timeout_ms c1) - unat (rv_elapsed v1) < unat (con_timeout_ms c) - unat (rv_elapsed v)" using g by (auto intro!: diff_less_mono2)
    from less.hyps [OF this] obtain err response c' where
      "record_loop E api ds ms v1 c1 = Some ((err, response), c')" "con_timeout_ms c' = con_timeout_ms c1"
      using g less.prems by metis
    then show ?thesis using t None g by (subst record_loop.simps) simp
  qed
qed

lemma service_request_returns:
  assumes "clock_advances E" and "unat (con_timeout_ms c) < 2 ^ 63"
  shows "\<exists>err out' c'. ServiceRequestWithTimeout E nm u ri out c = Some ((err, out'), c') \<and> con_timeout_ms c' = con_timeout_ms c"
  using timed_loop_returns [OF assms(1), where body = "service_request_turn E nm u ri" and c = "c\<lparr>interrupt_flag := False\<rparr>"
      and elapsed = 0 and err = None and x = out] service_turn_timely [OF assms(1), of nm u ri] assms(2)
  unfolding ServiceRequestWithTimeout_def by simp

lemma read_file_returns:
  assumes "clock_advances E" and "unat (con_timeout_ms c) < 2 ^ 63"
  shows "\<exists>err info' d' c'. Consumer_GetDataFromFile E info d c = Some ((err, info', d'), c') \<and> con_timeout_ms c' = con_timeout_ms c"
proof -
  obtain err x c' where "timed_loop E (read_file_turn E) 0 None (info, d) (c\<lparr>interrupt_flag := False\<rparr>) = Some ((err, x), c')"
    "con_timeout_ms c' = con_timeout_ms c"
    using timed_loop_returns [OF assms(1), where body = "read_file_turn E" and c = "c\<lparr>interrupt_flag := False\<rparr>"
        and elapsed = 0 and err = None and x = "(info, d)"] read_file_turn_timely [OF assms(1)] assms(2) by auto
  then show ?thesis by (cases x) (simp add: Consumer_GetDataFromFile_def)
qed

lemma get_record_returns:
  assumes "clock_advances E" and "unat (con_timeout_ms c) < 2 ^ 63"
  shows "\<exists>err response' c'. GetRecordFromServer E response grp str op ds ms c = Some ((err, response'), c')
    \<and> con_timeout_ms c' = con_timeout_ms c"
proof (cases "str = []")
  case False
  have "unat (con_timeout_ms (c\<lparr>interrupt_flag := False\<rparr>)) < 2 ^ 63" using assms(2) by simp
  from record_loop_returns [OF assms(1) this] show ?thesis using False unfolding GetRecordFromServer_def by fastforce
qed (simp add: GetRecordFromServer_def)

section \<open>Requests after missing data\<close>

text \<open>The states of the loop of \<open>GetRecordFromServer\<close> before each turn.\<close>

inductive record_steps ::
    "'w consumer_env \<Rightarrow> string \<Rightarrow> bool \<Rightarrow> u64 \<Rightarrow> record_vars \<Rightarrow> 'w ConsumerImpl \<Rightarrow> record_vars \<Rightarrow> 'w ConsumerImpl \<Rightarrow> bool"
  for E api ds ms v0 c0 where
    record_start: "record_steps E api ds ms v0 c0 v0 c0"
  | record_again: "record_steps E api ds ms v0 c0 v c \<Longrightarrow> record_turn E api ds ms v c = ((None, v'), c')
      \<Longrightarrow> record_steps E api ds ms v0 c0 v' c'"

text \<open>The loop asks for the message with the identifier that an earlier answer reported as missing.\<close>

definition redirected :: "record_vars \<Rightarrow> bool" where
  "redirected v \<longleftrightarrow> (\<exists>e d. rv_no_data v = Some e \<and> custom_data e = Some d
     \<and> rv_suffix v = to_string (missing_id d) \<and> rv_group v = ''0'')"

lemma to_string_not_next: "to_string i \<noteq> ''next''"
proof
  assume "to_string i = ''next''"
  then have "is_digit (CHR ''n'')" using nat_to_string_digits [of "CHR ''n''" "unat i"] by (simp add: to_string_def)
  then show False by (simp add: is_digit_def)
qed

lemma after_error_redirects:
  assumes "after_error timeout err v = (None, v')" and "rv_suffix v = ''next''" and "rv_no_data v = None"
  shows "redirected v' \<or> rv_suffix v' = ''next'' \<and> rv_no_data v' = None \<and> rv_group v' = rv_group v"
  using assms
  by (auto simp: after_error_def SwitchToGetByIdIfNoData_def SwitchToGetByIdIfPartialData_def redirected_def Let_def err_is_def
      split: if_splits option.splits)

lemma after_error_keeps:
  assumes "after_error timeout err v = (r, v')" and "rv_suffix v \<noteq> ''next''"
  shows "v' = v"
  using assms by (auto simp: after_error_def Let_def split: if_splits)

lemma ask_broker_vars:
  "ask_broker E api ds ms v c = ((err, v'), c') \<Longrightarrow>
     rv_suffix v' = rv_suffix v \<and> rv_group v' = rv_group v \<and> rv_no_data v' = rv_no_data v"
  by (auto simp: ask_broker_def Let_def split: prod.splits if_splits)

lemma record_turn_parts:
  assumes "record_turn E api ds ms v c = ((None, v'), c')"
  shows "\<exists>err v1 c2 v2. ask_broker E api ds ms v (poll_interrupt E c) = ((err, v1), c2)
    \<and> after_error (con_timeout_ms c2) err v1 = (None, v2) \<and> v' = v2\<lparr>rv_elapsed := rv_elapsed v'\<rparr>"
  using assms by (auto simp: record_turn_def Let_def split: prod.splits if_splits option.splits)

lemma record_turn_redirected:
  assumes "record_turn E api ds ms v c = ((None, v'), c')" and "redirected v"
  shows "rv_suffix v' = rv_suffix v \<and> rv_group v' = rv_group v \<and> rv_no_data v' = rv_no_data v"
proof -
  obtain err v1 c2 v2 where a: "ask_broker E api ds ms v (poll_interrupt E c) = ((err, v1), c2)"
    and e: "after_error (con_timeout_ms c2) err v1 = (None, v2)" and v': "v' = v2\<lparr>rv_elapsed := rv_elapsed v'\<rparr>"
    using record_turn_parts [OF assms(1)] by blast
  have "rv_suffix v \<noteq> ''next''" using assms(2) to_string_not_next unfolding redirected_def by metis
  then have "v2 = v1" using after_error_keeps [OF e] ask_broker_vars [OF a] by simp
  then show ?thesis using ask_broker_vars [OF a] v' by (cases v') auto
qed

lemma redirected_cong:
  "rv_suffix v' = rv_suffix v \<and> rv_group v' = rv_group v \<and> rv_no_data v' = rv_no_data v \<Longrightarrow> redirected v' = redirected v"
  by (simp add: redirected_def)

lemma record_turn_next:
  assumes "record_turn E api ds ms v c = ((None, v'), c')" and "rv_suffix v = ''next''" "rv_no_data v = None"
  shows "redirected v' \<or> rv_suffix v' = ''next'' \<and> rv_no_data v' = None \<and> rv_group v' = rv_group v"
proof -
  obtain err v1 c2 v2 where a: "ask_broker E api ds ms v (poll_interrupt E c) = ((err, v1), c2)"
    and e: "after_error (con_timeout_ms c2) err v1 = (None, v2)" and v': "v' = v2\<lparr>rv_elapsed := rv_elapsed v'\<rparr>"
    using record_turn_parts [OF assms(1)] by blast
  have "rv_suffix v' = rv_suffix v2 \<and> rv_group v' = rv_group v2 \<and> rv_no_data v' = rv_no_data v2"
    by (subst (1 2 3) v') simp
  then show ?thesis
    using after_error_redirects [OF e] ask_broker_vars [OF a] assms(2,3) redirected_cong [of v' v2] by simp
qed

lemma record_steps_redirected:
  assumes "record_steps E api ds ms v c v' c'" and "redirected v"
  shows "rv_suffix v' = rv_suffix v \<and> rv_group v' = rv_group v \<and> rv_no_data v' = rv_no_data v"
  using assms(1)
proof induction
  case (record_again v1 c1 v2 c2)
  then show ?case using record_turn_redirected [OF record_again.hyps(2)] redirected_cong [of v1 v] assms(2) by simp
qed simp

section \<open>Properties\<close>


text \<open>A world is a time in milliseconds; every request is answered at once.\<close>

definition demo_consumer_env :: "string \<Rightarrow> HttpCode \<Rightarrow> rapidjson_lib \<Rightarrow> nat consumer_env" where
  "demo_consumer_env answer code L = \<lparr>
     ce_lib = L,
     ce_protocol = \<lparr>cp_version = ''v0.6'', cp_discovery_version = ''v0.1'', cp_authorizer_version = ''v0.2'',
       cp_file_transfer_service_version = ''v0.2'', cp_broker_version = ''v0.6'', cp_rds_version = ''v0.1''\<rparr>,
     ce_version = ''22.03.0'', ce_UrlEscape = (\<lambda>s. s),
     ce_Post = (\<lambda>u k b w. ((answer, code, None), w)),
     ce_PostArray = (\<lambda>u k b n w. ((Some answer, code, None), w)),
     ce_Get = (\<lambda>u w. ((answer, code, None), w)),
     ce_GetDataFromFile = (\<lambda>f n w. ((Some answer, n, None), w)),
     ce_now = (\<lambda>w. int w * 1000000), ce_sleep = (\<lambda>w. w + 100),
     ce_interrupts = (\<lambda>w. False), ce_other_client = (\<lambda>w. None), ce_code = 0,
     ce_sockets = \<lparr>cs_CreateAndConnectIPTCPSocket = (\<lambda>source w. ((5, None), w)),
       cs_SendHeader = (\<lambda>fd h w. (None, w)),
       cs_ReceiveResponse = (\<lambda>fd w. ((\<lparr>resp_op_code = kOpcodeGetBufferData, error_code = kNetErrorNoError, resp_message = []\<rparr>, None), w)),
       cs_Receive = (\<lambda>fd n w. ((answer, None), w)), cs_CloseSocket = (\<lambda>fd w. w), cs_allocates = (\<lambda>n w. True),
       cs_custom_data = [0, 0, 0], cs_rds_version = ''v0.1''\<rparr>,
     ce_fabric = \<lparr>cf_CreateClient = (\<lambda>w. (Some (gen_err kSimpleError []), w)),
       cf_AddServerAddress = (\<lambda>u w. ((0, None), w)), cf_ShareMemoryRegion = (\<lambda>n w. (([], None), w)),
       cf_Send = (\<lambda>a i h w. (None, w)),
       cf_Recv = (\<lambda>a i w. ((\<lparr>resp_op_code = kOpcodeGetBufferData, error_code = kNetErrorNoError, resp_message = []\<rparr>, None), w)),
       cf_region_bytes = (\<lambda>n w. []), cf_custom_data = [0, 0, 0], cf_rds_version = ''v0.1''\<rparr>\<rparr>"

definition demo_consumer :: "nat ConsumerImpl" where
  "demo_consumer = (ConsumerImpl_new (demo_consumer_env [] 0 demo_lib) 0 0 0 ''server'' ''/data'' True
     \<lparr>sc_beamtime_id = ''b1'', sc_beamline = ''p01'', sc_data_source = [], sc_user_token = ''t'', sc_type = kRaw\<rparr>)
     \<lparr>con_timeout_ms := 500, current_broker_uri := ''broker''\<rparr>"

lemma demo_clock: "clock_advances (demo_consumer_env a code L)"
  by (simp add: clock_advances_def takes_time_def demo_consumer_env_def)



definition missing_lib :: rapidjson_lib where
  "missing_lib = \<lparr>rj_parse = (\<lambda>s. Some (JObject [(''id'', JInt 5), (''id_max'', JInt 9), (''next_stream'', JString [])])),
     rj_write = (\<lambda>j. print_json j)\<rparr>"

definition demo_vars :: record_vars where
  "demo_vars = \<lparr>rv_response = [], rv_group = ''g'', rv_suffix = ''next'', rv_elapsed = 0, rv_no_data = None\<rparr>"


end
