(* ===== verification/Consumer_Client.thy ===== *)
theory Consumer_Client
  imports Consumer_Requests
begin

text \<open>
  The operations of a consumer (second half of \<open>consumer/api/cpp/src/consumer_impl.cpp\<close>,
  \<open>consumer.cpp\<close>): fetching the data of a message from the cache of a receiver, from a file or from
  the file transfer service, and the calls of the interface.

  An argument that is a pointer to a variable of the caller is an option (\<open>None\<close> is a null
  pointer), and its new content is part of the result.  \<open>MessageData\<close> is a \<open>unique_ptr\<close>, so its
  content is again an option.
\<close>

section \<open>Data from the cache of a receiver\<close>

definition net_get_data ::
    "'w consumer_env \<Rightarrow> MessageMeta \<Rightarrow> NetClient \<Rightarrow> 'w \<Rightarrow> (error option \<times> string option) \<times> NetClient \<times> 'w" where
  "net_get_data E info n w =
     (case n of
        FabricNet cl known i \<Rightarrow>
          (let (r, f) = Fabric_GetData (ce_fabric E) info
                          \<lparr>fc_world = w, fc_client = cl, known_addresses = known, global_message_id = i\<rparr> in
           (r, FabricNet (fc_client f) (known_addresses f) (global_message_id f), fc_world f))
      | TcpNet cs \<Rightarrow>
          (let (r, t) = Tcp_GetData (ce_sockets E) info \<lparr>tc_world = w, tc_connections = cs\<rparr> in
           (r, TcpNet (tc_connections t), tc_world t)))"

text \<open>The data of the caller changes only when the client gives data.\<close>

definition keep_data :: "string option \<Rightarrow> string option \<Rightarrow> string option" where
  "keep_data new old = (if new = None then old else new)"

definition DataCanBeInBuffer :: "MessageMeta \<Rightarrow> bool" where
  "DataCanBeInBuffer info = (mm_buf_id info > 0)"

definition CreateNetClientAndTryToGetFile ::
    "'w consumer_env \<Rightarrow> MessageMeta \<Rightarrow> string option \<Rightarrow> 'w ConsumerImpl \<Rightarrow> (error option \<times> string option) \<times> 'w ConsumerImpl" where
  "CreateNetClientAndTryToGetFile E info data c =
     (case ce_other_client E (con_world c) of
        Some (n, w) \<Rightarrow> ((None, data), c\<lparr>net_client := Some n, con_world := w\<rparr>)
      | None \<Rightarrow>
          (let ((rdma, err, data1), c1) =
                 (if should_try_rdma_first c then
                    (let ((e, d), n, w) = net_get_data E info (FabricNet False [] 0) (con_world c);
                         c' = c\<lparr>con_world := w\<rparr> in
                     if e = None \<or> err_is e kRdsNoData
                     then ((True, e, keep_data d data), c'\<lparr>net_client := Some n, current_connection_type := kFabric\<rparr>)
                     else ((False, None, keep_data d data), c'\<lparr>should_try_rdma_first := False\<rparr>))
                  else ((False, None, data), c)) in
           if rdma then ((err, data1), c1)
           else
             (let ((e, d), n, w) = net_get_data E info (TcpNet []) (con_world c1) in
              ((e, keep_data d data1), c1\<lparr>con_world := w, net_client := Some n, current_connection_type := kAsapoTcp\<rparr>))))"

definition TryGetDataFromBuffer ::
    "'w consumer_env \<Rightarrow> MessageMeta \<Rightarrow> string option \<Rightarrow> 'w ConsumerImpl \<Rightarrow> (error option \<times> string option) \<times> 'w ConsumerImpl" where
  "TryGetDataFromBuffer E info data c =
     (case net_client c of
        None \<Rightarrow> CreateNetClientAndTryToGetFile E info data c
      | Some n \<Rightarrow>
          (let ((e, d), n1, w) = net_get_data E info n (con_world c) in
           ((e, keep_data d data), c\<lparr>net_client := Some n1, con_world := w\<rparr>)))"

section \<open>Data from the file transfer service\<close>

definition CreateFolderTokenRequest :: "'w consumer_env \<Rightarrow> 'w ConsumerImpl \<Rightarrow> RequestInfo" where
  "CreateFolderTokenRequest E c =
     RequestInfo_new\<lparr>ri_host := con_endpoint c,
       ri_api := ''/asapo-authorizer/'' @ cp_authorizer_version (ce_protocol E) @ ''/folder'',
       ri_post := True,
       ri_body := ''{'' @ WrapInQuotes ''Folder'' @ '':'' @ WrapInQuotes (con_source_path c) @ '',''
         @ WrapInQuotes ''BeamtimeId'' @ '':'' @ WrapInQuotes (sc_beamtime_id (con_credentials c)) @ '',''
         @ WrapInQuotes ''Token'' @ '':'' @ WrapInQuotes (sc_user_token (con_credentials c)) @ ''}''\<rparr>"

definition CreateFileTransferRequest :: "'w consumer_env \<Rightarrow> MessageMeta \<Rightarrow> 'w ConsumerImpl \<Rightarrow> RequestInfo" where
  "CreateFileTransferRequest E info c =
     RequestInfo_new\<lparr>
       ri_api := ''/'' @ cp_file_transfer_service_version (ce_protocol E) @ ''/transfer'',
       ri_post := True,
       ri_body := ''{'' @ WrapInQuotes ''Folder'' @ '':'' @ WrapInQuotes (con_source_path c) @ '',''
         @ WrapInQuotes ''FileName'' @ '':'' @ WrapInQuotes (mm_name info) @ ''}'',
       ri_cookie := ''Authorization=Bearer '' @ folder_token c,
       ri_output_mode := array_output_mode\<rparr>"

definition UpdateFolderTokenIfNeeded :: "'w consumer_env \<Rightarrow> bool \<Rightarrow> 'w ConsumerImpl \<Rightarrow> error option \<times> 'w ConsumerImpl" where
  "UpdateFolderTokenIfNeeded E ignore_existing c =
     (if folder_token c \<noteq> [] \<and> \<not> ignore_existing then (None, c)
      else
        (let c1 = c\<lparr>folder_token := []\<rparr>;
             ((err, output), c2) = Consumer_ProcessRequest E RequestOutput_new (CreateFolderTokenRequest E c1) NoService c1 in
         if err \<noteq> None then (err, c2) else (None, c2\<lparr>folder_token := string_output output\<rparr>)))"

definition FtsSizeRequestWithTimeout ::
    "'w consumer_env \<Rightarrow> MessageMeta \<Rightarrow> 'w ConsumerImpl \<Rightarrow> ((error option \<times> MessageMeta) \<times> 'w ConsumerImpl) option" where
  "FtsSizeRequestWithTimeout E info c =
     (let ri = (CreateFileTransferRequest E info c)\<lparr>ri_extra_params := ''&sizeonly=true'', ri_output_mode := string_output_mode\<rparr> in
      do { ((err, response), c1) \<leftarrow> ServiceRequestWithTimeout E kFileTransferServiceName FtsUri ri RequestOutput_new c;
           if err \<noteq> None then Some ((err, info), c1)
           else (let (e, sz) = GetUInt64 ''file_size'' (mm_size info) (JsonStringParser (ce_lib E) (string_output response)) in
                 Some ((e, info\<lparr>mm_size := sz\<rparr>), c1)) })"

definition FtsRequestWithTimeout ::
    "'w consumer_env \<Rightarrow> MessageMeta \<Rightarrow> string option \<Rightarrow> 'w ConsumerImpl \<Rightarrow> ((error option \<times> string option) \<times> 'w ConsumerImpl) option" where
  "FtsRequestWithTimeout E info data c =
     do { ((err, response), c1) \<leftarrow> ServiceRequestWithTimeout E kFileTransferServiceName FtsUri
            (CreateFileTransferRequest E info c) (RequestOutput_new\<lparr>data_output_size := mm_size info\<rparr>) c;
          Some (if err \<noteq> None then ((err, data), c1) else ((None, data_output response), c1)) }"

text \<open>
  One pass of \<open>GetDataFromFileTransferService\<close>; the first result tells whether the error comes from
  the service, in which case a refused token is renewed.
\<close>

definition fts_attempt ::
    "'w consumer_env \<Rightarrow> bool \<Rightarrow> MessageMeta \<Rightarrow> string option \<Rightarrow> 'w ConsumerImpl
      \<Rightarrow> ((bool \<times> error option \<times> MessageMeta \<times> string option) \<times> 'w ConsumerImpl) option" where
  "fts_attempt E retry_with_new_token info data c =
     (let (err, c1) = UpdateFolderTokenIfNeeded E retry_with_new_token c in
      if err \<noteq> None then Some ((False, err, info, data), c1)
      else
        do { ((err1, info1), c2) \<leftarrow> (if mm_size info = 0 then FtsSizeRequestWithTimeout E info c1 else Some ((None, info), c1));
             if err1 \<noteq> None then Some ((True, err1, info1, data), c2)
             else
               do { ((err2, data1), c3) \<leftarrow> FtsRequestWithTimeout E info1 data c2;
                    Some ((True, err2, info1, data1), c3) } })"

definition GetDataFromFileTransferService ::
    "'w consumer_env \<Rightarrow> MessageMeta \<Rightarrow> string option \<Rightarrow> bool \<Rightarrow> 'w ConsumerImpl
      \<Rightarrow> ((error option \<times> MessageMeta \<times> string option) \<times> 'w ConsumerImpl) option" where
  "GetDataFromFileTransferService E info data retry_with_new_token c =
     do { ((from_service, err, info1, data1), c1) \<leftarrow> fts_attempt E retry_with_new_token info data c;
          if from_service \<and> err_is err (ConsumerErrorTemplates C_kWrongInput) \<and> \<not> retry_with_new_token
          then do { ((_, err2, info2, data2), c2) \<leftarrow> fts_attempt E True info1 data1 c1;
                    Some ((err2, info2, data2), c2) }
          else Some ((err, info1, data1), c1) }"

section \<open>The data of a message\<close>

definition RetrieveData ::
    "'w consumer_env \<Rightarrow> MessageMeta option \<Rightarrow> string option option \<Rightarrow> 'w ConsumerImpl
      \<Rightarrow> ((error option \<times> MessageMeta option \<times> string option option) \<times> 'w ConsumerImpl) option" where
  "RetrieveData E info data c =
     (case (info, data) of
        (Some i, Some d) \<Rightarrow>
          (let ((found, i1, d1), c1) =
                 (if DataCanBeInBuffer i
                  then (let ((e, d'), c') = TryGetDataFromBuffer E i d c in
                        if e = None then ((True, i, d'), c') else ((False, i\<lparr>mm_buf_id := 0\<rparr>, d'), c'))
                  else ((False, i, d), c)) in
           if found then Some ((None, Some i1, Some d1), c1)
           else
             do { ((err, i2, d2), c2) \<leftarrow> (if has_filesystem c1 then Consumer_GetDataFromFile E i1 d1 c1
                                           else GetDataFromFileTransferService E i1 d1 False c1);
                  Some ((err, Some i2, Some d2), c2) })
      | _ \<Rightarrow> Some ((Some (cns_err C_kWrongInput ''pointers are empty''), info, data), c))"

definition GetDataIfNeeded ::
    "'w consumer_env \<Rightarrow> MessageMeta option \<Rightarrow> string option option \<Rightarrow> 'w ConsumerImpl
      \<Rightarrow> ((error option \<times> MessageMeta option \<times> string option option) \<times> 'w ConsumerImpl) option" where
  "GetDataIfNeeded E info data c =
     (if data = None then Some ((None, info, data), c) else RetrieveData E info data c)"

section \<open>Messages\<close>

definition GetRecordFromServerById ::
    "'w consumer_env \<Rightarrow> u64 \<Rightarrow> string \<Rightarrow> string \<Rightarrow> string \<Rightarrow> bool \<Rightarrow> u64 \<Rightarrow> 'w ConsumerImpl
      \<Rightarrow> ((error option \<times> string) \<times> 'w ConsumerImpl) option" where
  "GetRecordFromServerById E i response group_id str dataset min_size c =
     (if str = [] then Some ((Some (cns_err C_kWrongInput ''empty stream''), response), c)
      else
        (let ri = RequestInfo_new\<lparr>ri_api := BrokerApiUri E c str group_id (to_string i),
                    ri_extra_params := (if dataset then ''&dataset=true'' @ ''&minsize='' @ to_string min_size else [])\<rparr> in
         do { ((response1, err), c1) \<leftarrow> BrokerRequestWithTimeout E ri c; Some ((err, response1), c1) }))"

definition GetMessageFromServer ::
    "'w consumer_env \<Rightarrow> GetMessageServerOperation \<Rightarrow> u64 \<Rightarrow> string \<Rightarrow> string \<Rightarrow> MessageMeta option \<Rightarrow> string option option
      \<Rightarrow> 'w ConsumerImpl \<Rightarrow> ((error option \<times> MessageMeta option \<times> string option option) \<times> 'w ConsumerImpl) option" where
  "GetMessageFromServer E op i group_id str info data c =
     (case info of
        None \<Rightarrow> Some ((Some (cns_err C_kWrongInput []), info, data), c)
      | Some old \<Rightarrow>
          do { ((err, response), c1) \<leftarrow>
                 (if op = Op_GetID then GetRecordFromServerById E i [] group_id str False 0 c
                  else GetRecordFromServer E [] group_id str op False 0 c);
               if err \<noteq> None then Some ((err, info, data), c1)
               else
                 (let (ok, new) = MessageMeta_SetFromJson (ce_lib E) response old in
                  if \<not> ok
                  then Some ((Some (cns_err C_kInterruptedTransaction (''malformed response:'' @ response)), Some new, data), c1)
                  else GetDataIfNeeded E (Some new) data c1) })"

definition GetNext where
  "GetNext E group_id info data str c = GetMessageFromServer E Op_GetNext 0 group_id str info data c"

definition GetLast_group where
  "GetLast_group E group_id info data str c = GetMessageFromServer E Op_GetLastInGroup 0 group_id str info data c"

definition GetLast where
  "GetLast E info data str c = GetMessageFromServer E Op_GetLast 0 ''0'' str info data c"

definition GetById where
  "GetById E i info data str c =
     (if i = 0 then Some ((Some (cns_err C_kWrongInput ''id should be positive''), info, data), c)
      else GetMessageFromServer E Op_GetID i ''0'' str info data c)"

section \<open>Datasets\<close>

definition DataSet_empty :: DataSet where
  "DataSet_empty = \<lparr>ds_id = 0, expected_size = 0, content = []\<rparr>"

definition DecodeDatasetFromResponse :: "rapidjson_lib \<Rightarrow> string \<Rightarrow> error option \<Rightarrow> DataSet \<times> error option" where
  "DecodeDatasetFromResponse L response err =
     (let (ok, res) = DataSet_SetFromJson L response DataSet_empty in
      if \<not> ok
      then (DataSet_empty, Some (AddDetails ''response'' response (cns_err C_kInterruptedTransaction ''malformed response'')))
      else (res, err))"

definition GetDatasetFromServer ::
    "'w consumer_env \<Rightarrow> GetMessageServerOperation \<Rightarrow> u64 \<Rightarrow> string \<Rightarrow> string \<Rightarrow> u64 \<Rightarrow> 'w ConsumerImpl
      \<Rightarrow> ((DataSet \<times> error option) \<times> 'w ConsumerImpl) option" where
  "GetDatasetFromServer E op i group_id str min_size c =
     do { ((err, response), c1) \<leftarrow>
            (if op = Op_GetID then GetRecordFromServerById E i [] group_id str True min_size c
             else GetRecordFromServer E [] group_id str op True min_size c);
          if err_is_not err (ConsumerErrorTemplates C_kPartialData) then Some ((DataSet_empty, err), c1)
          else Some (DecodeDatasetFromResponse (ce_lib E) response err, c1) }"

definition GetNextDataset where
  "GetNextDataset E group_id min_size str c = GetDatasetFromServer E Op_GetNext 0 group_id str min_size c"

definition GetLastDataset where
  "GetLastDataset E min_size str c = GetDatasetFromServer E Op_GetLast 0 ''0'' str min_size c"

definition GetLastDataset_group where
  "GetLastDataset_group E group_id min_size str c = GetDatasetFromServer E Op_GetLastInGroup 0 group_id str min_size c"

definition GetDatasetById where
  "GetDatasetById E i min_size str c =
     (if i = 0 then Some ((DataSet_empty, Some (cns_err C_kWrongInput ''id should be positive'')), c)
      else GetDatasetFromServer E Op_GetID i ''0'' str min_size c)"

definition QueryMessages ::
    "'w consumer_env \<Rightarrow> string \<Rightarrow> string \<Rightarrow> 'w ConsumerImpl \<Rightarrow> ((MessageMeta list \<times> error option) \<times> 'w ConsumerImpl) option" where
  "QueryMessages E query str c =
     (if str = [] then Some (([], Some (cns_err C_kWrongInput ''empty stream'')), c)
      else
        do { ((response, err), c1) \<leftarrow> BrokerRequestWithTimeout E
               (RequestInfo_new\<lparr>ri_api := BrokerApiUri E c str ''0'' ''querymessages'', ri_post := True, ri_body := query\<rparr>) c;
             if err \<noteq> None then Some (([], err), c1)
             else
               (let (ds, err1) = DecodeDatasetFromResponse (ce_lib E)
                      (''{'' @ WrapInQuotes ''_id'' @ '':0,'' @ WrapInQuotes ''size'' @ '':0, '' @ WrapInQuotes ''messages'' @ '':''
                        @ response @ ''}'') err in
                Some ((content ds, err1), c1)) })"

section \<open>Groups, markers and acknowledgements\<close>

text \<open>A call whose only result is the error of a request to the broker.\<close>

definition broker_command :: "'w consumer_env \<Rightarrow> RequestInfo \<Rightarrow> 'w ConsumerImpl \<Rightarrow> (error option \<times> 'w ConsumerImpl) option" where
  "broker_command E ri c = do { ((response, err), c1) \<leftarrow> BrokerRequestWithTimeout E ri c; Some (err, c1) }"

definition GenerateNewGroupId ::
    "'w consumer_env \<Rightarrow> 'w ConsumerImpl \<Rightarrow> ((string \<times> error option) \<times> 'w ConsumerImpl) option" where
  "GenerateNewGroupId E c =
     BrokerRequestWithTimeout E (RequestInfo_new\<lparr>ri_api := ''/'' @ cp_broker_version (ce_protocol E) @ ''/creategroup'', ri_post := True\<rparr>) c"

definition SetLastReadMarker :: "'w consumer_env \<Rightarrow> string \<Rightarrow> u64 \<Rightarrow> string \<Rightarrow> 'w ConsumerImpl \<Rightarrow> (error option \<times> 'w ConsumerImpl) option" where
  "SetLastReadMarker E group_id v str c =
     broker_command E (RequestInfo_new\<lparr>ri_api := BrokerApiUri E c str group_id ''resetcounter'',
       ri_extra_params := ''&value='' @ to_string v, ri_post := True\<rparr>) c"

definition ResetLastReadMarker where
  "ResetLastReadMarker E group_id str c = SetLastReadMarker E group_id 0 str c"

definition Acknowledge :: "'w consumer_env \<Rightarrow> string \<Rightarrow> u64 \<Rightarrow> string \<Rightarrow> 'w ConsumerImpl \<Rightarrow> (error option \<times> 'w ConsumerImpl) option" where
  "Acknowledge E group_id i str c =
     (if str = [] then Some (Some (cns_err C_kWrongInput ''empty stream''), c)
      else broker_command E (RequestInfo_new\<lparr>ri_api := BrokerApiUri E c str group_id (to_string i), ri_post := True,
             ri_body := ''{'' @ WrapInQuotes ''Op'' @ '':'' @ WrapInQuotes ''ackmessage'' @ ''}''\<rparr>) c)"

definition NegativeAcknowledge ::
    "'w consumer_env \<Rightarrow> string \<Rightarrow> u64 \<Rightarrow> u64 \<Rightarrow> string \<Rightarrow> 'w ConsumerImpl \<Rightarrow> (error option \<times> 'w ConsumerImpl) option" where
  "NegativeAcknowledge E group_id i delay str c =
     (if str = [] then Some (Some (cns_err C_kWrongInput ''empty stream''), c)
      else broker_command E (RequestInfo_new\<lparr>ri_api := BrokerApiUri E c str group_id (to_string i), ri_post := True,
             ri_body := ''{'' @ WrapInQuotes ''Op'' @ '':'' @ WrapInQuotes ''negackmessage'' @ '','' @ WrapInQuotes ''Params''
               @ '':{'' @ WrapInQuotes ''DelayMs'' @ '':'' @ to_string delay @ ''}}''\<rparr>) c)"

definition GetUnacknowledgedMessages ::
    "'w consumer_env \<Rightarrow> string \<Rightarrow> u64 \<Rightarrow> u64 \<Rightarrow> string \<Rightarrow> 'w ConsumerImpl \<Rightarrow> ((u64 list \<times> error option) \<times> 'w ConsumerImpl) option" where
  "GetUnacknowledgedMessages E group_id from_id to_id str c =
     (if str = [] then Some (([], Some (cns_err C_kWrongInput ''empty stream'')), c)
      else
        do { ((response, err), c1) \<leftarrow> BrokerRequestWithTimeout E
               (RequestInfo_new\<lparr>ri_api := BrokerApiUri E c str group_id ''nacks'',
                  ri_extra_params := ''&from='' @ to_string from_id @ ''&to='' @ to_string to_id\<rparr>) c;
             if err \<noteq> None then Some (([], err), c1)
             else (let (e, ids) = GetArrayUInt64 ''unacknowledged'' [] (JsonStringParser (ce_lib E) response) in
                   Some ((if e \<noteq> None then [] else ids, e), c1)) })"

definition GetLastAcknowledgedMessage ::
    "'w consumer_env \<Rightarrow> string \<Rightarrow> string \<Rightarrow> 'w ConsumerImpl \<Rightarrow> ((u64 \<times> error option) \<times> 'w ConsumerImpl) option" where
  "GetLastAcknowledgedMessage E group_id str c =
     (if str = [] then Some ((0, Some (cns_err C_kWrongInput ''empty stream'')), c)
      else
        do { ((response, err), c1) \<leftarrow> BrokerRequestWithTimeout E
               (RequestInfo_new\<lparr>ri_api := BrokerApiUri E c str group_id ''lastack''\<rparr>) c;
             if err \<noteq> None then Some ((0, err), c1)
             else (let (e, i) = GetUInt64 ''lastAckId'' 0 (JsonStringParser (ce_lib E) response) in
                   Some (if e \<noteq> None then (0, e) else (i, if i = 0 then Some (cns_err C_kNoData []) else None), c1)) })"

section \<open>Streams, counts and metadata\<close>

definition GetSizeRequestForSingleMessagesStream :: "'w consumer_env \<Rightarrow> string \<Rightarrow> 'w ConsumerImpl \<Rightarrow> RequestInfo" where
  "GetSizeRequestForSingleMessagesStream E str c = RequestInfo_new\<lparr>ri_api := BrokerApiUri E c str [] ''size''\<rparr>"

definition GetSizeRequestForDatasetStream :: "'w consumer_env \<Rightarrow> string \<Rightarrow> bool \<Rightarrow> 'w ConsumerImpl \<Rightarrow> RequestInfo" where
  "GetSizeRequestForDatasetStream E str include_incomplete c =
     (GetSizeRequestForSingleMessagesStream E str c)
       \<lparr>ri_extra_params := ''&incomplete='' @ (if include_incomplete then ''true'' else ''false'')\<rparr>"

definition ParseGetCurrentCountResponce :: "rapidjson_lib \<Rightarrow> string \<Rightarrow> u64 \<times> error option" where
  "ParseGetCurrentCountResponce L response =
     (let (e, sz) = GetUInt64 ''size'' 0 (JsonStringParser L response) in (if e \<noteq> None then 0 else sz, e))"

definition GetCurrentCount :: "'w consumer_env \<Rightarrow> RequestInfo \<Rightarrow> 'w ConsumerImpl \<Rightarrow> ((u64 \<times> error option) \<times> 'w ConsumerImpl) option" where
  "GetCurrentCount E ri c =
     do { ((response, err), c1) \<leftarrow> BrokerRequestWithTimeout E ri c;
          if err \<noteq> None then Some ((0, err), c1) else Some (ParseGetCurrentCountResponce (ce_lib E) response, c1) }"

definition GetCurrentSize where
  "GetCurrentSize E str c = GetCurrentCount E (GetSizeRequestForSingleMessagesStream E str c) c"

definition GetCurrentDatasetCount where
  "GetCurrentDatasetCount E str include_incomplete c =
     GetCurrentCount E (GetSizeRequestForDatasetStream E str include_incomplete c) c"

definition Consumer_GetBeamtimeMeta where
  "Consumer_GetBeamtimeMeta E c = BrokerRequestWithTimeout E (RequestInfo_new\<lparr>ri_api := BrokerApiUri E c ''default'' ''0'' ''meta/0''\<rparr>) c"

definition Consumer_GetStreamMeta where
  "Consumer_GetStreamMeta E str c = BrokerRequestWithTimeout E (RequestInfo_new\<lparr>ri_api := BrokerApiUri E c str ''0'' ''meta/1''\<rparr>) c"

datatype StreamFilter = kAllStreams | kFinishedStreams | kUnfinishedStreams

fun filterToString :: "StreamFilter \<Rightarrow> string" where
  "filterToString kAllStreams = ''all''"
| "filterToString kFinishedStreams = ''finished''"
| "filterToString kUnfinishedStreams = ''unfinished''"

definition GetStreamListRequest :: "'w consumer_env \<Rightarrow> string \<Rightarrow> StreamFilter \<Rightarrow> 'w ConsumerImpl \<Rightarrow> RequestInfo" where
  "GetStreamListRequest E from_stream flt c =
     RequestInfo_new\<lparr>ri_api := BrokerApiUri E c ''0'' [] ''streams'',
       ri_extra_params := (if from_stream \<noteq> [] then ''&from='' @ ce_UrlEscape E from_stream else [])
         @ ''&filter='' @ filterToString flt\<rparr>"

fun parse_streams :: "rapidjson_lib \<Rightarrow> string list \<Rightarrow> StreamInfo list \<Rightarrow> StreamInfo list \<times> error option" where
  "parse_streams L [] streams = (streams, None)"
| "parse_streams L (s # ss) streams =
     (let (ok, si) = StreamInfo_SetFromJson L s StreamInfo_new in
      if \<not> ok then ([], Some (gen_err kSimpleError (''cannot parse '' @ s)))
      else parse_streams L ss (streams @ [si]))"

definition ParseStreamsFromResponse :: "rapidjson_lib \<Rightarrow> string \<Rightarrow> StreamInfo list \<times> error option" where
  "ParseStreamsFromResponse L response =
     (let (e, encoded) = GetArrayRawStrings ''streams'' [] (JsonStringParser L response) in
      if e \<noteq> None then ([], e) else parse_streams L encoded [])"

definition GetStreamList ::
    "'w consumer_env \<Rightarrow> string \<Rightarrow> StreamFilter \<Rightarrow> 'w ConsumerImpl \<Rightarrow> ((StreamInfo list \<times> error option) \<times> 'w ConsumerImpl) option" where
  "GetStreamList E from_stream flt c =
     do { ((response, err), c1) \<leftarrow> BrokerRequestWithTimeout E (GetStreamListRequest E from_stream flt c) c;
          if err \<noteq> None then Some (([], err), c1) else Some (ParseStreamsFromResponse (ce_lib E) response, c1) }"

definition GetDeleteStreamRequest :: "'w consumer_env \<Rightarrow> string \<Rightarrow> DeleteStreamOptions \<Rightarrow> 'w ConsumerImpl \<Rightarrow> RequestInfo" where
  "GetDeleteStreamRequest E str options c =
     RequestInfo_new\<lparr>ri_api := BrokerApiUri E c str [] ''delete'', ri_post := True, ri_body := DeleteStreamOptions_Json options\<rparr>"

definition Consumer_DeleteStream where
  "Consumer_DeleteStream E str options c = broker_command E (GetDeleteStreamRequest E str options c) c"

section \<open>Versions and creation\<close>

definition GetVersionRequest :: "'w consumer_env \<Rightarrow> 'w ConsumerImpl \<Rightarrow> RequestInfo" where
  "GetVersionRequest E c =
     RequestInfo_new\<lparr>ri_host := con_endpoint c,
       ri_api := ''/asapo-discovery/'' @ cp_discovery_version (ce_protocol E) @ ''/version'',
       ri_extra_params := ''&client=consumer&protocol='' @ cp_version (ce_protocol E)\<rparr>"

definition Consumer_GetServerVersionInfo ::
    "'w consumer_env \<Rightarrow> string option \<Rightarrow> bool option \<Rightarrow> 'w ConsumerImpl \<Rightarrow> (error option \<times> string option \<times> bool option) \<times> 'w ConsumerImpl" where
  "Consumer_GetServerVersionInfo E server_info supported c =
     (let ((err, output), c1) = Consumer_ProcessRequest E RequestOutput_new (GetVersionRequest E c) NoService c in
      if err \<noteq> None then ((err, server_info, supported), c1)
      else (ExtractVersionFromResponse (ce_lib E) (string_output output) ''consumer'' server_info supported, c1))"

definition Consumer_GetVersionInfo ::
    "'w consumer_env \<Rightarrow> string option \<Rightarrow> string option \<Rightarrow> bool option \<Rightarrow> 'w ConsumerImpl
      \<Rightarrow> (error option \<times> string option \<times> string option \<times> bool option) \<times> 'w ConsumerImpl" where
  "Consumer_GetVersionInfo E client_info server_info supported c =
     (if client_info = None \<and> server_info = None \<and> supported = None
      then ((Some (cns_err C_kWrongInput ''missing parameters''), client_info, server_info, supported), c)
      else
        (let ci = map_option (\<lambda>x. ''software version: '' @ ce_version E @ '', consumer protocol: '' @ cp_version (ce_protocol E)) client_info in
         if server_info \<noteq> None \<or> supported \<noteq> None
         then (let ((err, si, su), c1) = Consumer_GetServerVersionInfo E server_info supported c in ((err, ci, si, su), c1))
         else ((None, ci, server_info, supported), c)))"

definition CreateConsumer ::
    "'w consumer_env \<Rightarrow> 'w \<Rightarrow> u64 \<Rightarrow> u64 \<Rightarrow> string \<Rightarrow> string \<Rightarrow> bool \<Rightarrow> SourceCredentials \<Rightarrow> error + 'w ConsumerImpl" where
  "CreateConsumer E w d0 a0 server_name source_path has_fs source =
     (if server_name = [] then Inl (cns_err C_kWrongInput ''empty data source'')
      else Inr (ConsumerImpl_new E w d0 a0 server_name source_path has_fs source))"

section \<open>Lemmas\<close>

lemma rds_error_none [simp]: "ConvertRdsResponseToError code = None \<longleftrightarrow> code = 0"
  by (simp add: ConvertRdsResponseToError_def)

lemma tcp_gives_data:
  assumes "Tcp_GetData N info t = ((None, d), t')"
  shows "d \<noteq> None"
proof -
  obtain fd reused e t1 where g: "GetFreeConnection N (mm_source info) t = ((fd, reused, e), t1)" by (metis prod.collapse)
  obtain fd1 e1 t2 where q: "QueryCacheHasData N fd info reused t1 = ((fd1, e1), t2)" by (metis prod.collapse)
  have "ReceiveData N fd1 info t2 = ((None, d), t')" using assms g q by (auto simp: Tcp_GetData_def split: if_splits)
  then show ?thesis using receives_data by blast
qed

lemma fabric_gives_data:
  assumes "Fabric_GetData F info c = ((None, d), c')"
  shows "d \<noteq> None"
  using assms
  by (auto simp: Fabric_GetData_def PerformNetworkTransfer_def Let_def split: prod.splits if_splits option.splits)

lemma net_gives_data:
  assumes "net_get_data E info n w = ((None, d), n', w')"
  shows "d \<noteq> None"
  using assms by (cases n) (auto simp: net_get_data_def Let_def split: prod.splits dest: tcp_gives_data fabric_gives_data)

lemma create_client_gives_data:
  assumes "CreateNetClientAndTryToGetFile E info data c = ((None, d), c')" and "ce_other_client E (con_world c) = None"
  shows "d \<noteq> None"
  using assms
  by (auto simp: CreateNetClientAndTryToGetFile_def keep_data_def Let_def split: prod.splits if_splits dest: net_gives_data)

lemma buffer_gives_data:
  assumes "TryGetDataFromBuffer E info data c = ((None, d), c')"
    and "net_client c \<noteq> None \<or> ce_other_client E (con_world c) = None"
  shows "d \<noteq> None"
  using assms create_client_gives_data [of E info data c d c']
  by (auto simp: TryGetDataFromBuffer_def keep_data_def Let_def split: prod.splits if_splits option.splits dest: net_gives_data)

lemma buffer_frame:
  assumes "TryGetDataFromBuffer E info data c = (r, c')"
  shows "con_timeout_ms c' = con_timeout_ms c"
  using assms
  by (auto simp: TryGetDataFromBuffer_def CreateNetClientAndTryToGetFile_def Let_def split: prod.splits if_splits option.splits)

text \<open>A loop that ends without an error ended because its body succeeded.\<close>

lemmas timed_loop_induct =
  timed_loop.raw_induct [where xa = "(((((E, body), elapsed), err), x), c)" for E body elapsed err x c, unfolded prod.case]

lemma timed_loop_success:
  assumes "\<And>x c stop e y c''. body x c = ((stop, e, y), c'') \<Longrightarrow> (stop \<and> e = None \<longrightarrow> P y) \<and> (\<not> stop \<longrightarrow> e \<noteq> None)"
    and "timed_loop E body 0 None x c = Some ((None, x'), c')"
  shows "P x'"
proof -
  let ?good = "\<lambda>body. \<forall>x c stop e y c''. body x c = ((stop, e, y), c'') \<longrightarrow> (stop \<and> e = None \<longrightarrow> P y) \<and> (\<not> stop \<longrightarrow> e \<noteq> None)"
  have "?good body \<longrightarrow> elapsed = 0 \<or> err \<noteq> None \<longrightarrow> fst (fst r) = None \<longrightarrow> P (snd (fst r))"
    if "timed_loop E body elapsed err x c = Some r" for elapsed err x c r
    using that
  proof (rule timed_loop_induct [rotated])
    fix loop E' body' elapsed' err' x' c' r'
    assume IH: "\<And>E body elapsed err x c r. loop E body elapsed err x c = Some r \<Longrightarrow>
        ?good body \<longrightarrow> elapsed = 0 \<or> err \<noteq> None \<longrightarrow> fst (fst r) = None \<longrightarrow> P (snd (fst r))"
      and eq: "(if con_timeout_ms c' < elapsed' then Some ((err', x'), c')
        else let c1 = poll_interrupt E' c' in
          if interrupt_flag c1 then Some ((Some interrupted_by_user, x'), c1)
          else let ((stop, err1, x1), c2) = body' x' c1 in
            if stop then Some ((err1, x1), c2)
            else let (elapsed1, c3) = sleep_and_count E' (ce_now E' (con_world c1)) elapsed' c2 in
              loop E' body' elapsed1 err1 x1 c3) = Some r'"
    let ?c1 = "poll_interrupt E' c'"
    obtain stop err1 x1 c2 where b: "body' x' ?c1 = ((stop, err1, x1), c2)" by (metis prod.collapse)
    obtain elapsed1 c3 where s: "sleep_and_count E' (ce_now E' (con_world ?c1)) elapsed' c2 = (elapsed1, c3)" by fastforce
    show "?good body' \<longrightarrow> elapsed' = 0 \<or> err' \<noteq> None \<longrightarrow> fst (fst r') = None \<longrightarrow> P (snd (fst r'))"
    proof (intro impI)
      assume good: "?good body'" and start: "elapsed' = 0 \<or> err' \<noteq> None" and ok: "fst (fst r') = None"
      consider "r' = ((err', x'), c')" "con_timeout_ms c' < elapsed'" | "stop" "r' = ((err1, x1), c2)"
        | "\<not> stop" "loop E' body' elapsed1 err1 x1 c3 = Some r'"
        using eq b s ok by (auto simp: Let_def split: if_splits)
      then show "P (snd (fst r'))"
      proof cases
        case 3
        then have "err1 \<noteq> None" using good b by blast
        then show ?thesis using IH [OF 3(2)] good ok by blast
      next
        case 2
        then have "err1 = None" using ok by simp
        then show ?thesis using good b 2 by (metis fst_conv snd_conv)
      qed (use start ok in auto)
    qed
  qed
  from this [OF assms(2)] assms(1) show ?thesis by simp
qed

text \<open>What the file system and the HTTP client promise: a success comes with data.\<close>

definition reads_give_data :: "'w consumer_env \<Rightarrow> bool" where
  "reads_give_data E \<longleftrightarrow>
     (\<forall>f n w d sz w'. ce_GetDataFromFile E f n w = ((d, sz, None), w') \<longrightarrow> d \<noteq> None)
     \<and> (\<forall>u k b n w d code w'. ce_PostArray E u k b n w = ((d, code, None), w') \<longrightarrow> d \<noteq> None)"

lemma file_gives_data:
  assumes "reads_give_data E" and "Consumer_GetDataFromFile E info data c = Some ((None, i, d), c')"
  shows "d \<noteq> None"
proof -
  obtain err x c1 where l: "timed_loop E (read_file_turn E) 0 None (info, data) (c\<lparr>interrupt_flag := False\<rparr>) = Some ((err, x), c1)"
    using assms(2) by (auto simp: Consumer_GetDataFromFile_def split: bind_splits)
  then have r: "err = None" "x = (i, d)" using assms(2) by (auto simp: Consumer_GetDataFromFile_def split: prod.splits)
  have "snd x \<noteq> None"
  proof (rule timed_loop_success [OF _ l [unfolded r(1)]])
    fix x c stop e y c''
    assume "read_file_turn E x c = ((stop, e, y), c'')"
    then show "(stop \<and> e = None \<longrightarrow> snd y \<noteq> None) \<and> (\<not> stop \<longrightarrow> e \<noteq> None)"
      using assms(1) by (fastforce simp: read_file_turn_def in_con_world_def reads_give_data_def Let_def split: prod.splits)
  qed
  then show ?thesis using r by simp
qed

lemma process_request_ok:
  assumes "Consumer_ProcessRequest E out ri u c = ((None, out'), c')" and "ri_post ri" and "ri_output_mode ri = array_output_mode"
    and "reads_give_data E"
  shows "data_output out' \<noteq> None"
proof -
  obtain d code err c1 where p: "in_con_world (ce_PostArray E (request_url c ri) (ri_cookie ri) (ri_body ri) (data_output_size out)) c
      = ((d, code, err), c1)" by (metis prod.collapse)
  have "out' = out\<lparr>data_output := d\<rparr> \<and> err = None"
    using assms(1-3) p
    by (auto simp: Consumer_ProcessRequest_def ProcessPostRequest_def ProcessRequestResponce_def Let_def split: option.splits)
  moreover have "d \<noteq> None" if "err = None"
    using assms(4) p that by (fastforce simp: in_con_world_def reads_give_data_def Let_def split: prod.splits)
  ultimately show ?thesis by simp
qed

lemma transfer_gives_data:
  assumes "reads_give_data E" and "FtsRequestWithTimeout E info data c = Some ((None, d), c')"
  shows "d \<noteq> None"
proof -
  let ?ri = "CreateFileTransferRequest E info c" and ?out = "RequestOutput_new\<lparr>data_output_size := mm_size info\<rparr>"
  obtain err out c1 where l: "ServiceRequestWithTimeout E kFileTransferServiceName FtsUri ?ri ?out c = Some ((err, out), c1)"
    using assms(2) by (auto simp: FtsRequestWithTimeout_def split: bind_splits)
  then have r: "err = None" "d = data_output out" using assms(2) by (auto simp: FtsRequestWithTimeout_def split: if_splits)
  have ri: "ri_post ?ri" "ri_output_mode ?ri = array_output_mode" by (simp_all add: CreateFileTransferRequest_def)
  have "data_output out \<noteq> None"
  proof (rule timed_loop_success [OF _ l [unfolded ServiceRequestWithTimeout_def r(1)]])
    fix x c stop e y c''
    assume t: "service_request_turn E kFileTransferServiceName FtsUri ?ri x c = ((stop, e, y), c'')"
    obtain e0 c0 where d: "DiscoverService E kFileTransferServiceName FtsUri c = (e0, c0)" by fastforce
    show "(stop \<and> e = None \<longrightarrow> data_output y \<noteq> None) \<and> (\<not> stop \<longrightarrow> e \<noteq> None)"
    proof (cases e0)
      case None
      obtain e1 o1 c1 where p: "Consumer_ProcessRequest E x (?ri\<lparr>ri_host := service_uri FtsUri c0\<rparr>) FtsUri c0 = ((e1, o1), c1)"
        by (metis prod.collapse)
      then have "e = e1 \<and> y = o1 \<and> (stop \<longleftrightarrow> e1 = None \<or> err_is e1 (ConsumerErrorTemplates C_kWrongInput))"
        using t d None by (auto simp: service_request_turn_def)
      then show ?thesis using process_request_ok [of E x _ FtsUri c0 o1 c1] p ri assms(1) by auto
    qed (use t d in \<open>auto simp: service_request_turn_def\<close>)
  qed
  then show ?thesis using r by simp
qed

lemma token_frame:
  assumes "clock_advances E" and "UpdateFolderTokenIfNeeded E b c = (err, c')"
  shows "con_timeout_ms c' = con_timeout_ms c"
proof (cases "folder_token c \<noteq> [] \<and> \<not> b")
  case False
  let ?c1 = "c\<lparr>folder_token := []\<rparr>"
  obtain e out c2 where p: "Consumer_ProcessRequest E RequestOutput_new (CreateFolderTokenRequest E ?c1) NoService ?c1 = ((e, out), c2)"
    by (metis prod.collapse)
  have "con_timeout_ms c' = con_timeout_ms c2"
    using assms(2) False p by (auto simp: UpdateFolderTokenIfNeeded_def Let_def split: if_splits)
  then show ?thesis using process_request_timely [OF assms(1) p] by (simp add: timely_def)
qed (use assms(2) in \<open>simp add: UpdateFolderTokenIfNeeded_def\<close>)

lemma fts_size_returns:
  assumes "clock_advances E" and "unat (con_timeout_ms c) < 2 ^ 63"
  shows "\<exists>err i c'. FtsSizeRequestWithTimeout E info c = Some ((err, i), c') \<and> con_timeout_ms c' = con_timeout_ms c"
proof -
  obtain err out c1 where "ServiceRequestWithTimeout E kFileTransferServiceName FtsUri
      ((CreateFileTransferRequest E info c)\<lparr>ri_extra_params := ''&sizeonly=true'', ri_output_mode := string_output_mode\<rparr>) RequestOutput_new c
      = Some ((err, out), c1)" "con_timeout_ms c1 = con_timeout_ms c"
    using service_request_returns [OF assms] by metis
  then show ?thesis by (auto simp: FtsSizeRequestWithTimeout_def Let_def split: prod.splits)
qed

lemma fts_request_returns:
  assumes "clock_advances E" and "unat (con_timeout_ms c) < 2 ^ 63"
  shows "\<exists>err d c'. FtsRequestWithTimeout E info data c = Some ((err, d), c') \<and> con_timeout_ms c' = con_timeout_ms c"
proof -
  obtain err out c1 where "ServiceRequestWithTimeout E kFileTransferServiceName FtsUri (CreateFileTransferRequest E info c)
      (RequestOutput_new\<lparr>data_output_size := mm_size info\<rparr>) c = Some ((err, out), c1)" "con_timeout_ms c1 = con_timeout_ms c"
    using service_request_returns [OF assms] by metis
  then show ?thesis by (auto simp: FtsRequestWithTimeout_def)
qed

lemma fts_attempt_returns:
  assumes "clock_advances E" and "unat (con_timeout_ms c) < 2 ^ 63" and "reads_give_data E"
  shows "\<exists>b err i d c'. fts_attempt E retry info data c = Some ((b, err, i, d), c') \<and> con_timeout_ms c' = con_timeout_ms c
    \<and> (err = None \<longrightarrow> d \<noteq> None)"
proof -
  obtain e1 c1 where u: "UpdateFolderTokenIfNeeded E retry c = (e1, c1)" by fastforce
  have t1: "con_timeout_ms c1 = con_timeout_ms c" using token_frame [OF assms(1) u] .
  show ?thesis
  proof (cases e1)
    case (Some e)
    then show ?thesis using u t1 by (auto simp: fts_attempt_def)
  next
    case None
    have "\<exists>e2 i2 c2. (if mm_size info = 0 then FtsSizeRequestWithTimeout E info c1 else Some ((None, info), c1)) = Some ((e2, i2), c2)
        \<and> con_timeout_ms c2 = con_timeout_ms c"
      using fts_size_returns [OF assms(1), of c1 info] t1 assms(2) by simp
    then obtain e2 i2 c2 where s: "(if mm_size info = 0 then FtsSizeRequestWithTimeout E info c1 else Some ((None, info), c1)) = Some ((e2, i2), c2)"
      and t2: "con_timeout_ms c2 = con_timeout_ms c" by blast
    show ?thesis
    proof (cases e2)
      case (Some e)
      then show ?thesis using u None s t2 by (auto simp: fts_attempt_def)
    next
      case e2: None
      obtain e3 d3 c3 where r: "FtsRequestWithTimeout E i2 data c2 = Some ((e3, d3), c3)" "con_timeout_ms c3 = con_timeout_ms c2"
        using fts_request_returns [OF assms(1)] t2 assms(2) by metis
      moreover have "e3 = None \<longrightarrow> d3 \<noteq> None" using transfer_gives_data [OF assms(3)] r by blast
      ultimately show ?thesis using u None s t2 e2 by (auto simp: fts_attempt_def)
    qed
  qed
qed

lemma transfer_service_returns:
  assumes "clock_advances E" and "unat (con_timeout_ms c) < 2 ^ 63" and "reads_give_data E"
  shows "\<exists>err i d c'. GetDataFromFileTransferService E info data retry c = Some ((err, i, d), c') \<and> con_timeout_ms c' = con_timeout_ms c
    \<and> (err = None \<longrightarrow> d \<noteq> None)"
proof -
  obtain b err i d c1 where a: "fts_attempt E retry info data c = Some ((b, err, i, d), c1)" "con_timeout_ms c1 = con_timeout_ms c"
    "err = None \<longrightarrow> d \<noteq> None" using fts_attempt_returns [OF assms] by metis
  obtain b' err' i' d' c2 where "fts_attempt E True i d c1 = Some ((b', err', i', d'), c2)" "con_timeout_ms c2 = con_timeout_ms c1"
    "err' = None \<longrightarrow> d' \<noteq> None" using fts_attempt_returns [OF assms(1) _ assms(3)] a(2) assms(2) by metis
  then show ?thesis using a by (simp add: GetDataFromFileTransferService_def)
qed

section \<open>Properties\<close>



text \<open>
  When another thread creates the network client between the test of this thread and the
  lock, this thread reports success without any data: \<open>RetrieveData\<close> returns no error, and the data
  of the caller is what it was before.
\<close>

theorem concurrent_client_loses_data:
  assumes "DataCanBeInBuffer info" and "net_client c = None" and "ce_other_client E (con_world c) = Some (n, w)"
  shows "RetrieveData E (Some info) (Some data) c = Some ((None, Some info, Some data), c\<lparr>net_client := Some n, con_world := w\<rparr>)"
  using assms by (simp add: RetrieveData_def TryGetDataFromBuffer_def CreateNetClientAndTryToGetFile_def)

theorem concurrent_client_loses_data_witness:
  "fst (the (RetrieveData ((demo_consumer_env ''x'' HttpOK demo_lib)\<lparr>ce_other_client := \<lambda>w. Some (TcpNet [], w)\<rparr>)
     (Some (MessageMeta_new\<lparr>mm_buf_id := 7\<rparr>)) (Some None) demo_consumer))
     = (None, Some (MessageMeta_new\<lparr>mm_buf_id := 7\<rparr>), Some None)"
proof -
  have b: "DataCanBeInBuffer (MessageMeta_new\<lparr>mm_buf_id := 7\<rparr>)" by (simp add: DataCanBeInBuffer_def MessageMeta_new_def)
  have n: "net_client demo_consumer = None" by (simp add: demo_consumer_def ConsumerImpl_new_def)
  show ?thesis by (subst concurrent_client_loses_data [OF b n]) simp_all
qed

lemma known_broker: "current_broker_uri c \<noteq> [] \<Longrightarrow> DiscoverService E nm BrokerUri c = (None, c)"
  by (simp add: DiscoverService_def)

lemma good_answer:
  assumes "ce_Get E (request_url c ri) (con_world c) = ((text, HttpOK, None), w)" and "\<not> ri_post ri"
  shows "Consumer_ProcessRequest E out ri u c = ((None, out\<lparr>string_output := text\<rparr>), c\<lparr>con_world := w\<rparr>)"
  using assms
  by (simp add: Consumer_ProcessRequest_def ProcessGetRequest_def in_con_world_def ProcessRequestResponce_def ConsumerErrorFromHttpCode_def)



end
