(* ===== verification/Producer_Protocol.thy ===== *)
theory Producer_Protocol
  imports Producer_Client Receiver_Dispatch
begin

text \<open>
  The protocol between producer and receiver, seen from the queue of a producer: whatever calls the
  user makes and whatever the worker threads do, the requests that wait or are being sent have the
  form that the receiver expects.
\<close>

section \<open>Runs of a producer\<close>

text \<open>The calls of the interface, with whatever arguments.\<close>

inductive producer_call :: "producer_build \<Rightarrow> ProducerImpl \<Rightarrow> ProducerImpl \<Rightarrow> bool" for B where
  "producer_call B p (snd (Producer_Client.Send B now mh d mode strm cb p))"
| "producer_call B p (snd (Send_unmanaged B now mh d mode strm cb p))"
| "producer_call B p (snd (SendFile B now mh full_path mode strm cb p))"
| "producer_call B p (snd (SendStreamFinishedFlag B now strm last_id next_stream cb p))"
| "producer_call B p (snd (SendBeamtimeMetadata B now metadata md cb p))"
| "producer_call B p (snd (SendMetadata B now metadata cb p))"
| "producer_call B p (snd (SendStreamMetadata B now metadata md strm cb p))"
| "producer_call B p (snd (GetStreamInfo B L now promise answer strm tmo p))"
| "producer_call B p (snd (GetLastStream B L now promise answer tmo p))"
| "producer_call B p (snd (DeleteStream B now promise answer strm tmo options p))"
| "producer_call B p (snd (GetStreamMeta B now promise answer strm tmo p))"
| "producer_call B p (snd (GetBeamtimeMeta B now promise answer tmo p))"
| "producer_call B p (snd (SetCredentials cred p))"
| "producer_call B p (SetRequestsQueueLimits n volume p)"
| "producer_call B p (Producer_StopThreads p)"

text \<open>
  The producer and the requests that its threads are sending.  A thread takes the first request of
  the queue; a request that has timed out is dropped, any other is sent and comes back when the
  handler asks for a retry.
\<close>

inductive producer_runs :: "producer_build \<Rightarrow> 'w producer_io \<Rightarrow> ProducerImpl \<Rightarrow> ProducerRequest list \<Rightarrow> bool" for B P where
  created: "producer_runs B P (ProducerImpl_new ep n tmo ty) []"
| called: "producer_runs B P p fl \<Longrightarrow> producer_call B p p' \<Longrightarrow> producer_runs B P p' fl"
| dropped: "producer_runs B P p fl \<Longrightarrow> request_queue (request_pool p) \<noteq> [] \<Longrightarrow> GetRequestFromQueue (request_pool p) = (r, q)
    \<Longrightarrow> TimedOut now r \<Longrightarrow> producer_runs B P (p\<lparr>request_pool := q\<rparr>) fl"
| sending: "producer_runs B P p fl \<Longrightarrow> request_queue (request_pool p) \<noteq> [] \<Longrightarrow> GetRequestFromQueue (request_pool p) = (r, q)
    \<Longrightarrow> \<not> TimedOut now r \<Longrightarrow> producer_runs B P (p\<lparr>request_pool := begin_processing q\<rparr>) (r # fl)"
| sent: "producer_runs B P p fl \<Longrightarrow> r \<in> set fl \<Longrightarrow> Tcp_ProcessRequestUnlocked P r t = ((ok, retry), r', t')
    \<Longrightarrow> producer_runs B P (p\<lparr>request_pool := end_processing ContainsData r' retry (request_pool p)\<rparr>) (remove1 r fl)"

section \<open>The form of a request\<close>

definition typed_header :: "GenericRequestHeader \<Rightarrow> bool" where
  "typed_header h \<longleftrightarrow> header_wf h
     \<and> (op_code h \<in> {kOpcodeTransferData, kOpcodeTransferDatasetData, kOpcodeStreamInfo, kOpcodeLastStream, kOpcodeDeleteStream, kOpcodeGetMeta}
        \<or> op_code h = kOpcodeTransferMetaData \<and> custom_param kPosIngestMode h = kTransferData OR kStoreInDatabase)"

definition typed_producer :: "ProducerImpl \<Rightarrow> bool" where
  "typed_producer p \<longleftrightarrow> (\<forall>r \<in> set (request_queue (request_pool p)). typed_header (header r))"

lemma typed_request [inv_intros]:
  assumes "typed_header h"
  shows "typed_header (header (ProducerRequest_new v c h d md path cb mng tmo now))"
proof -
  have "custom_params (header (ProducerRequest_new v c h d md path cb mng tmo now)) = custom_params h"
    using assms by (simp add: ProducerRequest_new_def copy_header_def typed_header_def header_wf_def Let_def)
  then show ?thesis
    using assms request_header_wf [of h v c d md path cb mng tmo now] by (simp add: typed_header_def custom_param_def)
qed

lemma pool_add_typed [inv_intros]:
  "typed_producer p \<Longrightarrow> typed_header (header r) \<Longrightarrow> typed_producer (snd (pool_add r top_priority p))"
  by (auto simp: typed_producer_def pool_add_def AddRequest_def Let_def split: option.splits if_splits)

lemma generated_typed [inv_intros]:
  assumes "length (stack_params B) = kNCustomParams"
  shows "typed_header (GenerateNextSendRequest B mh strm mode)"
proof -
  have "op_code (GenerateNextSendRequest B mh strm mode) \<in> {kOpcodeTransferData, kOpcodeTransferDatasetData}"
    by (simp add: GenerateNextSendRequest_def GenericRequestHeader_new_def Let_def)
  then show ?thesis using generated_header_wf [OF assms] by (auto simp: typed_header_def)
qed

lemma new_typed [inv_intros]:
  assumes "length cd = kNCustomParams"
    and "op \<in> {kOpcodeTransferData, kOpcodeTransferDatasetData, kOpcodeStreamInfo, kOpcodeLastStream, kOpcodeDeleteStream, kOpcodeGetMeta}"
  shows "typed_header (GenericRequestHeader_new cd op i n m s t)"
    and "typed_header ((GenericRequestHeader_new cd op i n m s t)
           \<lparr>custom_params := (custom_params (GenericRequestHeader_new cd op i n m s t))[k := v]\<rparr>)"
  using assms by (auto simp: typed_header_def GenericRequestHeader_new_def header_wf_def)

lemma send_impl_typed [inv_intros]:
  assumes "length (stack_params B) = kNCustomParams" and "typed_producer p"
  shows "typed_producer (snd (Send_impl B now mh strm d path mode cb manage p))"
  using assms pool_add_typed [OF assms(2) typed_request [OF generated_typed [OF assms(1)]]]
  by (auto simp: Send_impl_def Let_def split: option.splits prod.splits) (metis snd_conv)

lemma send_meta_typed [inv_intros]:
  assumes "length (stack_params B) = kNCustomParams" and "typed_producer p"
  shows "typed_producer (snd (SendMeta B now metadata mode strm cb p))"
proof -
  let ?h = "GenericRequestHeader_new (stack_params B) kOpcodeTransferMetaData 0 (of_nat (length metadata)) 0
      (if strm = [] then ''beamtime_global.meta'' else strm @ ''.meta'') strm"
  obtain a b c where "stack_params B = [a, b, c]" using assms(1) by (auto simp: length_Suc_conv numeral_3_eq_3)
  then have "typed_header (?h\<lparr>custom_params := (custom_params ?h)[kPosIngestMode := kTransferData OR kStoreInDatabase,
      kPosMetaIngestMode := MetaIngestMode_Encode mode]\<rparr>)"
    by (simp add: typed_header_def GenericRequestHeader_new_def header_wf_def custom_param_def)
  from pool_add_typed [OF assms(2) typed_request [OF this]] show ?thesis
    unfolding SendMeta_def Let_def case_prod_unfold snd_conv .
qed

lemma blocking_typed [inv_intros]:
  assumes "typed_producer p" and "typed_header h"
  shows "typed_producer (snd (BlockingRequest B now promise answer h tmo p))"
  using pool_add_typed [OF assms(1) typed_request [OF assms(2)]]
  by (auto simp: BlockingRequest_def blocking_request_def Let_def split: option.splits prod.splits if_splits) (metis snd_conv)+

lemma stream_request_typed [inv_intros]:
  assumes "length (stack_params B) = kNCustomParams" and "typed_producer p"
  shows "typed_producer (snd (StreamRequest B L now promise answer op strm tmo p))"
proof -
  have "typed_header (CreateRequestHeaderFromOp B op strm)"
    using assms(1) by (cases op) (auto simp: CreateRequestHeaderFromOp_def intro: new_typed)
  from blocking_typed [OF assms(2) this] show ?thesis
    by (auto simp: StreamRequest_def Let_def split: prod.splits if_splits) (metis snd_conv)+
qed

lemma get_meta_typed [inv_intros]:
  assumes "length (stack_params B) = kNCustomParams" and "typed_producer p"
  shows "typed_producer (snd (GetMeta B now promise answer strm tmo p))"
  using blocking_typed [OF assms(2) new_typed(1) [OF assms(1)], of kOpcodeGetMeta]
  by (auto simp: GetMeta_def Let_def split: prod.splits if_splits) (metis snd_conv)+

lemma delete_stream_typed [inv_intros]:
  assumes "length (stack_params B) = kNCustomParams" and "typed_producer p"
  shows "typed_producer (snd (DeleteStream B now promise answer strm tmo options p))"
  using blocking_typed [OF assms(2) new_typed(2) [OF assms(1)], of kOpcodeDeleteStream]
  by (auto simp: DeleteStream_def Let_def split: prod.splits if_splits) (metis snd_conv)+

lemma call_typed:
  assumes "producer_call B p p'" and "length (stack_params B) = kNCustomParams" and "typed_producer p"
  shows "typed_producer p'"
  using assms(1)
proof cases
  case 1
  then show ?thesis using assms(2,3) send_impl_typed by (auto simp: Producer_Client.Send_def split: option.splits)
next
  case 2
  then show ?thesis using assms(2,3) send_impl_typed by (auto simp: Send_unmanaged_def split: option.splits)
next
  case 13
  then show ?thesis using assms(3) by (auto simp: SetCredentials_def typed_producer_def Let_def)
next
  case 14
  then show ?thesis using assms(3) by (simp add: SetRequestsQueueLimits_def SetLimits_def typed_producer_def)
next
  case 15
  then show ?thesis using assms(3) by (simp add: Producer_StopThreads_def StopThreads_def typed_producer_def)
qed (use assms(2,3) in \<open>auto simp: SendFile_def SendStreamFinishedFlag_def SendBeamtimeMetadata_def SendMetadata_def SendStreamMetadata_def
    GetStreamInfo_def GetLastStream_def GetStreamMeta_def GetBeamtimeMeta_def intro: inv_intros\<close>)

lemma send_keeps_header:
  "send_to_receivers P uris r t = (res, r', t') \<Longrightarrow> header r' = header r"
proof (induction uris arbitrary: t)
  case (Cons u us)
  from Cons.prems show ?case
  proof (cases rule: send_to_receivers_cases)
    case (unreachable cerr t1)
    then show ?thesis using Cons.IH by metis
  next
    case (retry t1 err resp t2)
    then show ?thesis using Cons.IH by metis
  qed (auto simp: ProcessRequestCallback_def split: if_splits)
qed simp

lemma sent_header:
  assumes "Tcp_ProcessRequestUnlocked P r t = ((ok, retry), r', t')" and "typed_header (header r)"
  shows "typed_header (header r')"
  using assms(1)
proof (cases rule: Tcp_ProcessRequestUnlocked_cases)
  case (sent r1 t1 t3)
  obtain n where "r1 = r\<lparr>header := (header r)\<lparr>data_size := n\<rparr>\<rparr>" using UpdateDataSize_cases [OF sent(1)] by blast
  then have "header r1 = (header r)\<lparr>data_size := n\<rparr>" by simp
  then show ?thesis
    using send_keeps_header [OF sent(6)] assms(2) by (simp add: typed_header_def header_wf_def custom_param_def)
qed (use assms(2) in simp)

lemma runs_typed:
  assumes "producer_runs B P p fl" and "length (stack_params B) = kNCustomParams"
  shows "typed_producer p \<and> (\<forall>r \<in> set fl. typed_header (header r))"
  using assms(1)
proof induction
  case (created ep n tmo ty)
  show ?case by (simp add: typed_producer_def ProducerImpl_new_def RequestPool_new_def)
next
  case (called p fl p')
  then show ?case using call_typed [OF _ assms(2)] by blast
next
  case (dropped p fl r q now)
  then show ?case by (auto simp: typed_producer_def GetRequestFromQueue_def dest: list.set_sel(2))
next
  case (sending p fl r q now)
  then show ?case by (auto simp: typed_producer_def GetRequestFromQueue_def begin_processing_def dest: list.set_sel(2))
next
  case (sent p fl r t ok retry r' t')
  have "typed_header (header r')" using sent_header [OF sent.hyps(3)] sent.IH sent.hyps(2) by blast
  then show ?case
    using sent.IH set_remove1_subset [of r fl]
    by (auto simp: typed_producer_def end_processing_def PutRequestBackToQueue_def IncreaseRetryCounter_def Let_def)
qed

section \<open>Properties\<close>

text \<open>
  C3. The requests of a producer are typed for the receiver.  After any calls and any work of the
  threads, every request that waits in the queue or is being sent has a header whose arrays have
  their fixed sizes, and the factory of a receiver finds handlers for it, whatever the
  configuration; the one exception is a message whose data is above the size for direct storage
  and whose ingest mode does not store it in the file system.
\<close>

theorem receiver_accepts_producer_requests:
  assumes "producer_runs B P p fl" and "length (stack_params B) = kNCustomParams"
    and "r \<in> set (request_queue (request_pool p)) \<union> set fl"
  shows "header_wf (header r)
    \<and> (fst (GenerateRequest cfg (header r) fd origin) = None
       \<or> op_code (header r) \<in> {kOpcodeTransferData, kOpcodeTransferDatasetData} \<and> ReceiveDirectToFile cfg (header r)
         \<and> \<not> has_flag (custom_param kPosIngestMode (header r)) kStoreInFilesystem)"
proof -
  have "typed_header (header r)" using runs_typed [OF assms(1,2)] assms(3) by (auto simp: typed_producer_def)
  moreover have "NeedDbHandler h" if "custom_param kPosIngestMode h = kTransferData OR kStoreInDatabase" for h
    using that by (simp add: NeedDbHandler_def has_flag_def kTransferData_def kStoreInDatabase_def)
  ultimately show ?thesis
    by (auto simp: typed_header_def GenerateRequest_def AddHandlersToRequest_def AddReceiveWriteHandlers_def
        AddReceiveDirectToFileHandler_def Let_def split: option.splits)
qed

theorem receiver_accepts_producer_requests_witness:
  "\<exists>p r. producer_runs demo_build demo_pio p [] \<and> r \<in> set (request_queue (request_pool p))
     \<and> fst (GenerateRequest demo_config (header r) 3 ''h:1'') = None"
proof -
  let ?init = "ProducerImpl_new ''ep'' 1 0 kTcp"
  let ?p = "snd (GetBeamtimeMeta demo_build 0 0 (\<lambda>r t. None) 0 ?init)"
  let ?r = "blocking_request demo_build 0 0 (GenericRequestHeader_new (stack_params demo_build) kOpcodeGetMeta 0 0 0 [] []) 0 ?init"
  have p: "producer_runs demo_build demo_pio ?p []" by (rule called [OF created producer_call.intros(12)])
  have "request_queue (request_pool (snd (pool_add ?r True ?init))) = [?r]"
    by (simp add: pool_add_def AddRequest_def CanAddRequest_def ProducerImpl_new_def RequestPool_new_def Let_def)
  then have r: "request_queue (request_pool ?p) = [?r]"
    by (simp add: GetBeamtimeMeta_def GetMeta_def BlockingRequest_def GetResultFromCallback_def pool_add_def AddRequest_def
        CanAddRequest_def Let_def)
  have op: "op_code (header ?r) = kOpcodeGetMeta" by (simp add: blocking_request_def GenericRequestHeader_new_def)
  have "length (stack_params demo_build) = kNCustomParams" by (simp add: demo_build_def)
  moreover have "?r \<in> set (request_queue (request_pool ?p)) \<union> set []" unfolding r by simp
  ultimately have "fst (GenerateRequest demo_config (header ?r) 3 ''h:1'') = None"
    using receiver_accepts_producer_requests [OF p, of ?r demo_config 3 "''h:1''"] op by simp
  then show ?thesis using p r by (intro exI [of _ ?p] exI [of _ ?r]) simp
qed

end
