(* ===== verification/System_Io.thy ===== *)
theory System_Io
  imports Data_Structs "HOL-Library.Monad_Syntax"
begin

text \<open>
  The class \<open>SystemIO\<close> on Linux (\<open>system_io/system_io.cpp\<close>, \<open>system_io_linux_mac.cpp\<close>,
  \<open>system_io_linux.cpp\<close>): the file and socket operations that the receiver, the producer and the
  consumer call through the interface \<open>IO\<close>.

  The kernel and the C library are a record of functions \<open>'w posix\<close> on a world \<open>'w\<close>; the world
  holds files, descriptors, sockets and \<open>errno\<close>.  A function that takes \<open>Error* err\<close> returns the new
  value of \<open>*err\<close>; it takes the old value as an argument exactly when the code can leave it as it was.
  Lengths (\<open>size_t\<close>) are natural numbers: they count the bytes of a buffer or a file, so they stay
  below \<open>2 ^ 64\<close>.  The loops that may run forever are partial functions: \<open>None\<close> is a call that does
  not return.
\<close>

section \<open>The last error\<close>

datatype errno =
    E_OK | EINTR | EBADF | EAGAIN | ENETUNREACH | ENOENT | ENOTDIR | EACCES | EFAULT | EEXIST | ENOSPC
  | ENOTCONN | ECONNREFUSED | EADDRINUSE | ECONNRESET | ENOTSOCK | ENOPROTOOPT | EDOM | EPIPE
  | E_OTHER nat

fun GetLastErrorFromErrno :: "errno \<Rightarrow> error option" where
  "GetLastErrorFromErrno E_OK = None"
| "GetLastErrorFromErrno EINTR = Some (gen_err kSimpleError ''Interrupt occurred, is a debugger attached?'')"
| "GetLastErrorFromErrno EBADF = Some (io_err IO_kBadFileNumber [])"
| "GetLastErrorFromErrno EAGAIN = Some (io_err IO_kResourceTemporarilyUnavailable [])"
| "GetLastErrorFromErrno ENETUNREACH = Some (io_err IO_kAddressNotValid [])"
| "GetLastErrorFromErrno ENOENT = Some (io_err IO_kFileNotFound [])"
| "GetLastErrorFromErrno ENOTDIR = Some (io_err IO_kFileNotFound [])"
| "GetLastErrorFromErrno EACCES = Some (io_err IO_kPermissionDenied [])"
| "GetLastErrorFromErrno EFAULT = Some (io_err IO_kInvalidMemoryAddress [])"
| "GetLastErrorFromErrno EEXIST = Some (io_err IO_kFileAlreadyExists [])"
| "GetLastErrorFromErrno ENOSPC = Some (io_err IO_kNoSpaceLeft [])"
| "GetLastErrorFromErrno ENOTCONN = Some (io_err IO_kNotConnected [])"
| "GetLastErrorFromErrno ECONNREFUSED = Some (io_err IO_kConnectionRefused [])"
| "GetLastErrorFromErrno EADDRINUSE = Some (io_err IO_kAddressAlreadyInUse [])"
| "GetLastErrorFromErrno ECONNRESET = Some (io_err IO_kConnectionResetByPeer [])"
| "GetLastErrorFromErrno ENOTSOCK = Some (io_err IO_kSocketOperationOnNonSocket [])"
| "GetLastErrorFromErrno ENOPROTOOPT = Some (io_err IO_kSocketOperationUnknownAtLevel [])"
| "GetLastErrorFromErrno EDOM = Some (io_err IO_kSocketOperationValueOutOfBound [])"
| "GetLastErrorFromErrno EPIPE = Some (io_err IO_kBrokenPipe [])"
| "GetLastErrorFromErrno (E_OTHER n) =
     Some (AddDetails ''Unknown error code: '' (nat_to_string n) (io_err IO_kUnknownIOError []))"

section \<open>The kernel\<close>

text \<open>
  \<open>read\<close>, \<open>write\<close>, \<open>recv\<close> and \<open>send\<close> get a part of a buffer and return the number of bytes moved, or
  -1, together with the contents of that part afterwards.
\<close>

type_synonym 'w io_method = "int \<Rightarrow> string \<Rightarrow> 'w \<Rightarrow> (int \<times> string) \<times> 'w"

record file_stat =
  st_size :: int
  mtim_sec :: int
  mtim_nsec :: int

datatype file_type = DT_REG | DT_DIR | DT_OTHER

record dirent =
  d_type :: file_type
  d_name :: string

record sockaddr_in =
  sin_family :: int
  sin_port :: u16
  sin_addr :: u32

datatype socket_option = SO_SNDBUF nat | SO_REUSEADDR | TCP_NODELAY

record 'w posix =
  px_errno :: "'w \<Rightarrow> errno"
  px_clear_errno :: "'w \<Rightarrow> 'w"
  px_new :: "nat \<Rightarrow> 'w \<Rightarrow> string option"
  px_open :: "string \<Rightarrow> u32 \<Rightarrow> 'w \<Rightarrow> int \<times> 'w"
  px_close :: "int \<Rightarrow> 'w \<Rightarrow> int \<times> 'w"
  px_read :: "'w io_method"
  px_write :: "'w io_method"
  px_recv :: "'w io_method"
  px_send :: "'w io_method"
  px_mkdir :: "string \<Rightarrow> 'w \<Rightarrow> int \<times> 'w"
  px_remove :: "string \<Rightarrow> 'w \<Rightarrow> int \<times> 'w"
  px_stat :: "string \<Rightarrow> 'w \<Rightarrow> (int \<times> file_stat) \<times> 'w"
  px_opendir :: "string \<Rightarrow> 'w \<Rightarrow> nat option \<times> 'w"
  px_readdir :: "nat \<Rightarrow> 'w \<Rightarrow> dirent option \<times> 'w"
  px_closedir :: "nat \<Rightarrow> 'w \<Rightarrow> 'w"
  px_gethostbyname :: "string \<Rightarrow> 'w \<Rightarrow> u32 option \<times> 'w"
  px_inet_ntoa :: "u32 \<Rightarrow> string"
  px_inet_addr :: "string \<Rightarrow> u32"
  px_gethostname :: "'w \<Rightarrow> string \<times> 'w"
  px_getpeername :: "int \<Rightarrow> 'w \<Rightarrow> (int \<times> string \<times> u16) \<times> 'w"
  px_socket :: "int \<Rightarrow> int \<Rightarrow> int \<Rightarrow> 'w \<Rightarrow> int \<times> 'w"
  px_setsockopt :: "int \<Rightarrow> socket_option \<Rightarrow> 'w \<Rightarrow> int \<times> 'w"
  px_connect :: "int \<Rightarrow> sockaddr_in \<Rightarrow> 'w \<Rightarrow> int \<times> 'w"
  px_bind :: "int \<Rightarrow> sockaddr_in \<Rightarrow> 'w \<Rightarrow> int \<times> 'w"
  px_listen :: "int \<Rightarrow> int \<Rightarrow> 'w \<Rightarrow> int \<times> 'w"
  px_accept :: "int \<Rightarrow> 'w \<Rightarrow> (int \<times> sockaddr_in) \<times> 'w"
  px_select :: "int \<Rightarrow> int \<Rightarrow> 'w \<Rightarrow> int \<times> 'w"
  px_epoll_create :: "'w \<Rightarrow> int \<times> 'w"
  px_epoll_add :: "int \<Rightarrow> int \<Rightarrow> 'w \<Rightarrow> int \<times> 'w"
  px_epoll_del :: "int \<Rightarrow> int \<Rightarrow> 'w \<Rightarrow> 'w"
  px_epoll_wait :: "int \<Rightarrow> nat \<Rightarrow> int \<Rightarrow> 'w \<Rightarrow> (int \<times> int list) \<times> 'w"

definition SystemIO_GetLastError :: "'w posix \<Rightarrow> 'w \<Rightarrow> error option" where
  "SystemIO_GetLastError X w = GetLastErrorFromErrno (px_errno X w)"

text \<open>\<open>htons\<close> and \<open>ntohs\<close> on a little-endian machine.\<close>

definition swap_bytes :: "u16 \<Rightarrow> u16" where
  "swap_bytes p = push_bit 8 p OR drop_bit 8 p"

section \<open>Transfers\<close>

abbreviation (input) kMaxTransferChunkSize :: nat where "kMaxTransferChunkSize \<equiv> 2147483648"
abbreviation (input) kReadWriteBufSize :: nat where "kReadWriteBufSize \<equiv> 52428800"
abbreviation (input) kSkipBufferSize :: nat where "kSkipBufferSize \<equiv> 1024"

definition put_at :: "nat \<Rightarrow> string \<Rightarrow> string \<Rightarrow> string" where
  "put_at i seg buf = take i buf @ seg @ drop (i + length seg) buf"

text \<open>\<open>Transfer\<close>: the bytes transferred, the error and the buffer afterwards.\<close>

partial_function (option) transfer_loop ::
    "'w posix \<Rightarrow> 'w io_method \<Rightarrow> int \<Rightarrow> nat \<Rightarrow> nat \<Rightarrow> string \<Rightarrow> 'w \<Rightarrow> ((nat \<times> error option \<times> string) \<times> 'w) option" where
  "transfer_loop X method fd n already_transferred buf w =
     (if \<not> already_transferred < n then Some ((already_transferred, None, buf), w)
      else
        (let ((received_amount, seg), w1) =
               method fd (take (min kMaxTransferChunkSize (n - already_transferred)) (drop already_transferred buf)) w;
             buf1 = put_at already_transferred seg buf in
         if received_amount = 0 then Some ((already_transferred, Some (gen_err kEndOfFile []), buf1), w1)
         else if received_amount = - 1 then
           (let err = SystemIO_GetLastError X w1 in
            if err_is err (IOErrorTemplates IO_kResourceTemporarilyUnavailable)
            then transfer_loop X method fd n already_transferred buf1 w1
            else Some ((already_transferred, Some (case err of None \<Rightarrow> io_err IO_kUnknownIOError [] | Some e \<Rightarrow> e), buf1), w1))
         else transfer_loop X method fd n (already_transferred + nat (received_amount mod 2 ^ 64)) buf1 w1))"

definition Transfer ::
    "'w posix \<Rightarrow> 'w io_method \<Rightarrow> int \<Rightarrow> string \<Rightarrow> nat \<Rightarrow> 'w \<Rightarrow> ((nat \<times> error option \<times> string) \<times> 'w) option" where
  "Transfer X method fd buf n w = transfer_loop X method fd n 0 buf w"

definition SystemIO_Read where "SystemIO_Read X = Transfer X (px_read X)"
definition SystemIO_Receive where "SystemIO_Receive X = Transfer X (px_recv X)"

definition SystemIO_Write :: "'w posix \<Rightarrow> int \<Rightarrow> string \<Rightarrow> nat \<Rightarrow> 'w \<Rightarrow> ((nat \<times> error option) \<times> 'w) option" where
  "SystemIO_Write X fd data n w =
     do { ((k, err, _), w1) \<leftarrow> Transfer X (px_write X) fd data n w; Some ((k, err), w1) }"

definition SystemIO_Send :: "'w posix \<Rightarrow> int \<Rightarrow> string \<Rightarrow> nat \<Rightarrow> 'w \<Rightarrow> ((nat \<times> error option) \<times> 'w) option" where
  "SystemIO_Send X fd data n w =
     do { ((k, err, _), w1) \<leftarrow> Transfer X (px_send X) fd data n w; Some ((k, err), w1) }"

definition ReceiveWithTimeout ::
    "'w posix \<Rightarrow> int \<Rightarrow> string \<Rightarrow> nat \<Rightarrow> int \<Rightarrow> 'w \<Rightarrow> ((nat \<times> error option \<times> string) \<times> 'w) option" where
  "ReceiveWithTimeout X fd buf n timeout_in_usec w =
     (let (res, w1) = px_select X fd timeout_in_usec w in
      if res = 0 then Some ((0, Some (io_err IO_kTimeout []), buf), w1)
      else if res = - 1 then Some ((0, SystemIO_GetLastError X w1, buf), w1)
      else SystemIO_Receive X fd buf n w1)"

partial_function (option) skip_loop ::
    "'w posix \<Rightarrow> int \<Rightarrow> nat \<Rightarrow> nat \<Rightarrow> string \<Rightarrow> 'w \<Rightarrow> (error option \<times> 'w) option" where
  "skip_loop X fd n already_skipped buffer w =
     (if \<not> already_skipped < n then Some (None, w)
      else do {
        ((skipped_amount, err, buffer1), w1) \<leftarrow> SystemIO_Receive X fd buffer (min kSkipBufferSize (n - already_skipped)) w;
        (if err \<noteq> None then Some (err, w1) else skip_loop X fd n (already_skipped + skipped_amount) buffer1 w1) })"

definition Skip :: "'w posix \<Rightarrow> int \<Rightarrow> nat \<Rightarrow> 'w \<Rightarrow> (error option \<times> 'w) option" where
  "Skip X fd n w =
     (case px_new X kSkipBufferSize w of
        None \<Rightarrow> Some (Some (gen_err kMemoryAllocationError []), w)
      | Some buffer \<Rightarrow> skip_loop X fd n 0 buffer w)"

section \<open>Files\<close>

abbreviation (input) IO_OPEN_MODE_READ :: u32 where "IO_OPEN_MODE_READ \<equiv> 1"
abbreviation (input) IO_OPEN_MODE_WRITE :: u32 where "IO_OPEN_MODE_WRITE \<equiv> 2"
abbreviation (input) IO_OPEN_MODE_RW :: u32 where "IO_OPEN_MODE_RW \<equiv> 4"
abbreviation (input) IO_OPEN_MODE_CREATE :: u32 where "IO_OPEN_MODE_CREATE \<equiv> 8"
abbreviation (input) IO_OPEN_MODE_CREATE_AND_FAIL_IF_EXISTS :: u32 where
  "IO_OPEN_MODE_CREATE_AND_FAIL_IF_EXISTS \<equiv> 16"
abbreviation (input) IO_OPEN_MODE_SET_LENGTH_0 :: u32 where "IO_OPEN_MODE_SET_LENGTH_0 \<equiv> 32"

text \<open>The flags of \<open>open\<close> as Linux numbers them.\<close>

abbreviation (input) O_RDONLY :: u32 where "O_RDONLY \<equiv> 0"
abbreviation (input) O_WRONLY :: u32 where "O_WRONLY \<equiv> 1"
abbreviation (input) O_RDWR :: u32 where "O_RDWR \<equiv> 2"
abbreviation (input) O_CREAT :: u32 where "O_CREAT \<equiv> 0x40"
abbreviation (input) O_EXCL :: u32 where "O_EXCL \<equiv> 0x80"
abbreviation (input) O_TRUNC :: u32 where "O_TRUNC \<equiv> 0x200"

definition FileOpenModeToPosixFileOpenMode :: "u32 \<Rightarrow> u32" where
  "FileOpenModeToPosixFileOpenMode open_flags =
     (let has = (\<lambda>m. open_flags AND m \<noteq> 0) in
      (if has IO_OPEN_MODE_READ \<and> has IO_OPEN_MODE_WRITE \<or> has IO_OPEN_MODE_RW then O_RDWR
       else (if has IO_OPEN_MODE_READ then O_RDONLY else 0) OR (if has IO_OPEN_MODE_WRITE then O_WRONLY else 0))
      OR (if has IO_OPEN_MODE_CREATE then O_CREAT else 0)
      OR (if has IO_OPEN_MODE_CREATE_AND_FAIL_IF_EXISTS then O_CREAT OR O_EXCL else 0)
      OR (if has IO_OPEN_MODE_SET_LENGTH_0 then O_TRUNC else 0))"

definition SystemIO_Open :: "'w posix \<Rightarrow> string \<Rightarrow> u32 \<Rightarrow> 'w \<Rightarrow> (int \<times> error option) \<times> 'w" where
  "SystemIO_Open X filename open_flags w =
     (let (fd, w1) = px_open X (c_str filename) (FileOpenModeToPosixFileOpenMode open_flags) w in
      ((fd, if fd = - 1 then map_option (AddDetails ''name'' filename) (SystemIO_GetLastError X w1) else None), w1))"

definition SystemIO_Close :: "'w posix \<Rightarrow> int \<Rightarrow> 'w \<Rightarrow> error option \<times> 'w" where
  "SystemIO_Close X fd w =
     (let (rc, w1) = px_close X fd w in (if rc = 0 then None else SystemIO_GetLastError X w1, w1))"

definition AllocateArray :: "'w posix \<Rightarrow> nat \<Rightarrow> error option \<Rightarrow> 'w \<Rightarrow> string option \<times> error option" where
  "AllocateArray X fsize err w =
     (case px_new X fsize w of
        None \<Rightarrow> (None, Some (gen_err kMemoryAllocationError []))
      | Some data_array \<Rightarrow> (Some data_array, err))"

definition CreateNewDirectory :: "'w posix \<Rightarrow> string \<Rightarrow> 'w \<Rightarrow> error option \<times> 'w" where
  "CreateNewDirectory X directory_name w =
     (let (rc, w1) = px_mkdir X (c_str directory_name) w in
      (if rc = - 1 then SystemIO_GetLastError X w1 else None, w1))"

text \<open>The path is read up to the next separator at or after position \<open>i\<close>, its first \<open>j\<close> characters
  are created and the loop goes on behind the separator.\<close>

function directories_loop :: "'w posix \<Rightarrow> string \<Rightarrow> string \<Rightarrow> nat \<Rightarrow> 'w \<Rightarrow> error option \<times> 'w" where
  "directories_loop X root_path path i w =
     (if length path \<le> i then (None, w)
      else
        (let j = i + length (takeWhile (\<lambda>c. c \<noteq> CHR ''/'') (drop i path));
             new_path = (if root_path = [] then take j path else root_path @ ''/'' @ take j path);
             (err, w1) = CreateNewDirectory X new_path w in
         if err \<noteq> None \<and> err_is_not err (IOErrorTemplates IO_kFileAlreadyExists)
         then (map_option (AddDetails ''name'' new_path) err, w1)
         else directories_loop X root_path path (if j < length path then Suc j else j) w1))"
  by pat_completeness auto
termination
proof (relation "measure (\<lambda>(X, root_path, path, i, w). length path - i)", goal_cases)
  case (2 X root_path path i w j new_path p err w1)
  have "\<not> j < length path \<Longrightarrow> length path \<le> j" by simp
  moreover have "i \<le> j" using 2(2) by simp
  ultimately show ?case using 2(1) by (cases "j < length path") auto
qed simp

definition CreateDirectoryWithParents :: "'w posix \<Rightarrow> string \<Rightarrow> string \<Rightarrow> 'w \<Rightarrow> error option \<times> 'w" where
  "CreateDirectoryWithParents X root_path path w = directories_loop X root_path path 0 w"

text \<open>\<open>rfind\<close> of the path separator.\<close>

definition last_separator :: "string \<Rightarrow> nat option" where
  "last_separator s = map_option (\<lambda>k. length s - 1 - k) (str_find (CHR ''/'') (rev s))"

function OpenWithCreateFolders ::
    "'w posix \<Rightarrow> string \<Rightarrow> string \<Rightarrow> bool \<Rightarrow> bool \<Rightarrow> 'w \<Rightarrow> (int \<times> error option) \<times> 'w" where
  "OpenWithCreateFolders X root_folder fname create_directories allow_ovewrite w =
     (let full_name = (if root_folder \<noteq> [] then root_folder @ ''/'' @ fname else fname);
          create_flag = (if allow_ovewrite then IO_OPEN_MODE_CREATE else IO_OPEN_MODE_CREATE_AND_FAIL_IF_EXISTS);
          ((fd, err), w1) = SystemIO_Open X full_name (create_flag OR IO_OPEN_MODE_RW OR IO_OPEN_MODE_SET_LENGTH_0) w in
      if err_is err (IOErrorTemplates IO_kFileNotFound) \<and> create_directories then
        (case last_separator fname of
           None \<Rightarrow> ((- 1, Some (AddDetails ''name'' fname (io_err IO_kFileNotFound []))), w1)
         | Some pos \<Rightarrow>
             (case CreateDirectoryWithParents X root_folder (take pos fname) w1 of
                (Some e, w2) \<Rightarrow> ((- 1, Some e), w2)
              | (None, w2) \<Rightarrow> OpenWithCreateFolders X root_folder fname False allow_ovewrite w2))
      else ((fd, err), w1))"
  by pat_completeness auto
termination
  by (relation "measure (\<lambda>(X, root, fname, create, over, w). if create then 1 else 0)") auto

declare directories_loop.simps [simp del] OpenWithCreateFolders.simps [simp del]

definition SystemIO_WriteDataToFile ::
    "'w posix \<Rightarrow> string \<Rightarrow> string \<Rightarrow> string \<Rightarrow> nat \<Rightarrow> bool \<Rightarrow> bool \<Rightarrow> 'w \<Rightarrow> (error option \<times> 'w) option" where
  "SystemIO_WriteDataToFile X root_folder fname data n create_directories allow_ovewrite w =
     (case OpenWithCreateFolders X root_folder fname create_directories allow_ovewrite w of
        ((fd, Some e), w1) \<Rightarrow> Some (Some e, w1)
      | ((fd, None), w1) \<Rightarrow> do {
          ((k, err), w2) \<leftarrow> SystemIO_Write X fd data n w1;
          (case err of
             Some e \<Rightarrow> Some (Some (AddDetails ''name'' fname e), w2)
           | None \<Rightarrow> Some (SystemIO_Close X fd w2)) })"

definition FileStat :: "'w posix \<Rightarrow> string \<Rightarrow> error option \<Rightarrow> 'w \<Rightarrow> (file_stat \<times> error option) \<times> 'w" where
  "FileStat X fname err w =
     (let ((res, t_stat), w1) = px_stat X (c_str fname) (px_clear_errno X w) in
      ((t_stat, if res < 0 then SystemIO_GetLastError X w1 else err), w1))"

definition SystemIO_GetMessageMeta :: "'w posix \<Rightarrow> string \<Rightarrow> error option \<Rightarrow> 'w \<Rightarrow> (MessageMeta \<times> error option) \<times> 'w" where
  "SystemIO_GetMessageMeta X name err w =
     (case FileStat X name err w of
        ((t_stat, Some e), w1) \<Rightarrow> ((MessageMeta_new, Some (AddDetails ''name'' name e)), w1)
      | ((t_stat, None), w1) \<Rightarrow>
          ((MessageMeta_new\<lparr>mm_name := name, mm_size := of_int (st_size t_stat),
              mm_timestamp := of_int (mtim_nsec t_stat + mtim_sec t_stat * 1000000000)\<rparr>, None), w1))"

text \<open>The results are the data, \<open>*fsize\<close> and \<open>*err\<close>.\<close>

definition SystemIO_GetDataFromFile ::
    "'w posix \<Rightarrow> string \<Rightarrow> u64 \<Rightarrow> error option \<Rightarrow> 'w \<Rightarrow> ((string option \<times> u64 \<times> error option) \<times> 'w) option" where
  "SystemIO_GetDataFromFile X fname fsize err w =
     (let ((info, err1), w1) =
            (if fsize = 0 \<and> fname \<noteq> [] then SystemIO_GetMessageMeta X fname err w
             else ((MessageMeta_new\<lparr>mm_size := fsize\<rparr>, None), w)) in
      if err1 \<noteq> None then Some ((None, fsize, err1), w1)
      else
        (let fsize1 = mm_size info; ((fd, err2), w2) = SystemIO_Open X fname IO_OPEN_MODE_READ w1 in
         if err2 \<noteq> None then Some ((None, fsize1, err2), w2)
         else
           (case AllocateArray X (unat fsize1) None w2 of
              (None, err3) \<Rightarrow> Some ((None, fsize1, err3), w2)
            | (Some data_array, err3) \<Rightarrow> do {
                ((k, err4, data), w3) \<leftarrow> SystemIO_Read X fd data_array (unat fsize1) w2;
                (case err4 of
                   Some e \<Rightarrow> Some ((None, fsize1, Some (AddDetails ''expected size'' (to_string fsize1) (AddDetails ''name'' fname e))),
                               snd (SystemIO_Close X fd w3))
                 | None \<Rightarrow> (let (err5, w4) = SystemIO_Close X fd w3 in Some ((Some data, fsize1, err5), w4))) })))"

definition ReadFileToString :: "'w posix \<Rightarrow> string \<Rightarrow> error option \<Rightarrow> 'w \<Rightarrow> ((string \<times> error option) \<times> 'w) option" where
  "ReadFileToString X fname err w =
     do { ((data, fsize, err1), w1) \<leftarrow> SystemIO_GetDataFromFile X fname 0 err w;
          Some ((if err1 \<noteq> None then [] else the data, err1), w1) }"

definition RemoveFile :: "'w posix \<Rightarrow> string \<Rightarrow> 'w \<Rightarrow> error option \<times> 'w" where
  "RemoveFile X fname w =
     (let (rc, w1) = px_remove X (c_str fname) w in (if rc = 0 then None else SystemIO_GetLastError X w1, w1))"

section \<open>Files over a socket\<close>

partial_function (option) send_file_loop ::
    "'w posix \<Rightarrow> int \<Rightarrow> int \<Rightarrow> nat \<Rightarrow> nat \<Rightarrow> nat \<Rightarrow> string \<Rightarrow> 'w \<Rightarrow> (error option \<times> 'w) option" where
  "send_file_loop X socket_fd fd n buf_size total_bytes_sent data_array w =
     (if \<not> total_bytes_sent < n then Some (None, snd (SystemIO_Close X fd w))
      else do {
        ((bytes_read, err, data1), w1) \<leftarrow> SystemIO_Read X fd data_array buf_size w;
        (if err \<noteq> None \<and> err_is_not err (GeneralErrorTemplates kEndOfFile) then Some (err, snd (SystemIO_Close X fd w1))
         else do {
           ((bytes_sent, err1), w2) \<leftarrow> SystemIO_Send X socket_fd data1 bytes_read w1;
           (if err1 \<noteq> None then Some (err1, snd (SystemIO_Close X fd w2))
            else send_file_loop X socket_fd fd n buf_size (total_bytes_sent + bytes_sent) data1 w2) }) })"

definition SystemIO_SendFile :: "'w posix \<Rightarrow> int \<Rightarrow> string \<Rightarrow> nat \<Rightarrow> 'w \<Rightarrow> (error option \<times> 'w) option" where
  "SystemIO_SendFile X socket_fd fname n w =
     (let buf_size = min n kReadWriteBufSize; ((fd, err), w1) = SystemIO_Open X fname IO_OPEN_MODE_READ w in
      if err \<noteq> None then Some (err, w1)
      else
        (case AllocateArray X buf_size None w1 of
           (None, err1) \<Rightarrow> Some (err1, w1)
         | (Some data_array, err1) \<Rightarrow> send_file_loop X socket_fd fd n buf_size 0 data_array w1))"

partial_function (option) receive_file_loop ::
    "'w posix \<Rightarrow> int \<Rightarrow> int \<Rightarrow> nat \<Rightarrow> nat \<Rightarrow> nat \<Rightarrow> string \<Rightarrow> 'w \<Rightarrow> (error option \<times> 'w) option" where
  "receive_file_loop X socket fd n buf_size total_bytes_written data_array w =
     (if \<not> total_bytes_written < n then Some (None, snd (SystemIO_Close X fd w))
      else do {
        ((bytes_received, err, data1), w1) \<leftarrow> SystemIO_Receive X socket data_array (min buf_size (n - total_bytes_written)) w;
        (if err \<noteq> None \<and> err_is_not err (GeneralErrorTemplates kEndOfFile) then Some (err, snd (SystemIO_Close X fd w1))
         else do {
           ((bytes_written, err1), w2) \<leftarrow> SystemIO_Write X fd data1 bytes_received w1;
           (if err1 \<noteq> None then Some (err1, snd (SystemIO_Close X fd w2))
            else receive_file_loop X socket fd n buf_size (total_bytes_written + bytes_written) data1 w2) }) })"

definition SystemIO_ReceiveDataToFile ::
    "'w posix \<Rightarrow> int \<Rightarrow> string \<Rightarrow> string \<Rightarrow> nat \<Rightarrow> bool \<Rightarrow> bool \<Rightarrow> 'w \<Rightarrow> (error option \<times> 'w) option" where
  "SystemIO_ReceiveDataToFile X socket root_folder fname n create_directories allow_ovewrite w =
     (case OpenWithCreateFolders X root_folder fname create_directories allow_ovewrite w of
        ((fd, Some e), w1) \<Rightarrow> Some (Some e, w1)
      | ((fd, None), w1) \<Rightarrow>
          (let buf_size = min n kReadWriteBufSize in
           case AllocateArray X buf_size None w1 of
             (None, err1) \<Rightarrow> Some (err1, w1)
           | (Some data_array, err1) \<Rightarrow> receive_file_loop X socket fd n buf_size 0 data_array w1))"

section \<open>Directories\<close>

definition IsDirectory :: "dirent \<Rightarrow> bool" where
  "IsDirectory entity \<longleftrightarrow> d_type entity = DT_DIR
     \<and> \<not> contains_str ''..'' (d_name entity) \<and> \<not> contains_str ''.'' (d_name entity)"

definition ProcessFileEntity ::
    "'w posix \<Rightarrow> dirent \<Rightarrow> string \<Rightarrow> MessageMeta list \<Rightarrow> 'w \<Rightarrow> (MessageMeta list \<times> error option) \<times> 'w" where
  "ProcessFileEntity X entity path files w =
     (if d_type entity \<noteq> DT_REG then ((files, None), w)
      else
        (case SystemIO_GetMessageMeta X (path @ ''/'' @ d_name entity) None w of
           ((message_meta, Some e), w1) \<Rightarrow> ((files, Some e), w1)
         | ((message_meta, None), w1) \<Rightarrow> ((files @ [message_meta], None), w1)))"

text \<open>
  The two recursive traversals.  \<open>dir\<close> is \<open>None\<close> at the beginning of a call and the open directory
  inside its loop, so that the loop and the recursion are one function.
\<close>

partial_function (option) CollectMessageMetarmationRecursively ::
    "'w posix \<Rightarrow> string \<Rightarrow> nat option \<Rightarrow> MessageMeta list \<Rightarrow> error option \<Rightarrow> 'w
      \<Rightarrow> ((MessageMeta list \<times> error option) \<times> 'w) option" where
  "CollectMessageMetarmationRecursively X path dir files err w =
     (case dir of
        None \<Rightarrow>
          (case px_opendir X (c_str path) (px_clear_errno X w) of
             (None, w1) \<Rightarrow> Some ((files, map_option (AddDetails ''name'' path) (SystemIO_GetLastError X w1)), w1)
           | (Some d, w1) \<Rightarrow> CollectMessageMetarmationRecursively X path (Some d) files err w1)
      | Some d \<Rightarrow>
          (case px_readdir X d w of
             (None, w1) \<Rightarrow> Some ((files, SystemIO_GetLastError X w1), px_closedir X d w1)
           | (Some current_entity, w1) \<Rightarrow> do {
               ((files1, err1), w2) \<leftarrow>
                 (if IsDirectory current_entity
                  then CollectMessageMetarmationRecursively X (path @ ''/'' @ d_name current_entity) None files err w1
                  else Some (ProcessFileEntity X current_entity path files w1));
               (if err1 \<noteq> None then Some ((files1, err1), px_closedir X d (px_clear_errno X w2))
                else CollectMessageMetarmationRecursively X path (Some d) files1 err1 w2) }))"

partial_function (option) GetSubDirectoriesRecursively ::
    "'w posix \<Rightarrow> string \<Rightarrow> nat option \<Rightarrow> string list \<Rightarrow> error option \<Rightarrow> 'w
      \<Rightarrow> ((string list \<times> error option) \<times> 'w) option" where
  "GetSubDirectoriesRecursively X path dir subdirs err w =
     (case dir of
        None \<Rightarrow>
          (case px_opendir X (c_str path) (px_clear_errno X w) of
             (None, w1) \<Rightarrow> Some ((subdirs, map_option (AddDetails ''name'' path) (SystemIO_GetLastError X w1)), w1)
           | (Some d, w1) \<Rightarrow> GetSubDirectoriesRecursively X path (Some d) subdirs err w1)
      | Some d \<Rightarrow>
          (case px_readdir X d w of
             (None, w1) \<Rightarrow> Some ((subdirs, SystemIO_GetLastError X w1), px_closedir X d w1)
           | (Some current_entity, w1) \<Rightarrow> do {
               ((subdirs1, err1), w2) \<leftarrow>
                 (if IsDirectory current_entity
                  then (let subdir = path @ ''/'' @ d_name current_entity in
                        GetSubDirectoriesRecursively X subdir None (subdirs @ [subdir]) err w1)
                  else Some ((subdirs, err), w1));
               (if err1 \<noteq> None then Some ((subdirs1, err1), px_closedir X d (px_clear_errno X w2))
                else GetSubDirectoriesRecursively X path (Some d) subdirs1 err1 w2) }))"

definition GetSubDirectories :: "'w posix \<Rightarrow> string \<Rightarrow> error option \<Rightarrow> 'w \<Rightarrow> ((string list \<times> error option) \<times> 'w) option" where
  "GetSubDirectories X path err w =
     do { ((subdirs, err1), w1) \<leftarrow> GetSubDirectoriesRecursively X path None [] err w;
          Some ((if err1 \<noteq> None then [] else subdirs, err1), w1) }"

definition StripBasePath :: "string \<Rightarrow> MessageMeta list \<Rightarrow> MessageMeta list" where
  "StripBasePath folder file_list = map (\<lambda>m. m\<lparr>mm_name := drop (length folder + 1) (mm_name m)\<rparr>) file_list"

text \<open>\<open>std::sort\<close> leaves the order of equal elements open; the model keeps it.  Time points are signed.\<close>

definition SortFileList :: "MessageMeta list \<Rightarrow> MessageMeta list" where
  "SortFileList file_list = sort_key (\<lambda>m. sint (mm_timestamp m)) file_list"

fun AssignIDs :: "u64 \<Rightarrow> MessageMeta list \<Rightarrow> MessageMeta list" where
  "AssignIDs i [] = []"
| "AssignIDs i (m # ms) = m\<lparr>mm_id := i + 1\<rparr> # AssignIDs (i + 1) ms"

definition FilesInFolder :: "'w posix \<Rightarrow> string \<Rightarrow> error option \<Rightarrow> 'w \<Rightarrow> ((MessageMeta list \<times> error option) \<times> 'w) option" where
  "FilesInFolder X folder err w =
     do { ((files, err1), w1) \<leftarrow> CollectMessageMetarmationRecursively X folder None [] err w;
          Some ((if err1 \<noteq> None then [] else AssignIDs 0 (SortFileList (StripBasePath folder files)), err1), w1) }"

section \<open>What a transfer does\<close>

text \<open>
  The documented behaviour of the kernel calls: they move at most the bytes of the part they get
  (\<open>moves\<close>), a reading call delivers the next bytes of its source and a writing call appends them to
  its destination.  A call does not report that it would block forever (\<open>finally_ready\<close>).
\<close>

definition moves :: "(string \<Rightarrow> 'w \<Rightarrow> (int \<times> string) \<times> 'w) \<Rightarrow> bool" where
  "moves dev \<longleftrightarrow> (\<forall>buf w r seg w'. dev buf w = ((r, seg), w') \<longrightarrow>
     length seg = length buf \<and> - 1 \<le> r \<and> r \<le> int (length buf))"

definition reads_from :: "(string \<Rightarrow> 'w \<Rightarrow> (int \<times> string) \<times> 'w) \<Rightarrow> ('w \<Rightarrow> string) \<Rightarrow> bool" where
  "reads_from dev src \<longleftrightarrow> moves dev \<and> (\<forall>buf w r seg w'. dev buf w = ((r, seg), w') \<longrightarrow>
     src w = take (nat r) seg @ src w')"

definition writes_to :: "(string \<Rightarrow> 'w \<Rightarrow> (int \<times> string) \<times> 'w) \<Rightarrow> ('w \<Rightarrow> string) \<Rightarrow> bool" where
  "writes_to dev dst \<longleftrightarrow> moves dev \<and> (\<forall>buf w r seg w'. dev buf w = ((r, seg), w') \<longrightarrow>
     seg = buf \<and> dst w' = dst w @ take (nat r) buf)"

definition keeps :: "(string \<Rightarrow> 'w \<Rightarrow> (int \<times> string) \<times> 'w) \<Rightarrow> ('w \<Rightarrow> 'a) \<Rightarrow> bool" where
  "keeps dev obs \<longleftrightarrow> (\<forall>buf w. obs (snd (dev buf w)) = obs w)"

definition finally_ready :: "'w posix \<Rightarrow> (string \<Rightarrow> 'w \<Rightarrow> (int \<times> string) \<times> 'w) \<Rightarrow> bool" where
  "finally_ready X dev \<longleftrightarrow> (\<exists>patience :: 'w \<Rightarrow> nat. \<forall>buf w seg w'.
     dev buf w = ((- 1, seg), w') \<and> px_errno X w' \<in> {EAGAIN, EINTR} \<longrightarrow> patience w' < patience w)"

lemma asked_again: "err_is (SystemIO_GetLastError X w) (IOErrorTemplates IO_kResourceTemporarilyUnavailable)
    \<longleftrightarrow> px_errno X w \<in> {EAGAIN, EINTR}"
  by (cases "px_errno X w") (simp_all add: SystemIO_GetLastError_def)

definition moved :: "int \<Rightarrow> nat" where
  "moved r = (if r = - 1 then 0 else nat (r mod 2 ^ 64))"

lemma moved_simp: "- 1 \<le> r \<Longrightarrow> r \<le> 2147483648 \<Longrightarrow> moved r = nat r"
  by (auto simp: moved_def)

lemma length_put_at: "i + length seg \<le> length buf \<Longrightarrow> length (put_at i seg buf) = length buf"
  by (simp add: put_at_def)

lemma take_put_at:
  "i + length seg \<le> length buf \<Longrightarrow> k \<le> length seg \<Longrightarrow> take (i + k) (put_at i seg buf) = take i buf @ take k seg"
  by (simp add: put_at_def)

lemma put_at_same: "put_at i (take k (drop i buf)) buf = buf"
proof -
  have "drop (i + length (take k (drop i buf))) buf = drop k (drop i buf)"
    by (cases "k \<le> length (drop i buf)") (simp_all add: add.commute)
  then show ?thesis unfolding put_at_def by (metis append_take_drop_id)
qed

text \<open>The invariant rule of the loop: every turn leads from \<open>I a\<close> to \<open>I (a + moved r)\<close>.\<close>

lemma transfer_rule:
  assumes ret: "transfer_loop X m fd n a buf w = Some ((k, err, buf'), w')"
    and start: "I a buf w"
    and turn: "\<And>a buf w r seg w1. I a buf w \<Longrightarrow> a < n \<Longrightarrow>
      m fd (take (min kMaxTransferChunkSize (n - a)) (drop a buf)) w = ((r, seg), w1) \<Longrightarrow>
      I (a + moved r) (put_at a seg buf) w1"
  shows "I k buf' w' \<and> (err = None \<longleftrightarrow> \<not> k < n)"
proof -
  let ?P = "\<lambda>X' m' fd' n' a buf w (res :: (nat \<times> error option \<times> string) \<times> 'a).
    X' = X \<and> m' = m \<and> fd' = fd \<and> n' = n \<and> I a buf w \<longrightarrow>
    I (fst (fst res)) (snd (snd (fst res))) (snd res) \<and> (fst (snd (fst res)) = None \<longleftrightarrow> \<not> fst (fst res) < n)"
  have "?P X m fd n a buf w ((k, err, buf'), w')"
  proof (rule transfer_loop.raw_induct [where P = ?P, OF _ ret], intro impI, elim conjE, goal_cases)
    case (1 loop X' m' fd' n' a buf w res)
    obtain r seg w1 where call: "m fd (take (min kMaxTransferChunkSize (n - a)) (drop a buf)) w = ((r, seg), w1)"
      by (metis prod.collapse)
    consider "\<not> a < n" | "a < n" "r = 0" | "a < n" "r = - 1" | "a < n" "r \<noteq> 0" "r \<noteq> - 1" by blast
    then show ?case
    proof cases
      case a: 1
      then show ?thesis using 1 by auto
    next
      case a: 2
      then show ?thesis using 1 call turn [OF \<open>I a buf w\<close> a(1) call] by (auto simp: moved_def)
    next
      case a: 3
      then show ?thesis using 1 call turn [OF \<open>I a buf w\<close> a(1) call]
        by (auto simp: moved_def Let_def split: if_splits)
    next
      case a: 4
      then show ?thesis using 1 call turn [OF \<open>I a buf w\<close> a(1) call]
        by (auto simp: moved_def Let_def split: if_splits)
    qed
  qed
  with start show ?thesis by simp
qed

lemma Transfer_reads:
  assumes dev: "reads_from (m fd) src" and ret: "Transfer X m fd buf n w = Some ((k, err, buf'), w')"
    and fits: "n \<le> length buf"
  shows "k \<le> n" "length buf' = length buf" "src w = take k buf' @ src w'" "err = None \<longleftrightarrow> k = n"
proof -
  let ?I = "\<lambda>a b v. a \<le> n \<and> length b = length buf \<and> src w = take a b @ src v"
  have "?I k buf' w' \<and> (err = None \<longleftrightarrow> \<not> k < n)"
  proof (rule transfer_rule [OF ret [unfolded Transfer_def]], simp, goal_cases)
    case (1 a b v r seg v1)
    let ?c = "min 2147483648 (n - a)"
    have len: "length seg = ?c" and r: "- 1 \<le> r" "r \<le> int ?c" and src: "src v = take (nat r) seg @ src v1"
      using dev 1(1,3) fits unfolding reads_from_def moves_def by fastforce+
    have "moved r = nat r" using r by (intro moved_simp) auto
    moreover have "nat r \<le> length seg" "a + length seg \<le> n" using 1(2) r len by linarith+
    moreover from this have "take (a + nat r) (put_at a seg b) = take a b @ take (nat r) seg"
      using 1(1) fits by (intro take_put_at) auto
    ultimately show ?case
      using 1(1) src fits by (auto simp: length_put_at)
  qed
  then show "k \<le> n" "length buf' = length buf" "src w = take k buf' @ src w'" "err = None \<longleftrightarrow> k = n" by auto
qed

lemma Transfer_writes:
  assumes dev: "writes_to (m fd) dst" and ret: "Transfer X m fd buf n w = Some ((k, err, buf'), w')"
    and fits: "n \<le> length buf"
  shows "k \<le> n" "dst w' = dst w @ take k buf" "err = None \<longleftrightarrow> k = n"
proof -
  let ?I = "\<lambda>a b v. a \<le> n \<and> b = buf \<and> dst v = dst w @ take a buf"
  have "?I k buf' w' \<and> (err = None \<longleftrightarrow> \<not> k < n)"
  proof (rule transfer_rule [OF ret [unfolded Transfer_def]], simp, goal_cases)
    case (1 a b v r seg v1)
    let ?c = "min 2147483648 (n - a)"
    have seg: "seg = take ?c (drop a buf)" and r: "- 1 \<le> r" "r \<le> int ?c" and dst: "dst v1 = dst v @ take (nat r) seg"
      using dev 1(1,3) fits unfolding writes_to_def moves_def by fastforce+
    have "moved r = nat r" using r by (intro moved_simp) auto
    moreover have "nat r \<le> ?c" using r by linarith
    moreover have "a + nat r \<le> n" using r 1(2) by linarith
    moreover have "take (a + nat r) buf = take a buf @ take (nat r) (drop a buf)" by (simp add: take_add)
    ultimately show ?case
      using 1(1,2) seg dst by (auto simp: put_at_same min_def)
  qed
  then show "k \<le> n" "dst w' = dst w @ take k buf" "err = None \<longleftrightarrow> k = n" by auto
qed

lemma Transfer_keeps:
  assumes dev: "keeps (m fd) obs" and ret: "Transfer X m fd buf n w = Some ((k, err, buf'), w')"
  shows "obs w' = obs w"
proof -
  have "obs w' = obs w \<and> (err = None \<longleftrightarrow> \<not> k < n)"
    by (rule transfer_rule [where I = "\<lambda>a b v. obs v = obs w", OF ret [unfolded Transfer_def]])
      (use dev in \<open>auto simp: keeps_def dest: arg_cong [where f = snd]\<close>, metis snd_conv)
  then show ?thesis ..
qed

lemma Transfer_returns:
  assumes dev: "moves (m fd)" and ready: "finally_ready X (m fd)" and fits: "n \<le> length buf"
  shows "\<exists>res. Transfer X m fd buf n w = Some res"
proof -
  obtain patience :: "'a \<Rightarrow> nat" where patience: "\<And>buf w seg w'. m fd buf w = ((- 1, seg), w') \<Longrightarrow>
      px_errno X w' \<in> {EAGAIN, EINTR} \<Longrightarrow> patience w' < patience w"
    using ready unfolding finally_ready_def by blast
  have "\<exists>res. transfer_loop X m fd n a b v = Some res" if "length b = length buf" for a b v
    using that
  proof (induction "(n - a, patience v)" arbitrary: a b v rule: wf_induct_rule [OF wf_lex_prod [OF wf_less_than wf_less_than]])
    case 1
    note IH = 1(1)
    show ?case
    proof (cases "a < n")
      case True
      obtain r seg v1 where call: "m fd (take (min kMaxTransferChunkSize (n - a)) (drop a b)) v = ((r, seg), v1)"
        by (metis prod.collapse)
      then have len: "length seg = min kMaxTransferChunkSize (n - a)"
          and r: "- 1 \<le> r" "r \<le> int (min kMaxTransferChunkSize (n - a))"
        using dev fits 1(2) unfolding moves_def by fastforce+
      then have b1: "length (put_at a seg b) = length buf"
        using fits True 1(2) by (subst length_put_at) auto
      show ?thesis
      proof (cases "r = 0 \<or> r = - 1 \<and> px_errno X v1 \<notin> {EAGAIN, EINTR}")
        case True
        then show ?thesis using \<open>a < n\<close> call by (subst transfer_loop.simps) (auto simp: asked_again [simplified] Let_def)
      next
        case again: False
        show ?thesis
        proof (cases "r = - 1")
          case True
          then have "patience v1 < patience v" using again call patience by blast
          then have "\<exists>res. transfer_loop X m fd n a (put_at a seg b) v1 = Some res"
            by (intro IH) (auto simp: b1)
          then show ?thesis
            using \<open>a < n\<close> call True again by (subst transfer_loop.simps) (auto simp: asked_again [simplified] Let_def)
        next
          case False
          then have "0 < nat (r mod 2 ^ 64)" using r again by simp
          then have "\<exists>res. transfer_loop X m fd n (a + nat (r mod 2 ^ 64)) (put_at a seg b) v1 = Some res"
            using \<open>a < n\<close> by (intro IH) (auto simp: b1)
          then show ?thesis
            using \<open>a < n\<close> call False again by (subst transfer_loop.simps) (auto simp: Let_def)
        qed
      qed
    qed (auto simp: transfer_loop.simps)
  qed
  then show ?thesis unfolding Transfer_def by blast
qed

text \<open>An error of a transfer is the result of its last call.\<close>

definition stops_with :: "'w posix \<Rightarrow> (string \<Rightarrow> 'w \<Rightarrow> (int \<times> string) \<times> 'w) \<Rightarrow> 'w \<Rightarrow> error \<Rightarrow> bool" where
  "stops_with X dev w' e \<longleftrightarrow> (\<exists>part v r seg. part \<noteq> [] \<and> dev part v = ((r, seg), w') \<and>
     (r = 0 \<and> e = gen_err kEndOfFile [] \<or>
      r = - 1 \<and> e = (case SystemIO_GetLastError X w' of None \<Rightarrow> io_err IO_kUnknownIOError [] | Some e \<Rightarrow> e)))"

lemma transfer_error:
  assumes ret: "transfer_loop X m fd n a buf w = Some ((k, Some e, buf'), w')"
    and dev: "moves (m fd)" and fits: "n \<le> length buf"
  shows "stops_with X (m fd) w' e"
proof -
  let ?P = "\<lambda>X' m' fd' n' a buf w (res :: (nat \<times> error option \<times> string) \<times> 'a).
    X' = X \<and> m' = m \<and> fd' = fd \<and> n' = n \<and> n \<le> length buf \<longrightarrow>
    (\<forall>e. fst (snd (fst res)) = Some e \<longrightarrow> stops_with X (m fd) (snd res) e)"
  have "?P X m fd n a buf w ((k, Some e, buf'), w')"
  proof (rule transfer_loop.raw_induct [where P = ?P, OF _ ret], intro impI, elim conjE, goal_cases)
    case (1 loop X' m' fd' n' a buf w res)
    let ?part = "take (min kMaxTransferChunkSize (n - a)) (drop a buf)"
    obtain r seg w1 where call: "m fd ?part w = ((r, seg), w1)" by (metis prod.collapse)
    show ?case
    proof (cases "a < n")
      case True
      then have part: "?part \<noteq> []" using \<open>n \<le> length buf\<close> by simp
      have last: "r = 0 \<Longrightarrow> stops_with X (m fd) w1 (gen_err kEndOfFile [])"
        "r = - 1 \<Longrightarrow> stops_with X (m fd) w1 (case SystemIO_GetLastError X w1 of None \<Rightarrow> io_err IO_kUnknownIOError [] | Some e \<Rightarrow> e)"
        using call part unfolding stops_with_def by blast+
      have "length (put_at a seg buf) = length buf"
        using call dev True \<open>n \<le> length buf\<close> unfolding moves_def by (subst length_put_at) fastforce+
      then show ?thesis using 1 True call last
        by (auto simp: Let_def split: if_splits)
    qed (use 1 in auto)
  qed
  with fits show ?thesis by simp
qed

section \<open>Copying between files and sockets\<close>

definition ends_at_end :: "(string \<Rightarrow> 'w \<Rightarrow> (int \<times> string) \<times> 'w) \<Rightarrow> ('w \<Rightarrow> string) \<Rightarrow> bool" where
  "ends_at_end dev src \<longleftrightarrow> (\<forall>buf w seg w'. dev buf w = ((0, seg), w') \<and> buf \<noteq> [] \<longrightarrow> src w = [])"

definition good_descriptor :: "'w posix \<Rightarrow> (string \<Rightarrow> 'w \<Rightarrow> (int \<times> string) \<times> 'w) \<Rightarrow> bool" where
  "good_descriptor X dev \<longleftrightarrow> (\<forall>buf w seg w'. dev buf w = ((- 1, seg), w') \<longrightarrow> px_errno X w' \<noteq> EBADF)"

definition never_fails :: "(string \<Rightarrow> 'w \<Rightarrow> (int \<times> string) \<times> 'w) \<Rightarrow> bool" where
  "never_fails dev \<longleftrightarrow> (\<forall>buf w. 0 \<le> fst (fst (dev buf w)))"

definition takes_all :: "(string \<Rightarrow> 'w \<Rightarrow> (int \<times> string) \<times> 'w) \<Rightarrow> bool" where
  "takes_all dev \<longleftrightarrow> (\<forall>buf w. buf \<noteq> [] \<longrightarrow> 0 < fst (fst (dev buf w)))"

text \<open>
  The calls of one copy: \<open>rd\<close> on descriptor \<open>a\<close> reads from \<open>src\<close>, \<open>wr\<close> on descriptor \<open>b\<close> appends to
  \<open>dst\<close>, neither touches the other side, and the file \<open>fd\<close> is closed at the end.
\<close>

definition copies ::
    "'w posix \<Rightarrow> 'w io_method \<Rightarrow> int \<Rightarrow> 'w io_method \<Rightarrow> int \<Rightarrow> int \<Rightarrow> ('w \<Rightarrow> string) \<Rightarrow> ('w \<Rightarrow> string) \<Rightarrow> bool" where
  "copies X rd a wr b fd src dst \<longleftrightarrow>
     reads_from (rd a) src \<and> ends_at_end (rd a) src \<and> good_descriptor X (rd a) \<and> finally_ready X (rd a) \<and> keeps (rd a) dst
     \<and> writes_to (wr b) dst \<and> finally_ready X (wr b) \<and> keeps (wr b) src
     \<and> (\<forall>w. dst (snd (px_close X fd w)) = dst w \<and> src (snd (px_close X fd w)) = src w)
     \<and> (\<forall>n w d. px_new X n w = Some d \<longrightarrow> length d = n)"

abbreviation sends_file :: "'w posix \<Rightarrow> int \<Rightarrow> int \<Rightarrow> ('w \<Rightarrow> string) \<Rightarrow> ('w \<Rightarrow> string) \<Rightarrow> bool" where
  "sends_file X fd socket rest out \<equiv> copies X (px_read X) fd (px_send X) socket fd rest out"

abbreviation receives_file :: "'w posix \<Rightarrow> int \<Rightarrow> int \<Rightarrow> ('w \<Rightarrow> string) \<Rightarrow> ('w \<Rightarrow> string) \<Rightarrow> bool" where
  "receives_file X socket fd inc written \<equiv> copies X (px_recv X) socket (px_write X) fd fd inc written"

lemma copy_reads:
  assumes c: "copies X rd a wr b fd src dst" and fits: "n \<le> length data"
  obtains k err data1 w1 where "Transfer X rd a data n w = Some ((k, err, data1), w1)" "length data1 = length data"
    "src w = take k data1 @ src w1" "dst w1 = dst w" "k \<le> n" "k \<le> length (src w)"
    "err \<noteq> None \<and> err_is_not err (GeneralErrorTemplates kEndOfFile) \<or> k = min n (length (src w))"
    "never_fails (rd a) \<longrightarrow> \<not> (err \<noteq> None \<and> err_is_not err (GeneralErrorTemplates kEndOfFile))"
proof -
  from c have dev: "reads_from (rd a) src" "moves (rd a)" "finally_ready X (rd a)" "keeps (rd a) dst"
    "ends_at_end (rd a) src" "good_descriptor X (rd a)"
    by (simp_all add: copies_def reads_from_def)
  obtain k err data1 w1 where ret: "Transfer X rd a data n w = Some ((k, err, data1), w1)"
    using Transfer_returns [where m = rd, OF dev(2,3) fits] by (metis prod.collapse)
  note R = Transfer_reads [OF dev(1) ret fits]
  have len: "length (take k data1) = k" using R fits by simp
  have "src w1 = [] \<and> error_type e = 1 \<or> error_type e \<noteq> 1 \<and> \<not> never_fails (rd a)" if e: "err = Some e" for e
  proof -
    have "stops_with X (rd a) w1 e" using transfer_error [where m = rd, OF _ dev(2) fits] ret e unfolding Transfer_def by metis
    then obtain part v r seg where part: "part \<noteq> []" "rd a part v = ((r, seg), w1)"
      "r = 0 \<and> e = gen_err kEndOfFile [] \<or>
        r = - 1 \<and> e = (case SystemIO_GetLastError X w1 of None \<Rightarrow> io_err IO_kUnknownIOError [] | Some e \<Rightarrow> e)"
      unfolding stops_with_def by blast
    show ?thesis
    proof (cases "r = 0")
      case True
      then have "src w1 = []" using dev(1,5) part(1,2) unfolding ends_at_end_def reads_from_def by fastforce
      moreover have "error_type e = 1" using part(3) True by simp
      ultimately show ?thesis by simp
    next
      case False
      then have r: "r = - 1" "e = (case SystemIO_GetLastError X w1 of None \<Rightarrow> io_err IO_kUnknownIOError [] | Some e \<Rightarrow> e)"
        using part(3) by auto
      then have "px_errno X w1 \<noteq> EBADF" using dev(6) part(2) unfolding good_descriptor_def by blast
      then have "error_type e \<noteq> 1"
        using r(2) by (cases "px_errno X w1") (auto simp: SystemIO_GetLastError_def)
      moreover have "\<not> never_fails (rd a)"
        using part(2) r(1) unfolding never_fails_def by (metis fst_conv neg_0_le_iff_le not_one_le_zero)
      ultimately show ?thesis by blast
    qed
  qed
  then have "err \<noteq> None \<and> err_is_not err (GeneralErrorTemplates kEndOfFile) \<or> k = min n (length (src w))"
    "never_fails (rd a) \<longrightarrow> \<not> (err \<noteq> None \<and> err_is_not err (GeneralErrorTemplates kEndOfFile))"
    using R len by (cases err; auto)+
  moreover have "k \<le> length (src w)" using R(3) len by simp
  ultimately show ?thesis
    using that [OF ret R(2,3) Transfer_keeps [where m = rd, OF dev(4) ret] R(1)] by blast
qed

lemma copy_writes:
  assumes c: "copies X rd a wr b fd src dst" and fits: "n \<le> length data"
  obtains k err data1 w1 where "Transfer X wr b data n w = Some ((k, err, data1), w1)" "src w1 = src w"
    "err = None \<longrightarrow> k = n \<and> dst w1 = dst w @ take n data" "takes_all (wr b) \<longrightarrow> never_fails (wr b) \<longrightarrow> err = None"
proof -
  from c have dev: "writes_to (wr b) dst" "moves (wr b)" "finally_ready X (wr b)" "keeps (wr b) src"
    by (simp_all add: copies_def writes_to_def)
  obtain k err data1 w1 where ret: "Transfer X wr b data n w = Some ((k, err, data1), w1)"
    using Transfer_returns [where m = wr, OF dev(2,3) fits] by (metis prod.collapse)
  have "\<not> takes_all (wr b) \<or> \<not> never_fails (wr b)" if "err = Some e" for e
  proof -
    have "stops_with X (wr b) w1 e" using transfer_error [where m = wr, OF _ dev(2) fits] ret that unfolding Transfer_def by metis
    then obtain part v r seg where "part \<noteq> []" "wr b part v = ((r, seg), w1)" "r = 0 \<or> r = - 1"
      unfolding stops_with_def by blast
    then show ?thesis unfolding takes_all_def never_fails_def by (metis fst_conv less_irrefl neg_0_le_iff_le not_one_le_zero)
  qed
  then show ?thesis
    using that [OF ret Transfer_keeps [where m = wr, OF dev(4) ret]] Transfer_writes [OF dev(1) ret fits] by (cases err) auto
qed

lemma copy_close:
  "copies X rd a wr b fd src dst \<Longrightarrow> dst (snd (SystemIO_Close X fd w)) = dst w \<and> src (snd (SystemIO_Close X fd w)) = src w"
  by (simp add: copies_def SystemIO_Close_def case_prod_unfold Let_def)

lemmas file_loop_defs = SystemIO_Read_def SystemIO_Send_def SystemIO_Receive_def SystemIO_Write_def Let_def

lemma send_file_loop_sends:
  assumes c: "sends_file X fd socket rest out" and total: "t + length (rest w) = n"
    and buf: "length data = buf_size" "0 < buf_size"
  shows "\<exists>err w'. send_file_loop X socket fd n buf_size t data w = Some (err, w') \<and> (err = None \<longrightarrow> out w' = out w @ rest w)"
  using total buf
proof (induction "n - t" arbitrary: t data w rule: less_induct)
  case less
  show ?case
  proof (cases "t < n")
    case True
    obtain k err d1 w1 where read: "Transfer X (px_read X) fd data buf_size w = Some ((k, err, d1), w1)"
        "length d1 = length data" "rest w = take k d1 @ rest w1" "out w1 = out w" "k \<le> buf_size" "k \<le> length (rest w)"
        "err \<noteq> None \<and> err_is_not err (GeneralErrorTemplates kEndOfFile) \<or> k = min buf_size (length (rest w))"
        "never_fails (px_read X fd) \<longrightarrow> \<not> (err \<noteq> None \<and> err_is_not err (GeneralErrorTemplates kEndOfFile))"
      using less.prems by - (rule copy_reads [OF c, of buf_size data w], simp)
    obtain j err1 d2 w2 where sent: "Transfer X (px_send X) socket d1 k w1 = Some ((j, err1, d2), w2)"
        "rest w2 = rest w1" "err1 = None \<longrightarrow> j = k \<and> out w2 = out w1 @ take k d1"
        "takes_all (px_send X socket) \<longrightarrow> never_fails (px_send X socket) \<longrightarrow> err1 = None"
      using less.prems read(2,5) by - (rule copy_writes [OF c, of k d1 w1], simp)
    consider "err \<noteq> None \<and> err_is_not err (GeneralErrorTemplates kEndOfFile)" | "err1 \<noteq> None"
      | "\<not> (err \<noteq> None \<and> err_is_not err (GeneralErrorTemplates kEndOfFile))" "err1 = None" by blast
    then show ?thesis
    proof cases
      case 3
      then have k: "k = min buf_size (length (rest w))" using read(7) by blast
      then have "0 < k" using True less.prems by (cases "rest w") auto
      have "length (rest w) = k + length (rest w1)"
        using read(2,3,5) less.prems(2) by (metis length_append length_take min.absorb2)
      with \<open>0 < k\<close> obtain err' w' where "send_file_loop X socket fd n buf_size (t + k) d1 w2 = Some (err', w')"
          "err' = None \<longrightarrow> out w' = out w2 @ rest w2"
        using less.hyps [of "t + k" w2 d1] True less.prems read(2) sent(2) by auto
      then show ?thesis using True read sent 3 by (subst send_file_loop.simps) (auto simp: file_loop_defs)
    next
      case 1
      then show ?thesis using True read(1) by (subst send_file_loop.simps) (auto simp: file_loop_defs)
    next
      case 2
      then show ?thesis using True read(1) sent(1) by (subst send_file_loop.simps) (auto simp: file_loop_defs)
    qed
  next
    case False
    then show ?thesis using copy_close [OF c] less.prems by (subst send_file_loop.simps) auto
  qed
qed

text \<open>A file with fewer than \<open>n - t\<close> bytes left is never sent completely.\<close>

lemma send_file_loop_short:
  assumes ret: "send_file_loop X socket fd n buf_size t data w = Some (err, w')"
    and c: "sends_file X fd socket rest out" and buf: "length data = buf_size" and short: "t + length (rest w) < n"
  shows "\<not> (never_fails (px_read X fd) \<and> never_fails (px_send X socket) \<and> takes_all (px_send X socket)) \<and> err \<noteq> None"
proof -
  let ?P = "\<lambda>X' socket' fd' n' bs' t data w (res :: error option \<times> 'a).
    X' = X \<and> socket' = socket \<and> fd' = fd \<and> n' = n \<and> bs' = buf_size \<and> length data = buf_size \<and> t + length (rest w) < n \<longrightarrow>
    \<not> (never_fails (px_read X fd) \<and> never_fails (px_send X socket) \<and> takes_all (px_send X socket)) \<and> fst res \<noteq> None"
  have "?P X socket fd n buf_size t data w (err, w')"
  proof (rule send_file_loop.raw_induct [where P = ?P, OF _ ret], intro impI, elim conjE, goal_cases)
    case (1 loop X' socket' fd' n' bs' t data w res)
    note eq = \<open>X' = X\<close> \<open>socket' = socket\<close> \<open>fd' = fd\<close> \<open>n' = n\<close> \<open>bs' = buf_size\<close>
    obtain k err d1 w1 where read: "Transfer X (px_read X) fd data buf_size w = Some ((k, err, d1), w1)"
        "length d1 = length data" "rest w = take k d1 @ rest w1" "out w1 = out w" "k \<le> buf_size" "k \<le> length (rest w)"
        "err \<noteq> None \<and> err_is_not err (GeneralErrorTemplates kEndOfFile) \<or> k = min buf_size (length (rest w))"
        "never_fails (px_read X fd) \<longrightarrow> \<not> (err \<noteq> None \<and> err_is_not err (GeneralErrorTemplates kEndOfFile))"
      using 1(8) by - (rule copy_reads [OF c, of buf_size data w], simp)
    obtain j err1 d2 w2 where sent: "Transfer X (px_send X) socket d1 k w1 = Some ((j, err1, d2), w2)"
        "rest w2 = rest w1" "err1 = None \<longrightarrow> j = k \<and> out w2 = out w1 @ take k d1"
        "takes_all (px_send X socket) \<longrightarrow> never_fails (px_send X socket) \<longrightarrow> err1 = None"
      using 1(8) read(2,5) by - (rule copy_writes [OF c, of k d1 w1], simp)
    have "t + k + length (rest w2) < n"
      using 1(9) read(2,3,5) 1(8) sent(2) by (metis add.assoc length_append length_take min.absorb2)
    then show ?case
      using 1(1) [of X socket fd n buf_size "t + k" d1 w2 res] 1(2,8,9) read sent
      unfolding eq by (auto simp: file_loop_defs split: if_splits)
  qed
  with buf short show ?thesis by simp
qed

lemma receive_file_loop_receives:
  assumes c: "receives_file X socket fd inc written" and enough: "n \<le> t + length (inc w)" and le: "t \<le> n"
    and buf: "length data = buf_size" "0 < buf_size"
  shows "\<exists>err w'. receive_file_loop X socket fd n buf_size t data w = Some (err, w') \<and>
    (err = None \<longrightarrow> written w' = written w @ take (n - t) (inc w) \<and> inc w' = drop (n - t) (inc w))"
  using enough le buf
proof (induction "n - t" arbitrary: t data w rule: less_induct)
  case less
  show ?case
  proof (cases "t < n")
    case True
    let ?c = "min buf_size (n - t)"
    obtain k err d1 w1 where read: "Transfer X (px_recv X) socket data ?c w = Some ((k, err, d1), w1)"
        "length d1 = length data" "inc w = take k d1 @ inc w1" "written w1 = written w" "k \<le> ?c" "k \<le> length (inc w)"
        "err \<noteq> None \<and> err_is_not err (GeneralErrorTemplates kEndOfFile) \<or> k = min ?c (length (inc w))"
        "never_fails (px_recv X socket) \<longrightarrow> \<not> (err \<noteq> None \<and> err_is_not err (GeneralErrorTemplates kEndOfFile))"
      using less.prems by - (rule copy_reads [OF c, of ?c data w], simp)
    obtain j err1 d2 w2 where sent: "Transfer X (px_write X) fd d1 k w1 = Some ((j, err1, d2), w2)"
        "inc w2 = inc w1" "err1 = None \<longrightarrow> j = k \<and> written w2 = written w1 @ take k d1"
        "takes_all (px_write X fd) \<longrightarrow> never_fails (px_write X fd) \<longrightarrow> err1 = None"
      using less.prems read(2,5) by - (rule copy_writes [OF c, of k d1 w1], simp)
    consider "err \<noteq> None \<and> err_is_not err (GeneralErrorTemplates kEndOfFile)" | "err1 \<noteq> None"
      | "\<not> (err \<noteq> None \<and> err_is_not err (GeneralErrorTemplates kEndOfFile))" "err1 = None" by blast
    then show ?thesis
    proof cases
      case 3
      then have k: "k = ?c" using read(7) less.prems(1) by auto
      then have pos: "0 < k" "t + k \<le> n" and len: "length (take k d1) = k"
        using True less.prems read(2) by auto
      have "n \<le> t + k + length (inc w2)" using less.prems(1) read(3) sent(2) len by simp
      moreover have "n - (t + k) < n - t" using True pos by simp
      ultimately obtain err' w' where ih: "receive_file_loop X socket fd n buf_size (t + k) d1 w2 = Some (err', w')"
          "err' = None \<longrightarrow> written w' = written w2 @ take (n - (t + k)) (inc w2) \<and> inc w' = drop (n - (t + k)) (inc w2)"
        using less.hyps [of "t + k" w2 d1] pos(2) less.prems(3,4) read(2) by auto
      have "take (n - t) (inc w) = take k d1 @ take (n - (t + k)) (inc w2)"
        "drop (n - t) (inc w) = drop (n - (t + k)) (inc w2)"
        using len pos by (simp_all add: read(3) sent(2))
      then show ?thesis using True read sent 3 ih
        by (subst receive_file_loop.simps) (auto simp: file_loop_defs)
    next
      case 1
      then show ?thesis using True read(1) by (subst receive_file_loop.simps) (auto simp: file_loop_defs)
    next
      case 2
      then show ?thesis using True read(1) sent(1) by (subst receive_file_loop.simps) (auto simp: file_loop_defs)
    qed
  next
    case False
    then show ?thesis using copy_close [OF c] less.prems by (subst receive_file_loop.simps) auto
  qed
qed

text \<open>After the peer has closed its side, \<open>recv\<close> returns 0 every time.\<close>

definition peer_closed :: "(string \<Rightarrow> 'w \<Rightarrow> (int \<times> string) \<times> 'w) \<Rightarrow> bool" where
  "peer_closed dev \<longleftrightarrow> (\<forall>buf w. fst (dev buf w) = (0, buf))"

lemma Transfer_closed:
  assumes "peer_closed (m fd)" and "0 < n"
  shows "\<exists>w1. Transfer X m fd buf n w = Some ((0, Some (gen_err kEndOfFile []), buf), w1)"
proof -
  let ?part = "take (min kMaxTransferChunkSize n) buf"
  obtain w1 where "m fd ?part w = ((0, ?part), w1)"
    using assms(1) unfolding peer_closed_def by (metis prod.collapse)
  then show ?thesis
    using assms(2) put_at_same [of 0 "min kMaxTransferChunkSize n" buf]
    by (auto simp: Transfer_def transfer_loop.simps)
qed

lemma receive_file_loop_closed:
  assumes closed: "peer_closed (px_recv X socket)" and rest: "t < n" "0 < buf_size"
  shows "receive_file_loop X socket fd n buf_size t data w = None"
proof (rule ccontr)
  assume "receive_file_loop X socket fd n buf_size t data w \<noteq> None"
  then obtain res where ret: "receive_file_loop X socket fd n buf_size t data w = Some res" by blast
  let ?P = "\<lambda>X' socket' fd' n' bs' t data w (res :: error option \<times> 'a).
    X' = X \<and> socket' = socket \<and> n' = n \<and> bs' = buf_size \<longrightarrow> \<not> t < n"
  have "?P X socket fd n buf_size t data w res"
  proof (rule receive_file_loop.raw_induct [where P = ?P, OF _ ret], intro impI notI, elim conjE, goal_cases)
    case (1 loop X' socket' fd' n' bs' t data w res)
    obtain w1 where recv: "Transfer X (px_recv X) socket data (min buf_size (n - t)) w = Some ((0, Some (gen_err kEndOfFile []), data), w1)"
      using Transfer_closed [where m = "px_recv X", OF closed, of "min buf_size (n - t)" X data w] \<open>t < n\<close> \<open>0 < buf_size\<close> by auto
    have "Transfer X (px_write X) fd' data 0 w1 = Some ((0, None, data), w1)"
      by (simp add: Transfer_def transfer_loop.simps)
    then have "loop X socket fd' n buf_size t data w1 = Some res"
      using recv 1 by (auto simp: file_loop_defs split: if_splits)
    then show ?case using 1 by blast
  qed
  with rest show False by simp
qed

lemma skip_loop_skips:
  assumes dev: "reads_from (px_recv X fd) inc" "finally_ready X (px_recv X fd)" and buf: "length buffer = kSkipBufferSize"
    and le: "t \<le> n"
  shows "\<exists>err w'. skip_loop X fd n t buffer w = Some (err, w') \<and>
    (err = None \<longrightarrow> n - t \<le> length (inc w) \<and> inc w' = drop (n - t) (inc w))"
  using buf le
proof (induction "n - t" arbitrary: t buffer w rule: less_induct)
  case less
  show ?case
  proof (cases "t < n")
    case True
    let ?c = "min kSkipBufferSize (n - t)"
    have moves: "moves (px_recv X fd)" using dev(1) by (simp add: reads_from_def)
    obtain k err b1 w1 where ret: "Transfer X (px_recv X) fd buffer ?c w = Some ((k, err, b1), w1)"
      using Transfer_returns [where m = "px_recv X", OF moves dev(2), of ?c buffer w] less.prems by auto
    note R = Transfer_reads [OF dev(1) ret] 
    show ?thesis
    proof (cases err)
      case None
      then have k: "k = ?c" "length b1 = kSkipBufferSize" "inc w = take k b1 @ inc w1" using R less.prems by auto
      then have len: "length (take k b1) = k" by simp
      have "n - (t + k) < n - t" "t + k \<le> n" using True k(1) by auto
      then obtain err' w' where ih: "skip_loop X fd n (t + k) b1 w1 = Some (err', w')"
          "err' = None \<longrightarrow> n - (t + k) \<le> length (inc w1) \<and> inc w' = drop (n - (t + k)) (inc w1)"
        using less.hyps [of "t + k" b1 w1] k(2) by auto
      have "length (inc w) = k + length (inc w1)" "drop (n - t) (inc w) = drop (n - (t + k)) (inc w1)"
        using len \<open>t + k \<le> n\<close> by (simp_all add: k(3))
      then show ?thesis using True ret None ih \<open>t + k \<le> n\<close>
        by (subst skip_loop.simps) (auto simp: SystemIO_Receive_def)
    next
      case (Some e)
      then show ?thesis using True ret by (subst skip_loop.simps) (auto simp: SystemIO_Receive_def)
    qed
  qed (auto simp: skip_loop.simps)
qed

section \<open>Folders and existing files\<close>

definition full_path :: "string \<Rightarrow> string \<Rightarrow> string" where
  "full_path root path = (if root = [] then path else root @ ''/'' @ path)"

text \<open>\<open>mkdir\<close> makes a folder or says that it exists, and never removes one.\<close>

definition makes_folders :: "'w posix \<Rightarrow> ('w \<Rightarrow> string set) \<Rightarrow> bool" where
  "makes_folders X folders \<longleftrightarrow> (\<forall>p w rc w'. px_mkdir X p w = (rc, w') \<longrightarrow> folders w \<subseteq> folders w'
     \<and> (rc \<noteq> - 1 \<or> px_errno X w' = EEXIST \<longrightarrow> p \<in> folders w') \<and> (rc = - 1 \<longrightarrow> px_errno X w' \<noteq> E_OK))"

text \<open>The positions of a path at which the name of a folder ends.\<close>

definition folder_ends :: "string \<Rightarrow> nat \<Rightarrow> bool" where
  "folder_ends path j \<longleftrightarrow> j < length path \<and> path ! j = CHR ''/'' \<or> j = length path \<and> path \<noteq> [] \<and> last path \<noteq> CHR ''/''"

lemma CreateNewDirectory_makes:
  assumes X: "makes_folders X folders" and call: "CreateNewDirectory X p w = (err, w')" and nul: "NUL \<notin> set p"
  shows "folders w \<subseteq> folders w'"
    and "\<not> (err \<noteq> None \<and> err_is_not err (IOErrorTemplates IO_kFileAlreadyExists)) \<Longrightarrow> p \<in> folders w'"
proof -
  obtain rc where rc: "px_mkdir X p w = (rc, w')" and err: "err = (if rc = - 1 then SystemIO_GetLastError X w' else None)"
    using call nul by (auto simp: CreateNewDirectory_def c_str_id Let_def split: prod.splits)
  note L = X [unfolded makes_folders_def, rule_format, OF rc]
  from L show "folders w \<subseteq> folders w'" by blast
  assume ok: "\<not> (err \<noteq> None \<and> err_is_not err (IOErrorTemplates IO_kFileAlreadyExists))"
  have "rc \<noteq> - 1 \<or> px_errno X w' = EEXIST"
    using ok err L by (cases "px_errno X w'") (auto simp: SystemIO_GetLastError_def)
  then show "p \<in> folders w'" using L by blast
qed

lemma takeWhile_stops: "k < length xs \<Longrightarrow> \<not> P (xs ! k) \<Longrightarrow> length (takeWhile P xs) \<le> k"
  by (induction xs arbitrary: k) (auto simp: nth_Cons split: nat.splits)

lemma next_separator:
  assumes "i \<le> j" and "folder_ends path j"
  shows "i + length (takeWhile (\<lambda>c. c \<noteq> CHR ''/'') (drop i path)) \<le> j"
proof (cases "j < length path")
  case True
  then have "drop i path ! (j - i) = CHR ''/''" "j - i < length (drop i path)" using assms by (auto simp: folder_ends_def)
  then have "length (takeWhile (\<lambda>c. c \<noteq> CHR ''/'') (drop i path)) \<le> j - i"
    by (intro takeWhile_stops) auto
  then show ?thesis using assms(1) by simp
next
  case False
  have "length (takeWhile (\<lambda>c. c \<noteq> CHR ''/'') (drop i path)) \<le> length (drop i path)" by (rule length_takeWhile_le)
  then show ?thesis using False assms by (auto simp: folder_ends_def)
qed

lemma directories_loop_creates:
  assumes "makes_folders X folders" and "NUL \<notin> set root_path" "NUL \<notin> set path"
    and "directories_loop X root_path path i w = (None, w')"
  shows "folders w \<subseteq> folders w' \<and>
    (\<forall>j. i \<le> j \<and> i < length path \<and> folder_ends path j \<longrightarrow> full_path root_path (take j path) \<in> folders w')"
  using assms
proof (induction X root_path path i w rule: directories_loop.induct)
  case (1 X root_path path i w)
  show ?case
  proof (cases "length path \<le> i")
    case True
    then show ?thesis using "1.prems"(4) by (simp add: directories_loop.simps)
  next
    case False
    define k where "k = i + length (takeWhile (\<lambda>c. c \<noteq> CHR ''/'') (drop i path))"
    define p where "p = full_path root_path (take k path)"
    let ?i = "if k < length path then Suc k else k"
    obtain err w1 where call: "CreateNewDirectory X p w = (err, w1)" by fastforce
    have nul: "NUL \<notin> set p" using "1.prems"(2,3) by (auto simp: p_def full_path_def dest: in_set_takeD)
    have go: "\<not> (err \<noteq> None \<and> err_is_not err (IOErrorTemplates IO_kFileAlreadyExists))"
        and more: "directories_loop X root_path path ?i w1 = (None, w')"
      using "1.prems"(4) False call
      by (auto simp: directories_loop.simps [of X root_path path i w] k_def [symmetric] p_def full_path_def Let_def split: if_splits)
    note made = CreateNewDirectory_makes [OF "1.prems"(1) call nul]
    have IH: "folders w1 \<subseteq> folders w' \<and>
      (\<forall>j. ?i \<le> j \<and> ?i < length path \<and> folder_ends path j \<longrightarrow> full_path root_path (take j path) \<in> folders w')"
      by (rule "1.IH" [OF False k_def _ call [unfolded p_def full_path_def, symmetric] _ go "1.prems"(1-3) more])
        (auto simp: p_def full_path_def)
    have "full_path root_path (take j path) \<in> folders w'" if j: "i \<le> j" "folder_ends path j" for j
    proof (cases "j = k")
      case True
      then show ?thesis using IH made(2) [OF go] by (auto simp: p_def)
    next
      case False
      then have "k < j" using next_separator [OF j] by (simp add: k_def)
      moreover have "j \<le> length path" using j(2) by (auto simp: folder_ends_def)
      moreover have "Suc k < length path"
      proof (cases "j < length path")
        case False
        then have "j = length path" "last path \<noteq> CHR ''/''" using j(2) by (auto simp: folder_ends_def)
        moreover have "path ! k = CHR ''/''"
          using \<open>k < j\<close> \<open>j = length path\<close> nth_length_takeWhile [of "\<lambda>c. c \<noteq> CHR ''/''" "drop i path"]
          by (simp add: k_def)
        ultimately show ?thesis using \<open>k < j\<close> by (metis Suc_lessI diff_Suc_1 last_conv_nth length_0_conv not_less_zero)
      qed (use \<open>k < j\<close> in simp)
      ultimately show ?thesis using IH j(2) by auto
    qed
    then show ?thesis using IH made(1) by auto
  qed
qed

text \<open>\<open>open\<close> with \<open>O_EXCL\<close> refuses a file that exists and leaves it as it is.\<close>

definition protects_files :: "'w posix \<Rightarrow> ('w \<Rightarrow> string \<Rightarrow> string option) \<Rightarrow> bool" where
  "protects_files X stored \<longleftrightarrow> (\<forall>p flags w fd w'. px_open X p flags w = (fd, w') \<and> stored w p \<noteq> None \<and> flags AND O_EXCL \<noteq> 0
     \<longrightarrow> fd = - 1 \<and> px_errno X w' = EEXIST \<and> stored w' = stored w)"

lemma OpenWithCreateFolders_protects:
  assumes X: "protects_files X stored" and there: "stored w (full_path root fname) \<noteq> None"
    and nul: "NUL \<notin> set root" "NUL \<notin> set fname"
  shows "\<exists>w'. OpenWithCreateFolders X root fname create False w =
      ((- 1, Some (AddDetails ''name'' (full_path root fname) (io_err IO_kFileAlreadyExists []))), w') \<and> stored w' = stored w"
proof -
  let ?p = "full_path root fname"
  let ?flags = "FileOpenModeToPosixFileOpenMode (IO_OPEN_MODE_CREATE_AND_FAIL_IF_EXISTS OR IO_OPEN_MODE_RW OR IO_OPEN_MODE_SET_LENGTH_0)"
  have flags: "?flags AND O_EXCL \<noteq> 0" by (simp add: FileOpenModeToPosixFileOpenMode_def)
  obtain fd w' where call: "px_open X ?p ?flags w = (fd, w')" by fastforce
  then have fd: "fd = - 1" "px_errno X w' = EEXIST" "stored w' = stored w"
    using X there flags unfolding protects_files_def by blast+
  have "c_str ?p = ?p" using nul by (intro c_str_id) (auto simp: full_path_def)
  then have "SystemIO_Open X ?p (IO_OPEN_MODE_CREATE_AND_FAIL_IF_EXISTS OR IO_OPEN_MODE_RW OR IO_OPEN_MODE_SET_LENGTH_0) w =
      ((- 1, Some (AddDetails ''name'' ?p (io_err IO_kFileAlreadyExists []))), w')"
    using call fd by (simp add: SystemIO_Open_def SystemIO_GetLastError_def)
  then show ?thesis
    using fd(3) by (auto simp: OpenWithCreateFolders.simps [of X root fname create False w] full_path_def Let_def)
qed

section \<open>A kernel for concrete runs\<close>

text \<open>One file, one socket and some folders: every call moves all that it can.\<close>

record demo_kernel =
  dk_errno :: errno
  dk_file :: string
  dk_inc :: string
  dk_out :: string
  dk_written :: string
  dk_folders :: "string set"
  dk_stored :: "string \<Rightarrow> string option"

definition demo_posix :: "demo_kernel posix" where
  "demo_posix =
     \<lparr>px_errno = dk_errno, px_clear_errno = dk_errno_update (\<lambda>_. E_OK), px_new = (\<lambda>n w. Some (replicate n NUL)),
      px_open = (\<lambda>p flags w. if dk_stored w p \<noteq> None \<and> flags AND O_EXCL \<noteq> 0 then (- 1, w\<lparr>dk_errno := EEXIST\<rparr>) else (3, w)),
      px_close = (\<lambda>fd w. (0, w)),
      px_read = (\<lambda>fd buf w. let k = min (length buf) (length (dk_file w)) in
        ((int k, take k (dk_file w) @ drop k buf), w\<lparr>dk_file := drop k (dk_file w)\<rparr>)),
      px_write = (\<lambda>fd buf w. ((int (length buf), buf), w\<lparr>dk_written := dk_written w @ buf\<rparr>)),
      px_recv = (\<lambda>fd buf w. let k = min (length buf) (length (dk_inc w)) in
        ((int k, take k (dk_inc w) @ drop k buf), w\<lparr>dk_inc := drop k (dk_inc w)\<rparr>)),
      px_send = (\<lambda>fd buf w. ((int (length buf), buf), w\<lparr>dk_out := dk_out w @ buf\<rparr>)),
      px_mkdir = (\<lambda>p w. if p \<in> dk_folders w then (- 1, w\<lparr>dk_errno := EEXIST\<rparr>) else (0, w\<lparr>dk_folders := insert p (dk_folders w)\<rparr>)),
      px_remove = (\<lambda>p w. (0, w)),
      px_stat = (\<lambda>p w. ((0, \<lparr>st_size = int (length (dk_file w)), mtim_sec = 0, mtim_nsec = 0\<rparr>), w)),
      px_opendir = (\<lambda>p w. (None, w)), px_readdir = (\<lambda>d w. (None, w)), px_closedir = (\<lambda>d w. w),
      px_gethostbyname = (\<lambda>h w. (None, w)), px_inet_ntoa = (\<lambda>a. []), px_inet_addr = (\<lambda>h. 0),
      px_gethostname = (\<lambda>w. ([], w)), px_getpeername = (\<lambda>s w. ((0, [], 0), w)),
      px_socket = (\<lambda>d t p w. (4, w)), px_setsockopt = (\<lambda>s opt w. (0, w)), px_connect = (\<lambda>s a w. (0, w)),
      px_bind = (\<lambda>s a w. (0, w)), px_listen = (\<lambda>s b w. (0, w)),
      px_accept = (\<lambda>s w. ((5, \<lparr>sin_family = 2, sin_port = 0, sin_addr = 0\<rparr>), w)), px_select = (\<lambda>s t w. (1, w)),
      px_epoll_create = (\<lambda>w. (6, w)), px_epoll_add = (\<lambda>e s w. (0, w)), px_epoll_del = (\<lambda>e s w. w),
      px_epoll_wait = (\<lambda>e k t w. ((1, [5]), w))\<rparr>"

definition demo_world :: demo_kernel where
  "demo_world = \<lparr>dk_errno = E_OK, dk_file = ''data'', dk_inc = ''data+'', dk_out = [], dk_written = [], dk_folders = {},
     dk_stored = [''d/f'' \<mapsto> ''old'']\<rparr>"

lemmas device_laws = reads_from_def writes_to_def moves_def keeps_def ends_at_end_def good_descriptor_def
  finally_ready_def never_fails_def takes_all_def

lemma demo_sends_file: "sends_file demo_posix fd socket dk_file dk_out"
  by (auto simp: copies_def device_laws demo_posix_def min_def Let_def split: if_splits)

lemma demo_receives_file: "receives_file demo_posix socket fd dk_inc dk_written"
  by (auto simp: copies_def device_laws demo_posix_def min_def Let_def split: if_splits)

lemma demo_open [simp]:
  "SystemIO_Open demo_posix ''f'' IO_OPEN_MODE_READ demo_world = ((3, None), demo_world)"
  "OpenWithCreateFolders demo_posix [] ''f'' True True demo_world = ((3, None), demo_world)"
  by (simp_all add: OpenWithCreateFolders.simps SystemIO_Open_def demo_posix_def demo_world_def c_str_def Let_def)

lemma demo_mkdir:
  "px_errno demo_posix = dk_errno"
  "px_mkdir demo_posix p w =
     (if p \<in> dk_folders w then (- 1, w\<lparr>dk_errno := EEXIST\<rparr>) else (0, w\<lparr>dk_folders := insert p (dk_folders w)\<rparr>))"
  by (simp_all add: demo_posix_def)

section \<open>Properties\<close>

text \<open>
  C7. A file travels unchanged: \<open>SendFile\<close> on a file of \<open>n\<close> bytes always returns, and when it reports
  success exactly the bytes of the file have gone out; \<open>ReceiveDataToFile\<close> of \<open>n\<close> bytes on a connection
  that holds them always returns, and when it reports success the opened file has got these
  bytes and the connection is left at the byte behind them.
\<close>
theorem file_travels_unchanged:
  assumes sender: "SystemIO_Open X fname IO_OPEN_MODE_READ v = ((fd, None), v1)" "sends_file X fd socket rest out"
    and receiver: "OpenWithCreateFolders Y root name dirs over w = ((fd', None), w1)" "receives_file Y socket' fd' inc written"
    and connection: "inc w1 = rest v1 @ tail"
  shows "(\<exists>err v'. SystemIO_SendFile X socket fname (length (rest v1)) v = Some (err, v')
        \<and> (err = None \<longrightarrow> out v' = out v1 @ rest v1))
     \<and> (\<exists>err w'. SystemIO_ReceiveDataToFile Y socket' root name (length (rest v1)) dirs over w = Some (err, w')
        \<and> (err = None \<longrightarrow> written w' = written w1 @ rest v1 \<and> inc w' = tail))"
proof
  let ?n = "length (rest v1)" and ?b = "min (length (rest v1)) kReadWriteBufSize"
  have alloc: "px_new X k u = Some d \<Longrightarrow> length d = k" for k u d using sender(2) by (auto simp: copies_def)
  have "?n = 0 \<or> 0 < ?b" by auto
  then show "\<exists>err v'. SystemIO_SendFile X socket fname ?n v = Some (err, v') \<and> (err = None \<longrightarrow> out v' = out v1 @ rest v1)"
  proof
    assume "?n = 0"
    then show ?thesis using sender(1) copy_close [OF sender(2)]
      by (auto simp: SystemIO_SendFile_def AllocateArray_def send_file_loop.simps split: option.splits)
  next
    assume "0 < ?b"
    then show ?thesis
      using sender(1) send_file_loop_sends [OF sender(2), of 0 v1 ?n _ ?b] alloc
      by (auto simp: SystemIO_SendFile_def AllocateArray_def Let_def split: option.splits)
  qed
  have alloc: "px_new Y k u = Some d \<Longrightarrow> length d = k" for k u d using receiver(2) by (auto simp: copies_def)
  have "?n = 0 \<or> 0 < ?b" by auto
  then show "\<exists>err w'. SystemIO_ReceiveDataToFile Y socket' root name ?n dirs over w = Some (err, w')
      \<and> (err = None \<longrightarrow> written w' = written w1 @ rest v1 \<and> inc w' = tail)"
  proof
    assume "?n = 0"
    then show ?thesis using receiver(1) connection copy_close [OF receiver(2)]
      by (auto simp: SystemIO_ReceiveDataToFile_def AllocateArray_def receive_file_loop.simps split: option.splits)
  next
    assume "0 < ?b"
    then show ?thesis
      using receiver(1) connection receive_file_loop_receives [OF receiver(2), of ?n 0 w1 _ ?b] alloc
      by (auto simp: SystemIO_ReceiveDataToFile_def AllocateArray_def Let_def split: option.splits)
  qed
qed

theorem file_travels_unchanged_witness:
  "(\<exists>err v'. SystemIO_SendFile demo_posix 5 ''f'' 4 demo_world = Some (err, v') \<and> (err = None \<longrightarrow> dk_out v' = ''data''))
   \<and> (\<exists>err w'. SystemIO_ReceiveDataToFile demo_posix 5 [] ''f'' 4 True True demo_world = Some (err, w')
     \<and> (err = None \<longrightarrow> dk_written w' = ''data'' \<and> dk_inc w' = ''+''))"
  using file_travels_unchanged [OF demo_open(1) demo_sends_file demo_open(2) demo_receives_file, of "''+''" 5 5]
  by (simp add: demo_world_def eval_nat_numeral)

text \<open>
  C23. A broken copy never ends.  \<open>SendFile\<close> asked for more bytes than the file has does not return, on a
  connection that keeps accepting data; \<open>ReceiveDataToFile\<close> does not return once the peer has closed
  the connection before the last byte.  The loops take the end of the input for a turn that moved
  nothing.
\<close>
theorem interrupted_file_copy_hangs:
  assumes sender: "SystemIO_Open X fname IO_OPEN_MODE_READ v = ((fd, None), v1)" "sends_file X fd socket rest out"
      "length (rest v1) < n" "px_new X (min n kReadWriteBufSize) v1 \<noteq> None"
      "never_fails (px_read X fd)" "never_fails (px_send X socket)" "takes_all (px_send X socket)"
    and receiver: "OpenWithCreateFolders Y root name dirs over w = ((fd', None), w1)" "peer_closed (px_recv Y socket')"
      "px_new Y (min n kReadWriteBufSize) w1 \<noteq> None"
  shows "SystemIO_SendFile X socket fname n v = None \<and> SystemIO_ReceiveDataToFile Y socket' root name n dirs over w = None"
proof
  let ?b = "min n kReadWriteBufSize"
  obtain d where d: "px_new X ?b v1 = Some d" "length d = ?b" using sender(2,4) by (auto simp: copies_def)
  have "send_file_loop X socket fd n ?b 0 d v1 = None"
    using send_file_loop_short [OF _ sender(2) d(2), where t = 0 and n = n and w = v1] sender(3,5-7)
    by (cases "send_file_loop X socket fd n ?b 0 d v1") auto
  then show "SystemIO_SendFile X socket fname n v = None"
    using sender(1) d by (simp add: SystemIO_SendFile_def AllocateArray_def Let_def)
  have "0 < ?b" "0 < n" using sender(3) by auto
  then show "SystemIO_ReceiveDataToFile Y socket' root name n dirs over w = None"
    using receiver receive_file_loop_closed [OF receiver(2), of 0 n ?b]
    by (auto simp: SystemIO_ReceiveDataToFile_def AllocateArray_def Let_def)
qed

theorem interrupted_file_copy_hangs_witness:
  "SystemIO_SendFile demo_posix 5 ''f'' 9 demo_world = None
   \<and> SystemIO_ReceiveDataToFile (demo_posix\<lparr>px_recv := \<lambda>fd buf w. ((0, buf), w)\<rparr>) 5 [] ''f'' 9 True True demo_world = None"
  by (rule interrupted_file_copy_hangs [OF demo_open(1) demo_sends_file])
    (simp_all add: demo_world_def device_laws peer_closed_def demo_posix_def OpenWithCreateFolders.simps SystemIO_Open_def c_str_def Let_def)

text \<open>
  C19. What a socket transfer moves: \<open>Receive\<close> always returns and delivers the next \<open>k\<close> bytes of the
  connection, \<open>Send\<close> always returns and appends the first \<open>k\<close> bytes of its buffer, where \<open>k\<close> is the number
  they report; they report no error exactly when all \<open>n\<close> bytes were moved.  \<open>Skip\<close> without an error has
  dropped exactly \<open>n\<close> bytes.
\<close>
theorem transfers_move_what_they_report:
  assumes "reads_from (px_recv X fd) inc" "finally_ready X (px_recv X fd)" "n \<le> length buf"
    and "writes_to (px_send X fd) out" "finally_ready X (px_send X fd)"
    and "px_new X kSkipBufferSize w = Some b" "length b = kSkipBufferSize"
  shows "(\<exists>k err buf' w'. SystemIO_Receive X fd buf n w = Some ((k, err, buf'), w')
        \<and> inc w = take k buf' @ inc w' \<and> (err = None \<longleftrightarrow> k = n))
     \<and> (\<exists>k err w'. SystemIO_Send X fd buf n w = Some ((k, err), w') \<and> out w' = out w @ take k buf \<and> (err = None \<longleftrightarrow> k = n))
     \<and> (\<exists>err w'. Skip X fd m w = Some (err, w') \<and> (err = None \<longrightarrow> m \<le> length (inc w) \<and> inc w' = drop m (inc w)))"
proof (intro conjI)
  have m: "moves (px_recv X fd)" "moves (px_send X fd)" using assms by (simp_all add: reads_from_def writes_to_def)
  obtain k err buf' w' where ret: "Transfer X (px_recv X) fd buf n w = Some ((k, err, buf'), w')"
    using Transfer_returns [where m = "px_recv X", OF m(1) assms(2,3)] by (metis prod.collapse)
  then show "\<exists>k err buf' w'. SystemIO_Receive X fd buf n w = Some ((k, err, buf'), w')
        \<and> inc w = take k buf' @ inc w' \<and> (err = None \<longleftrightarrow> k = n)"
    using Transfer_reads (3,4) [OF assms(1) ret assms(3)] unfolding SystemIO_Receive_def by auto
  obtain k err buf' w' where ret: "Transfer X (px_send X) fd buf n w = Some ((k, err, buf'), w')"
    using Transfer_returns [where m = "px_send X", OF m(2) assms(5,3)] by (metis prod.collapse)
  then show "\<exists>k err w'. SystemIO_Send X fd buf n w = Some ((k, err), w') \<and> out w' = out w @ take k buf \<and> (err = None \<longleftrightarrow> k = n)"
    using Transfer_writes (2,3) [OF assms(4) ret assms(3)] by (auto simp: SystemIO_Send_def)
  show "\<exists>err w'. Skip X fd m w = Some (err, w') \<and> (err = None \<longrightarrow> m \<le> length (inc w) \<and> inc w' = drop m (inc w))"
    using skip_loop_skips [OF assms(1,2,7), of 0 m w] assms(6) by (simp add: Skip_def)
qed

theorem transfers_move_what_they_report_witness:
  "(\<exists>k err buf' w'. SystemIO_Receive demo_posix 5 ''....'' 4 demo_world = Some ((k, err, buf'), w')
        \<and> ''data+'' = take k buf' @ dk_inc w' \<and> (err = None \<longleftrightarrow> k = 4))
     \<and> (\<exists>k err w'. SystemIO_Send demo_posix 5 ''....'' 4 demo_world = Some ((k, err), w') \<and> dk_out w' = take k ''....'' \<and> (err = None \<longleftrightarrow> k = 4))
     \<and> (\<exists>err w'. Skip demo_posix 5 4 demo_world = Some (err, w') \<and> (err = None \<longrightarrow> 4 \<le> length ''data+'' \<and> dk_inc w' = ''+''))"
  using transfers_move_what_they_report [of demo_posix 5 dk_inc 4 "''....''" dk_out demo_world "replicate 1024 NUL" 4]
    demo_sends_file [of 3 5] demo_receives_file [of 5 3]
  by (auto simp: copies_def demo_world_def demo_posix_def)



text \<open>
  C27. Without permission to overwrite, writing data to a file that exists and receiving data into it
  both end with "file already exists" and leave every stored file as it is.
\<close>
theorem existing_files_are_kept:
  assumes "protects_files X stored" and "stored w (full_path root fname) \<noteq> None"
    and "NUL \<notin> set root" "NUL \<notin> set fname"
  shows "(\<exists>e w'. SystemIO_WriteDataToFile X root fname data n dirs False w = Some (Some e, w')
        \<and> err_is (Some e) (IOErrorTemplates IO_kFileAlreadyExists) \<and> stored w' = stored w)
     \<and> (\<exists>e w'. SystemIO_ReceiveDataToFile X socket root fname n dirs False w = Some (Some e, w')
        \<and> err_is (Some e) (IOErrorTemplates IO_kFileAlreadyExists) \<and> stored w' = stored w)"
  using OpenWithCreateFolders_protects [OF assms, of dirs]
  by (auto simp: SystemIO_WriteDataToFile_def SystemIO_ReceiveDataToFile_def)

theorem existing_files_are_kept_witness:
  "(\<exists>e w'. SystemIO_WriteDataToFile demo_posix ''d'' ''f'' ''new'' 3 True False demo_world = Some (Some e, w')
        \<and> err_is (Some e) (IOErrorTemplates IO_kFileAlreadyExists) \<and> dk_stored w' = dk_stored demo_world)
     \<and> (\<exists>e w'. SystemIO_ReceiveDataToFile demo_posix 5 ''d'' ''f'' 3 True False demo_world = Some (Some e, w')
        \<and> err_is (Some e) (IOErrorTemplates IO_kFileAlreadyExists) \<and> dk_stored w' = dk_stored demo_world)"
  by (rule existing_files_are_kept) (auto simp: protects_files_def demo_posix_def demo_world_def full_path_def split: if_splits)

text \<open>
  An error left over from an earlier call hides a file whose size is not known: \<open>GetDataFromFile\<close>
  returns the old error although the file can be read, because a successful \<open>stat\<close> does not reset it.
\<close>
theorem stale_error_hides_file:
  assumes "fname \<noteq> []" and "px_stat X (c_str fname) (px_clear_errno X w) = ((0, st), w')"
  shows "SystemIO_GetDataFromFile X fname 0 (Some e) w = Some ((None, 0, Some (AddDetails ''name'' fname e)), w')"
  using assms by (simp add: SystemIO_GetDataFromFile_def SystemIO_GetMessageMeta_def FileStat_def Let_def)

theorem stale_error_hides_file_witness:
  "SystemIO_GetDataFromFile demo_posix ''f'' 0 (Some (io_err IO_kFileNotFound [])) demo_world
   = Some ((None, 0, Some (AddDetails ''name'' ''f'' (io_err IO_kFileNotFound []))), demo_world)"
  using stale_error_hides_file [of "''f''" demo_posix demo_world "\<lparr>st_size = 4, mtim_sec = 0, mtim_nsec = 0\<rparr>" demo_world]
  by (simp add: demo_posix_def demo_world_def)

end
