(* ===== verification/System_Net.thy ===== *)
theory System_Net
  imports System_Io
begin

text \<open>
  The sockets of \<open>SystemIO\<close> on Linux: addresses and connections (\<open>system_io.cpp\<close>,
  \<open>system_io_linux_mac.cpp\<close>) and the waiting for activity with \<open>epoll\<close> (\<open>system_io_linux.cpp\<close>).  The
  object has one mutable member, \<open>epoll_fd_\<close>; operations that look at it work on the record
  \<open>'w SystemIO\<close>, the others on the world alone.
\<close>

record 'w SystemIO =
  epoll_fd_x :: int
  sys_world :: 'w

definition in_sys_world :: "('w \<Rightarrow> 'a \<times> 'w) \<Rightarrow> 'w SystemIO \<Rightarrow> 'a \<times> 'w SystemIO" where
  "in_sys_world f s = (let (x, w) = f (sys_world s) in (x, s\<lparr>sys_world := w\<rparr>))"

section \<open>Addresses\<close>

definition SplitAddressToHostnameAndPort :: "string \<Rightarrow> (string \<times> u16) option" where
  "SplitAddressToHostnameAndPort address =
     (let host = before_char (CHR '':'') address;
          port_str = (case str_find (CHR '':'') address of None \<Rightarrow> address | Some k \<Rightarrow> drop (k + 1) address) in
      map_option (\<lambda>port. (host, of_int port)) (stoi port_str))"

definition ResolveHostnameToIp :: "'w posix \<Rightarrow> string \<Rightarrow> 'w \<Rightarrow> (string \<times> error option) \<times> 'w" where
  "ResolveHostnameToIp X hostname w =
     (case px_gethostbyname X (c_str hostname) w of
        (None, w1) \<Rightarrow> (([], Some (io_err IO_kUnableToResolveHostname [])), w1)
      | (Some address, w1) \<Rightarrow> ((px_inet_ntoa X address, None), w1))"

datatype AddressFamilies = INET
datatype SocketTypes = STREAM
datatype SocketProtocols = IP

text \<open>The numbers of the Linux headers.\<close>

fun AddressFamilyToPosixFamily :: "AddressFamilies \<Rightarrow> int" where "AddressFamilyToPosixFamily INET = 2"
fun SocketTypeToPosixType :: "SocketTypes \<Rightarrow> int" where "SocketTypeToPosixType STREAM = 1"
fun SocketProtocolToPosixProtocol :: "SocketProtocols \<Rightarrow> int" where "SocketProtocolToPosixProtocol IP = 0"

definition BuildSockaddrIn :: "'w posix \<Rightarrow> string \<Rightarrow> 'w \<Rightarrow> (sockaddr_in option \<times> error option) \<times> 'w" where
  "BuildSockaddrIn X address w =
     (case SplitAddressToHostnameAndPort address of
        None \<Rightarrow> ((None, Some (io_err IO_kInvalidAddressFormat [])), w)
      | Some (host, port) \<Rightarrow>
          (let ((host1, err), w1) = ResolveHostnameToIp X host w; family = AddressFamilyToPosixFamily INET in
           if err \<noteq> None then ((None, err), w1)
           else if family = - 1 then ((None, Some (io_err IO_kUnsupportedAddressFamily [])), w1)
           else ((Some \<lparr>sin_family = family, sin_port = swap_bytes port, sin_addr = px_inet_addr X (c_str host1)\<rparr>, None), w1)))"

text \<open>The text of a connected address; \<open>port\<close> is the number in the byte order of the host.\<close>

definition AddressFromSocket :: "'w posix \<Rightarrow> int \<Rightarrow> 'w \<Rightarrow> string \<times> 'w" where
  "AddressFromSocket X socket w =
     (let ((res, ip, sin_port), w1) = px_getpeername X socket w in
      (if res \<noteq> 0 then (case SystemIO_GetLastError X w1 of None \<Rightarrow> [] | Some e \<Rightarrow> Explain e)
       else ip @ '':'' @ nat_to_string (unat (swap_bytes sin_port)), w1))"

definition GetHostName :: "'w posix \<Rightarrow> 'w \<Rightarrow> (string \<times> error option) \<times> 'w" where
  "GetHostName X w =
     (let (host, w1) = px_gethostname X w; err = SystemIO_GetLastError X w1 in
      ((if err \<noteq> None then [] else c_str host, err), w1))"

section \<open>Sockets\<close>

abbreviation (input) kNetBufferSize :: nat where "kNetBufferSize \<equiv> 1048576"

fun set_options :: "'w posix \<Rightarrow> int \<Rightarrow> socket_option list \<Rightarrow> 'w \<Rightarrow> bool \<times> 'w" where
  "set_options X fd [] w = (True, w)"
| "set_options X fd (opt # opts) w =
     (let (rc, w1) = px_setsockopt X fd opt w in if rc \<noteq> 0 then (False, w1) else set_options X fd opts w1)"

definition ApplyNetworkOptions :: "'w posix \<Rightarrow> int \<Rightarrow> error option \<Rightarrow> 'w \<Rightarrow> error option \<times> 'w" where
  "ApplyNetworkOptions X socket_fd err w =
     (let (ok, w1) = set_options X socket_fd [SO_SNDBUF kNetBufferSize, SO_REUSEADDR, SO_REUSEADDR, TCP_NODELAY] w in
      (if ok then err else SystemIO_GetLastError X w1, w1))"

definition CreateSocket ::
    "'w posix \<Rightarrow> AddressFamilies \<Rightarrow> SocketTypes \<Rightarrow> SocketProtocols \<Rightarrow> 'w \<Rightarrow> (int \<times> error option) \<times> 'w" where
  "CreateSocket X address_family socket_type socket_protocol w =
     (let domain = AddressFamilyToPosixFamily address_family; type = SocketTypeToPosixType socket_type;
          protocol = SocketProtocolToPosixProtocol socket_protocol in
      if domain = - 1 then ((- 1, Some (io_err IO_kUnsupportedAddressFamily [])), w)
      else if type = - 1 then ((- 1, Some (io_err IO_kUnknownIOError [])), w)
      else if protocol = - 1 then ((- 1, Some (io_err IO_kUnknownIOError [])), w)
      else
        (let (socket_fd, w1) = px_socket X domain type protocol w in
         if socket_fd = - 1 then ((socket_fd, SystemIO_GetLastError X w1), w1)
         else (let (err, w2) = ApplyNetworkOptions X socket_fd None w1 in ((socket_fd, err), w2))))"

definition InetConnect :: "'w posix \<Rightarrow> int \<Rightarrow> string \<Rightarrow> 'w \<Rightarrow> error option \<times> 'w" where
  "InetConnect X socket_fd address w =
     (case BuildSockaddrIn X address w of
        ((sa, Some e), w1) \<Rightarrow> (Some e, w1)
      | ((sa, None), w1) \<Rightarrow>
          (let (rc, w2) = px_connect X socket_fd (the sa) w1; err = SystemIO_GetLastError X w2 in
           if rc = - 1 \<and> err \<noteq> None \<and> err_is_not err (IOErrorTemplates IO_kResourceTemporarilyUnavailable) then (err, w2)
           else (None, w2)))"

definition InetBind :: "'w posix \<Rightarrow> int \<Rightarrow> string \<Rightarrow> 'w \<Rightarrow> error option \<times> 'w" where
  "InetBind X socket_fd address w =
     (if AddressFamilyToPosixFamily INET = - 1 then (Some (io_err IO_kUnsupportedAddressFamily []), w)
      else
        (case BuildSockaddrIn X address w of
           ((sa, Some e), w1) \<Rightarrow> (Some e, w1)
         | ((sa, None), w1) \<Rightarrow>
             (let (rc, w2) = px_bind X socket_fd (the sa) w1 in (if rc = - 1 then SystemIO_GetLastError X w2 else None, w2))))"

definition Listen :: "'w posix \<Rightarrow> int \<Rightarrow> int \<Rightarrow> 'w \<Rightarrow> error option \<times> 'w" where
  "Listen X socket_fd backlog w =
     (let (rc, w1) = px_listen X socket_fd backlog w in (if rc = - 1 then SystemIO_GetLastError X w1 else None, w1))"

definition SystemIO_CloseSocket :: "'w posix \<Rightarrow> int \<Rightarrow> 'w SystemIO \<Rightarrow> error option \<times> 'w SystemIO" where
  "SystemIO_CloseSocket X fd s =
     (let (rc, w1) = px_close X fd (sys_world s);
          err = (if rc = 0 then None else SystemIO_GetLastError X w1);
          w2 = (if epoll_fd_x s \<noteq> - 1 then px_clear_errno X (px_epoll_del X (epoll_fd_x s) fd w1) else w1) in
      (err, s\<lparr>sys_world := w2\<rparr>))"

definition CreateAndConnectIPTCPSocket :: "'w posix \<Rightarrow> string \<Rightarrow> 'w SystemIO \<Rightarrow> (int \<times> error option) \<times> 'w SystemIO" where
  "CreateAndConnectIPTCPSocket X address s =
     (let ((fd, err), s1) = in_sys_world (CreateSocket X INET STREAM IP) s in
      if err \<noteq> None then ((- 1, err), s1)
      else
        (let (err1, s2) = in_sys_world (InetConnect X fd address) s1 in
         if err1 \<noteq> None then ((- 1, err1), snd (SystemIO_CloseSocket X fd s2)) else ((fd, None), s2)))"

definition CreateAndBindIPTCPSocketListener ::
    "'w posix \<Rightarrow> string \<Rightarrow> int \<Rightarrow> 'w SystemIO \<Rightarrow> (int \<times> error option) \<times> 'w SystemIO" where
  "CreateAndBindIPTCPSocketListener X address backlog s =
     (let ((listener_fd, err), s1) = in_sys_world (CreateSocket X INET STREAM IP) s in
      if err \<noteq> None then ((- 1, err), s1)
      else
        (let (err1, s2) = in_sys_world (InetBind X listener_fd address) s1 in
         if err1 \<noteq> None then ((- 1, err1), snd (SystemIO_CloseSocket X listener_fd s2))
         else
           (let (err2, s3) = in_sys_world (Listen X listener_fd backlog) s2 in
            if err2 \<noteq> None then ((- 1, err2), snd (SystemIO_CloseSocket X listener_fd s3)) else ((listener_fd, None), s3))))"

text \<open>
  The text of the accepted address is made from \<open>sin_port\<close> as the kernel delivers it, in the byte
  order of the network.
\<close>

partial_function (option) InetAcceptConnection ::
    "'w posix \<Rightarrow> int \<Rightarrow> 'w \<Rightarrow> (((string \<times> int) option \<times> error option) \<times> 'w) option" where
  "InetAcceptConnection X socket_fd w =
     (let ((peer_fd, client_address), w1) = px_accept X socket_fd w in
      if peer_fd = - 1 then
        (let err = SystemIO_GetLastError X w1 in
         if err \<noteq> None \<and> err_is_not err (IOErrorTemplates IO_kResourceTemporarilyUnavailable)
         then InetAcceptConnection X socket_fd w1
         else Some ((None, err), w1))
      else
        (let (err, w2) = ApplyNetworkOptions X peer_fd None w1 in
         Some ((Some (px_inet_ntoa X (sin_addr client_address) @ '':'' @ nat_to_string (unat (sin_port client_address)), peer_fd), err), w2)))"

section \<open>Waiting for activity\<close>

definition AddToEpool :: "'w posix \<Rightarrow> int \<Rightarrow> 'w SystemIO \<Rightarrow> error option \<times> 'w SystemIO" where
  "AddToEpool X sd s =
     (let (rc, w1) = px_epoll_add X (epoll_fd_x s) sd (sys_world s) in
      if rc = - 1 \<and> px_errno X w1 \<noteq> EEXIST
      then (map_option (AddDetails ''where'' ''add to epoll'') (SystemIO_GetLastError X w1),
            s\<lparr>sys_world := snd (px_close X (epoll_fd_x s) w1)\<rparr>)
      else (None, s\<lparr>sys_world := w1\<rparr>))"

definition CreateEpoolIfNeeded :: "'w posix \<Rightarrow> int \<Rightarrow> 'w SystemIO \<Rightarrow> error option \<times> 'w SystemIO" where
  "CreateEpoolIfNeeded X master_socket s =
     (if epoll_fd_x s \<noteq> - 1 then (None, s)
      else
        (let (e, w1) = px_epoll_create X (sys_world s); s1 = s\<lparr>epoll_fd_x := e, sys_world := w1\<rparr> in
         if e = - 1 then (map_option (AddDetails ''where'' ''create epoll'') (SystemIO_GetLastError X w1), s1)
         else AddToEpool X master_socket s1))"

text \<open>
  The accepted connection is taken apart without a test for the null pointer that
  \<open>InetAcceptConnection\<close> returns when \<open>accept\<close> fails with \<open>errno\<close> 0; the program does not go on there.
\<close>

definition ProcessNewConnection ::
    "'w posix \<Rightarrow> int \<Rightarrow> string list \<Rightarrow> int list \<Rightarrow> 'w SystemIO \<Rightarrow> ((error option \<times> string list \<times> int list) \<times> 'w SystemIO) option" where
  "ProcessNewConnection X master_socket new_connections sockets_to_listen s = do {
     ((info, err), w1) \<leftarrow> InetAcceptConnection X master_socket (sys_world s);
     (let s1 = s\<lparr>sys_world := w1\<rparr> in
      if err \<noteq> None then Some ((err, new_connections, sockets_to_listen), s1)
      else
        (case info of
           None \<Rightarrow> None
         | Some (client_address, client_fd) \<Rightarrow>
             (let (err1, s2) = AddToEpool X client_fd s1 in
              Some ((err1, new_connections @ [client_address], sockets_to_listen @ [client_fd]), s2)))) }"

record activity =
  ac_sockets :: "int list"
  ac_listen :: "int list"
  ac_new :: "string list"
  ac_err :: "error option"

text \<open>The events of one call of \<open>epoll_wait\<close>; the flag says whether the function returns.\<close>

fun process_events ::
    "'w posix \<Rightarrow> int \<Rightarrow> int list \<Rightarrow> activity \<Rightarrow> 'w SystemIO \<Rightarrow> ((bool \<times> activity) \<times> 'w SystemIO) option" where
  "process_events X master_socket [] a s = Some ((False, a), s)"
| "process_events X master_socket (sd # sds) a s =
     (if sd \<noteq> master_socket then process_events X master_socket sds (a\<lparr>ac_sockets := ac_sockets a @ [sd]\<rparr>) s
      else do {
        ((err, conns, listen), s1) \<leftarrow> ProcessNewConnection X master_socket (ac_new a) (ac_listen a) s;
        (if err \<noteq> None
         then Some ((True, a\<lparr>ac_sockets := [], ac_listen := listen, ac_new := conns, ac_err := err\<rparr>), s1)
         else process_events X master_socket sds (a\<lparr>ac_listen := listen, ac_new := conns, ac_err := err\<rparr>) s1) })"

partial_function (option) activity_loop ::
    "'w posix \<Rightarrow> int \<Rightarrow> activity \<Rightarrow> 'w SystemIO \<Rightarrow> (activity \<times> 'w SystemIO) option" where
  "activity_loop X master_socket a s =
     (let ((event_count, sds), w1) = px_epoll_wait X (epoll_fd_x s) 10 1000 (sys_world s); s1 = s\<lparr>sys_world := w1\<rparr> in
      if event_count = 0 then Some (a\<lparr>ac_sockets := [], ac_err := Some (io_err IO_kTimeout [])\<rparr>, s1)
      else if event_count < 0
      then Some (a\<lparr>ac_sockets := [], ac_err := map_option (AddDetails ''where'' ''epoll wait'') (SystemIO_GetLastError X w1)\<rparr>, s1)
      else do {
        ((stop, a1), s2) \<leftarrow> process_events X master_socket (take (nat event_count) sds) a s1;
        (if stop \<or> ac_sockets a1 \<noteq> [] then Some (a1, s2) else activity_loop X master_socket a1 s2) })"

definition WaitSocketsActivity ::
    "'w posix \<Rightarrow> int \<Rightarrow> int list \<Rightarrow> string list \<Rightarrow> error option \<Rightarrow> 'w SystemIO \<Rightarrow> (activity \<times> 'w SystemIO) option" where
  "WaitSocketsActivity X master_socket sockets_to_listen new_connections err s =
     activity_loop X master_socket \<lparr>ac_sockets = [], ac_listen = sockets_to_listen, ac_new = new_connections, ac_err = err\<rparr>
       (snd (CreateEpoolIfNeeded X master_socket s))"

definition SystemIO_delete :: "'w posix \<Rightarrow> 'w SystemIO \<Rightarrow> 'w SystemIO" where
  "SystemIO_delete X s = (if epoll_fd_x s \<noteq> - 1 then s\<lparr>sys_world := snd (px_close X (epoll_fd_x s) (sys_world s))\<rparr> else s)"

section \<open>Lemmas\<close>

lemma digits_only:
  assumes "\<forall>c \<in> set s. is_digit c" and "s \<noteq> []"
  shows "atoi s = int (digits_value s)" "takeWhile is_digit s = s" "dropWhile is_space s = s"
proof -
  obtain c r where s: "s = c # r" and c: "is_digit c" using assms by (cases s) auto
  then have sp: "\<not> is_space c" "c \<noteq> CHR ''-''" "c \<noteq> CHR ''+''" by (auto simp: is_digit_def is_space_def)
  show t: "takeWhile is_digit s = s" using assms(1) by (simp add: takeWhile_eq_all_conv)
  show d: "dropWhile is_space s = s" using s sp by simp
  show "atoi s = int (digits_value s)" using t d sp unfolding atoi_def by (simp add: s)
qed

lemma stoi_nat_to_string:
  assumes "n < 2 ^ 31" shows "stoi (nat_to_string n) = Some (int n)"
proof -
  have all: "\<forall>c \<in> set (nat_to_string n). is_digit c" using nat_to_string_digits by blast
  note D = digits_only [OF all nat_to_string_nonempty]
  obtain c r where s: "nat_to_string n = c # r" by (metis nat_to_string_nonempty neq_Nil_conv)
  then have "is_digit c" using all by simp
  then have "c \<noteq> CHR ''-''" "c \<noteq> CHR ''+''" by (auto simp: is_digit_def)
  then have "(case nat_to_string n of c # r \<Rightarrow> if c = CHR ''-'' \<or> c = CHR ''+'' then r else nat_to_string n | [] \<Rightarrow> []) = nat_to_string n"
    by (simp add: s)
  moreover have "takeWhile is_digit (nat_to_string n) \<noteq> []" using \<open>is_digit c\<close> by (simp add: s)
  ultimately show ?thesis using assms unfolding stoi_def Let_def D(1,3) by (simp add: digits_value_nat_to_string)
qed

lemma before_char_append: "c \<notin> set h \<Longrightarrow> before_char c (h @ c # t) = h \<and> str_find c (h @ c # t) = Some (length h)"
  by (induction h) (auto simp: before_char_def)

lemma ProcessNewConnection_adds:
  assumes "ProcessNewConnection X m conns listen s = Some ((err, conns', listen'), s')"
  shows "\<exists>new. listen' = listen @ map snd new \<and> conns' = conns @ map fst new"
proof -
  obtain info err0 w1 where acc: "InetAcceptConnection X m (sys_world s) = Some ((info, err0), w1)"
    using assms by (auto simp: ProcessNewConnection_def split: Option.bind_splits)
  show ?thesis
  proof (cases "err0 \<noteq> None \<or> info = None")
    case True
    then show ?thesis using assms acc by (intro exI [of _ "[]"]) (auto simp: ProcessNewConnection_def Let_def split: if_splits)
  next
    case False
    then obtain c where "info = Some c" by blast
    then show ?thesis using assms acc False
      by (intro exI [of _ "[c]"]) (auto simp: ProcessNewConnection_def Let_def split: prod.splits)
  qed
qed

text \<open>What a turn keeps: no client socket is the master, and the two lists grow by the same connections.\<close>

definition activity_ok :: "int \<Rightarrow> int list \<Rightarrow> string list \<Rightarrow> activity \<Rightarrow> bool" where
  "activity_ok m listen conns a \<longleftrightarrow> m \<notin> set (ac_sockets a)
     \<and> (\<exists>new. ac_listen a = listen @ map snd new \<and> ac_new a = conns @ map fst new)"

lemma process_events_ok:
  "process_events X m sds a s = Some ((stop, a'), s') \<Longrightarrow> activity_ok m listen conns a \<Longrightarrow>
   activity_ok m listen conns a' \<and> (stop \<longrightarrow> ac_sockets a' = [] \<and> ac_err a' \<noteq> None)"
proof (induction sds arbitrary: a s)
  case Nil
  then show ?case by simp
next
  case (Cons sd sds)
  show ?case
  proof (cases "sd = m")
    case True
    obtain err conns1 listen1 s1 where p: "ProcessNewConnection X m (ac_new a) (ac_listen a) s = Some ((err, conns1, listen1), s1)"
      using Cons.prems(1) True by (auto split: Option.bind_splits)
    obtain new0 where "listen1 = ac_listen a @ map snd new0" "conns1 = ac_new a @ map fst new0"
      using ProcessNewConnection_adds [OF p] by blast
    moreover obtain new1 where "ac_listen a = listen @ map snd new1" "ac_new a = conns @ map fst new1"
      using Cons.prems(2) by (auto simp: activity_ok_def)
    ultimately have grown: "listen1 = listen @ map snd (new1 @ new0)" "conns1 = conns @ map fst (new1 @ new0)" by auto
    show ?thesis
    proof (cases "err = None")
      case None: True
      have "activity_ok m listen conns (a\<lparr>ac_listen := listen1, ac_new := conns1, ac_err := err\<rparr>)"
        using grown Cons.prems(2) by (auto simp: activity_ok_def intro!: exI [of _ "new1 @ new0"])
      then show ?thesis using Cons.IH Cons.prems(1) True p None by auto
    next
      case False
      then show ?thesis using Cons.prems(1) True p grown
        by (auto simp: activity_ok_def intro!: exI [of _ "new1 @ new0"])
    qed
  next
    case False
    then have "activity_ok m listen conns (a\<lparr>ac_sockets := ac_sockets a @ [sd]\<rparr>)"
      using Cons.prems(2) by (auto simp: activity_ok_def)
    then show ?thesis using Cons.IH Cons.prems(1) False by auto
  qed
qed

text \<open>\<open>epoll_wait\<close> sets \<open>errno\<close> when it fails.\<close>

definition epoll_explains :: "'w posix \<Rightarrow> bool" where
  "epoll_explains X \<longleftrightarrow> (\<forall>e k t w n sds w'. px_epoll_wait X e k t w = ((n, sds), w') \<and> n < 0 \<longrightarrow> px_errno X w' \<noteq> E_OK)"

lemma last_error_set: "px_errno X w \<noteq> E_OK \<Longrightarrow> SystemIO_GetLastError X w \<noteq> None"
  by (cases "px_errno X w") (simp_all add: SystemIO_GetLastError_def)

lemma activity_loop_ok:
  assumes ret: "activity_loop X m a s = Some (a', s')" and X: "epoll_explains X" and start: "activity_ok m listen conns a"
  shows "activity_ok m listen conns a' \<and> (ac_sockets a' = [] \<longrightarrow> ac_err a' \<noteq> None)"
proof -
  let ?P = "\<lambda>X' m' a s (res :: activity \<times> 'a SystemIO). X' = X \<and> m' = m \<and> activity_ok m listen conns a \<longrightarrow>
    activity_ok m listen conns (fst res) \<and> (ac_sockets (fst res) = [] \<longrightarrow> ac_err (fst res) \<noteq> None)"
  have "?P X m a s (a', s')"
  proof (rule activity_loop.raw_induct [where P = ?P, OF _ ret], intro impI, elim conjE, goal_cases)
    case (1 loop X' m' a s res)
    obtain n sds w1 where wait: "px_epoll_wait X (epoll_fd_x s) 10 1000 (sys_world s) = ((n, sds), w1)" by (metis prod.collapse)
    consider "n = 0" | "n < 0" | "0 < n" by linarith
    then show ?case
    proof cases
      case a: 1
      then show ?thesis using 1 wait by (auto simp: activity_ok_def)
    next
      case a: 2
      then have "SystemIO_GetLastError X w1 \<noteq> None" using X wait unfolding epoll_explains_def by (intro last_error_set) blast
      then show ?thesis using 1 wait a by (auto simp: activity_ok_def)
    next
      case a: 3
      then obtain stop a1 s2 where ev: "process_events X m (take (nat n) sds) a (s\<lparr>sys_world := w1\<rparr>) = Some ((stop, a1), s2)"
        using 1 wait by (auto split: Option.bind_splits)
      then have ok: "activity_ok m listen conns a1 \<and> (stop \<longrightarrow> ac_sockets a1 = [] \<and> ac_err a1 \<noteq> None)"
        using process_events_ok 1(5) by blast
      show ?thesis
      proof (cases "stop \<or> ac_sockets a1 \<noteq> []")
        case True
        then have "res = (a1, s2)" using 1 wait a ev by auto
        then show ?thesis using ok True by auto
      next
        case False
        then have "loop X m a1 s2 = Some res" using 1 wait a ev by auto
        then show ?thesis using 1(1) ok by blast
      qed
    qed
  qed
  with start show ?thesis by simp
qed

section \<open>Properties\<close>





text \<open>
  Splitting an address inverts the way addresses are written, host, colon and decimal port; a port
  beyond 16 bits is not refused but wraps around.
\<close>
theorem address_round_trip:
  assumes "CHR '':'' \<notin> set host" and "port < 2 ^ 31"
  shows "SplitAddressToHostnameAndPort (host @ '':'' @ nat_to_string port) = Some (host, of_nat port)"
  using before_char_append [OF assms(1), of "nat_to_string port"] stoi_nat_to_string [OF assms(2)]
  by (simp add: SplitAddressToHostnameAndPort_def)

theorem address_round_trip_witness:
  "SplitAddressToHostnameAndPort (''localhost'' @ '':'' @ nat_to_string 8400) = Some (''localhost'', 8400)"
  using address_round_trip [of "''localhost''" 8400] by simp

end
