(* ===== verification/Mongo_Db.thy ===== *)
theory Mongo_Db
  imports Db_Encoding Data_Structs "HOL-Library.Monad_Syntax"
begin

text \<open>
  The database client \<open>MongoDBClient\<close> (\<open>database/mongodb_client.cpp\<close>).  The driver library is a
  record of functions \<open>'w mongoc\<close> on a world \<open>'w\<close>; BSON documents are JSON objects, and the texts of
  documents read back are the driver's.  \<open>current_session_\<close> is never assigned by the code, so it is
  the null pointer and the branches on it are left out.

  The object keeps a pointer to the collection it used last.  The pointer may be null, it may
  point to a collection, and it may point to a collection that was destroyed.  Passing the last to
  the driver is undefined behaviour, and the operations are \<open>None\<close> there.
\<close>

section \<open>The driver\<close>

type_synonym bson = "(string \<times> json) list"

record mongo_error =
  me_code :: nat
  me_message :: string

record update_reply =
  upsertedCount :: int
  modifiedCount :: int
  matchedCount :: int

record 'w mongoc =
  mg_json :: rapidjson_lib
  mg_schema_version :: string
  mg_client_new :: "string \<Rightarrow> 'w \<Rightarrow> bool \<times> 'w"
  mg_ping :: "'w \<Rightarrow> bool \<times> 'w"
  mg_bson_new_from_json :: "string \<Rightarrow> string + bson"
  mg_append :: "bson \<Rightarrow> string \<Rightarrow> json \<Rightarrow> bson option"
  mg_behind :: "'w \<Rightarrow> string"
  mg_insert_one :: "string \<Rightarrow> string \<Rightarrow> bson \<Rightarrow> 'w \<Rightarrow> mongo_error option \<times> 'w"
  mg_replace_one :: "string \<Rightarrow> string \<Rightarrow> bson \<Rightarrow> bson \<Rightarrow> bson \<Rightarrow> 'w \<Rightarrow> (mongo_error + update_reply) \<times> 'w"
  mg_update_one :: "string \<Rightarrow> string \<Rightarrow> bson \<Rightarrow> bson \<Rightarrow> bson \<Rightarrow> 'w \<Rightarrow> (mongo_error + update_reply) \<times> 'w"
  mg_upsert :: "string \<Rightarrow> string \<Rightarrow> bson \<Rightarrow> bson \<Rightarrow> 'w \<Rightarrow> mongo_error option \<times> 'w"
  mg_find_and_modify :: "string \<Rightarrow> string \<Rightarrow> bson \<Rightarrow> bson \<Rightarrow> 'w \<Rightarrow> (mongo_error + int option) \<times> 'w"
  mg_find :: "string \<Rightarrow> string \<Rightarrow> bson \<Rightarrow> bson \<Rightarrow> 'w \<Rightarrow> (string list \<times> mongo_error option) \<times> 'w"
  mg_collection_names :: "string \<Rightarrow> bson \<Rightarrow> 'w \<Rightarrow> (mongo_error + string list) \<times> 'w"
  mg_drop :: "string \<Rightarrow> string \<Rightarrow> 'w \<Rightarrow> mongo_error option \<times> 'w"
  mg_delete_many :: "string \<Rightarrow> string \<Rightarrow> string \<Rightarrow> 'w \<Rightarrow> mongo_error option \<times> 'w"

abbreviation (input) MONGOC_ERROR_DUPLICATE_KEY :: nat where "MONGOC_ERROR_DUPLICATE_KEY \<equiv> 11000"
abbreviation (input) maxDbNameLength :: nat where "maxDbNameLength \<equiv> 63"
abbreviation (input) maxCollectionNameLength :: nat where "maxCollectionNameLength \<equiv> 100"

datatype collection_ptr = NullCollection | Collection string | DestroyedCollection

record 'w MongoDBClient =
  md_client :: bool
  md_collection :: collection_ptr
  md_collection_name :: string
  md_database_name :: string
  md_write_concern :: bool
  md_connected :: bool
  md_world :: 'w

type_synonym ('a, 'w) db_op = "'w MongoDBClient \<Rightarrow> ('a \<times> 'w MongoDBClient) option"

definition MongoDBClient_new :: "'w \<Rightarrow> 'w MongoDBClient" where
  "MongoDBClient_new w = \<lparr>md_client = False, md_collection = NullCollection, md_collection_name = [], md_database_name = [],
     md_write_concern = False, md_connected = False, md_world = w\<rparr>"

text \<open>A call of the driver, and a call on the current collection.\<close>

definition driver :: "('w \<Rightarrow> 'a \<times> 'w) \<Rightarrow> 'w MongoDBClient \<Rightarrow> 'a \<times> 'w MongoDBClient" where
  "driver f c = (let (x, w) = f (md_world c) in (x, c\<lparr>md_world := w\<rparr>))"

definition on_collection :: "(string \<Rightarrow> string \<Rightarrow> 'w \<Rightarrow> 'a \<times> 'w) \<Rightarrow> ('a, 'w) db_op" where
  "on_collection f c =
     (case md_collection c of
        Collection name \<Rightarrow> Some (driver (f (md_database_name c) name) c)
      | _ \<Rightarrow> None)"

section \<open>Connecting\<close>

definition DBAddress :: "string \<Rightarrow> string" where
  "DBAddress address = ''mongodb://'' @ address @ ''/?appname=asapo''"

definition Ping :: "'w mongoc \<Rightarrow> 'w MongoDBClient \<Rightarrow> error option \<times> 'w MongoDBClient" where
  "Ping M c = (let (retval, c1) = driver (mg_ping M) c in
     (if \<not> retval then Some (db_err DB_kConnectionError ''cannot ping database'') else None, c1))"

definition InitializeClient :: "'w mongoc \<Rightarrow> string \<Rightarrow> 'w MongoDBClient \<Rightarrow> error option \<times> 'w MongoDBClient" where
  "InitializeClient M address c =
     (let (ok, c1) = driver (mg_client_new M (c_str (DBAddress address))) c; c2 = c1\<lparr>md_client := ok\<rparr> in
      if \<not> ok then (Some (db_err DB_kBadAddress ''cannot initialize database''), c2)
      else (None, c2\<lparr>md_write_concern := True\<rparr>))"

definition CleanUp :: "'w MongoDBClient \<Rightarrow> 'w MongoDBClient option" where
  "CleanUp c =
     (if md_collection c = DestroyedCollection then None
      else Some (c\<lparr>md_write_concern := False, md_collection := NullCollection, md_client := False\<rparr>))"

definition UpdateCurrentCollectionIfNeeded :: "string \<Rightarrow> (error option, 'w) db_op" where
  "UpdateCurrentCollectionIfNeeded collection_name c =
     (if collection_name = md_collection_name c then Some (None, c)
      else if md_collection c = DestroyedCollection then None
      else
        (let c1 = (if md_collection c \<noteq> NullCollection then c\<lparr>md_collection := DestroyedCollection\<rparr> else c);
             encoded_name = EncodeColName collection_name in
         if length encoded_name > maxCollectionNameLength
         then Some (Some (db_err DB_kWrongInput ''collection name too long''), c1)
         else Some (None, c1\<lparr>md_collection := Collection (c_str encoded_name), md_collection_name := collection_name\<rparr>)))"

definition TryConnectDatabase :: "'w mongoc \<Rightarrow> 'w MongoDBClient \<Rightarrow> error option \<times> 'w MongoDBClient" where
  "TryConnectDatabase M c =
     (let (err, c1) = Ping M c in (err, if err = None then c1\<lparr>md_connected := True\<rparr> else c1))"

definition Connect :: "'w mongoc \<Rightarrow> string \<Rightarrow> string \<Rightarrow> (error option, 'w) db_op" where
  "Connect M address database_name c =
     (if md_connected c then Some (Some (db_err DB_kAlreadyConnected []), c)
      else
        (let (err, c1) = InitializeClient M address c in
         if err \<noteq> None then map_option (\<lambda>c2. (err, c2)) (CleanUp c1)
         else
           (let c2 = c1\<lparr>md_database_name := EncodeDbName database_name\<rparr> in
            if length (md_database_name c2) > maxDbNameLength
            then map_option (\<lambda>c3. (Some (db_err DB_kWrongInput ''data source name too long''), c3)) (CleanUp c2)
            else
              (let (err1, c3) = TryConnectDatabase M c2 in
               if err1 \<noteq> None then map_option (\<lambda>c4. (err1, c4)) (CleanUp c3) else Some (err1, c3)))))"

section \<open>Documents\<close>

definition PrepareBsonDocument :: "'w mongoc \<Rightarrow> MessageMeta \<Rightarrow> error + bson" where
  "PrepareBsonDocument M m =
     (case mg_bson_new_from_json M (c_str (MessageMeta_Json m)) of
        Inl msg \<Rightarrow> Inl (db_err DB_kJsonParseError msg)
      | Inr doc \<Rightarrow> Inr doc)"

text \<open>
  The metadata is read as a C string, up to the first terminator at or behind the end of the
  buffer; \<open>behind\<close> is what lies in memory after it.
\<close>

definition PrepareUpdateDocument :: "'w mongoc \<Rightarrow> string \<Rightarrow> string \<Rightarrow> error + bson" where
  "PrepareUpdateDocument M data behind =
     (let (parser_err, json_flat) = GetFlattenedString ''meta'' ''.'' [] (JsonStringParser (mg_json M) (c_str (data @ behind))) in
      case parser_err of
        Some e \<Rightarrow> Inl (GenerateWithCause (DBErrorTemplates DB_kJsonParseError) ''cannof flatten meta '' (Some e))
      | None \<Rightarrow>
          (case mg_bson_new_from_json M json_flat of
             Inl msg \<Rightarrow> Inl (db_err DB_kJsonParseError msg)
           | Inr doc \<Rightarrow> Inr doc))"

text \<open>\<open>data\<close> is \<open>None\<close> for the null pointer, of which no string can be made in an update.\<close>

definition PrepareInjestDocument :: "'w mongoc \<Rightarrow> string option \<Rightarrow> error + bson" where
  "PrepareInjestDocument M data =
     (case data of
        None \<Rightarrow> Inl (gen_err kSimpleError ''empty metadata'')
      | Some json \<Rightarrow>
          (case mg_bson_new_from_json M json of
             Inl msg \<Rightarrow> Inl (db_err DB_kJsonParseError msg)
           | Inr meta \<Rightarrow>
               (case do { b \<leftarrow> mg_append M [] ''meta'' (JObject meta); mg_append M b ''schema_version'' (JString (c_str (mg_schema_version M))) } of
                  None \<Rightarrow> Inl (db_err DB_kInsertError ''cannot add schema version '')
                | Some b \<Rightarrow> Inr b)))"

definition PrepareMetaDocument :: "'w mongoc \<Rightarrow> string option \<Rightarrow> string \<Rightarrow> string \<Rightarrow> MetaIngestMode \<Rightarrow> (error + bson) option" where
  "PrepareMetaDocument M data behind id_encoded mode =
     (if mi_op mode = MI_kUpdate then map_option (\<lambda>d. PrepareUpdateDocument M d behind) data
      else Some
        (case PrepareInjestDocument M data of
           Inl e \<Rightarrow> Inl e
         | Inr document \<Rightarrow>
             (case mg_append M document ''_id'' (JString (c_str id_encoded)) of
                None \<Rightarrow> Inl (db_err DB_kInsertError ''cannot assign document id '')
              | Some b \<Rightarrow> Inr b)))"

section \<open>Writing\<close>

definition InsertBsonDocument :: "'w mongoc \<Rightarrow> bson \<Rightarrow> bool \<Rightarrow> (error option, 'w) db_op" where
  "InsertBsonDocument M document ignore_duplicates c = do {
     (res, c1) \<leftarrow> on_collection (\<lambda>db col. mg_insert_one M db col document) c;
     Some (case res of
             None \<Rightarrow> None
           | Some mongo_err \<Rightarrow>
               (if me_code mongo_err = MONGOC_ERROR_DUPLICATE_KEY
                then (if ignore_duplicates then None else Some (db_err DB_kDuplicateID []))
                else Some (db_err DB_kInsertError (me_message mongo_err))), c1) }"

definition documentWasChanged :: "update_reply \<Rightarrow> bool" where
  "documentWasChanged reply \<longleftrightarrow> modifiedCount reply + upsertedCount reply + matchedCount reply > 0"

definition change_result :: "string \<Rightarrow> mongo_error + update_reply \<Rightarrow> error option" where
  "change_result text res =
     (case res of
        Inl mongo_err \<Rightarrow> Some (db_err DB_kInsertError (me_message mongo_err))
      | Inr reply \<Rightarrow> (if \<not> documentWasChanged reply then Some (db_err DB_kWrongInput text) else None))"

definition ReplaceBsonDocument :: "'w mongoc \<Rightarrow> string \<Rightarrow> bson \<Rightarrow> bool \<Rightarrow> (error option, 'w) db_op" where
  "ReplaceBsonDocument M i document ups c = do {
     (res, c1) \<leftarrow> on_collection (\<lambda>db col. mg_replace_one M db col [(''_id'', JString (c_str i))] document [(''upsert'', JBool ups)]) c;
     Some (change_result ''cannot replace: metadata does not exist'' res, c1) }"

definition UpdateBsonDocument :: "'w mongoc \<Rightarrow> string \<Rightarrow> bson \<Rightarrow> bool \<Rightarrow> (error option, 'w) db_op" where
  "UpdateBsonDocument M i document ups c = do {
     (res, c1) \<leftarrow> on_collection (\<lambda>db col. mg_update_one M db col [(''_id'', JString (c_str i))]
                    [(''$set'', JObject document)] [(''upsert'', JBool ups)]) c;
     Some (change_result ''cannot update: metadata does not exist'' res, c1) }"

definition Db_GetNextId :: "'w mongoc \<Rightarrow> string \<Rightarrow> u64 \<Rightarrow> 'w MongoDBClient \<Rightarrow> (error option \<times> u64) \<times> 'w MongoDBClient" where
  "Db_GetNextId M str i c =
     (let (res, c1) = driver (mg_find_and_modify M (md_database_name c) ''auto_id_counters'' [(''_id'', JString (c_str str))]
                        [(''$inc'', JObject [(''curIndex'', JInt 1)])]) c in
      (case res of
         Inr (Some n) \<Rightarrow> (None, of_int n)
       | Inr None \<Rightarrow> (Some (db_err DB_kInsertError ''cannot extract auto id''), i)
       | Inl mongo_err \<Rightarrow> (Some (db_err DB_kInsertError (''cannot get auto id:'' @ me_message mongo_err)), i), c1))"

text \<open>
  \<open>Insert\<close> and \<open>InsertWithAutoId\<close> call each other; the second is unfolded in the first.  \<open>id_inserted\<close> is
  \<open>None\<close> for the null pointer.
\<close>

partial_function (option) Db_Insert ::
    "'w mongoc \<Rightarrow> string \<Rightarrow> MessageMeta \<Rightarrow> bool \<Rightarrow> u64 option \<Rightarrow> (error option \<times> u64 option, 'w) db_op" where
  "Db_Insert M collection m ignore_duplicates id_inserted c =
     (if \<not> md_connected c then Some ((Some (db_err DB_kNotConnected []), id_inserted), c)
      else do {
        (err, c1) \<leftarrow> UpdateCurrentCollectionIfNeeded collection c;
        (if err \<noteq> None then Some ((err, id_inserted), c1)
         else if mm_id m = 0 then
           (let ((err1, i), c2) = Db_GetNextId M (md_collection_name c1) 0 c1 in
            if err1 \<noteq> None then Some ((err1, id_inserted), c2)
            else Db_Insert M (md_collection_name c2) (m\<lparr>mm_id := i\<rparr>) False id_inserted c2)
         else
           (case PrepareBsonDocument M m of
              Inl e \<Rightarrow> Some ((Some e, id_inserted), c1)
            | Inr document \<Rightarrow> do {
                (err1, c2) \<leftarrow> InsertBsonDocument M document ignore_duplicates c1;
                Some ((err1, if err1 = None then map_option (\<lambda>_. mm_id m) id_inserted else id_inserted), c2) })) })"

definition InsertWithAutoId :: "'w mongoc \<Rightarrow> MessageMeta \<Rightarrow> u64 option \<Rightarrow> (error option \<times> u64 option, 'w) db_op" where
  "InsertWithAutoId M m id_inserted c =
     (let ((err, i), c1) = Db_GetNextId M (md_collection_name c) 0 c in
      if err \<noteq> None then Some ((err, id_inserted), c1)
      else Db_Insert M (md_collection_name c1) (m\<lparr>mm_id := i\<rparr>) False id_inserted c1)"

definition InsertMeta :: "'w mongoc \<Rightarrow> string \<Rightarrow> string \<Rightarrow> string option \<Rightarrow> MetaIngestMode \<Rightarrow> (error option, 'w) db_op" where
  "InsertMeta M collection i data mode c =
     (if \<not> md_connected c then Some (Some (db_err DB_kNotConnected []), c)
      else do {
        (err, c1) \<leftarrow> UpdateCurrentCollectionIfNeeded collection c;
        (if err \<noteq> None then Some (err, c1)
         else do {
           prepared \<leftarrow> PrepareMetaDocument M data (mg_behind M (md_world c1)) (EncodeColName i) mode;
           (case prepared of
              Inl e \<Rightarrow> Some (Some e, c1)
            | Inr document \<Rightarrow>
                (if mi_op mode = MI_kInsert then InsertBsonDocument M document False c1
                 else if mi_op mode = MI_kReplace then ReplaceBsonDocument M (EncodeColName i) document (upsert mode) c1
                 else if mi_op mode = MI_kUpdate then UpdateBsonDocument M (EncodeColName i) document (upsert mode) c1
                 else Some (Some (db_err DB_kWrongInput ''unknown op''), c1))) }) })"

definition AddBsonDocumentToArray :: "'w mongoc \<Rightarrow> bson \<Rightarrow> bson \<Rightarrow> bool \<Rightarrow> (error option, 'w) db_op" where
  "AddBsonDocumentToArray M query update ignore_duplicates c = do {
     (res, c1) \<leftarrow> on_collection (\<lambda>db col. mg_upsert M db col query update) c;
     (case res of
        None \<Rightarrow> Some (None, c1)
      | Some mongo_err \<Rightarrow>
          (if me_code mongo_err = MONGOC_ERROR_DUPLICATE_KEY then do {
             (res1, c2) \<leftarrow> on_collection (\<lambda>db col. mg_upsert M db col query update) c1;
             Some (case res1 of
                     None \<Rightarrow> None
                   | Some mongo_err1 \<Rightarrow>
                       (if me_code mongo_err1 = MONGOC_ERROR_DUPLICATE_KEY
                        then (if ignore_duplicates then None else Some (db_err DB_kDuplicateID []))
                        else Some (db_err DB_kInsertError (me_message mongo_err1))), c2) }
           else Some (Some (db_err DB_kInsertError (me_message mongo_err)), c1))) }"

definition dataset_query :: "MessageMeta \<Rightarrow> bson" where
  "dataset_query m =
     [(''$and'', JArray [JObject [(''_id'', JInt (sint (mm_id m)))],
        JObject [(''messages.dataset_substream'', JObject [(''$ne'', JInt (sint (mm_dataset_substream m)))])]])]"

definition dataset_update :: "'w mongoc \<Rightarrow> MessageMeta \<Rightarrow> u64 \<Rightarrow> bson \<Rightarrow> bson" where
  "dataset_update M m dataset_size document =
     [(''$setOnInsert'', JObject [(''size'', JInt (sint dataset_size)), (''schema_version'', JString (c_str (mg_schema_version M))),
        (''timestamp'', JInt (sint (NanosecsEpochFromTimePoint (mm_timestamp m))))]),
      (''$addToSet'', JObject [(''messages'', JObject document)])]"

definition InsertAsDatasetMessage :: "'w mongoc \<Rightarrow> string \<Rightarrow> MessageMeta \<Rightarrow> u64 \<Rightarrow> bool \<Rightarrow> (error option, 'w) db_op" where
  "InsertAsDatasetMessage M collection m dataset_size ignore_duplicates c =
     (if \<not> md_connected c then Some (Some (db_err DB_kNotConnected []), c)
      else do {
        (err, c1) \<leftarrow> UpdateCurrentCollectionIfNeeded collection c;
        (if err \<noteq> None then Some (err, c1)
         else
           (case PrepareBsonDocument M m of
              Inl e \<Rightarrow> Some (Some e, c1)
            | Inr document \<Rightarrow>
                AddBsonDocumentToArray M (dataset_query m) (dataset_update M m dataset_size document) ignore_duplicates c1)) })"

section \<open>Reading\<close>

datatype GetRecordMode = kById | kLast | kEarliest | kByStringId

fun record_filter :: "GetRecordMode \<Rightarrow> u64 \<Rightarrow> string \<Rightarrow> bson" where
  "record_filter kByStringId i string_id = [(''_id'', JString (c_str string_id))]"
| "record_filter kById i string_id = [(''_id'', JInt (sint i))]"
| "record_filter kLast i string_id = []"
| "record_filter kEarliest i string_id = []"

fun record_opts :: "GetRecordMode \<Rightarrow> bson" where
  "record_opts kByStringId = [(''limit'', JInt 1)]"
| "record_opts kById = [(''limit'', JInt 1)]"
| "record_opts kLast = [(''limit'', JInt 1), (''sort'', JObject [(''_id'', JInt (- 1))])]"
| "record_opts kEarliest = [(''limit'', JInt 1), (''sort'', JObject [(''timestamp'', JInt 1)])]"

definition Db_GetRecordFromDb ::
    "'w mongoc \<Rightarrow> string \<Rightarrow> u64 \<Rightarrow> string \<Rightarrow> GetRecordMode \<Rightarrow> string \<Rightarrow> (error option \<times> string, 'w) db_op" where
  "Db_GetRecordFromDb M collection i string_id mode res c =
     (if \<not> md_connected c then Some ((Some (db_err DB_kNotConnected []), res), c)
      else do {
        (err, c1) \<leftarrow> UpdateCurrentCollectionIfNeeded collection c;
        (if err \<noteq> None then Some ((err, res), c1)
         else do {
           ((docs, cursor_err), c2) \<leftarrow> on_collection (\<lambda>db col. mg_find M db col (record_filter mode i string_id) (record_opts mode)) c1;
           Some ((case cursor_err of
                    Some mongo_err \<Rightarrow> Some (db_err DB_kUnknownError (me_message mongo_err))
                  | None \<Rightarrow> (if docs = [] then Some (db_err DB_kNoRecord []) else None),
                  if docs = [] then res else last docs), c2) }) })"

text \<open>The error that is generated for an unreadable record is dropped by the code.\<close>

definition Db_GetById :: "'w mongoc \<Rightarrow> string \<Rightarrow> u64 \<Rightarrow> MessageMeta \<Rightarrow> (error option \<times> MessageMeta, 'w) db_op" where
  "Db_GetById M collection i m c = do {
     ((err, record_str), c1) \<leftarrow> Db_GetRecordFromDb M collection i [] kById [] c;
     (if err \<noteq> None then Some ((err, m), c1)
      else (let (ok, m1) = MessageMeta_SetFromJson (mg_json M) record_str m in Some ((None, m1), c1))) }"

definition GetDataSetById :: "'w mongoc \<Rightarrow> string \<Rightarrow> u64 \<Rightarrow> u64 \<Rightarrow> MessageMeta \<Rightarrow> (error option \<times> MessageMeta, 'w) db_op" where
  "GetDataSetById M collection id_in_set i m c = do {
     ((err, record_str), c1) \<leftarrow> Db_GetRecordFromDb M collection i [] kById [] c;
     (if err \<noteq> None then Some ((err, m), c1)
      else
        (let (ok, dataset) = DataSet_SetFromJson (mg_json M) record_str \<lparr>ds_id = 0, expected_size = 0, content = []\<rparr> in
         case List.find (\<lambda>message_meta. mm_dataset_substream message_meta = id_in_set) (content dataset) of
           Some message_meta \<Rightarrow> Some ((None, message_meta), c1)
         | None \<Rightarrow> Some ((Some (db_err DB_kNoRecord []), m), c1))) }"

definition UpdateStreamInfoFromEarliestRecord :: "rapidjson_lib \<Rightarrow> string \<Rightarrow> StreamInfo \<Rightarrow> error option \<times> StreamInfo" where
  "UpdateStreamInfoFromEarliestRecord L earliest_record_str info =
     (let (ok, timestamp_created) = TimeFromJson (JsonStringParser L earliest_record_str) ''timestamp'' 0 in
      if \<not> ok
      then (Some (db_err DB_kJsonParseError
              (''UpdateStreamInfoFromEarliestRecord: cannot parse timestamp in response: '' @ earliest_record_str)), info)
      else (None, info\<lparr>si_timestamp_created := timestamp_created\<rparr>))"

definition UpdateFinishedStreamInfo :: "rapidjson_lib \<Rightarrow> string \<Rightarrow> StreamInfo \<Rightarrow> error option \<times> StreamInfo" where
  "UpdateFinishedStreamInfo L metadata info =
     (let info1 = info\<lparr>si_finished := True\<rparr>; (err, next_stream) = GetString ''next_stream'' [] (JsonStringParser L metadata) in
      if err \<noteq> None
      then (Some (db_err DB_kJsonParseError
              (''UpdateFinishedStreamInfo: cannot parse finished stream meta response: '' @ metadata)), info1)
      else if next_stream \<noteq> kNoNextStreamKeyword then (None, info1\<lparr>si_next_stream := next_stream\<rparr>) else (None, info1))"

definition UpdateFinishedInfo :: "rapidjson_lib \<Rightarrow> string \<Rightarrow> RapidJson \<Rightarrow> StreamInfo \<Rightarrow> error option \<times> StreamInfo" where
  "UpdateFinishedInfo L last_record_str parser info =
     (let (e, name) = GetString ''name'' [] parser in
      if name \<noteq> kFinishStreamKeyword then (None, info)
      else
        (let (err, metadata) = GetRawString [] (Embedded ''meta'' parser) in
         if err \<noteq> None
         then (Some (db_err DB_kJsonParseError
                 (''UpdateStreamInfoFromLastRecord: cannot parse metadata in response: '' @ last_record_str)), info)
         else UpdateFinishedStreamInfo L metadata info))"

definition UpdateStreamInfoFromLastRecord :: "rapidjson_lib \<Rightarrow> string \<Rightarrow> StreamInfo \<Rightarrow> error option \<times> StreamInfo" where
  "UpdateStreamInfoFromLastRecord L last_record_str info =
     (let parser = JsonStringParser L last_record_str; (ok, timestamp_last) = TimeFromJson parser ''timestamp'' 0 in
      if \<not> ok
      then (Some (db_err DB_kJsonParseError
              (''UpdateStreamInfoFromLastRecord: cannot parse timestamp in response: '' @ last_record_str)), info)
      else
        (let (err, i) = GetUInt64 ''_id'' 0 parser in
         if err \<noteq> None
         then (Some (db_err DB_kJsonParseError
                 (''UpdateStreamInfoFromLastRecord: cannot parse _id in response: '' @ last_record_str)), info)
         else UpdateFinishedInfo L last_record_str parser (info\<lparr>si_timestamp_lastentry := timestamp_last, si_last_id := i\<rparr>)))"

definition StreamInfoFromDbResponse :: "rapidjson_lib \<Rightarrow> string \<Rightarrow> string \<Rightarrow> StreamInfo \<Rightarrow> error option \<times> StreamInfo" where
  "StreamInfoFromDbResponse L last_record_str earliest_record_str info =
     (let (err, info1) = UpdateStreamInfoFromLastRecord L last_record_str info in
      if err \<noteq> None then (err, info1) else UpdateStreamInfoFromEarliestRecord L earliest_record_str info1)"

definition Db_GetStreamInfo :: "'w mongoc \<Rightarrow> string \<Rightarrow> StreamInfo \<Rightarrow> (error option \<times> StreamInfo, 'w) db_op" where
  "Db_GetStreamInfo M collection info c = do {
     ((err, last_record_str), c1) \<leftarrow> Db_GetRecordFromDb M collection 0 [] kLast [] c;
     (if err \<noteq> None then
        (if err_is err (DBErrorTemplates DB_kNoRecord) then Some ((None, StreamInfo_new), c1) else Some ((err, info), c1))
      else do {
        ((err1, earliest_record_str), c2) \<leftarrow> Db_GetRecordFromDb M collection 0 [] kEarliest [] c1;
        (if err1 \<noteq> None then Some ((err1, info), c2)
         else Some (StreamInfoFromDbResponse (mg_json M) last_record_str earliest_record_str info, c2)) }) }"

definition data_prefix :: string where "data_prefix = ''data_''"

definition MongoCollectionIsDataStream :: "string \<Rightarrow> bool" where
  "MongoCollectionIsDataStream stream_name \<longleftrightarrow> is_prefix data_prefix stream_name"

text \<open>Time points are signed.\<close>

definition UpdateLastStreamInfo :: "'w mongoc \<Rightarrow> string \<Rightarrow> StreamInfo \<Rightarrow> (error option \<times> StreamInfo, 'w) db_op" where
  "UpdateLastStreamInfo M str info c =
     (let collection_name = DecodeName str in
      if \<not> MongoCollectionIsDataStream collection_name then Some ((None, info), c)
      else do {
        ((err, next_info), c1) \<leftarrow> Db_GetStreamInfo M collection_name StreamInfo_new c;
        (if err \<noteq> None then Some ((err, info), c1)
         else if sint (si_timestamp_created next_info) > sint (si_timestamp_created info)
         then Some ((None, next_info\<lparr>si_name := drop (length data_prefix) collection_name\<rparr>), c1)
         else Some ((None, info), c1)) })"

fun last_stream_loop :: "'w mongoc \<Rightarrow> string list \<Rightarrow> StreamInfo \<Rightarrow> (error option \<times> StreamInfo, 'w) db_op" where
  "last_stream_loop M [] info c = Some ((None, info), c)"
| "last_stream_loop M (str # strv) info c = do {
     ((err, info1), c1) \<leftarrow> UpdateLastStreamInfo M str info c;
     (if err \<noteq> None then Some ((err, info1), c1) else last_stream_loop M strv info1 c1) }"

definition Db_GetLastStream :: "'w mongoc \<Rightarrow> StreamInfo \<Rightarrow> (error option \<times> StreamInfo, 'w) db_op" where
  "Db_GetLastStream M info c =
     (if \<not> md_connected c then Some ((Some (db_err DB_kNotConnected []), info), c)
      else
        (let (res, c1) = driver (mg_collection_names M (md_database_name c) [(''nameOnly'', JBool True)]) c;
             info1 = info\<lparr>si_timestamp_created := 0, si_timestamp_lastentry := 0\<rparr> in do {
         ((err, info2), c2) \<leftarrow>
           (case res of
              Inr strv \<Rightarrow> last_stream_loop M strv info1 c1
            | Inl mongo_err \<Rightarrow> Some ((Some (db_err DB_kUnknownError (me_message mongo_err)), info1), c1));
         Some ((err, if err \<noteq> None then info2\<lparr>si_name := DecodeName (si_name info2)\<rparr> else info2), c2) }))"

definition Db_GetMetaFromDb :: "'w mongoc \<Rightarrow> string \<Rightarrow> string \<Rightarrow> string \<Rightarrow> (error option \<times> string, 'w) db_op" where
  "Db_GetMetaFromDb M collection i res c = do {
     ((err, meta_str), c1) \<leftarrow> Db_GetRecordFromDb M collection 0 (EncodeColName i) kByStringId [] c;
     (if err \<noteq> None then Some ((err, res), c1)
      else
        (let (err1, res1) = GetRawString res (Embedded ''meta'' (JsonStringParser (mg_json M) meta_str)) in
         case err1 of
           Some e \<Rightarrow> Some ((Some (GenerateWithCause (DBErrorTemplates DB_kJsonParseError)
                       ''GetMetaFromDb: cannot parse database response'' (Some e)), res1), c1)
         | None \<Rightarrow> Some ((None, res1), c1))) }"

section \<open>Deleting\<close>

definition DeleteCollection :: "'w mongoc \<Rightarrow> string \<Rightarrow> 'w MongoDBClient \<Rightarrow> error option \<times> 'w MongoDBClient" where
  "DeleteCollection M name c =
     (let (res, c1) = driver (mg_drop M (md_database_name c) (c_str name)) c in
      (case res of
         None \<Rightarrow> None
       | Some mongo_err \<Rightarrow>
           (if me_code mongo_err = 26
            then Some (db_err DB_kNoRecord (''collection '' @ name @ '' not found in '' @ DecodeName (md_database_name c)))
            else Some (db_err DB_kUnknownError (me_message mongo_err @ '': '' @ nat_to_string (me_code mongo_err)))), c1))"

fun delete_each :: "'w mongoc \<Rightarrow> string list \<Rightarrow> 'w MongoDBClient \<Rightarrow> 'w MongoDBClient" where
  "delete_each M [] c = c"
| "delete_each M (name # names) c = delete_each M names (snd (DeleteCollection M name c))"

text \<open>The regular expressions are matched without regard to case (option \<open>i\<close>).\<close>

definition names_matching :: "string \<Rightarrow> bson" where
  "names_matching querystr =
     [(''nameOnly'', JBool True),
      (''filter'', JObject [(''name'', JObject [(''$regex'', JString querystr), (''$options'', JString ''i'')])])]"

definition DeleteCollections :: "'w mongoc \<Rightarrow> string \<Rightarrow> 'w MongoDBClient \<Rightarrow> error option \<times> 'w MongoDBClient" where
  "DeleteCollections M prefix c =
     (let (res, c1) = driver (mg_collection_names M (md_database_name c) (names_matching (c_str (''^'' @ EscapeQuery prefix)))) c in
      case res of
        Inr strv \<Rightarrow> (None, delete_each M strv c1)
      | Inl mongo_err \<Rightarrow> (Some (db_err DB_kUnknownError (me_message mongo_err)), c1))"

definition DeleteDocumentsInCollection :: "'w mongoc \<Rightarrow> string \<Rightarrow> string \<Rightarrow> 'w MongoDBClient \<Rightarrow> error option \<times> 'w MongoDBClient" where
  "DeleteDocumentsInCollection M collection_name querystr c =
     (let (res, c1) = driver (mg_delete_many M (md_database_name c) (c_str collection_name) (c_str querystr)) c in
      (map_option (\<lambda>mongo_err. db_err DB_kUnknownError (me_message mongo_err)) res, c1))"

text \<open>There is no test for a connection; without a client the driver gets a null pointer.\<close>

definition Db_DeleteStream :: "'w mongoc \<Rightarrow> string \<Rightarrow> (error option, 'w) db_op" where
  "Db_DeleteStream M str c =
     (if \<not> md_client c then None
      else let stream_encoded = EncodeColName str;
          (err, c1) = DeleteCollection M (data_prefix @ stream_encoded) (c\<lparr>md_collection_name := []\<rparr>);
          c2 = (if err = None
                then (let ca = snd (DeleteCollections M (''inprocess_'' @ stream_encoded) c1);
                          cb = snd (DeleteCollections M (''acks_'' @ stream_encoded) ca) in
                      snd (DeleteDocumentsInCollection M ''current_location'' (''.*_'' @ EscapeQuery stream_encoded @ ''$'') cb))
                else c1) in
      Some (err, snd (DeleteDocumentsInCollection M ''meta'' (''^'' @ EscapeQuery stream_encoded @ ''$'') c2)))"

section \<open>The current collection\<close>

text \<open>
  The state of a client that was never asked for a collection with an overlong name: the pointer
  is not dangling, and it belongs to the remembered name; the client itself exists.
\<close>

definition db_ok :: "'w MongoDBClient \<Rightarrow> bool" where
  "db_ok c \<longleftrightarrow> md_client c \<and> md_collection c \<noteq> DestroyedCollection
     \<and> (md_collection_name c \<noteq> [] \<longrightarrow> md_collection c = Collection (c_str (EncodeColName (md_collection_name c))))"

definition name_ok :: "string \<Rightarrow> bool" where
  "name_ok col \<longleftrightarrow> col \<noteq> [] \<and> length (EncodeColName col) \<le> maxCollectionNameLength"

definition selected :: "string \<Rightarrow> 'w MongoDBClient \<Rightarrow> bool" where
  "selected col c \<longleftrightarrow> db_ok c \<and> md_collection_name c = col \<and> col \<noteq> []"

lemma db_ok_simps [simp]:
  "db_ok (c\<lparr>md_world := w\<rparr>) = db_ok c" "db_ok (c\<lparr>md_connected := b\<rparr>) = db_ok c"
  by (simp_all add: db_ok_def)

lemma driver_frame: "driver f c = (x, c') \<Longrightarrow> c' = c\<lparr>md_world := md_world c'\<rparr>"
  by (auto simp: driver_def Let_def split: prod.splits)

lemma driver_ok: "db_ok c \<Longrightarrow> driver f c = (x, c') \<Longrightarrow> db_ok c'"
  by (metis driver_frame db_ok_simps(1))

lemma selected_simps [simp]: "selected col (c\<lparr>md_world := w\<rparr>) = selected col c"
  by (simp add: selected_def)

lemma update_selects:
  assumes "db_ok c" and "name_ok col"
  obtains c1 where "UpdateCurrentCollectionIfNeeded col c = Some (None, c1)" "selected col c1"
    "c1 = c\<lparr>md_collection := Collection (c_str (EncodeColName col)), md_collection_name := col\<rparr>"
proof (cases "col = md_collection_name c")
  case True
  then have "c = c\<lparr>md_collection := Collection (c_str (EncodeColName col)), md_collection_name := col\<rparr>"
    using assms by (simp add: db_ok_def name_ok_def)
  then show ?thesis using that [of c] True assms by (simp add: UpdateCurrentCollectionIfNeeded_def selected_def name_ok_def)
next
  case False
  then show ?thesis
    using that assms
    by (simp add: UpdateCurrentCollectionIfNeeded_def selected_def name_ok_def db_ok_def Let_def)
qed

lemma on_collection_selected:
  assumes "selected col c"
  obtains x w where "on_collection f c = Some (x, c\<lparr>md_world := w\<rparr>)"
    "f (md_database_name c) (c_str (EncodeColName col)) (md_world c) = (x, w)"
proof -
  obtain x w where "f (md_database_name c) (c_str (EncodeColName col)) (md_world c) = (x, w)" by fastforce
  then show ?thesis using assms that by (auto simp: on_collection_def selected_def db_ok_def driver_def)
qed

text \<open>An operation that returns and keeps the collection selected.\<close>

definition steady :: "string \<Rightarrow> ('a, 'w) db_op \<Rightarrow> bool" where
  "steady col op \<longleftrightarrow> (\<forall>c. selected col c \<longrightarrow> (\<exists>x c'. op c = Some (x, c') \<and> selected col c'))"

lemma steady_on_collection: "steady col (on_collection f)"
  unfolding steady_def by (metis on_collection_selected selected_simps)

lemma steady_return: "steady col (\<lambda>c. Some (x, c))"
  by (simp add: steady_def)

lemma steady_cases:
  "(\<And>e. steady col (f e)) \<Longrightarrow> (\<And>d. steady col (g d)) \<Longrightarrow> steady col (\<lambda>c. case r of Inl e \<Rightarrow> f e c | Inr d \<Rightarrow> g d c)"
  "steady col f' \<Longrightarrow> steady col g' \<Longrightarrow> steady col (\<lambda>c. if b then f' c else g' c)"
  by (cases r; simp) (cases b; simp)

lemma steady_bind:
  fixes op :: "('a, 'w) db_op"
  assumes "steady col op" and "\<And>x. steady col (f x)"
  shows "steady col (\<lambda>c. do { (x, c1) \<leftarrow> op c; f x c1 })"
  unfolding steady_def
proof (intro allI impI)
  fix c :: "'w MongoDBClient"
  assume "selected col c"
  then obtain x c1 where "op c = Some (x, c1)" "selected col c1" using assms(1) unfolding steady_def by blast
  then show "\<exists>x c'. (do { (x, c1) \<leftarrow> op c; f x c1 }) = Some (x, c') \<and> selected col c'"
    using assms(2) unfolding steady_def by simp
qed

lemma steady_writes:
  "steady col (InsertBsonDocument M doc ig)" "steady col (ReplaceBsonDocument M i doc ups)"
  "steady col (UpdateBsonDocument M i doc ups)" "steady col (AddBsonDocumentToArray M query upd ig)"
proof -
  show "steady col (InsertBsonDocument M doc ig)" "steady col (ReplaceBsonDocument M i doc ups)"
    "steady col (UpdateBsonDocument M i doc ups)"
    unfolding InsertBsonDocument_def [abs_def] ReplaceBsonDocument_def [abs_def] UpdateBsonDocument_def [abs_def]
    by (rule steady_bind [OF steady_on_collection steady_return])+
  have "steady col (\<lambda>c. case res of None \<Rightarrow> Some (None, c) | Some e \<Rightarrow>
      if me_code e = MONGOC_ERROR_DUPLICATE_KEY
      then do { (res1, c2) \<leftarrow> on_collection (\<lambda>db cl. mg_upsert M db cl query upd) c; Some (g res1, c2) }
      else Some (h e, c))" for res g h
    by (cases res; cases "me_code (the res) = MONGOC_ERROR_DUPLICATE_KEY")
      (simp_all add: steady_return steady_bind [OF steady_on_collection steady_return])
  then show "steady col (AddBsonDocumentToArray M query upd ig)"
    unfolding AddBsonDocumentToArray_def [abs_def] by (rule steady_bind [OF steady_on_collection])
qed

text \<open>An operation on a collection with a usable name returns, and the client stays in order.\<close>

definition safe :: "('a, 'w) db_op \<Rightarrow> bool" where
  "safe op \<longleftrightarrow> (\<forall>c. db_ok c \<longrightarrow> (\<exists>x c'. op c = Some (x, c') \<and> db_ok c'))"

lemma safe_return: "safe (\<lambda>c. Some (x, c))"
  by (simp add: safe_def)

lemma safe_bind:
  fixes op :: "('a, 'w) db_op"
  assumes "safe op" and "\<And>x. safe (f x)"
  shows "safe (\<lambda>c. do { (x, c1) \<leftarrow> op c; f x c1 })"
  unfolding safe_def
proof (intro allI impI)
  fix c :: "'w MongoDBClient"
  assume "db_ok c"
  then obtain x c1 where "op c = Some (x, c1)" "db_ok c1" using assms(1) unfolding safe_def by blast
  then show "\<exists>x c'. (do { (x, c1) \<leftarrow> op c; f x c1 }) = Some (x, c') \<and> db_ok c'"
    using assms(2) unfolding safe_def by simp
qed

lemma safe_if: "safe f \<Longrightarrow> safe g \<Longrightarrow> safe (\<lambda>c. if b then f c else g c)"
  by (cases b) simp_all

lemma safe_connected:
  "(\<And>c. \<not> md_connected c \<Longrightarrow> db_ok c \<Longrightarrow> \<exists>x c'. op c = Some (x, c') \<and> db_ok c') \<Longrightarrow>
   (\<And>c. md_connected c \<Longrightarrow> db_ok c \<Longrightarrow> \<exists>x c'. op c = Some (x, c') \<and> db_ok c') \<Longrightarrow> safe op"
  unfolding safe_def by blast

text \<open>The common beginning of the operations: the test for a connection and the choice of the collection.\<close>

lemma safe_guarded:
  fixes op :: "('a, 'w) db_op"
  assumes "name_ok col" and "\<And>c. steady col (\<lambda>c'. f c c')"
    and op: "\<And>c. op c = (if \<not> md_connected c then Some (n, c)
       else do { (err, c1) \<leftarrow> UpdateCurrentCollectionIfNeeded col c; (if err \<noteq> None then Some (g err, c1) else f c1 c1) })"
  shows "safe op"
  unfolding safe_def
proof (intro allI impI)
  fix c :: "'w MongoDBClient"
  assume ok: "db_ok c"
  obtain c1 where c1: "UpdateCurrentCollectionIfNeeded col c = Some (None, c1)" "selected col c1"
    using update_selects [OF ok assms(1)] by blast
  obtain x c' where "f c1 c1 = Some (x, c')" "selected col c'"
    using assms(2) c1(2) unfolding steady_def by blast
  then show "\<exists>x c'. op c = Some (x, c') \<and> db_ok c'"
    using ok c1 by (simp add: op selected_def)
qed

lemma safe_InsertAsDatasetMessage: "name_ok col \<Longrightarrow> safe (InsertAsDatasetMessage M col m n ig)"
  by (rule safe_guarded [where f = "\<lambda>c c1. case PrepareBsonDocument M m of Inl e \<Rightarrow> Some (Some e, c1)
        | Inr doc \<Rightarrow> AddBsonDocumentToArray M (dataset_query m) (dataset_update M m n doc) ig c1" and g = "\<lambda>e. e"])
    (auto simp: InsertAsDatasetMessage_def intro!: steady_cases steady_return steady_writes)

lemma PrepareMetaDocument_some:
  "mi_op mode \<noteq> MI_kUpdate \<or> data \<noteq> None \<Longrightarrow> \<exists>r. PrepareMetaDocument M data behind i mode = Some r"
  by (auto simp: PrepareMetaDocument_def)

lemma safe_InsertMeta:
  assumes "name_ok col" and "mi_op mode \<noteq> MI_kUpdate \<or> data \<noteq> None" shows "safe (InsertMeta M col i data mode)"
proof (rule safe_guarded [where f = "\<lambda>c c1. do {
          prepared \<leftarrow> PrepareMetaDocument M data (mg_behind M (md_world c)) (EncodeColName i) mode;
          (case prepared of
             Inl e \<Rightarrow> Some (Some e, c1)
           | Inr document \<Rightarrow>
               (if mi_op mode = MI_kInsert then InsertBsonDocument M document False c1
                else if mi_op mode = MI_kReplace then ReplaceBsonDocument M (EncodeColName i) document (upsert mode) c1
                else if mi_op mode = MI_kUpdate then UpdateBsonDocument M (EncodeColName i) document (upsert mode) c1
                else Some (Some (db_err DB_kWrongInput ''unknown op''), c1))) }" and g = "\<lambda>e. e", OF assms(1)])
  fix c :: "'a MongoDBClient"
  obtain r where "PrepareMetaDocument M data (mg_behind M (md_world c)) (EncodeColName i) mode = Some r"
    using PrepareMetaDocument_some [OF assms(2)] by blast
  then show "steady col (\<lambda>c1. do {
          prepared \<leftarrow> PrepareMetaDocument M data (mg_behind M (md_world c)) (EncodeColName i) mode;
          (case prepared of
             Inl e \<Rightarrow> Some (Some e, c1)
           | Inr document \<Rightarrow>
               (if mi_op mode = MI_kInsert then InsertBsonDocument M document False c1
                else if mi_op mode = MI_kReplace then ReplaceBsonDocument M (EncodeColName i) document (upsert mode) c1
                else if mi_op mode = MI_kUpdate then UpdateBsonDocument M (EncodeColName i) document (upsert mode) c1
                else Some (Some (db_err DB_kWrongInput ''unknown op''), c1))) })"
    by (simp add: steady_cases steady_return steady_writes)
qed (simp add: InsertMeta_def)

lemma Db_GetRecordFromDb_selected:
  assumes "db_ok c" and "name_ok col" and "md_connected c"
  obtains docs e w where "selected col (c\<lparr>md_collection := Collection (c_str (EncodeColName col)), md_collection_name := col, md_world := w\<rparr>)"
    "mg_find M (md_database_name c) (c_str (EncodeColName col)) (record_filter mode i sid) (record_opts mode) (md_world c) = ((docs, e), w)"
    "Db_GetRecordFromDb M col i sid mode res c =
      Some ((case e of Some mongo_err \<Rightarrow> Some (db_err DB_kUnknownError (me_message mongo_err))
             | None \<Rightarrow> (if docs = [] then Some (db_err DB_kNoRecord []) else None), if docs = [] then res else last docs),
        c\<lparr>md_collection := Collection (c_str (EncodeColName col)), md_collection_name := col, md_world := w\<rparr>)"
proof -
  obtain c1 where c1: "UpdateCurrentCollectionIfNeeded col c = Some (None, c1)" "selected col c1"
      "c1 = c\<lparr>md_collection := Collection (c_str (EncodeColName col)), md_collection_name := col\<rparr>"
    using update_selects [OF assms(1,2)] by blast
  obtain x w where x: "on_collection (\<lambda>db cl. mg_find M db cl (record_filter mode i sid) (record_opts mode)) c1 = Some (x, c1\<lparr>md_world := w\<rparr>)"
      "mg_find M (md_database_name c1) (c_str (EncodeColName col)) (record_filter mode i sid) (record_opts mode) (md_world c1) = (x, w)"
    by (rule on_collection_selected [OF c1(2)])
  obtain docs e where "x = (docs, e)" by fastforce
  moreover have "selected col (c1\<lparr>md_world := w\<rparr>)" using c1(2) by simp
  ultimately show ?thesis
    using that [of w docs e] c1 x assms(3) by (simp add: Db_GetRecordFromDb_def)
qed

lemma safe_Db_GetRecordFromDb:
  assumes "name_ok col" shows "safe (Db_GetRecordFromDb M col i sid mode res)"
proof (rule safe_connected)
  fix c :: "'a MongoDBClient"
  assume c: "md_connected c" "db_ok c"
  show "\<exists>x c'. Db_GetRecordFromDb M col i sid mode res c = Some (x, c') \<and> db_ok c'"
    by (rule Db_GetRecordFromDb_selected [OF c(2) assms c(1), of M mode i sid res]) (auto simp: selected_def)
qed (simp add: Db_GetRecordFromDb_def)

lemma safe_reads:
  assumes "name_ok col"
  shows "safe (Db_GetById M col i m)" "safe (GetDataSetById M col j i m)" "safe (Db_GetStreamInfo M col info)"
    "safe (Db_GetMetaFromDb M col si res)"
proof -
  note rec = safe_Db_GetRecordFromDb [OF assms]
  show "safe (Db_GetById M col i m)" "safe (GetDataSetById M col j i m)" "safe (Db_GetMetaFromDb M col si res)"
    unfolding Db_GetById_def [abs_def] GetDataSetById_def [abs_def] Db_GetMetaFromDb_def [abs_def]
    by (rule safe_bind [OF rec]; auto simp: safe_def Let_def split: prod.splits option.splits)+
  have "safe (\<lambda>c. do { ((err1, s2), c2) \<leftarrow> Db_GetRecordFromDb M col 0 [] kEarliest [] c;
      (if err1 \<noteq> None then Some ((err1, info), c2) else Some (f s2, c2)) })" for f
    by (rule safe_bind [OF rec]; auto simp: safe_def split: prod.splits)
  then show "safe (Db_GetStreamInfo M col info)"
    unfolding Db_GetStreamInfo_def [abs_def]
    by - (rule safe_bind [OF rec]; auto simp: case_prod_beta intro!: safe_if safe_return)
qed

text \<open>
  What the driver promises for the next two: the collections of data streams that it lists were
  made with usable names, and a counter document counts from 1.
\<close>

definition lists_usable_names :: "'w mongoc \<Rightarrow> bool" where
  "lists_usable_names M \<longleftrightarrow> (\<forall>db opts w names w'. mg_collection_names M db opts w = (Inr names, w') \<longrightarrow>
     (\<forall>n \<in> set names. MongoCollectionIsDataStream (DecodeName n) \<longrightarrow> name_ok (DecodeName n)))"

definition counts_from_one :: "'w mongoc \<Rightarrow> bool" where
  "counts_from_one M \<longleftrightarrow> (\<forall>db col query upd w n w'. mg_find_and_modify M db col query upd w = (Inr (Some n), w') \<longrightarrow>
     0 < n \<and> n < 2 ^ 63)"

lemma safe_last_stream_loop:
  "\<forall>n \<in> set names. MongoCollectionIsDataStream (DecodeName n) \<longrightarrow> name_ok (DecodeName n) \<Longrightarrow> safe (last_stream_loop M names info)"
proof (induction names arbitrary: info)
  case Nil
  then show ?case by (simp add: safe_def)
next
  case (Cons n names)
  have "safe (UpdateLastStreamInfo M n info)"
  proof (cases "MongoCollectionIsDataStream (DecodeName n)")
    case True
    then have ok: "name_ok (DecodeName n)" using Cons.prems by simp
    have "safe (\<lambda>c. do { ((err, next_info), c1) \<leftarrow> Db_GetStreamInfo M (DecodeName n) StreamInfo_new c;
        (if err \<noteq> None then Some ((err, info), c1)
         else if sint (si_timestamp_created next_info) > sint (si_timestamp_created info)
         then Some ((None, next_info\<lparr>si_name := drop (length data_prefix) (DecodeName n)\<rparr>), c1)
         else Some ((None, info), c1)) })"
      by (rule safe_bind [OF safe_reads(3) [OF ok]]) (auto simp: safe_def split: prod.splits)
    then show ?thesis using True by (simp add: UpdateLastStreamInfo_def [abs_def] Let_def)
  next
    case False
    then show ?thesis by (simp add: UpdateLastStreamInfo_def [abs_def] safe_return)
  qed
  then have "safe (\<lambda>c. do { ((err, info1), c1) \<leftarrow> UpdateLastStreamInfo M n info c;
      (if err \<noteq> None then Some ((err, info1), c1) else last_stream_loop M names info1 c1) })"
    by (rule safe_bind) (use Cons in \<open>auto simp: case_prod_beta intro!: safe_if safe_return\<close>)
  then show ?case by simp
qed

lemma safe_Db_GetLastStream:
  assumes "lists_usable_names M" shows "safe (Db_GetLastStream M info)"
  unfolding safe_def
proof (intro allI impI)
  fix c :: "'a MongoDBClient"
  assume ok: "db_ok c"
  obtain res c1 where call: "driver (mg_collection_names M (md_database_name c) [(''nameOnly'', JBool True)]) c = (res, c1)" by fastforce
  then have c1: "db_ok c1" using ok by (rule driver_ok [rotated])
  show "\<exists>x c'. Db_GetLastStream M info c = Some (x, c') \<and> db_ok c'"
  proof (cases "md_connected c")
    case True
    show ?thesis
    proof (cases res)
      case (Inl e)
      then show ?thesis using True call c1 by (simp add: Db_GetLastStream_def)
    next
      case (Inr names)
      have "mg_collection_names M (md_database_name c) [(''nameOnly'', JBool True)] (md_world c) = (Inr names, md_world c1)"
        using call Inr by (auto simp: driver_def Let_def split: prod.splits)
      then have "\<forall>n \<in> set names. MongoCollectionIsDataStream (DecodeName n) \<longrightarrow> name_ok (DecodeName n)"
        using assms unfolding lists_usable_names_def by blast
      then obtain x c2 where "last_stream_loop M names (info\<lparr>si_timestamp_created := 0, si_timestamp_lastentry := 0\<rparr>) c1 = Some (x, c2)" "db_ok c2"
        using safe_last_stream_loop c1 unfolding safe_def by blast
      then show ?thesis using True call Inr by (cases x) (simp add: Db_GetLastStream_def)
    qed
  qed (use ok in \<open>simp add: Db_GetLastStream_def\<close>)
qed

lemma Insert_with_id:
  assumes "db_ok c" and "name_ok col" and "mm_id m \<noteq> 0" and "md_connected c"
  obtains err w where "selected col (c\<lparr>md_collection := Collection (c_str (EncodeColName col)), md_collection_name := col, md_world := w\<rparr>)"
    "Db_Insert M col m ig p c = Some ((err, if err = None then map_option (\<lambda>_. mm_id m) p else p),
       c\<lparr>md_collection := Collection (c_str (EncodeColName col)), md_collection_name := col, md_world := w\<rparr>)"
    "\<And>doc r w'. PrepareBsonDocument M m = Inr doc \<Longrightarrow>
       mg_insert_one M (md_database_name c) (c_str (EncodeColName col)) doc (md_world c) = (r, w') \<Longrightarrow>
       w = w' \<and> err = (case r of None \<Rightarrow> None | Some e \<Rightarrow>
         if me_code e = MONGOC_ERROR_DUPLICATE_KEY then (if ig then None else Some (db_err DB_kDuplicateID []))
         else Some (db_err DB_kInsertError (me_message e)))"
proof -
  obtain c1 where c1: "UpdateCurrentCollectionIfNeeded col c = Some (None, c1)" "selected col c1"
      "c1 = c\<lparr>md_collection := Collection (c_str (EncodeColName col)), md_collection_name := col\<rparr>"
    using update_selects [OF assms(1,2)] by blast
  show ?thesis
  proof (cases "PrepareBsonDocument M m")
    case (Inl e)
    then have "Db_Insert M col m ig p c = Some ((Some e, p), c1)"
      using c1(1) assms by (subst Db_Insert.simps) simp
    then show ?thesis using that [of "md_world c" "Some e"] Inl c1 by simp
  next
    case (Inr doc)
    obtain r w where r: "on_collection (\<lambda>db cl. mg_insert_one M db cl doc) c1 = Some (r, c1\<lparr>md_world := w\<rparr>)"
        "mg_insert_one M (md_database_name c1) (c_str (EncodeColName col)) doc (md_world c1) = (r, w)"
      by (rule on_collection_selected [OF c1(2)])
    let ?err = "case r of None \<Rightarrow> None | Some e \<Rightarrow>
         if me_code e = MONGOC_ERROR_DUPLICATE_KEY then (if ig then None else Some (db_err DB_kDuplicateID []))
         else Some (db_err DB_kInsertError (me_message e))"
    have "selected col (c1\<lparr>md_world := w\<rparr>)" using c1(2) by simp
    moreover have "Db_Insert M col m ig p c = Some ((?err, if ?err = None then map_option (\<lambda>_. mm_id m) p else p), c1\<lparr>md_world := w\<rparr>)"
      using c1(1) Inr r(1) assms by (subst Db_Insert.simps) (simp add: InsertBsonDocument_def)
    ultimately show ?thesis using Inr r(2) c1(3) by (intro that [of w ?err]) auto
  qed
qed

lemma Insert_unfold:
  assumes "db_ok c" and "name_ok col" and "mm_id m = 0" and "md_connected c"
  shows "Db_Insert M col m ig p c =
    InsertWithAutoId M m p (c\<lparr>md_collection := Collection (c_str (EncodeColName col)), md_collection_name := col\<rparr>)"
proof -
  obtain c1 where "UpdateCurrentCollectionIfNeeded col c = Some (None, c1)"
      "c1 = c\<lparr>md_collection := Collection (c_str (EncodeColName col)), md_collection_name := col\<rparr>"
    using update_selects [OF assms(1,2)] by blast
  then show ?thesis using assms by (subst Db_Insert.simps) (simp add: InsertWithAutoId_def)
qed

lemma Db_GetNextId_positive:
  assumes "counts_from_one M" and "Db_GetNextId M str j c = ((None, i), c')"
  shows "i \<noteq> 0"
proof -
  obtain n w where n: "mg_find_and_modify M (md_database_name c) ''auto_id_counters'' [(''_id'', JString (c_str str))]
      [(''$inc'', JObject [(''curIndex'', JInt 1)])] (md_world c) = (Inr (Some n), w)" "i = of_int n"
    using assms(2) by (auto simp: Db_GetNextId_def driver_def Let_def split: prod.splits sum.splits option.splits)
  then have "0 < n" "n < 2 ^ 63" using assms(1) unfolding counts_from_one_def by blast+
  then have "uint (of_int n :: u64) = n" by (simp add: uint_word_of_int)
  then show ?thesis using \<open>0 < n\<close> n(2) by (metis less_irrefl uint_0_eq)
qed

lemma safe_Db_Insert:
  assumes "name_ok col" and "counts_from_one M" shows "safe (Db_Insert M col m ig p)"
proof (rule safe_connected)
  fix c :: "'a MongoDBClient"
  assume c: "md_connected c" "db_ok c"
  have with_id: "\<exists>x c'. Db_Insert M col k g p d = Some (x, c') \<and> db_ok c'"
    if "mm_id k \<noteq> 0" "md_connected d" "db_ok d" for k g d
    by (rule Insert_with_id [OF that(3) assms(1) that(1,2), of M g p]) (auto simp: selected_def)
  show "\<exists>x c'. Db_Insert M col m ig p c = Some (x, c') \<and> db_ok c'"
  proof (cases "mm_id m = 0")
    case True
    let ?c = "c\<lparr>md_collection := Collection (c_str (EncodeColName col)), md_collection_name := col\<rparr>"
    have ok: "db_ok ?c" using c(2) by (simp add: db_ok_def)
    obtain err i c2 where next_id: "Db_GetNextId M col 0 ?c = ((err, i), c2)" by (metis prod.collapse)
    then obtain w2 where "c2 = ?c\<lparr>md_world := w2\<rparr>"
      by (auto simp: Db_GetNextId_def driver_def Let_def split: prod.splits)
    then have c2: "db_ok c2" "md_connected c2" "md_collection_name c2 = col"
      using ok c(1) by simp_all
    have eq: "Db_Insert M col m ig p c = InsertWithAutoId M m p ?c" by (rule Insert_unfold [OF c(2) assms(1) True c(1)])
    show ?thesis
    proof (cases err)
      case None
      then have "i \<noteq> 0" using Db_GetNextId_positive [OF assms(2)] next_id by blast
      then show ?thesis
        using with_id [of "m\<lparr>mm_id := i\<rparr>" c2 False] c2 next_id None unfolding eq by (simp add: InsertWithAutoId_def)
    next
      case (Some e)
      then show ?thesis using c2(1) next_id unfolding eq by (simp add: InsertWithAutoId_def)
    qed
  qed (use with_id c in blast)
qed (subst Db_Insert.simps, simp)

section \<open>Sequences of calls\<close>

datatype db_call =
    Call_Insert string MessageMeta bool "u64 option"
  | Call_Dataset string MessageMeta u64 bool
  | Call_Meta string string "string option" MetaIngestMode
  | Call_GetById string u64
  | Call_GetDataSet string u64 u64
  | Call_StreamInfo string
  | Call_LastStream
  | Call_GetMeta string string
  | Call_DeleteStream string

fun run_db_call :: "'w mongoc \<Rightarrow> db_call \<Rightarrow> 'w MongoDBClient \<Rightarrow> 'w MongoDBClient option" where
  "run_db_call M (Call_Insert col m ig p) c = map_option snd (Db_Insert M col m ig p c)"
| "run_db_call M (Call_Dataset col m n ig) c = map_option snd (InsertAsDatasetMessage M col m n ig c)"
| "run_db_call M (Call_Meta col i data mode) c = map_option snd (InsertMeta M col i data mode c)"
| "run_db_call M (Call_GetById col i) c = map_option snd (Db_GetById M col i MessageMeta_new c)"
| "run_db_call M (Call_GetDataSet col j i) c = map_option snd (GetDataSetById M col j i MessageMeta_new c)"
| "run_db_call M (Call_StreamInfo col) c = map_option snd (Db_GetStreamInfo M col StreamInfo_new c)"
| "run_db_call M Call_LastStream c = map_option snd (Db_GetLastStream M StreamInfo_new c)"
| "run_db_call M (Call_GetMeta col i) c = map_option snd (Db_GetMetaFromDb M col i [] c)"
| "run_db_call M (Call_DeleteStream str) c = map_option snd (Db_DeleteStream M str c)"

fun run_db_calls :: "'w mongoc \<Rightarrow> db_call list \<Rightarrow> 'w MongoDBClient \<Rightarrow> 'w MongoDBClient option" where
  "run_db_calls M [] c = Some c"
| "run_db_calls M (k # ks) c = do { c1 \<leftarrow> run_db_call M k c; run_db_calls M ks c1 }"

fun call_ok :: "db_call \<Rightarrow> bool" where
  "call_ok (Call_Insert col m ig p) = name_ok col"
| "call_ok (Call_Dataset col m n ig) = name_ok col"
| "call_ok (Call_Meta col i data mode) = (name_ok col \<and> (mi_op mode \<noteq> MI_kUpdate \<or> data \<noteq> None))"
| "call_ok (Call_GetById col i) = name_ok col"
| "call_ok (Call_GetDataSet col j i) = name_ok col"
| "call_ok (Call_StreamInfo col) = name_ok col"
| "call_ok Call_LastStream = True"
| "call_ok (Call_GetMeta col i) = name_ok col"
| "call_ok (Call_DeleteStream str) = True"

lemma DeleteCollection_ok: "db_ok c \<Longrightarrow> db_ok (snd (DeleteCollection M n c))"
  unfolding DeleteCollection_def by (auto simp: Let_def split: prod.splits dest: driver_ok)

lemma delete_each_ok: "db_ok c \<Longrightarrow> db_ok (delete_each M ns c)"
  by (induction ns arbitrary: c) (simp_all add: DeleteCollection_ok)

lemma DeleteCollections_ok: "db_ok c \<Longrightarrow> db_ok (snd (DeleteCollections M p c))"
  unfolding DeleteCollections_def by (auto simp: Let_def delete_each_ok split: prod.splits sum.splits dest: driver_ok)

lemma DeleteDocuments_ok: "db_ok c \<Longrightarrow> db_ok (snd (DeleteDocumentsInCollection M n q c))"
  unfolding DeleteDocumentsInCollection_def by (auto simp: Let_def split: prod.splits dest: driver_ok)

lemma safe_Db_DeleteStream: "safe (Db_DeleteStream M str)"
  unfolding safe_def
proof (intro allI impI)
  fix c :: "'a MongoDBClient"
  assume ok: "db_ok c"
  then have "db_ok (c\<lparr>md_collection_name := []\<rparr>)" by (auto simp: db_ok_def)
  then have "db_ok (snd (DeleteCollection M (data_prefix @ EncodeColName str) (c\<lparr>md_collection_name := []\<rparr>)))"
    by (rule DeleteCollection_ok)
  then show "\<exists>x c'. Db_DeleteStream M str c = Some (x, c') \<and> db_ok c'"
    using ok by (auto simp: Db_DeleteStream_def Let_def case_prod_beta DeleteCollections_ok DeleteDocuments_ok db_ok_def [of c])
qed

lemma safe_result: "safe op \<Longrightarrow> db_ok c \<Longrightarrow> \<exists>c'. map_option snd (op c) = Some c' \<and> db_ok c'"
  unfolding safe_def by fastforce

lemma safe_call:
  assumes "call_ok k" and "lists_usable_names M" and "counts_from_one M" and "db_ok c"
  shows "\<exists>c'. run_db_call M k c = Some c' \<and> db_ok c'"
proof -
  note ops = safe_Db_Insert [OF _ assms(3)] safe_InsertAsDatasetMessage safe_InsertMeta safe_reads
    safe_Db_GetLastStream [OF assms(2)] safe_Db_DeleteStream
  show ?thesis
    using assms(1) by (cases k) (auto simp only: run_db_call.simps call_ok.simps intro!: safe_result assms(4) ops)
qed

lemma Connect_ok:
  assumes "Connect M address db (MongoDBClient_new w) = Some (None, c)"
  shows "db_ok c \<and> md_connected c"
  using assms
  by (auto simp: Connect_def InitializeClient_def TryConnectDatabase_def Ping_def driver_def MongoDBClient_new_def CleanUp_def
      db_ok_def Let_def split: prod.splits if_splits)

section \<open>What is stored\<close>

text \<open>
  The documented behaviour of the server: \<open>st w db col i\<close> is the document with the number \<open>i\<close>.  Inserting
  a document with a new number stores it or fails without a change, with a number that exists it
  fails, only then is the error that of a duplicate, and a search by number gives the text of the
  document.
\<close>

definition serves ::
    "'w mongoc \<Rightarrow> ('w \<Rightarrow> string \<Rightarrow> string \<Rightarrow> int \<Rightarrow> bson option) \<Rightarrow> bool" where
  "serves M st \<longleftrightarrow>
     (\<forall>db col doc i w r w'. mg_insert_one M db col doc w = (r, w') \<and> map_of doc ''_id'' = Some (JInt i) \<longrightarrow>
        (case r of
           None \<Rightarrow> st w db col i = None \<and> st w' db col i = Some doc
         | Some e \<Rightarrow> st w' = st w \<and> (me_code e = MONGOC_ERROR_DUPLICATE_KEY \<longrightarrow> st w db col i \<noteq> None)))
     \<and> (\<forall>db col i w docs e w'. mg_find M db col [(''_id'', JInt i)] [(''limit'', JInt 1)] w = ((docs, e), w') \<longrightarrow>
        st w' = st w \<and> (e = None \<longrightarrow> docs = (case st w db col i of None \<Rightarrow> [] | Some d \<Rightarrow> [print_json (JObject d)])))"

text \<open>A message that the driver and the JSON parser read back from its own text.\<close>

definition readable :: "'w mongoc \<Rightarrow> MessageMeta \<Rightarrow> (string \<times> json) list \<Rightarrow> bool" where
  "readable M m sub \<longleftrightarrow> plain (mm_name m) \<and> plain (mm_source m)
     \<and> (if mm_metadata m = [] then ''{}'' else mm_metadata m) = print_json (JObject sub)
     \<and> rj_reads (mg_json M) (JObject (message_doc m sub)) \<and> rj_writes (mg_json M) (JObject sub)
     \<and> mg_bson_new_from_json M (c_str (print_json (JObject (message_doc m sub)))) = Inr (message_doc m sub)"

lemma readable_document:
  assumes "readable M m sub" shows "PrepareBsonDocument M m = Inr (message_doc m sub)"
proof -
  have "print_json (JObject (message_doc m sub)) = MessageMeta_Json m"
    using assms by (intro print_message_doc) (simp_all add: readable_def)
  then show ?thesis using assms by (simp add: PrepareBsonDocument_def readable_def)
qed

lemma message_doc_id: "map_of (message_doc m sub) ''_id'' = Some (JInt (uint (mm_id m)))"
  by (simp add: message_doc_def)

text \<open>What \<open>Insert\<close> does to the stored documents, and what \<open>GetById\<close> finds.\<close>

lemma insert_outcome:
  assumes "db_ok c" and "md_connected c" and "name_ok col" and "serves M st" and "readable M m sub" and "mm_id m \<noteq> 0"
  obtains err w where "Db_Insert M col m ig p c = Some ((err, if err = None then map_option (\<lambda>_. mm_id m) p else p),
       c\<lparr>md_collection := Collection (c_str (EncodeColName col)), md_collection_name := col, md_world := w\<rparr>)"
    "case st (md_world c) (md_database_name c) (c_str (EncodeColName col)) (uint (mm_id m)) of
       None \<Rightarrow> (if err = None
                then st w (md_database_name c) (c_str (EncodeColName col)) (uint (mm_id m)) = Some (message_doc m sub)
                else st w = st (md_world c) \<and> \<not> err_is err (DBErrorTemplates DB_kDuplicateID))
     | Some d \<Rightarrow> st w = st (md_world c) \<and> (err = None \<longrightarrow> ig)"
    "err = None \<or> err_is err (DBErrorTemplates DB_kDuplicateID) \<or> err_is err (DBErrorTemplates DB_kInsertError)"
proof -
  let ?col = "c_str (EncodeColName col)" and ?doc = "message_doc m sub"
  obtain r w' where call: "mg_insert_one M (md_database_name c) ?col ?doc (md_world c) = (r, w')" by fastforce
  note law = assms(4) [unfolded serves_def, THEN conjunct1, rule_format, OF conjI [OF call message_doc_id]]
  show ?thesis
  proof (rule Insert_with_id [OF assms(1,3,6,2), of M ig p])
    fix err w
    assume ins: "Db_Insert M col m ig p c = Some ((err, if err = None then map_option (\<lambda>_. mm_id m) p else p),
       c\<lparr>md_collection := Collection ?col, md_collection_name := col, md_world := w\<rparr>)"
      and "\<And>doc r w'. PrepareBsonDocument M m = Inr doc \<Longrightarrow> mg_insert_one M (md_database_name c) ?col doc (md_world c) = (r, w') \<Longrightarrow>
       w = w' \<and> err = (case r of None \<Rightarrow> None | Some e \<Rightarrow>
         if me_code e = MONGOC_ERROR_DUPLICATE_KEY then (if ig then None else Some (db_err DB_kDuplicateID []))
         else Some (db_err DB_kInsertError (me_message e)))"
    then have "w = w'" "err = (case r of None \<Rightarrow> None | Some e \<Rightarrow>
         if me_code e = MONGOC_ERROR_DUPLICATE_KEY then (if ig then None else Some (db_err DB_kDuplicateID []))
         else Some (db_err DB_kInsertError (me_message e)))"
      using readable_document [OF assms(5)] call by blast+
    then show thesis
      using law by (intro that [OF ins]) (auto simp: err_is_def split: option.splits if_splits)
  qed
qed

lemma found_by_id:
  assumes "db_ok c" and "md_connected c" and "name_ok col" and "serves M st" and "readable M m sub" and "uint (mm_id m) < 2 ^ 63"
    and stored: "st (md_world c) (md_database_name c) (c_str (EncodeColName col)) (uint (mm_id m)) = Some (message_doc m sub)"
  obtains err m' w where "Db_GetById M col (mm_id m) old c = Some ((err, m'),
       c\<lparr>md_collection := Collection (c_str (EncodeColName col)), md_collection_name := col, md_world := w\<rparr>)"
    "st w = st (md_world c)" "err = None \<or> err_is err (DBErrorTemplates DB_kUnknownError)"
    "err = None \<Longrightarrow> m' = m\<lparr>mm_metadata := (if mm_metadata m = [] then ''{}'' else mm_metadata m)\<rparr>"
proof (rule Db_GetRecordFromDb_selected [OF assms(1,3,2), of M kById "mm_id m" "[]" "[]"])
  let ?doc = "message_doc m sub" and ?col = "c_str (EncodeColName col)" and ?i = "uint (mm_id m)"
  have "- (2 ^ 63) \<le> ?i" by (rule order_trans [OF _ uint_ge_0]) simp
  then have ids: "sint (mm_id m) = ?i" using signed_take_bit_int_eq_self [OF _ assms(6)] by (simp add: sint_uint)
  fix docs e w
  assume f: "mg_find M (md_database_name c) ?col (record_filter kById (mm_id m) []) (record_opts kById) (md_world c) = ((docs, e), w)"
    and g: "Db_GetRecordFromDb M col (mm_id m) [] kById [] c =
      Some ((case e of Some mongo_err \<Rightarrow> Some (db_err DB_kUnknownError (me_message mongo_err))
             | None \<Rightarrow> (if docs = [] then Some (db_err DB_kNoRecord []) else None), if docs = [] then [] else last docs),
        c\<lparr>md_collection := Collection ?col, md_collection_name := col, md_world := w\<rparr>)"
  have printed: "print_json (JObject ?doc) = MessageMeta_Json m"
    using assms(5) by (intro print_message_doc) (simp_all add: readable_def)
  have f': "mg_find M (md_database_name c) ?col [(''_id'', JInt ?i)] [(''limit'', JInt 1)] (md_world c) = ((docs, e), w)"
    using f ids by simp
  note law = assms(4) [unfolded serves_def, THEN conjunct2, rule_format, OF f']
  then have docs: "e = None \<Longrightarrow> docs = [MessageMeta_Json m]"
    using stored printed by (simp del: print_json.simps)
  have read: "MessageMeta_SetFromJson (mg_json M) (MessageMeta_Json m) old =
      (True, m\<lparr>mm_metadata := (if mm_metadata m = [] then ''{}'' else mm_metadata m)\<rparr>)"
    using assms(5) unfolding readable_def by (intro message_json_reads) blast+
  show thesis
  proof (cases e)
    case None
    then show thesis using that [of None] g docs read law by (simp add: Db_GetById_def err_is_def)
  next
    case (Some x)
    then show thesis
      using that [of "Some (db_err DB_kUnknownError (me_message x))" old w] g law by (simp add: Db_GetById_def err_is_def)
  qed
qed

text \<open>
  The documented behaviour of the deletions, for \<open>metas w db\<close>, the keys in the collection \<open>meta\<close>: only
  operations on \<open>meta\<close> change it; a name that is listed for a pattern that begins with a letter
  does not begin with another one; and a key that is deleted by \<open>^s$\<close> has as many characters as \<open>s\<close> (matching
  without regard to case changes letters, not their number) or one more, a line feed at the end.
\<close>

definition utf8_length :: "string \<Rightarrow> nat" where
  "utf8_length s = length (filter (\<lambda>c. (of_char c :: nat) div 64 \<noteq> 2) s)"

definition lowercase :: "char \<Rightarrow> bool" where
  "lowercase c \<longleftrightarrow> (let n = (of_char c :: nat) in 97 \<le> n \<and> n \<le> 122)"

definition deletes_matching :: "'w mongoc \<Rightarrow> ('w \<Rightarrow> string \<Rightarrow> string set) \<Rightarrow> bool" where
  "deletes_matching M metas \<longleftrightarrow>
     (\<forall>db col w r w'. mg_drop M db col w = (r, w') \<and> col \<noteq> ''meta'' \<longrightarrow> metas w' = metas w)
     \<and> (\<forall>db opts w r w'. mg_collection_names M db opts w = (r, w') \<longrightarrow> metas w' = metas w)
     \<and> (\<forall>db p w ns w'. mg_collection_names M db (names_matching (''^'' @ EscapeQuery p)) w = (Inr ns, w') \<longrightarrow>
          (\<forall>n \<in> set ns. p \<noteq> [] \<and> n \<noteq> [] \<and> lowercase (hd p) \<and> lowercase (hd n) \<longrightarrow> hd n = hd p))
     \<and> (\<forall>db col q w r w'. mg_delete_many M db col q w = (r, w') \<and> col \<noteq> ''meta'' \<longrightarrow> metas w' = metas w)
     \<and> (\<forall>db s w r w'. mg_delete_many M db ''meta'' (''^'' @ EscapeQuery s @ ''$'') w = (r, w') \<longrightarrow>
          (\<forall>i \<in> metas w db. utf8_length s + 1 < utf8_length i \<longrightarrow> i \<in> metas w' db))"

lemma deletes_matchingD:
  assumes "deletes_matching M metas"
  shows "mg_drop M db col w = (r, w') \<Longrightarrow> col \<noteq> ''meta'' \<Longrightarrow> metas w' = metas w"
    and "mg_collection_names M db opts w = (x, w') \<Longrightarrow> metas w' = metas w"
    and "mg_collection_names M db (names_matching (''^'' @ EscapeQuery (a # p))) w = (Inr ns, w') \<Longrightarrow> b # n \<in> set ns \<Longrightarrow>
      lowercase a \<Longrightarrow> lowercase b \<Longrightarrow> b = a"
    and "mg_delete_many M db col q w = (r, w') \<Longrightarrow> col \<noteq> ''meta'' \<Longrightarrow> metas w' = metas w"
    and "mg_delete_many M db ''meta'' (''^'' @ EscapeQuery s @ ''$'') w = (r, w') \<Longrightarrow> i \<in> metas w db \<Longrightarrow>
      utf8_length s + 1 < utf8_length i \<Longrightarrow> i \<in> metas w' db"
proof -
  note l = assms [unfolded deletes_matching_def]
  note l2 = l [THEN conjunct2] and l3 = l [THEN conjunct2, THEN conjunct2] and l4 = l [THEN conjunct2, THEN conjunct2, THEN conjunct2]
  show "mg_drop M db col w = (r, w') \<Longrightarrow> col \<noteq> ''meta'' \<Longrightarrow> metas w' = metas w" using l [THEN conjunct1] by blast
  show "mg_collection_names M db opts w = (x, w') \<Longrightarrow> metas w' = metas w" using l2 [THEN conjunct1] by blast
  show "mg_collection_names M db (names_matching (''^'' @ EscapeQuery (a # p))) w = (Inr ns, w') \<Longrightarrow> b # n \<in> set ns \<Longrightarrow>
      lowercase a \<Longrightarrow> lowercase b \<Longrightarrow> b = a"
    using l3 [THEN conjunct1, THEN spec [of _ db], THEN spec [of _ "a # p"], THEN spec [of _ w], THEN spec [of _ ns], THEN spec [of _ w']] by fastforce
  show "mg_delete_many M db col q w = (r, w') \<Longrightarrow> col \<noteq> ''meta'' \<Longrightarrow> metas w' = metas w" using l4 [THEN conjunct1] by blast
  show "mg_delete_many M db ''meta'' (''^'' @ EscapeQuery s @ ''$'') w = (r, w') \<Longrightarrow> i \<in> metas w db \<Longrightarrow>
      utf8_length s + 1 < utf8_length i \<Longrightarrow> i \<in> metas w' db"
    using l4 [THEN conjunct2] by blast
qed

lemma EscapeQuery_concat: "EscapeQuery s = concat (map (\<lambda>c. if ShouldEscapeQuery c then [BACKSLASH, c] else [c]) s)"
proof -
  have "concat (map (\<lambda>c. if ShouldEscapeQuery c then [BACKSLASH, c] else [c]) s) = s" if "filter ShouldEscapeQuery s = []"
    using that by (induction s) (auto split: if_splits)
  then show ?thesis by (simp add: EscapeQuery_def Let_def)
qed

lemma NUL_notin_EscapeQuery: "NUL \<notin> set s \<Longrightarrow> NUL \<notin> set (EscapeQuery s)"
  unfolding EscapeQuery_concat by (induction s) (simp_all add: BACKSLASH_def)

lemma NUL_notin_EncodeColName: "NUL \<notin> set s \<Longrightarrow> NUL \<notin> set (EncodeColName s)"
  unfolding EncodeColName_def Escape_concat by (induction s) (auto dest: NUL_notin_escape_char [OF not_sym])

lemma stream_meta_length: "utf8_length (EncodeColName (''st_'' @ str)) = 3 + utf8_length (EncodeColName str)"
proof -
  have "EncodeColName ''st_'' = ''st_''" "utf8_length ''st_'' = 3" by code_simp+
  moreover have "EncodeColName (s @ t) = EncodeColName s @ EncodeColName t" "utf8_length (s @ t) = utf8_length s + utf8_length t" for s t
    unfolding EncodeColName_def Escape_concat utf8_length_def by simp_all
  ultimately show ?thesis by (simp only:)
qed

lemma DeleteCollection_keeps:
  assumes "deletes_matching M metas" and "c_str name \<noteq> ''meta''"
  shows "metas (md_world (snd (DeleteCollection M name c))) = metas (md_world c)
    \<and> md_database_name (snd (DeleteCollection M name c)) = md_database_name c"
  using deletes_matchingD(1) [OF assms(1) _ assms(2)]
  by (auto simp: DeleteCollection_def driver_def Let_def split: prod.splits)

lemma delete_each_keeps:
  assumes "deletes_matching M metas" and "\<forall>n \<in> set names. c_str n \<noteq> ''meta''"
  shows "metas (md_world (delete_each M names c)) = metas (md_world c) \<and> md_database_name (delete_each M names c) = md_database_name c"
  using assms(2) by (induction names arbitrary: c) (simp_all add: DeleteCollection_keeps [OF assms(1)])

lemma DeleteCollections_keeps:
  assumes "deletes_matching M metas" and "NUL \<notin> set (a # p)" and "lowercase a" and "a \<noteq> CHR ''m''"
  shows "metas (md_world (snd (DeleteCollections M (a # p) c))) = metas (md_world c)
    \<and> md_database_name (snd (DeleteCollections M (a # p) c)) = md_database_name c"
proof -
  have pat: "c_str (''^'' @ EscapeQuery (a # p)) = ''^'' @ EscapeQuery (a # p)"
    using NUL_notin_EscapeQuery [OF assms(2)] by (intro c_str_id) simp
  obtain res w where call: "mg_collection_names M (md_database_name c) (names_matching (''^'' @ EscapeQuery (a # p))) (md_world c) = (res, w)"
    by fastforce
  then have w: "metas w = metas (md_world c)" by (rule deletes_matchingD(2) [OF assms(1)])
  show ?thesis
  proof (cases res)
    case (Inl e)
    then show ?thesis using call w by (simp add: DeleteCollections_def driver_def pat [simplified])
  next
    case (Inr ns)
    have "c_str n \<noteq> ''meta''" if "n \<in> set ns" for n
    proof
      assume "c_str n = ''meta''"
      then obtain t where "n = CHR ''m'' # t" by (cases n) (auto simp: c_str_def split: if_splits)
      moreover have "lowercase (CHR ''m'')" by (simp add: lowercase_def)
      ultimately show False
        using deletes_matchingD(3) [OF assms(1) call [unfolded Inr] _ assms(3)] that assms(4) by blast
    qed
    then show ?thesis
      using delete_each_keeps [OF assms(1), of ns "c\<lparr>md_world := w\<rparr>"] call w Inr
      by (simp add: DeleteCollections_def driver_def pat [simplified])
  qed
qed

section \<open>Properties\<close>


text \<open>
  C13. A client whose connection was made by \<open>Connect\<close> works on: whatever operations are called, in any
  order, on collections with usable names and with metadata for updates, with whatever results, every one of them returns, and the
  pointer to the current collection belongs to the remembered name and never dangles.
\<close>
theorem database_client_stays_usable:
  assumes "Connect M address db (MongoDBClient_new w) = Some (None, c)"
    and "lists_usable_names M" and "counts_from_one M" and "\<forall>k \<in> set calls. call_ok k"
  shows "\<exists>c'. run_db_calls M calls c = Some c' \<and> db_ok c'"
proof -
  have "db_ok c" using Connect_ok [OF assms(1)] by blast
  then show ?thesis
    using assms(4)
  proof (induction calls arbitrary: c)
    case (Cons k calls)
    then obtain c1 where "run_db_call M k c = Some c1" "db_ok c1" using safe_call [OF _ assms(2,3)] by fastforce
    then show ?case using Cons by simp
  qed simp
qed

text \<open>
  C29. A collection name that is too long is refused, but the refusal breaks the client: the old
  collection is destroyed and still pointed to.  Every later read, whatever the collection, uses or
  destroys it once more, and so does the destructor.
\<close>
theorem overlong_name_breaks_client:
  assumes "md_connected c" and "md_collection c = Collection old"
    and "name \<noteq> md_collection_name c" and "length (EncodeColName name) > maxCollectionNameLength"
  shows "\<exists>c'. Db_Insert M name m ig p c = Some ((Some (db_err DB_kWrongInput ''collection name too long''), p), c')
     \<and> Db_GetRecordFromDb M col i string_id mode res c' = None \<and> CleanUp c' = None"
proof -
  let ?c = "c\<lparr>md_collection := DestroyedCollection\<rparr>"
  have "UpdateCurrentCollectionIfNeeded name c = Some (Some (db_err DB_kWrongInput ''collection name too long''), ?c)"
    using assms(2-4) by (simp add: UpdateCurrentCollectionIfNeeded_def Let_def)
  then have "Db_Insert M name m ig p c = Some ((Some (db_err DB_kWrongInput ''collection name too long''), p), ?c)"
    using assms(1) by (subst Db_Insert.simps) simp
  moreover have "Db_GetRecordFromDb M col i string_id mode res ?c = None"
    using assms(1) by (simp add: Db_GetRecordFromDb_def UpdateCurrentCollectionIfNeeded_def on_collection_def)
  ultimately show ?thesis by (auto simp: CleanUp_def)
qed

text \<open>
  C34. Deleting a stream does not delete its metadata: the metadata is stored with the key \<open>st_\<close> and the
  name of the stream, while \<open>DeleteStream\<close> deletes the key that is the bare name.
\<close>
theorem deleted_stream_keeps_metadata:
  assumes law: "deletes_matching M metas" and c: "md_client c" "NUL \<notin> set str"
    and stored: "EncodeColName (''st_'' @ str) \<in> metas (md_world c) (md_database_name c)"
  shows "\<exists>err c'. Db_DeleteStream M str c = Some (err, c')
     \<and> EncodeColName (''st_'' @ str) \<in> metas (md_world c') (md_database_name c')"
proof -
  let ?s = "EncodeColName str" and ?key = "EncodeColName (''st_'' @ str)"
  let ?same = "\<lambda>c'. metas (md_world c') = metas (md_world c) \<and> md_database_name c' = md_database_name c"
  note nul = NUL_notin_EncodeColName [OF c(2)]
  obtain err c1 where c1: "DeleteCollection M (data_prefix @ ?s) (c\<lparr>md_collection_name := []\<rparr>) = (err, c1)" by fastforce
  have "c_str (data_prefix @ ?s) \<noteq> ''meta''" by (simp add: data_prefix_def c_str_def)
  from DeleteCollection_keeps [OF law this, of "c\<lparr>md_collection_name := []\<rparr>"] have same1: "?same c1" using c1 by simp
  let ?ca = "snd (DeleteCollections M (''inprocess_'' @ ?s) c1)"
  let ?cb = "snd (DeleteCollections M (''acks_'' @ ?s) ?ca)"
  let ?cc = "snd (DeleteDocumentsInCollection M ''current_location'' (''.*_'' @ EscapeQuery ?s @ ''$'') ?cb)"
  have "?same ?ca" using DeleteCollections_keeps [OF law, of "CHR ''i''" "''nprocess_'' @ ?s" c1] same1 nul by (simp add: lowercase_def)
  then have "?same ?cb" using DeleteCollections_keeps [OF law, of "CHR ''a''" "''cks_'' @ ?s" ?ca] nul by (simp add: lowercase_def)
  then have same2: "?same ?cc"
    using deletes_matchingD(4) [OF law] by (auto simp: DeleteDocumentsInCollection_def driver_def c_str_def Let_def split: prod.splits)
  define c2 where "c2 = (if err = None then ?cc else c1)"
  have c2: "?same c2" using same1 same2 by (simp add: c2_def)
  have q: "c_str (''^'' @ EscapeQuery ?s @ ''$'') = ''^'' @ EscapeQuery ?s @ ''$''" "c_str ''meta'' = ''meta''"
    using NUL_notin_EscapeQuery [OF nul] by (simp_all add: c_str_id)
  obtain r w where del: "mg_delete_many M (md_database_name c2) ''meta'' (''^'' @ EscapeQuery ?s @ ''$'') (md_world c2) = (r, w)" by fastforce
  then have kept: "?key \<in> metas w (md_database_name c2)"
    using deletes_matchingD(5) [OF law] stored c2 stream_meta_length [of str] by simp
  have "snd (DeleteDocumentsInCollection M ''meta'' (''^'' @ EscapeQuery ?s @ ''$'') c2) = c2\<lparr>md_world := w\<rparr>"
    using del q by (simp add: DeleteDocumentsInCollection_def driver_def)
  moreover have "Db_DeleteStream M str c = Some (err, snd (DeleteDocumentsInCollection M ''meta'' (''^'' @ EscapeQuery ?s @ ''$'') c2))"
    using c(1) c1 by (simp add: Db_DeleteStream_def Let_def c2_def)
  ultimately show ?thesis using kept by auto
qed

section \<open>Witnesses\<close>

text \<open>A server with documents and keys of metadata; texts other than the demo message are refused.\<close>

type_synonym demo_store = "((string \<times> string \<times> int) \<times> bson) list \<times> (string \<times> string) list"

definition demo_insert :: "string \<Rightarrow> string \<Rightarrow> bson \<Rightarrow> demo_store \<Rightarrow> mongo_error option \<times> demo_store" where
  "demo_insert db col doc w =
     (case map_of doc ''_id'' of
        Some (JInt i) \<Rightarrow>
          (if map_of (fst w) (db, col, i) = None then (None, ((db, col, i), doc) # fst w, snd w)
           else (Some \<lparr>me_code = 11000, me_message = ''duplicate''\<rparr>, w))
      | _ \<Rightarrow> (Some \<lparr>me_code = 2, me_message = ''no number''\<rparr>, w))"

fun demo_find :: "string \<Rightarrow> string \<Rightarrow> bson \<Rightarrow> bson \<Rightarrow> demo_store \<Rightarrow> (string list \<times> mongo_error option) \<times> demo_store" where
  "demo_find db col [(k, JInt i)] opts w =
     ((case map_of (fst w) (db, col, i) of None \<Rightarrow> [] | Some d \<Rightarrow> [print_json (JObject d)], None), w)"
| "demo_find db col query opts w = (([], None), w)"

definition demo_delete :: "string \<Rightarrow> string \<Rightarrow> string \<Rightarrow> demo_store \<Rightarrow> mongo_error option \<times> demo_store" where
  "demo_delete db col q w =
     (None, if col = ''meta'' then (fst w, filter (\<lambda>(d, i). \<not> (d = db \<and> q = ''^'' @ EscapeQuery i @ ''$'')) (snd w)) else w)"

definition demo_mongoc :: "demo_store mongoc" where
  "demo_mongoc = \<lparr>mg_json = demo_lib, mg_schema_version = ''v0.2'', mg_client_new = (\<lambda>a w. (True, w)), mg_ping = (\<lambda>w. (True, w)),
     mg_bson_new_from_json = (\<lambda>t. if t = c_str (print_json (JObject (message_doc demo_message [])))
       then Inr (message_doc demo_message []) else Inl ''not a document''),
     mg_append = (\<lambda>b k v. Some (b @ [(k, v)])), mg_behind = (\<lambda>w. []), mg_insert_one = demo_insert,
     mg_replace_one = (\<lambda>db col q d opts w. (Inr \<lparr>upsertedCount = 0, modifiedCount = 0, matchedCount = 0\<rparr>, w)),
     mg_update_one = (\<lambda>db col q d opts w. (Inr \<lparr>upsertedCount = 0, modifiedCount = 0, matchedCount = 0\<rparr>, w)),
     mg_upsert = (\<lambda>db col q d w. (None, w)), mg_find_and_modify = (\<lambda>db col q d w. (Inr (Some 1), w)),
     mg_find = demo_find, mg_collection_names = (\<lambda>db opts w. (Inr [], w)), mg_drop = (\<lambda>db col w. (None, w)),
     mg_delete_many = demo_delete\<rparr>"

definition demo_db_client :: "demo_store \<Rightarrow> demo_store MongoDBClient" where
  "demo_db_client w = \<lparr>md_client = True, md_collection = NullCollection, md_collection_name = [], md_database_name = ''bt'',
     md_write_concern = True, md_connected = True, md_world = w\<rparr>"

lemma demo_serves: "serves demo_mongoc (\<lambda>w db col i. map_of (fst w) (db, col, i))"
  unfolding serves_def by (auto simp: demo_mongoc_def demo_insert_def fun_eq_iff split: if_splits option.splits)

lemma demo_readable: "readable demo_mongoc demo_message []"
  unfolding readable_def
proof (intro conjI)
  show "plain (mm_name demo_message)" "plain (mm_source demo_message)"
    by (simp_all add: demo_message_def plain_def escape_json_char_def QUOTE_def BACKSLASH_def)
  show "(if mm_metadata demo_message = [] then ''{}'' else mm_metadata demo_message) = print_json (JObject [])"
    by (simp add: demo_message_def)
  show "rj_reads (mg_json demo_mongoc) (JObject (message_doc demo_message []))"
    by (simp add: demo_mongoc_def rj_reads_def demo_lib_def)
  show "rj_writes (mg_json demo_mongoc) (JObject [])"
    by (simp add: demo_mongoc_def rj_writes_def demo_lib_def c_str_def)
  show "mg_bson_new_from_json demo_mongoc (c_str (print_json (JObject (message_doc demo_message [])))) = Inr (message_doc demo_message [])"
    by (simp add: demo_mongoc_def)
qed

lemma EscapeQuery_inj: "EscapeQuery s = EscapeQuery t \<Longrightarrow> s = t"
  unfolding EscapeQuery_concat
proof (induction s arbitrary: t)
  case Nil
  then show ?case by (cases t) (simp_all split: if_splits)
next
  case (Cons a s)
  have "ShouldEscapeQuery BACKSLASH" by (simp add: ShouldEscapeQuery_def)
  then show ?case using Cons by (cases t) (auto split: if_splits)
qed

lemma demo_deletes: "deletes_matching demo_mongoc (\<lambda>w db. {i. (db, i) \<in> set (snd w)})"
  unfolding deletes_matching_def by (auto simp: demo_mongoc_def demo_delete_def dest!: EscapeQuery_inj)

lemma demo_connects: "Connect demo_mongoc ''h'' ''bt'' (MongoDBClient_new w) = Some (None, demo_db_client w)"
proof -
  have "EncodeDbName ''bt'' = ''bt''" by code_simp
  then show ?thesis
    by (simp add: Connect_def MongoDBClient_new_def InitializeClient_def TryConnectDatabase_def Ping_def driver_def
        demo_mongoc_def demo_db_client_def)
qed

lemma demo_client_ok: "db_ok (demo_db_client w)" "md_connected (demo_db_client w)" "md_client (demo_db_client w)"
  "md_world (demo_db_client w) = w" "md_database_name (demo_db_client w) = ''bt''"
  by (simp_all add: demo_db_client_def db_ok_def)

lemma demo_name: "name_ok ''data_s''"
proof -
  have "length (EncodeColName ''data_s'') \<le> 100" by code_simp
  then show ?thesis by (simp add: name_ok_def)
qed

lemma demo_inserted:
  obtains c' where "Db_Insert demo_mongoc ''data_s'' demo_message False (Some 0) (demo_db_client ([], [])) = Some ((None, Some 3), c')"
proof (rule Insert_with_id [where c = "demo_db_client ([], [])" and M = demo_mongoc and m = demo_message and ig = False and p = "Some 0",
      OF demo_client_ok(1) demo_name _ demo_client_ok(2)])
  show "mm_id demo_message \<noteq> 0" by (simp add: demo_message_def)
next
  fix err w
  let ?c = "demo_db_client ([], [])"
  assume "Db_Insert demo_mongoc ''data_s'' demo_message False (Some 0) ?c = Some ((err, if err = None
      then map_option (\<lambda>_. mm_id demo_message) (Some 0) else Some 0),
      ?c\<lparr>md_collection := Collection (c_str (EncodeColName ''data_s'')), md_collection_name := ''data_s'', md_world := w\<rparr>)"
    and r: "\<And>doc r w'. PrepareBsonDocument demo_mongoc demo_message = Inr doc \<Longrightarrow>
       mg_insert_one demo_mongoc (md_database_name ?c) (c_str (EncodeColName ''data_s'')) doc (md_world ?c) = (r, w') \<Longrightarrow>
       w = w' \<and> err = (case r of None \<Rightarrow> None | Some e \<Rightarrow>
         if me_code e = MONGOC_ERROR_DUPLICATE_KEY then (if False then None else Some (db_err DB_kDuplicateID []))
         else Some (db_err DB_kInsertError (me_message e)))"
  moreover have "\<exists>w'. mg_insert_one demo_mongoc ''bt'' (c_str (EncodeColName ''data_s'')) (message_doc demo_message []) ([], []) = (None, w')"
    by (simp add: demo_mongoc_def demo_insert_def message_doc_id)
  then have "err = None" using r readable_document [OF demo_readable] by (auto simp: demo_client_ok)
  ultimately show thesis using that by (simp add: demo_message_def)
qed


theorem database_client_stays_usable_witness:
  "\<exists>c'. run_db_calls demo_mongoc [Call_Insert ''data_s'' demo_message False None, Call_LastStream, Call_DeleteStream ''s'',
      Call_GetById ''data_s'' 3] (demo_db_client ([], [])) = Some c' \<and> db_ok c'"
proof -
  have "lists_usable_names demo_mongoc" "counts_from_one demo_mongoc"
    by (simp_all add: lists_usable_names_def counts_from_one_def demo_mongoc_def)
  then show ?thesis
    by (rule database_client_stays_usable [OF demo_connects]) (simp add: demo_name)
qed

theorem overlong_name_breaks_client_witness:
  "\<exists>c'. Db_Insert demo_mongoc (replicate 101 CHR ''x'') demo_message False None
       ((demo_db_client ([], []))\<lparr>md_collection := Collection ''data_s'', md_collection_name := ''data_s''\<rparr>)
       = Some ((Some (db_err DB_kWrongInput ''collection name too long''), None), c')
     \<and> Db_GetRecordFromDb demo_mongoc ''data_s'' 1 [] kById [] c' = None \<and> CleanUp c' = None"
proof (rule overlong_name_breaks_client [where old = "''data_s''"])
  show "replicate 101 CHR ''x'' \<noteq> md_collection_name ((demo_db_client ([], []))\<lparr>md_collection := Collection ''data_s'', md_collection_name := ''data_s''\<rparr>)"
    by (simp add: eval_nat_numeral)
  show "maxCollectionNameLength < length (EncodeColName (replicate 101 CHR ''x''))" by code_simp
qed (simp_all add: demo_client_ok)

theorem deleted_stream_keeps_metadata_witness:
  "\<exists>err c'. Db_DeleteStream demo_mongoc ''s'' (demo_db_client ([], [(''bt'', ''st_s''), (''bt'', ''s'')])) = Some (err, c')
     \<and> (md_database_name c', ''st_s'') \<in> set (snd (md_world c'))"
proof -
  have key: "EncodeColName (''st_'' @ ''s'') = ''st_s''" by code_simp
  show ?thesis
    using deleted_stream_keeps_metadata [OF demo_deletes, of "demo_db_client ([], [(''bt'', ''st_s''), (''bt'', ''s'')])" "''s''"]
    unfolding key by (simp add: demo_client_ok)
qed

end
