(* ===== verification/Spec2Isabelle.thy ===== *)
theory Spec2Isabelle
  imports Message_Transfer Data_Server Db_Encoding Consumer_Client Producer_Protocol System_Net Mongo_Db
begin

text \<open>
  Verification of the producer and the receiver of ASAPO.
\<close>

end
